(* ===== verification/Prelude.thy ===== *)
theory Prelude
  imports "HOL-Library.Word" "HOL-Library.List_Lexorder" "HOL-Library.Char_ord"
    "HOL-Library.Product_Lexorder"
begin

text \<open>
  What every component shares: Go's fixed-width integers, the integer conversions the code
  uses, instants and durations, the row operations that the SQL statements of the
  repository are made of, and the generic lemmas on them. The collections
  \<open>int_simps\<close> (width arithmetic) and \<open>row_simps\<close> (row operations) carry the
  component proofs.
\<close>

named_theorems int_simps
named_theorems row_simps

section \<open>Definitions\<close>

text \<open>
  A Go \<open>int32\<close> or \<open>int64\<close> (and \<open>int\<close>, which is 64 bits wide on the deployed
  platforms) is an \<open>int\<close> in the signed range of its width. Every operation of the source that
  can leave the range is followed by the wrap-around of the width.
\<close>

definition wrap32 :: "int \<Rightarrow> int" where
  "wrap32 x = signed_take_bit 31 x"

definition wrap64 :: "int \<Rightarrow> int" where
  "wrap64 x = signed_take_bit 63 x"

abbreviation min_int32 :: int where "min_int32 \<equiv> - 2147483648"
abbreviation max_int32 :: int where "max_int32 \<equiv> 2147483647"
abbreviation min_int64 :: int where "min_int64 \<equiv> - 9223372036854775808"
abbreviation max_int64 :: int where "max_int64 \<equiv> 9223372036854775807"

definition is_int32 :: "int \<Rightarrow> bool" where
  "is_int32 x \<longleftrightarrow> min_int32 \<le> x \<and> x \<le> max_int32"

definition is_int64 :: "int \<Rightarrow> bool" where
  "is_int64 x \<longleftrightarrow> min_int64 \<le> x \<and> x \<le> max_int64"

text \<open>
  Instants (\<open>time.Time\<close>) and durations (\<open>time.Duration\<close>) in nanoseconds. A duration is
  an \<open>int64\<close>; an instant has a wider range and is only compared and shifted by durations.
\<close>

type_synonym time = int
type_synonym duration = int

abbreviation second :: duration where "second \<equiv> 1000000000"
abbreviation minute :: duration where "minute \<equiv> 60 * second"
abbreviation hour :: duration where "hour \<equiv> 60 * minute"

text \<open>
  Rows of a table, as a list. \<open>update_where\<close> is \<open>UPDATE ... SET f WHERE p\<close>,
  \<open>count_where\<close> the number of rows such a statement touches, \<open>delete_where\<close> is
  \<open>DELETE ... WHERE p\<close>, and \<open>limit_offset\<close> is \<open>LIMIT n OFFSET k\<close> on an ordered
  result.
\<close>

definition update_where :: "('r \<Rightarrow> bool) \<Rightarrow> ('r \<Rightarrow> 'r) \<Rightarrow> 'r list \<Rightarrow> 'r list" where
  "update_where p f rows = map (\<lambda>r. if p r then f r else r) rows"

definition count_where :: "('r \<Rightarrow> bool) \<Rightarrow> 'r list \<Rightarrow> nat" where
  "count_where p rows = length (filter p rows)"

definition delete_where :: "('r \<Rightarrow> bool) \<Rightarrow> 'r list \<Rightarrow> 'r list" where
  "delete_where p rows = filter (\<lambda>r. \<not> p r) rows"

definition limit_offset :: "int \<Rightarrow> int \<Rightarrow> 'r list \<Rightarrow> 'r list" where
  "limit_offset n k rows = take (nat n) (drop (nat k) rows)"

text \<open>The key column of a table determines the row.\<close>

definition unique_by :: "('r \<Rightarrow> 'k) \<Rightarrow> 'r list \<Rightarrow> bool" where
  "unique_by key rows \<longleftrightarrow> distinct (map key rows)"

section \<open>Lemmas\<close>

subsection \<open>Widths\<close>

lemma wrap32_id [int_simps]: "is_int32 x \<Longrightarrow> wrap32 x = x"
  by (simp add: is_int32_def wrap32_def signed_take_bit_int_eq_self)

lemma wrap64_id [int_simps]: "is_int64 x \<Longrightarrow> wrap64 x = x"
  by (simp add: is_int64_def wrap64_def signed_take_bit_int_eq_self)

lemma is_int32_wrap32: "is_int32 (wrap32 x)"
  using signed_take_bit_int_greater_eq_minus_exp [of 31 x] signed_take_bit_int_less_exp [of 31 x]
  by (simp add: is_int32_def wrap32_def)

lemma is_int64_wrap64: "is_int64 (wrap64 x)"
  using signed_take_bit_int_greater_eq_minus_exp [of 63 x] signed_take_bit_int_less_exp [of 63 x]
  by (simp add: is_int64_def wrap64_def)

lemma is_int32_is_int64 [int_simps]: "is_int32 x \<Longrightarrow> is_int64 x"
  by (simp add: is_int32_def is_int64_def)

subsection \<open>Rows\<close>

lemma length_update_where [simp]: "length (update_where p f rows) = length rows"
  by (simp add: update_where_def)

lemma update_where_Nil [simp]: "update_where p f [] = []"
  by (simp add: update_where_def)

lemma update_where_Cons [simp]:
  "update_where p f (r # rows) = (if p r then f r else r) # update_where p f rows"
  by (simp add: update_where_def)

lemma set_update_where [row_simps]:
  "set (update_where p f rows) = f ` {r \<in> set rows. p r} \<union> {r \<in> set rows. \<not> p r}"
  by (auto simp: update_where_def)

lemma update_where_none [row_simps]:
  "(\<And>r. r \<in> set rows \<Longrightarrow> \<not> p r) \<Longrightarrow> update_where p f rows = rows"
  by (induction rows) auto

lemma count_where_eq_0 [row_simps]: "count_where p rows = 0 \<longleftrightarrow> (\<forall>r \<in> set rows. \<not> p r)"
  by (simp add: count_where_def filter_empty_conv)

lemma count_where_delete_where:
  "length (delete_where p rows) + count_where p rows = length rows"
  unfolding delete_where_def count_where_def
  using sum_length_filter_compl [of p rows] by simp

lemma set_delete_where [row_simps]: "set (delete_where p rows) = {r \<in> set rows. \<not> p r}"
  by (auto simp: delete_where_def)

lemma delete_where_none [row_simps]:
  "(\<And>r. r \<in> set rows \<Longrightarrow> \<not> p r) \<Longrightarrow> delete_where p rows = rows"
  by (induction rows) (auto simp: delete_where_def)

lemma length_limit_offset [row_simps]: "0 \<le> n \<Longrightarrow> int (length (limit_offset n k rows)) \<le> n"
  by (simp add: limit_offset_def)

lemma set_limit_offset: "set (limit_offset n k rows) \<subseteq> set rows"
  unfolding limit_offset_def by (meson set_drop_subset set_take_subset subset_trans)

subsection \<open>Keys\<close>

lemma unique_by_Nil [simp]: "unique_by key []"
  by (simp add: unique_by_def)

lemma unique_by_Cons [simp]:
  "unique_by key (r # rows) \<longleftrightarrow> key r \<notin> key ` set rows \<and> unique_by key rows"
  by (simp add: unique_by_def)

lemma unique_by_snoc [row_simps]:
  "unique_by key (rows @ [r]) \<longleftrightarrow> unique_by key rows \<and> key r \<notin> key ` set rows"
  by (auto simp: unique_by_def)

lemma unique_byD:
  "unique_by key rows \<Longrightarrow> r \<in> set rows \<Longrightarrow> r' \<in> set rows \<Longrightarrow> key r = key r' \<Longrightarrow> r = r'"
  by (induction rows) (auto simp: image_iff)

lemma unique_by_update_where [row_simps]:
  "(\<And>r. r \<in> set rows \<Longrightarrow> p r \<Longrightarrow> key (f r) = key r) \<Longrightarrow>
   unique_by key (update_where p f rows) = unique_by key rows"
proof -
  assume "\<And>r. r \<in> set rows \<Longrightarrow> p r \<Longrightarrow> key (f r) = key r"
  then have "map key (update_where p f rows) = map key rows"
    by (auto simp: update_where_def)
  then show ?thesis by (simp add: unique_by_def)
qed

lemma unique_by_filter: "unique_by key rows \<Longrightarrow> unique_by key (filter p rows)"
  by (simp add: unique_by_def distinct_map_filter)

lemma unique_by_delete_where [row_simps]:
  "unique_by key rows \<Longrightarrow> unique_by key (delete_where p rows)"
  by (simp add: delete_where_def unique_by_filter)

lemma unique_by_filter_key:
  "unique_by key rows \<Longrightarrow> r \<in> set rows \<Longrightarrow> filter (\<lambda>x. key x = key r) rows = [r]"
proof (induction rows)
  case Nil
  then show ?case by simp
next
  case (Cons a rows)
  show ?case
  proof (cases "a = r")
    case True
    with Cons.prems have "filter (\<lambda>x. key x = key r) rows = []"
      by (auto simp: filter_empty_conv image_iff)
    with True show ?thesis by simp
  next
    case False
    with Cons show ?thesis by (auto simp: image_iff)
  qed
qed

lemma count_where_key:
  assumes "unique_by key rows" and "r \<in> set rows" and "p r"
    and "\<And>x. p x \<Longrightarrow> key x = key r"
  shows "count_where p rows = 1"
proof -
  have "filter p rows = filter p (filter (\<lambda>x. key x = key r) rows)"
    using assms(4) by (auto intro: filter_cong)
  also have "\<dots> = [r]"
    using assms(1-3) by (simp add: unique_by_filter_key)
  finally show ?thesis by (simp add: count_where_def)
qed

lemma count_where_key_le:
  assumes "unique_by key rows" and "\<And>x. p x \<Longrightarrow> key x = k"
  shows "count_where p rows \<le> 1"
proof (cases "\<exists>r \<in> set rows. p r")
  case True
  then obtain r where r: "r \<in> set rows" "p r" by blast
  with assms have "count_where p rows = 1"
    by (intro count_where_key [of key rows r]) auto
  then show ?thesis by simp
next
  case False
  then show ?thesis by (simp add: count_where_def filter_empty_conv)
qed

end
