(* ===== verification/GoStrings.thy ===== *)
theory GoStrings
  imports Prelude
begin

text \<open>
  The parts of Go's standard library that the service computes with strings: a Go string is a
  byte sequence, so it is a HOL \<open>string\<close> (one \<open>char\<close> per byte). \<open>strings.TrimSpace\<close>
  removes the UTF-8 encodings of Unicode white space, \<open>strings.ToLower\<close> maps ASCII letters
  itself and leaves strings with other bytes to the Unicode case table, which is the argument
  \<open>uni\<close>, and \<open>strings.EqualFold\<close> is given for an ASCII right-hand side, the only way
  the service calls it. \<open>LIKE\<close> is the SQL operator on the same byte strings.
\<close>

section \<open>Definitions\<close>

subsection \<open>White space\<close>

definition space_encodings :: "string list" where
  "space_encodings =
     [[CHR 0x20], [CHR 0x09], [CHR 0x0A], [CHR 0x0B], [CHR 0x0C], [CHR 0x0D],
      [CHR 0xC2, CHR 0x85], [CHR 0xC2, CHR 0xA0], [CHR 0xE1, CHR 0x9A, CHR 0x80],
      [CHR 0xE2, CHR 0x80, CHR 0x80], [CHR 0xE2, CHR 0x80, CHR 0x81],
      [CHR 0xE2, CHR 0x80, CHR 0x82], [CHR 0xE2, CHR 0x80, CHR 0x83],
      [CHR 0xE2, CHR 0x80, CHR 0x84], [CHR 0xE2, CHR 0x80, CHR 0x85],
      [CHR 0xE2, CHR 0x80, CHR 0x86], [CHR 0xE2, CHR 0x80, CHR 0x87],
      [CHR 0xE2, CHR 0x80, CHR 0x88], [CHR 0xE2, CHR 0x80, CHR 0x89],
      [CHR 0xE2, CHR 0x80, CHR 0x8A], [CHR 0xE2, CHR 0x80, CHR 0xA8],
      [CHR 0xE2, CHR 0x80, CHR 0xA9], [CHR 0xE2, CHR 0x80, CHR 0xAF],
      [CHR 0xE2, CHR 0x81, CHR 0x9F], [CHR 0xE3, CHR 0x80, CHR 0x80]]"

text \<open>Removing the first of a list of encodings that the string starts with.\<close>

fun strip_one :: "string list \<Rightarrow> string \<Rightarrow> string option" where
  "strip_one [] s = None"
| "strip_one (e # es) s =
     (if e \<noteq> [] \<and> take (length e) s = e then Some (drop (length e) s) else strip_one es s)"

lemma strip_one_shorter: "strip_one es s = Some r \<Longrightarrow> length r < length s"
proof (induction es)
  case (Cons e es)
  show ?case
  proof (cases "e \<noteq> [] \<and> take (length e) s = e")
    case True
    with Cons.prems have "r = drop (length e) s" and "s \<noteq> []" by auto
    with True show ?thesis by (cases e) auto
  next
    case False
    with Cons show ?thesis by auto
  qed
qed simp

function trim_left :: "string list \<Rightarrow> string \<Rightarrow> string" where
  "trim_left es s = (case strip_one es s of None \<Rightarrow> s | Some r \<Rightarrow> trim_left es r)"
  by pat_completeness auto
termination
  by (relation "measure (\<lambda>(es, s). length s)") (auto dest: strip_one_shorter)

definition trim_right :: "string list \<Rightarrow> string \<Rightarrow> string" where
  "trim_right es s = rev (trim_left (map rev es) (rev s))"

definition TrimSpace :: "string \<Rightarrow> string" where
  "TrimSpace s = trim_right space_encodings (trim_left space_encodings s)"

subsection \<open>Case\<close>

definition is_ascii :: "string \<Rightarrow> bool" where
  "is_ascii s \<longleftrightarrow> list_all (\<lambda>c. of_char c < (128 :: nat)) s"

definition upper_letters :: string where
  "upper_letters = ''ABCDEFGHIJKLMNOPQRSTUVWXYZ''"

definition lower_letters :: string where
  "lower_letters = ''abcdefghijklmnopqrstuvwxyz''"

definition ascii_lower :: "char \<Rightarrow> char" where
  "ascii_lower c =
     (case map_of (zip upper_letters lower_letters) c of None \<Rightarrow> c | Some d \<Rightarrow> d)"

definition ToLower :: "(string \<Rightarrow> string) \<Rightarrow> string \<Rightarrow> string" where
  "ToLower uni s = (if is_ascii s then map ascii_lower s else uni s)"

text \<open>
  The strings that fold to an ASCII byte: the byte and its other case, and for \<open>k\<close> and
  \<open>s\<close> also the Kelvin sign U+212A and the long s U+017F, which Unicode folds onto them.
\<close>

definition fold_encodings :: "char \<Rightarrow> string list" where
  "fold_encodings c =
     (let l = ascii_lower c;
          u = (case map_of (zip lower_letters upper_letters) l of None \<Rightarrow> l | Some d \<Rightarrow> d)
      in [[l], [u]] @ (if l = CHR ''k'' then [[CHR 0xE2, CHR 0x84, CHR 0xAA]] else [])
         @ (if l = CHR ''s'' then [[CHR 0xC5, CHR 0xBF]] else []))"

fun EqualFold :: "string \<Rightarrow> string \<Rightarrow> bool" where
  "EqualFold s [] = (s = [])"
| "EqualFold s (c # cs) =
     (case strip_one (fold_encodings c) s of None \<Rightarrow> False | Some r \<Rightarrow> EqualFold r cs)"

subsection \<open>Searching\<close>

text \<open>
  \<open>strings.Cut(s, sep)\<close> for a one-byte separator: before, after, found; without the separator
  the whole string is \<open>before\<close>.
\<close>

fun Cut :: "string \<Rightarrow> char \<Rightarrow> string \<times> string \<times> bool" where
  "Cut [] sep = ([], [], False)"
| "Cut (c # cs) sep =
     (if c = sep then ([], cs, True)
      else (case Cut cs sep of (before, after, found) \<Rightarrow> (c # before, after, found)))"

definition HasPrefix :: "string \<Rightarrow> string \<Rightarrow> bool" where
  "HasPrefix s p \<longleftrightarrow> take (length p) s = p"

definition HasSuffix :: "string \<Rightarrow> string \<Rightarrow> bool" where
  "HasSuffix s p \<longleftrightarrow> length p \<le> length s \<and> drop (length s - length p) s = p"

definition Count :: "string \<Rightarrow> char \<Rightarrow> nat" where
  "Count s c = length (filter (\<lambda>x. x = c) s)"

definition Contains :: "string \<Rightarrow> char \<Rightarrow> bool" where
  "Contains s c \<longleftrightarrow> c \<in> set s"

text \<open>\<open>strings.Contains(s, sub)\<close> for a longer substring.\<close>

fun ContainsStr :: "string \<Rightarrow> string \<Rightarrow> bool" where
  "ContainsStr [] sub = (sub = [])"
| "ContainsStr (c # cs) sub = (HasPrefix (c # cs) sub \<or> ContainsStr cs sub)"

text \<open>\<open>subtle.ConstantTimeCompare(x, y) == 1\<close>: equal length and equal bytes.\<close>

definition ConstantTimeCompare :: "string \<Rightarrow> string \<Rightarrow> bool" where
  "ConstantTimeCompare x y \<longleftrightarrow> length x = length y \<and> list_all2 (=) x y"

subsection \<open>Numbers and bytes as text\<close>

definition digits :: string where
  "digits = ''0123456789''"

text \<open>\<open>strconv.Itoa\<close> and the verb \<open>%d\<close>.\<close>

fun nat_text :: "nat \<Rightarrow> string" where
  "nat_text n = (if n < 10 then [digits ! n] else nat_text (n div 10) @ [digits ! (n mod 10)])"

declare nat_text.simps [simp del]

definition int_text :: "int \<Rightarrow> string" where
  "int_text i = (if i < 0 then ''-'' @ nat_text (nat (- i)) else nat_text (nat i))"

text \<open>\<open>hex.EncodeToString\<close> and \<open>base64.RawURLEncoding.EncodeToString\<close>.\<close>

definition hex_digit :: "nat \<Rightarrow> char" where
  "hex_digit n = ''0123456789abcdef'' ! (n mod 16)"

definition hex_EncodeToString :: "string \<Rightarrow> string" where
  "hex_EncodeToString bytes =
     concat (map (\<lambda>b. [hex_digit (of_char b div 16), hex_digit (of_char b)]) bytes)"

definition base64_alphabet :: string where
  "base64_alphabet = upper_letters @ lower_letters @ digits @ ''-_''"

fun base64_EncodeToString :: "string \<Rightarrow> string" where
  "base64_EncodeToString [] = []"
| "base64_EncodeToString [a] =
     (let x = of_char a :: nat in [base64_alphabet ! (x div 4), base64_alphabet ! (x mod 4 * 16)])"
| "base64_EncodeToString [a, b] =
     (let x = of_char a :: nat; y = of_char b in
      [base64_alphabet ! (x div 4), base64_alphabet ! (x mod 4 * 16 + y div 16),
       base64_alphabet ! (y mod 16 * 4)])"
| "base64_EncodeToString (a # b # c # rest) =
     (let x = of_char a :: nat; y = of_char b; z = of_char c in
      [base64_alphabet ! (x div 4), base64_alphabet ! (x mod 4 * 16 + y div 16),
       base64_alphabet ! (y mod 16 * 4 + z div 64), base64_alphabet ! (z mod 64)]
      @ base64_EncodeToString rest)"

text \<open>
  The verb \<open>%q\<close>: control characters, quotes and backslashes are escaped; the bytes of
  printable characters beyond ASCII stay as they are.
\<close>

definition quote_char :: "char \<Rightarrow> string" where
  "quote_char c =
     (if c = CHR 0x22 \<or> c = CHR 0x5C then [CHR 0x5C, c]
      else if c = CHR 0x07 then [CHR 0x5C, CHR ''a'']
      else if c = CHR 0x08 then [CHR 0x5C, CHR ''b'']
      else if c = CHR 0x09 then [CHR 0x5C, CHR ''t'']
      else if c = CHR 0x0A then [CHR 0x5C, CHR ''n'']
      else if c = CHR 0x0B then [CHR 0x5C, CHR ''v'']
      else if c = CHR 0x0C then [CHR 0x5C, CHR ''f'']
      else if c = CHR 0x0D then [CHR 0x5C, CHR ''r'']
      else if of_char c < (32 :: nat) \<or> of_char c = (127 :: nat)
      then [CHR 0x5C, CHR ''x'', hex_digit (of_char c div 16), hex_digit (of_char c)]
      else [c])"

definition quoted :: "string \<Rightarrow> string" where
  "quoted s = [CHR 0x22] @ concat (map quote_char s) @ [CHR 0x22]"

text \<open>
  \<open>strings.Split(s, sep)\<close> for a one-byte separator, \<open>strings.Trim(s, cutset)\<close> for an
  ASCII cutset and \<open>strings.TrimSuffix\<close>.
\<close>

fun Split :: "string \<Rightarrow> char \<Rightarrow> string list" where
  "Split [] sep = [[]]"
| "Split (c # cs) sep =
     (if c = sep then [] # Split cs sep
      else (case Split cs sep of [] \<Rightarrow> [[c]] | part # parts \<Rightarrow> (c # part) # parts))"

definition Trim :: "string \<Rightarrow> string \<Rightarrow> string" where
  "Trim s cutset =
     rev (dropWhile (\<lambda>c. c \<in> set cutset) (rev (dropWhile (\<lambda>c. c \<in> set cutset) s)))"

definition TrimSuffix :: "string \<Rightarrow> string \<Rightarrow> string" where
  "TrimSuffix s suffix = (if HasSuffix s suffix then take (length s - length suffix) s else s)"

text \<open>\<open>strings.Join(elems, sep)\<close>.\<close>

fun Join :: "string list \<Rightarrow> string \<Rightarrow> string" where
  "Join [] sep = []"
| "Join [x] sep = x"
| "Join (x # y # rest) sep = x @ sep @ Join (y # rest) sep"

subsection \<open>SQL LIKE\<close>

definition is_continuation :: "char \<Rightarrow> bool" where
  "is_continuation c \<longleftrightarrow> (128 :: nat) \<le> of_char c \<and> of_char c < (192 :: nat)"

text \<open>
  \<open>%\<close> matches any string, \<open>_\<close> one (UTF-8) character and a backslash takes the next
  byte of the pattern literally. The pattern of the repository never ends with the escape.
\<close>

function sql_like :: "string \<Rightarrow> string \<Rightarrow> bool" where
  "sql_like [] s = (s = [])"
| "sql_like (p # ps) s =
     (if p = CHR ''%'' then
        sql_like ps s \<or> (case s of [] \<Rightarrow> False | _ # cs \<Rightarrow> sql_like (p # ps) cs)
      else if p = CHR ''_'' then
        (case s of [] \<Rightarrow> False | _ # cs \<Rightarrow> sql_like ps (dropWhile is_continuation cs))
      else if p = CHR 0x5C then
        (case ps of [] \<Rightarrow> False
         | q # qs \<Rightarrow> (case s of [] \<Rightarrow> False | c # cs \<Rightarrow> c = q \<and> sql_like qs cs))
      else (case s of [] \<Rightarrow> False | c # cs \<Rightarrow> c = p \<and> sql_like ps cs))"
  by pat_completeness auto
termination
  by (relation "measures [\<lambda>(p, s). length p, \<lambda>(p, s). length s]") auto

declare trim_left.simps [simp del] sql_like.simps [simp del]

definition like_special :: "char \<Rightarrow> bool" where
  "like_special c \<longleftrightarrow> c = CHR ''%'' \<or> c = CHR ''_'' \<or> c = CHR 0x5C"

section \<open>Lemmas\<close>

subsection \<open>Trimming\<close>

lemma strip_one_Some:
  "strip_one es s = Some r \<Longrightarrow> \<exists>e \<in> set es. e \<noteq> [] \<and> s = e @ r"
proof (induction es)
  case (Cons e es)
  then show ?case
    by (auto split: if_splits) (metis append_take_drop_id)
qed simp

lemma strip_one_None:
  "strip_one es s = None \<longleftrightarrow> (\<forall>e \<in> set es. e \<noteq> [] \<longrightarrow> take (length e) s \<noteq> e)"
  by (induction es) auto

lemma strip_one_None_prefix:
  assumes "strip_one es (s @ t) = None"
  shows "strip_one es s = None"
  unfolding strip_one_None
proof (intro ballI impI notI)
  fix e assume e: "e \<in> set es" "e \<noteq> []" "take (length e) s = e"
  then have "take (length e) (s @ t) = e"
    by (metis append_eq_conv_conj append_take_drop_id append.assoc)
  with e assms show False unfolding strip_one_None by blast
qed

lemma trim_left_stripped: "strip_one es (trim_left es s) = None"
  by (induction es s rule: trim_left.induct)
     (subst trim_left.simps, auto split: option.splits)

lemma trim_left_id: "strip_one es s = None \<Longrightarrow> trim_left es s = s"
  by (subst trim_left.simps) simp

lemma trim_left_suffix: "\<exists>l. s = l @ trim_left es s"
proof (induction es s rule: trim_left.induct)
  case (1 es s)
  show ?case
  proof (cases "strip_one es s")
    case None
    then show ?thesis by (simp add: trim_left_id)
  next
    case (Some r)
    with 1 obtain l where "r = l @ trim_left es r" by blast
    moreover from Some obtain e where "s = e @ r" by (auto dest: strip_one_Some)
    moreover from Some have "trim_left es s = trim_left es r"
      by (subst trim_left.simps) simp
    ultimately have "s = (e @ l) @ trim_left es s" by simp
    then show ?thesis by blast
  qed
qed

lemma trim_right_prefix: "\<exists>t. s = trim_right es s @ t"
proof -
  obtain l where "rev s = l @ trim_left (map rev es) (rev s)"
    using trim_left_suffix by blast
  then have "rev (rev s) = trim_right es s @ rev l"
    unfolding trim_right_def by (metis rev_append)
  then show ?thesis by auto
qed

lemma trim_right_idem: "trim_right es (trim_right es s) = trim_right es s"
  by (simp add: trim_right_def trim_left_id trim_left_stripped)

lemma TrimSpace_idem [simp]: "TrimSpace (TrimSpace s) = TrimSpace s"
proof -
  let ?l = "trim_left space_encodings s"
  let ?y = "trim_right space_encodings ?l"
  obtain t where "?l = ?y @ t" using trim_right_prefix by blast
  then have "strip_one space_encodings ?y = None"
    using trim_left_stripped [of space_encodings s] strip_one_None_prefix by metis
  then show ?thesis
    by (simp add: TrimSpace_def trim_left_id trim_right_idem)
qed

lemma TrimSpace_Nil [simp]: "TrimSpace [] = []"
  by (simp add: TrimSpace_def trim_right_def trim_left_id space_encodings_def)

lemma TrimSpace_infix: "\<exists>l t. s = l @ TrimSpace s @ t"
  unfolding TrimSpace_def by (metis trim_left_suffix trim_right_prefix)

subsection \<open>Cutting and comparing\<close>

lemma Cut_split:
  "Cut s sep = (before, after, found) \<Longrightarrow>
   (if found then s = before @ sep # after \<and> sep \<notin> set before
    else before = s \<and> after = [] \<and> sep \<notin> set s)"
proof (induction s arbitrary: before)
  case (Cons c cs)
  show ?case
  proof (cases "c = sep")
    case False
    obtain b a f where cut: "Cut cs sep = (b, a, f)" by (cases "Cut cs sep")
    with False Cons.prems have "before = c # b" "after = a" "found = f" by auto
    with Cons.IH [of b] cut False show ?thesis by (auto split: if_splits)
  qed (use Cons.prems in auto)
qed simp

lemma Cut_append: "sep \<notin> set before \<Longrightarrow> Cut (before @ sep # after) sep = (before, after, True)"
  by (induction before) auto

lemma Split_append: "sep \<notin> set x \<Longrightarrow> Split (x @ sep # s) sep = x # Split s sep"
  by (induction x) auto

lemma Split_absent: "sep \<notin> set x \<Longrightarrow> Split x sep = [x]"
  by (induction x) auto

lemma Split_Join: "xs \<noteq> [] \<Longrightarrow> \<forall>x \<in> set xs. sep \<notin> set x \<Longrightarrow> Split (Join xs [sep]) sep = xs"
  by (induction xs "[sep]" rule: Join.induct) (simp_all add: Split_absent Split_append)

lemma Cut_absent: "sep \<notin> set s \<Longrightarrow> Cut s sep = (s, [], False)"
  by (induction s) auto

lemma ConstantTimeCompare_iff [simp]: "ConstantTimeCompare x y \<longleftrightarrow> x = y"
  by (auto simp: ConstantTimeCompare_def list.rel_eq)

lemma HasPrefix_append: "HasPrefix s p \<longleftrightarrow> (\<exists>t. s = p @ t)"
  unfolding HasPrefix_def by (metis append_eq_conv_conj append_take_drop_id)

lemma ascii_lower_fixed: "c \<notin> set upper_letters \<Longrightarrow> ascii_lower c = c"
  by (auto simp: ascii_lower_def split: option.splits dest!: map_of_SomeD set_zip_leftD)

subsection \<open>LIKE\<close>

lemma sql_like_plain:
  assumes "list_all (\<lambda>c. \<not> like_special c) kw"
  shows "sql_like (kw @ ''%'') s \<longleftrightarrow> HasPrefix s kw"
  using assms
proof (induction kw arbitrary: s)
  case Nil
  have "sql_like ''%'' s" for s
  proof (induction s)
    case Nil
    show ?case by (simp add: sql_like.simps)
  next
    case (Cons c cs)
    then show ?case by (subst sql_like.simps) simp
  qed
  then show ?case by (simp add: HasPrefix_def)
next
  case (Cons k kw)
  from Cons.prems have k: "k \<noteq> CHR ''%''" "k \<noteq> CHR ''_''" "k \<noteq> CHR 0x5C"
    by (auto simp: like_special_def)
  show ?case
  proof (cases s)
    case Nil
    with k show ?thesis by (simp add: sql_like.simps HasPrefix_def)
  next
    case (Cons c cs)
    with k Cons.IH [of cs] Cons.prems show ?thesis
      by (auto simp: sql_like.simps(2) [of k "kw @ ''%''" "c # cs"] HasPrefix_def)
  qed
qed

text \<open>A keyword without wildcards, between two \<open>%\<close>, is a substring search.\<close>

lemma sql_like_infix:
  assumes "list_all (\<lambda>c. \<not> like_special c) kw"
  shows "sql_like (''%'' @ kw @ ''%'') s \<longleftrightarrow> ContainsStr s kw"
proof (induction s)
  case Nil
  show ?case
    using assms sql_like_plain [OF assms, of "[]"]
    by (subst append_Cons, subst sql_like.simps) (auto simp: HasPrefix_def)
next
  case (Cons c cs)
  then show ?case
    using sql_like_plain [OF assms, of "c # cs"]
    by (subst append_Cons, subst sql_like.simps) (simp add: HasPrefix_def)
qed

end
