(* ===== verification/Apperror.thy ===== *)
theory Apperror
  imports GoStrings
begin

text \<open>
  Application errors (\<open>internal/apperror/error.go\<close>) inside Go's error values. The numeric error
  codes are constants of the shared platform module; they are the constructors of
  \<open>err_code\<close> here. \<open>go_error\<close> holds the values of Go's \<open>error\<close> interface that the
  service produces: the two sentinels of the repository, any other error with its text, and \<open>*apperror.Error\<close> with its wrapped cause.
\<close>

section \<open>Definitions\<close>

datatype err_code =
    CodeOK | CodeInvalidArgument | CodeNotFound | CodeRequestTimeout | CodeTooManyRequests
  | CodeUnauthorized | CodeForbidden | CodeConflict | CodeRequestInProgress | CodeStaleVersion
  | CodeInternal | CodeDependencyUnavailable

datatype go_error =
    ErrNotFound
  | ErrStaleVersion
  | Errorf string
  | AppError (Code: err_code) (Message: string) (HTTPStatus: int) (Err: "go_error option")

type_synonym 'a result = "go_error + 'a"

text \<open>The method \<open>Error() string\<close>; the texts of the sentinels are those of the source.\<close>

fun error_text :: "go_error \<Rightarrow> string" where
  "error_text ErrNotFound = ''notification resource not found''"
| "error_text ErrStaleVersion = ''stale notification version''"
| "error_text (Errorf m) = m"
| "error_text (AppError c m st None) = m"
| "error_text (AppError c m st (Some e)) = error_text e"

text \<open>\<open>errors.Is(err, target)\<close> for a sentinel target: follow \<open>Unwrap\<close>.\<close>

fun errors_is :: "go_error \<Rightarrow> go_error \<Rightarrow> bool" where
  "errors_is (AppError c m st None) t = (AppError c m st None = t)"
| "errors_is (AppError c m st (Some e)) t = (AppError c m st (Some e) = t \<or> errors_is e t)"
| "errors_is e t = (e = t)"

text \<open>\<open>errors.As(err, &appErr)\<close>: the outermost application error of the chain.\<close>

fun errors_as_app :: "go_error \<Rightarrow> go_error option" where
  "errors_as_app (AppError c m st e) = Some (AppError c m st e)"
| "errors_as_app _ = None"

definition New :: "err_code \<Rightarrow> string \<Rightarrow> int \<Rightarrow> go_error option \<Rightarrow> go_error" where
  "New code message status err = AppError code message status err"

definition Invalid :: "string \<Rightarrow> go_error option \<Rightarrow> go_error" where
  "Invalid message err = New CodeInvalidArgument message 400 err"

definition NotFound :: "string \<Rightarrow> go_error" where
  "NotFound message = New CodeNotFound message 404 None"

definition Conflict :: "string \<Rightarrow> go_error option \<Rightarrow> go_error" where
  "Conflict message err = New CodeConflict message 409 err"

definition StaleVersion :: "go_error option \<Rightarrow> go_error" where
  "StaleVersion err = New CodeStaleVersion ''resource version is stale'' 409 err"

definition RequestInProgress :: go_error where
  "RequestInProgress = New CodeRequestInProgress ''request is already processing'' 409 None"

definition Unauthorized :: "string \<Rightarrow> go_error" where
  "Unauthorized message = New CodeUnauthorized message 401 None"

definition Forbidden :: "string \<Rightarrow> go_error" where
  "Forbidden message = New CodeForbidden message 403 None"

definition TooManyRequests :: go_error where
  "TooManyRequests = New CodeTooManyRequests ''too many requests'' 429 None"

definition RequestTimeout :: go_error where
  "RequestTimeout = New CodeRequestTimeout ''request timeout'' 504 None"

definition Unavailable :: "string \<Rightarrow> go_error option \<Rightarrow> go_error" where
  "Unavailable message err = New CodeDependencyUnavailable message 503 err"

definition Internal :: "go_error option \<Rightarrow> go_error" where
  "Internal err = New CodeInternal ''internal server error'' 500 err"

section \<open>Lemmas\<close>

lemmas apperror_defs =
  New_def Invalid_def NotFound_def Conflict_def StaleVersion_def RequestInProgress_def
  Unauthorized_def Forbidden_def TooManyRequests_def RequestTimeout_def Unavailable_def
  Internal_def

lemma Code_simps [simp]:
  "Code (Invalid m e) = CodeInvalidArgument" "Code (NotFound m) = CodeNotFound"
  "Code (Conflict m e) = CodeConflict" "Code (StaleVersion e) = CodeStaleVersion"
  "Code RequestInProgress = CodeRequestInProgress" "Code (Unauthorized m) = CodeUnauthorized"
  "Code (Forbidden m) = CodeForbidden" "Code TooManyRequests = CodeTooManyRequests"
  "Code RequestTimeout = CodeRequestTimeout" "Code (Unavailable m e) = CodeDependencyUnavailable"
  "Code (Internal e) = CodeInternal"
  by (simp_all add: apperror_defs)

lemma errors_as_app_simps [simp]:
  "errors_as_app (Invalid m e) = Some (Invalid m e)" "errors_as_app (NotFound m) = Some (NotFound m)"
  "errors_as_app (Conflict m e) = Some (Conflict m e)"
  "errors_as_app (StaleVersion e) = Some (StaleVersion e)"
  "errors_as_app (Unauthorized m) = Some (Unauthorized m)"
  "errors_as_app (Forbidden m) = Some (Forbidden m)"
  "errors_as_app TooManyRequests = Some TooManyRequests"
  "errors_as_app (Unavailable m e) = Some (Unavailable m e)"
  "errors_as_app (Internal e) = Some (Internal e)"
  by (simp_all add: apperror_defs)

end
