(* ===== verification/Model.thy ===== *)
theory Model
  imports Apperror
begin

text \<open>
  The data of the notification domain (\<open>internal/notification/model.go\<close>): templates, provider
  routes, deliveries, the pages of the list operations and outbox events. A field of the source
  struct \<open>Template\<close> is prefixed with \<open>t_\<close>, of \<open>Provider\<close> with \<open>p_\<close>, of
  \<open>Delivery\<close> with \<open>d_\<close>. The envelope column of an outbox event holds a protobuf encoding;
  it is represented by the metadata and the message that it encodes.
\<close>

section \<open>Definitions\<close>

record Template =
  t_ID :: string
  t_TenantID :: string
  t_ApplicationID :: string
  t_Code :: string
  t_Channel :: string
  t_Locale :: string
  t_Subject :: string
  t_Content :: string
  t_Status :: string
  t_Version :: int
  t_CreatedAt :: time
  t_UpdatedAt :: time
  t_CreatedBy :: string
  t_UpdatedBy :: string

record Provider =
  p_ID :: string
  p_TenantID :: string
  p_ApplicationID :: string
  p_Code :: string
  p_Channel :: string
  p_Upstream :: string
  p_Path :: string
  p_Priority :: int
  p_Status :: string
  p_Version :: int
  p_CreatedAt :: time
  p_UpdatedAt :: time
  p_CreatedBy :: string
  p_UpdatedBy :: string

record Delivery =
  d_ID :: string
  d_TenantID :: string
  d_ApplicationID :: string
  d_TemplateCode :: string
  d_Channel :: string
  d_Locale :: string
  d_Recipient :: string
  d_Variables :: string
  d_IdempotencyKey :: string
  d_Status :: string
  d_Provider :: string
  d_ProviderMessageID :: string
  d_FailureReason :: string
  d_Attempts :: int
  d_NextAttemptAt :: time
  d_Version :: int
  d_CreatedAt :: time
  d_UpdatedAt :: time
  d_CreatedBy :: string
  d_UpdatedBy :: string

record Page =
  pg_Deliveries :: "Delivery list"
  pg_Total :: int
  pg_Page :: int
  pg_PageSize :: int

record TemplatePage =
  tpg_Templates :: "Template list"
  tpg_Total :: int
  tpg_Page :: int
  tpg_PageSize :: int

record ProviderPage =
  ppg_Providers :: "Provider list"
  ppg_Total :: int
  ppg_Page :: int
  ppg_PageSize :: int

text \<open>The zero value of \<open>time.Time\<close>: the first instant of year 1.\<close>

definition zero_time :: time where
  "zero_time = - 62135596800 * second"

text \<open>
  The protobuf message \<open>notificationv1.Delivery\<close> with the fields the service fills in; the
  metadata and the message of an event envelope.
\<close>

record ProtoDelivery =
  pd_Id :: string
  pd_TenantId :: string
  pd_ApplicationId :: string
  pd_TemplateCode :: string
  pd_Channel :: string
  pd_Recipient :: string
  pd_Variables :: "string \<rightharpoonup> string"
  pd_Status :: string
  pd_Provider :: string
  pd_ProviderMessageId :: string
  pd_FailureReason :: string
  pd_Attempts :: int
  pd_NextAttemptAt :: time
  pd_Version :: int
  pd_CreatedAt :: time
  pd_UpdatedAt :: time
  pd_CreatedBy :: string
  pd_UpdatedBy :: string

datatype EventMessage =
    NotificationRequestedEvent ProtoDelivery
  | NotificationStatusChangedEvent ProtoDelivery

record Envelope =
  ev_EventID :: string
  ev_EventType :: string
  ev_AggregateID :: string
  ev_AggregateType :: string
  ev_TenantID :: string
  ev_ApplicationID :: string
  ev_SchemaVersion :: int
  ev_ActorID :: string
  ev_OccurredAt :: time
  ev_Message :: EventMessage

record OutboxEvent =
  oe_ID :: string
  oe_Subject :: string
  oe_Envelope :: Envelope
  oe_AvailableAt :: time
  oe_CreatedAt :: time
  oe_UpdatedAt :: time
  oe_CreatedBy :: string
  oe_UpdatedBy :: string

text \<open>A row of \<open>notification_outbox_events\<close>: the event and the columns of its publication.\<close>

record OutboxRow =
  ob_event :: OutboxEvent
  ob_attempts :: int
  ob_published_at :: "time option"
  ob_last_error :: string
  ob_version :: int

text \<open>The caller, as \<open>platformprincipal.Principal\<close> gives it to the service.\<close>

datatype PrincipalType = TypeUser | TypeServiceAccount | TypeOther string

record Principal =
  pr_ID :: string
  pr_Type :: PrincipalType
  pr_TenantID :: string

text \<open>
  The values a request context carries: caller, idempotency key, request id, deployment profile
  and the credential that is forwarded to the authorization service.
\<close>

record Context =
  ctx_Principal :: "Principal option"
  ctx_IdempotencyKey :: "string option"
  ctx_RequestID :: "string option"
  ctx_Environment :: "string option"
  ctx_Credential :: "string option"

definition background :: Context where
  "background = \<lparr>ctx_Principal = None, ctx_IdempotencyKey = None, ctx_RequestID = None,
     ctx_Environment = None, ctx_Credential = None\<rparr>"

section \<open>Delivery statuses\<close>

definition terminalDeliveryStatus :: "string \<Rightarrow> bool" where
  "terminalDeliveryStatus value \<longleftrightarrow>
     value = ''delivered'' \<or> value = ''bounced'' \<or> value = ''failed'' \<or> value = ''dead_letter''"

definition validReceiptStatus :: "string \<Rightarrow> bool" where
  "validReceiptStatus value \<longleftrightarrow> value = ''delivered'' \<or> value = ''bounced'' \<or> value = ''failed''"

definition validChannel :: "string \<Rightarrow> bool" where
  "validChannel v \<longleftrightarrow> v = ''email'' \<or> v = ''sms'' \<or> v = ''webhook'' \<or> v = ''in_app''"

end
