(* ===== verification/Config.thy ===== *)
theory Config
  imports Complex_Main Prelude
begin

text \<open>
  The configuration tree (\<open>internal/config/config.go\<close>): one record per struct of the source, a
  field \<open>F\<close> of struct \<open>S\<close> being \<open>S_F\<close>. A Go map is an association list with
  distinct keys; its order stands for the iteration order, which Go leaves open.
\<close>

section \<open>Definitions\<close>

text \<open>The values of a \<open>float64\<close> that the sampling ratio can take.\<close>

datatype float64 = Float rat | NaN | PosInf | NegInf

record Runtime_cfg =
  Runtime_ActiveProfile :: string
  Runtime_ConfigFiles :: "string list"

record App_cfg =
  App_Name :: string
  App_Schema :: string
  App_Env :: string
  App_ShutdownTimeout :: duration

record CORS_cfg =
  CORS_Enabled :: bool
  CORS_AllowedOrigins :: "string list"
  CORS_AllowedHeaders :: "string list"
  CORS_ExposedHeaders :: "string list"
  CORS_MaxAge :: duration

record HTTP_cfg =
  HTTP_Address :: string
  HTTP_ReadTimeout :: duration
  HTTP_WriteTimeout :: duration
  HTTP_IdleTimeout :: duration
  HTTP_RequestTimeout :: duration
  HTTP_MaxBodyBytes :: int
  HTTP_TrustedProxies :: "string list"
  HTTP_CORS :: CORS_cfg

record GRPCTLS_cfg =
  GRPCTLS_Enabled :: bool
  GRPCTLS_CertFile :: string
  GRPCTLS_KeyFile :: string
  GRPCTLS_ClientCAFile :: string

record GRPC_cfg =
  GRPC_Enabled :: bool
  GRPC_Address :: string
  GRPC_ReflectionEnabled :: bool
  GRPC_MaxReceiveBytes :: int
  GRPC_TLS :: GRPCTLS_cfg

record Log_cfg =
  Log_Level :: string
  Log_Format :: string
  Log_File :: string
  Log_MaxSizeMB :: int
  Log_MaxBackups :: int
  Log_MaxAgeDays :: int
  Log_Compress :: bool

record Database_cfg =
  Database_Enabled :: bool
  Database_Name :: string
  Database_Schema :: string
  Database_Type :: string
  Database_DSN :: string
  Database_MaxOpenConns :: int
  Database_MaxIdleConns :: int
  Database_ConnMaxLifetime :: duration
  Database_ConnMaxIdleTime :: duration
  Database_PingTimeout :: duration

record Redis_cfg =
  Redis_Enabled :: bool
  Redis_Address :: string
  Redis_Username :: string
  Redis_Password :: string
  Redis_DB :: int
  Redis_DialTimeout :: duration
  Redis_ReadTimeout :: duration
  Redis_WriteTimeout :: duration

record Health_cfg =
  Health_DatabaseTimeout :: duration
  Health_RedisTimeout :: duration

record RateLimitRule_cfg =
  RateLimitRule_Rate :: int
  RateLimitRule_Burst :: int
  RateLimitRule_Period :: duration

record RateLimit_cfg =
  RateLimit_Enabled :: bool
  RateLimit_FailOpen :: bool
  RateLimit_IP :: RateLimitRule_cfg
  RateLimit_API :: RateLimitRule_cfg
  RateLimit_User :: RateLimitRule_cfg
  RateLimit_Login :: RateLimitRule_cfg

record Observability_cfg =
  Observability_MetricsEnabled :: bool
  Observability_TracingEnabled :: bool
  Observability_TracingEndpoint :: string
  Observability_TracingSampleRatio :: float64
  Observability_PprofEnabled :: bool
  Observability_PprofToken :: string

record Swagger_cfg =
  Swagger_Enabled :: bool
  Swagger_RequireAuth :: bool

record JWT_cfg =
  JWT_Issuer :: string
  JWT_Secret :: string
  JWT_TTL :: duration

record PSK_cfg =
  PSK_Enabled :: bool
  PSK_Key :: string
  PSK_HTTPPaths :: "string list"
  PSK_GRPCMethods :: "string list"

record Auth_cfg =
  Auth_JWKSURL :: string
  Auth_Issuer :: string
  Auth_Audience :: string
  Auth_ClientID :: string
  Auth_ClientSecret :: string
  Auth_SkipHTTPPaths :: "string list"
  Auth_SkipGRPCMethods :: "string list"
  Auth_PSK :: PSK_cfg

record Authorization_cfg =
  Authorization_Enabled :: bool

record Cron_cfg =
  Cron_Enabled :: bool
  Cron_Timezone :: string
  Cron_SampleSpec :: string

record Migration_cfg =
  Migration_AutoUp :: bool
  Migration_CreateSchema :: bool
  Migration_Path :: string
  Migration_DatabaseURL :: string
  Migration_Table :: string
  Migration_Schema :: string
  Migration_DatabaseName :: string

record User_cfg =
  User_CacheTTL :: duration
  User_LockTTL :: duration
  User_LockRetryDelay :: duration

record Idempotency_cfg =
  Idempotency_Enabled :: bool
  Idempotency_HTTPPaths :: "string list"
  Idempotency_GRPCMethods :: "string list"
  Idempotency_ProcessingTTL :: duration
  Idempotency_ResultTTL :: duration
  Idempotency_FailureTTL :: duration

record ClientAuth_cfg =
  ClientAuth_Type :: string
  ClientAuth_Token :: string

record Retry_cfg =
  Retry_MaxAttempts :: int
  Retry_InitialBackoff :: duration
  Retry_MaxBackoff :: duration
  Retry_Methods :: "string list"

record Breaker_cfg =
  Breaker_Enabled :: bool
  Breaker_FailureThreshold :: int
  Breaker_OpenTimeout :: duration

record ClientTLS_cfg =
  ClientTLS_Enabled :: bool
  ClientTLS_ServerName :: string
  ClientTLS_CAFile :: string
  ClientTLS_CertFile :: string
  ClientTLS_KeyFile :: string

record HTTPUpstream_cfg =
  HTTPUpstream_BaseURL :: string
  HTTPUpstream_Timeout :: duration
  HTTPUpstream_Auth :: ClientAuth_cfg
  HTTPUpstream_Retry :: Retry_cfg
  HTTPUpstream_Breaker :: Breaker_cfg
  HTTPUpstream_TLS :: ClientTLS_cfg

record GRPCUpstream_cfg =
  GRPCUpstream_Target :: string
  GRPCUpstream_Timeout :: duration
  GRPCUpstream_Auth :: ClientAuth_cfg
  GRPCUpstream_Retry :: Retry_cfg
  GRPCUpstream_Breaker :: Breaker_cfg
  GRPCUpstream_TLS :: ClientTLS_cfg

record Outbound_cfg =
  Outbound_HTTP :: "(string \<times> HTTPUpstream_cfg) list"
  Outbound_GRPC :: "(string \<times> GRPCUpstream_cfg) list"

record EventBus_cfg =
  EventBus_Enabled :: bool
  EventBus_URLs :: "string list"
  EventBus_StreamName :: string
  EventBus_Subjects :: "string list"
  EventBus_Storage :: string
  EventBus_MaxAge :: duration
  EventBus_DuplicateWindow :: duration
  EventBus_ConnectTimeout :: duration
  EventBus_ReconnectWait :: duration
  EventBus_PublishTimeout :: duration
  EventBus_ConsumerAckWait :: duration
  EventBus_ConsumerMaxDeliver :: int
  EventBus_DispatchInterval :: duration
  EventBus_DispatchBatchSize :: int
  EventBus_DispatchLease :: duration
  EventBus_DispatchRetryDelay :: duration
  EventBus_PublishedRetention :: duration
  EventBus_CleanupInterval :: duration
  EventBus_CleanupBatchSize :: int

record NotificationProvider_cfg =
  NotificationProvider_Upstream :: string
  NotificationProvider_Path :: string

record Notification_cfg =
  Notification_DispatchInterval :: duration
  Notification_BatchSize :: int
  Notification_MaxAttempts :: int
  Notification_RetryBase :: duration
  Notification_Retention :: duration
  Notification_CleanupInterval :: duration
  Notification_CleanupBatchSize :: int
  Notification_TenantLimit :: RateLimitRule_cfg
  Notification_TemplateLimit :: RateLimitRule_cfg
  Notification_RecipientLimit :: RateLimitRule_cfg
  Notification_Providers :: "(string \<times> NotificationProvider_cfg) list"
  Notification_ProviderUpstreams :: "string list"

record Config =
  c_Runtime :: Runtime_cfg
  c_App :: App_cfg
  c_HTTP :: HTTP_cfg
  c_GRPC :: GRPC_cfg
  c_Log :: Log_cfg
  c_Database :: Database_cfg
  c_Redis :: Redis_cfg
  c_Health :: Health_cfg
  c_RateLimit :: RateLimit_cfg
  c_Observability :: Observability_cfg
  c_Swagger :: Swagger_cfg
  c_JWT :: JWT_cfg
  c_Auth :: Auth_cfg
  c_Authorization :: Authorization_cfg
  c_Cron :: Cron_cfg
  c_Migration :: Migration_cfg
  c_User :: User_cfg
  c_Idempotency :: Idempotency_cfg
  c_Outbound :: Outbound_cfg
  c_EventBus :: EventBus_cfg
  c_Notification :: Notification_cfg

end
