(* ===== verification/Url.thy ===== *)
theory Url
  imports GoStrings
begin

text \<open>
  Go's \<open>net/url\<close>: parsing, printing, resolving a reference and the query string. Parsing decides
  which provider paths the service stores (\<open>validProviderPath\<close>), resolving where the outbound HTTP
  client sends a request, printing and queries how the migration tool rewrites the database URL.
  \<open>None\<close> is a parse error.
\<close>

section \<open>Definitions\<close>

record URL =
  url_Scheme :: string
  url_Opaque :: string
  url_User :: "(string \<times> string option) option"
  url_Host :: string
  url_Path :: string
  url_RawPath :: string
  url_OmitHost :: bool
  url_ForceQuery :: bool
  url_RawQuery :: string
  url_Fragment :: string
  url_RawFragment :: string

definition empty_url :: URL where
  "empty_url = \<lparr>url_Scheme = [], url_Opaque = [], url_User = None, url_Host = [], url_Path = [], url_RawPath = [],
     url_OmitHost = False, url_ForceQuery = False, url_RawQuery = [], url_Fragment = [], url_RawFragment = []\<rparr>"

definition is_letter :: "char \<Rightarrow> bool" where
  "is_letter c \<longleftrightarrow> c \<in> set lower_letters \<or> c \<in> set upper_letters"

definition is_digit :: "char \<Rightarrow> bool" where
  "is_digit c \<longleftrightarrow> c \<in> set digits"

definition unhex :: "char \<Rightarrow> nat option" where
  "unhex c = map_of (zip (digits @ ''abcdef'' @ ''ABCDEF'') ([0..<16] @ [10..<16])) c"

text \<open>The component whose escapes are undone; hosts and IPv6 zones restrict them.\<close>

datatype component = PathPart | FragmentPart | UserPart | HostPart | ZonePart | QueryPart

definition host_byte :: "char \<Rightarrow> bool" where
  "host_byte c \<longleftrightarrow> is_letter c \<or> is_digit c \<or>
     c \<in> set ''!$&()*+,;=:[]<>-_.~'' \<or> c = CHR 0x27 \<or> c = CHR 0x22"

fun unescape :: "component \<Rightarrow> string \<Rightarrow> string option" where
  "unescape m [] = Some []"
| "unescape m (c # cs) =
     (if c = CHR ''%'' then
        (case cs of
           a # b # rest \<Rightarrow>
             (case (unhex a, unhex b) of
                (Some h, Some l) \<Rightarrow>
                  (if m = HostPart \<and> h < 8 \<and> \<not> (a = CHR ''2'' \<and> b = CHR ''5'') then None
                   else if m = ZonePart \<and> \<not> (a = CHR ''2'' \<and> b = CHR ''5'') \<and> h * 16 + l \<noteq> 32 \<and>
                           \<not> host_byte (char_of (h * 16 + l)) then None
                   else map_option (Cons (char_of (h * 16 + l))) (unescape m rest))
              | _ \<Rightarrow> None)
         | _ \<Rightarrow> None)
      else if c = CHR ''+'' \<and> m = QueryPart then map_option (Cons (CHR '' '')) (unescape m cs)
      else if (m = HostPart \<or> m = ZonePart) \<and> of_char c < (128 :: nat) \<and> \<not> host_byte c then None
      else map_option (Cons c) (unescape m cs))"

text \<open>\<open>shouldEscape\<close> and \<open>escape\<close>, with upper-case hexadecimal digits.\<close>

definition should_escape :: "component \<Rightarrow> char \<Rightarrow> bool" where
  "should_escape m c =
     (if is_letter c \<or> is_digit c then False
      else if (m = HostPart \<or> m = ZonePart) \<and>
              (c \<in> set ''!$&()*+,;=:[]<>'' \<or> c = CHR 0x27 \<or> c = CHR 0x22) then False
      else if c \<in> set ''-_.~'' then False
      else if c \<in> set ''$&+,/:;=?@'' then
        (case m of
           PathPart \<Rightarrow> c = CHR ''?''
         | UserPart \<Rightarrow> c \<in> set ''@/?:''
         | QueryPart \<Rightarrow> True
         | FragmentPart \<Rightarrow> False
         | _ \<Rightarrow> True)
      else if m = FragmentPart \<and> c \<in> set ''!()*'' then False
      else True)"

definition upper_hex :: "nat \<Rightarrow> char" where
  "upper_hex n = (digits @ ''ABCDEF'') ! (n mod 16)"

definition escape_char :: "component \<Rightarrow> char \<Rightarrow> string" where
  "escape_char m c =
     (if \<not> should_escape m c then [c]
      else if c = CHR '' '' \<and> m = QueryPart then ''+''
      else [CHR ''%'', upper_hex (of_char c div 16), upper_hex (of_char c)])"

definition escape :: "component \<Rightarrow> string \<Rightarrow> string" where
  "escape m s = concat (map (escape_char m) s)"

text \<open>\<open>getScheme\<close>: scheme and rest, or an error for a leading colon.\<close>

fun scheme_loop :: "bool \<Rightarrow> string \<Rightarrow> string \<Rightarrow> string \<Rightarrow> (string \<times> string) option" where
  "scheme_loop first raw acc [] = Some ([], raw)"
| "scheme_loop first raw acc (c # cs) =
     (if is_letter c then scheme_loop False raw (acc @ [c]) cs
      else if is_digit c \<or> c = CHR ''+'' \<or> c = CHR ''-'' \<or> c = CHR ''.'' then
        (if first then Some ([], raw) else scheme_loop False raw (acc @ [c]) cs)
      else if c = CHR '':'' then (if first then None else Some (acc, cs))
      else Some ([], raw))"

definition getScheme :: "string \<Rightarrow> (string \<times> string) option" where
  "getScheme raw = scheme_loop True raw [] raw"

text \<open>The part before and the part from the last occurrence of a byte.\<close>

definition last_index :: "string \<Rightarrow> char \<Rightarrow> nat option" where
  "last_index s c = (if c \<in> set s then Some (length s - 1 - length (takeWhile (\<lambda>x. x \<noteq> c) (rev s))) else None)"

definition valid_optional_port :: "string \<Rightarrow> bool" where
  "valid_optional_port port \<longleftrightarrow>
     port = [] \<or> (hd port = CHR '':'' \<and> list_all is_digit (tl port))"

fun zone_index :: "string \<Rightarrow> nat option" where
  "zone_index [] = None"
| "zone_index (c # cs) =
     (if HasPrefix (c # cs) ''%25'' then Some 0 else map_option Suc (zone_index cs))"

definition parse_host :: "string \<Rightarrow> string option" where
  "parse_host host =
     (if HasPrefix host ''['' then
        (case last_index host (CHR '']'') of
           None \<Rightarrow> None
         | Some i \<Rightarrow>
             (if \<not> valid_optional_port (drop (i + 1) host) then None
              else
                (case zone_index (take i host) of
                   None \<Rightarrow> unescape HostPart host
                 | Some z \<Rightarrow>
                     (case (unescape HostPart (take z host), unescape ZonePart (drop z (take i host)),
                            unescape HostPart (drop i host)) of
                        (Some h1, Some h2, Some h3) \<Rightarrow> Some (h1 @ h2 @ h3)
                      | _ \<Rightarrow> None))))
      else
        (case last_index host (CHR '':'') of
           None \<Rightarrow> unescape HostPart host
         | Some i \<Rightarrow>
             if valid_optional_port (drop i host) then unescape HostPart host else None))"

definition valid_userinfo :: "string \<Rightarrow> bool" where
  "valid_userinfo s \<longleftrightarrow>
     list_all (\<lambda>c. is_letter c \<or> is_digit c \<or> c \<in> set ''-._:~!$&()*+,;=%@'' \<or> c = CHR 0x27) s"

text \<open>\<open>parseAuthority\<close>: user information, if any, and the host.\<close>

definition parse_authority :: "string \<Rightarrow> ((string \<times> string option) option \<times> string) option" where
  "parse_authority authority =
     (case last_index authority (CHR ''@'') of
        None \<Rightarrow> map_option (Pair None) (parse_host authority)
      | Some i \<Rightarrow>
          (case parse_host (drop (i + 1) authority) of
             None \<Rightarrow> None
           | Some host \<Rightarrow>
               (let userinfo = take i authority in
                if \<not> valid_userinfo userinfo then None
                else
                  (case Cut userinfo (CHR '':'') of (user, pass, has_pass) \<Rightarrow>
                     (case (unescape UserPart user, unescape UserPart pass) of
                        (Some u, Some p) \<Rightarrow> Some (Some (u, if has_pass then Some p else None), host)
                      | _ \<Rightarrow> None)))))"

definition has_control_byte :: "string \<Rightarrow> bool" where
  "has_control_byte s \<longleftrightarrow> list_ex (\<lambda>c. of_char c < (32 :: nat) \<or> c = CHR 0x7F) s"

text \<open>\<open>setPath\<close> and \<open>setFragment\<close>: the raw form is kept only when it is not the default one.\<close>

definition set_path :: "string \<Rightarrow> URL \<Rightarrow> URL option" where
  "set_path p url =
     map_option (\<lambda>path. url\<lparr>url_Path := path, url_RawPath := (if p = escape PathPart path then [] else p)\<rparr>)
       (unescape PathPart p)"

definition set_fragment :: "string \<Rightarrow> URL \<Rightarrow> URL option" where
  "set_fragment f url =
     map_option (\<lambda>frag. url\<lparr>url_Fragment := frag, url_RawFragment := (if f = escape FragmentPart frag then [] else f)\<rparr>)
       (unescape FragmentPart f)"

definition parse_reference :: "string \<Rightarrow> URL option" where
  "parse_reference raw =
     (if has_control_byte raw then None
      else if raw = ''*'' then Some (empty_url\<lparr>url_Path := ''*''\<rparr>)
      else
        (case getScheme raw of
           None \<Rightarrow> None
         | Some (scheme0, rest0) \<Rightarrow>
             (let scheme = map ascii_lower scheme0;
                  forced = HasSuffix rest0 ''?'' \<and> Count rest0 (CHR ''?'') = 1;
                  rest = (if forced then butlast rest0 else fst (Cut rest0 (CHR ''?'')));
                  rawquery = (if forced then [] else fst (snd (Cut rest0 (CHR ''?''))));
                  url = empty_url\<lparr>url_Scheme := scheme, url_ForceQuery := forced, url_RawQuery := rawquery\<rparr>
              in if \<not> HasPrefix rest ''/'' \<and> scheme \<noteq> [] then Some (url\<lparr>url_Opaque := rest\<rparr>)
                 else if \<not> HasPrefix rest ''/'' \<and> Contains (fst (Cut rest (CHR ''/''))) (CHR '':'') then None
                 else if (scheme \<noteq> [] \<or> \<not> HasPrefix rest ''///'') \<and> HasPrefix rest ''//'' then
                   (let after = drop 2 rest;
                        authority = takeWhile (\<lambda>c. c \<noteq> CHR ''/'') after;
                        path = dropWhile (\<lambda>c. c \<noteq> CHR ''/'') after
                    in (case parse_authority authority of
                          None \<Rightarrow> None
                        | Some (user, host) \<Rightarrow>
                            set_path path (url\<lparr>url_User := user, url_Host := host\<rparr>)))
                 else if scheme \<noteq> [] \<and> HasPrefix rest ''/'' then set_path rest (url\<lparr>url_OmitHost := True\<rparr>)
                 else set_path rest url)))"

definition url_Parse :: "string \<Rightarrow> URL option" where
  "url_Parse raw =
     (case Cut raw (CHR ''#'') of (u, frag, found) \<Rightarrow>
        (case parse_reference u of
           None \<Rightarrow> None
         | Some url \<Rightarrow>
             if frag = [] then Some url
             else set_fragment frag url))"

subsection \<open>Printing\<close>

text \<open>\<open>validEncoded\<close>: a raw form that may be printed as it is.\<close>

definition valid_encoded :: "component \<Rightarrow> string \<Rightarrow> bool" where
  "valid_encoded m s \<longleftrightarrow>
     list_all (\<lambda>c. c \<in> set ''!$&()*+,;=:@[]%'' \<or> c = CHR 0x27 \<or> \<not> should_escape m c) s"

definition EscapedPath :: "URL \<Rightarrow> string" where
  "EscapedPath u =
     (if url_RawPath u \<noteq> [] \<and> valid_encoded PathPart (url_RawPath u) \<and>
         unescape PathPart (url_RawPath u) = Some (url_Path u) then url_RawPath u
      else if url_Path u = ''*'' then ''*''
      else escape PathPart (url_Path u))"

definition EscapedFragment :: "URL \<Rightarrow> string" where
  "EscapedFragment u =
     (if url_RawFragment u \<noteq> [] \<and> valid_encoded FragmentPart (url_RawFragment u) \<and>
         unescape FragmentPart (url_RawFragment u) = Some (url_Fragment u) then url_RawFragment u
      else escape FragmentPart (url_Fragment u))"

fun userinfo_String :: "string \<times> string option \<Rightarrow> string" where
  "userinfo_String (user, pass) =
     (if user = [] \<and> (pass = None \<or> pass = Some []) then []
      else escape UserPart user @ (case pass of None \<Rightarrow> [] | Some p \<Rightarrow> '':'' @ escape UserPart p))"

definition url_authority :: "URL \<Rightarrow> string" where
  "url_authority u =
     (if (url_Scheme u \<noteq> [] \<or> url_Host u \<noteq> [] \<or> url_User u \<noteq> None) \<and>
         \<not> (url_OmitHost u \<and> url_Host u = [] \<and> url_User u = None) then
        (if url_Host u \<noteq> [] \<or> url_Path u \<noteq> [] \<or> url_User u \<noteq> None then ''//'' else []) @
        (case url_User u of None \<Rightarrow> [] | Some ui \<Rightarrow> userinfo_String ui @ ''@'') @
        escape HostPart (url_Host u)
      else [])"

definition url_String :: "URL \<Rightarrow> string" where
  "url_String u =
     (let scheme = (if url_Scheme u \<noteq> [] then url_Scheme u @ '':'' else []);
          front = scheme @ url_authority u;
          path = EscapedPath u;
          slash = (if path \<noteq> [] \<and> hd path \<noteq> CHR ''/'' \<and> url_Host u \<noteq> [] then ''/'' else []);
          dot = (if front @ slash = [] \<and> Contains (fst (Cut path (CHR ''/''))) (CHR '':'') then ''./'' else [])
      in (if url_Opaque u \<noteq> [] then scheme @ url_Opaque u else front @ slash @ dot @ path) @
         (if url_ForceQuery u \<or> url_RawQuery u \<noteq> [] then ''?'' @ url_RawQuery u else []) @
         (if url_Fragment u \<noteq> [] then ''#'' @ EscapedFragment u else []))"

subsection \<open>Resolving a reference\<close>

text \<open>
  \<open>resolvePath\<close>: the elements of the path between slashes; \<open>dst\<close> is what was written after the
  leading slash, \<open>first\<close> that no separator is due.
\<close>

fun resolve_elements :: "string list \<Rightarrow> bool \<Rightarrow> string \<Rightarrow> string" where
  "resolve_elements [] first dst = dst"
| "resolve_elements (elem # rest) first dst =
     (if elem = ''.'' then resolve_elements rest False dst
      else if elem = ''..'' then
        (case last_index dst (CHR ''/'') of
           None \<Rightarrow> resolve_elements rest True []
         | Some i \<Rightarrow> resolve_elements rest first (take i dst))
      else resolve_elements rest False (dst @ (if first then [] else ''/'') @ elem))"

definition resolvePath :: "string \<Rightarrow> string \<Rightarrow> string" where
  "resolvePath base ref =
     (let full =
            (if ref = [] then base
             else if hd ref \<noteq> CHR ''/'' then
               (case last_index base (CHR ''/'') of None \<Rightarrow> ref | Some i \<Rightarrow> take (i + 1) base @ ref)
             else ref)
      in if full = [] then []
         else
           (let elements = Split full (CHR ''/'');
                dst = resolve_elements elements True [];
                r = ''/'' @ dst @ (if last elements = ''.'' \<or> last elements = ''..'' then ''/'' else [])
            in if length r > 1 \<and> r ! 1 = CHR ''/'' then tl r else r))"

text \<open>
  \<open>ResolveReference\<close>; it drops the error of \<open>setPath\<close>, which then leaves the path as it was.
\<close>

definition with_path :: "string \<Rightarrow> URL \<Rightarrow> URL" where
  "with_path p u = (case set_path p u of None \<Rightarrow> u | Some u' \<Rightarrow> u')"

definition ResolveReference :: "URL \<Rightarrow> URL \<Rightarrow> URL" where
  "ResolveReference base ref =
     (let url = (if url_Scheme ref = [] then ref\<lparr>url_Scheme := url_Scheme base\<rparr> else ref) in
      if url_Scheme ref \<noteq> [] \<or> url_Host ref \<noteq> [] \<or> url_User ref \<noteq> None
      then with_path (resolvePath (EscapedPath ref) []) url
      else if url_Opaque ref \<noteq> [] then url\<lparr>url_User := None, url_Host := [], url_Path := []\<rparr>
      else
        (let url1 =
               (if url_Path ref = [] \<and> \<not> url_ForceQuery ref \<and> url_RawQuery ref = [] then
                  (if url_Fragment ref = []
                   then url\<lparr>url_RawQuery := url_RawQuery base, url_Fragment := url_Fragment base,
                          url_RawFragment := url_RawFragment base\<rparr>
                   else url\<lparr>url_RawQuery := url_RawQuery base\<rparr>)
                else url)
         in if url_Path ref = [] \<and> url_Opaque base \<noteq> []
            then url1\<lparr>url_Opaque := url_Opaque base, url_User := None, url_Host := [], url_Path := []\<rparr>
            else
              with_path (resolvePath (EscapedPath base) (EscapedPath ref))
                (url1\<lparr>url_Host := url_Host base, url_User := url_User base\<rparr>)))"

subsection \<open>Query strings\<close>

text \<open>
  \<open>url.Values\<close> as the list of its pairs; the values of a key keep their order, the order of
  different keys has no meaning. \<open>Query\<close> skips the pairs that \<open>ParseQuery\<close> reports as errors.
\<close>

type_synonym Values = "(string \<times> string) list"

fun parse_pair :: "string \<Rightarrow> Values" where
  "parse_pair part =
     (if CHR '';'' \<in> set part \<or> part = [] then []
      else
        (case Cut part (CHR ''='') of (key, v, _) \<Rightarrow>
           (case (unescape QueryPart key, unescape QueryPart v) of
              (Some k, Some x) \<Rightarrow> [(k, x)]
            | _ \<Rightarrow> [])))"

definition ParseQuery :: "string \<Rightarrow> Values" where
  "ParseQuery query = concat (map parse_pair (Split query (CHR ''&'')))"

definition Values_Set :: "string \<Rightarrow> string \<Rightarrow> Values \<Rightarrow> Values" where
  "Values_Set k v q = filter (\<lambda>p. fst p \<noteq> k) q @ [(k, v)]"

definition Values_Del :: "string \<Rightarrow> Values \<Rightarrow> Values" where
  "Values_Del k q = filter (\<lambda>p. fst p \<noteq> k) q"

definition encode_pair :: "string \<times> string \<Rightarrow> string" where
  "encode_pair p = escape QueryPart (fst p) @ ''='' @ escape QueryPart (snd p)"

definition Values_Encode :: "Values \<Rightarrow> string" where
  "Values_Encode q = Join (map encode_pair (sort_key fst q)) ''&''"

section \<open>Lemmas\<close>

lemma unescape_Nil_iff: "unescape m s = Some [] \<longleftrightarrow> s = []"
  by (cases s) (auto split: list.splits option.splits if_splits)

end
