(* ===== verification/World.thy ===== *)
theory World
  imports Model Config Url
begin

text \<open>
  The state a run of the service changes and the surroundings it runs in. \<open>world\<close> holds the
  four tables of the database and counts the calls that leave the process: SQL statements,
  clock reads, generated ids, outbound HTTP requests. \<open>env\<close> answers these calls: the outcome
  of the n-th statement, the n-th instant, the n-th id, the n-th HTTP exchange, and the functions
  of libraries that are not part of the repository. Nothing is assumed of an \<open>env\<close> unless a
  theorem names it as a hypothesis. \<open>Within\<close> is \<open>internal/database/transaction.go\<close>.
\<close>

section \<open>Definitions\<close>

record db =
  Templates :: "Template list"
  Providers :: "Provider list"
  Deliveries :: "Delivery list"
  Outbox :: "OutboxRow list"

record world =
  w_db :: db
  w_stmts :: nat
  w_ticks :: nat
  w_uuids :: nat
  w_calls :: nat
  w_limits :: nat

text \<open>
  The outcome of a statement, \<open>BEGIN\<close>, \<open>COMMIT\<close> or \<open>ROLLBACK\<close>. \<open>Lost\<close>: the
  database applied it and the client sees an error (a broken connection after the fact);
  \<open>NoCount\<close>: applied, but the driver cannot report the number of affected rows.
\<close>

datatype fault = NoFault | Fails string | Lost string | NoCount string

text \<open>The verdict of the application-access service on a tenant and an application.\<close>

datatype verdict = Granted | NotGranted | VerifyFailed string

text \<open>An outbound HTTP request as \<open>net/http\<close> sends it, and what comes back.\<close>

record http_request =
  hr_client :: string
  hr_method :: string
  hr_url :: URL
  hr_body :: string
  hr_headers :: "(string \<times> string) list"

record http_response =
  resp_StatusCode :: int
  resp_Body :: string

datatype http_outcome = Responded http_response | TransportError string

record rate_result =
  rr_allowed :: int
  rr_remaining :: int
  rr_retry_after :: duration

record env =
  Fault :: "nat \<Rightarrow> fault"
  Others :: "nat \<Rightarrow> db \<Rightarrow> db"
  Locked :: "nat \<Rightarrow> string \<Rightarrow> bool"
  Choose :: "nat \<Rightarrow> nat \<Rightarrow> nat"
  Clock :: "nat \<Rightarrow> time"
  NewUUID :: "nat \<Rightarrow> string"
  UnicodeLower :: "string \<Rightarrow> string"
  JsonMarshal :: "(string \<rightharpoonup> string) \<Rightarrow> string + string"
  JsonUnmarshal :: "string \<Rightarrow> string option \<times> (string \<rightharpoonup> string)"
  JsonMessageID :: "string \<Rightarrow> string + string"
  TemplateParse :: "string \<Rightarrow> string \<Rightarrow> string option"
  TemplateExecute :: "string \<Rightarrow> string \<Rightarrow> (string \<rightharpoonup> string) \<Rightarrow> string + string"
  EnvelopeError :: "Envelope \<Rightarrow> string option"
  Verify :: "string \<Rightarrow> string \<Rightarrow> verdict"
  RedisAllow :: "nat \<Rightarrow> string \<Rightarrow> RateLimitRule_cfg \<Rightarrow> string + rate_result"
  RequestError :: "http_request \<Rightarrow> string option"
  Exchange :: "nat \<Rightarrow> http_request \<Rightarrow> http_outcome"
  WaitCancelled :: "nat \<Rightarrow> string option"
  BreakerRejects :: "nat \<Rightarrow> string option"

text \<open>Reading the clock (\<open>now()\<close>) and drawing an id (\<open>uuid.NewString()\<close>).\<close>

definition read_clock :: "env \<Rightarrow> world \<Rightarrow> time \<times> world" where
  "read_clock env w = (Clock env (w_ticks w), w\<lparr>w_ticks := Suc (w_ticks w)\<rparr>)"

definition new_uuid :: "env \<Rightarrow> world \<Rightarrow> string \<times> world" where
  "new_uuid env w = (NewUUID env (w_uuids w), w\<lparr>w_uuids := Suc (w_uuids w)\<rparr>)"

text \<open>
  One statement. A query returns what the tables hold or fails; \<open>exec\<close> runs a statement that
  changes tables: the database itself may refuse it (a violated constraint, a value out of
  range), otherwise the number of affected rows is reported.
\<close>

definition tick_stmt :: "world \<Rightarrow> world" where
  "tick_stmt w = w\<lparr>w_stmts := Suc (w_stmts w)\<rparr>"

definition query :: "env \<Rightarrow> (db \<Rightarrow> 'a) \<Rightarrow> world \<Rightarrow> 'a result \<times> world" where
  "query env f w =
     (case Fault env (w_stmts w) of
        Fails m \<Rightarrow> (Inl (Errorf m), tick_stmt w)
      | Lost m \<Rightarrow> (Inl (Errorf m), tick_stmt w)
      | _ \<Rightarrow> (Inr (f (w_db w)), tick_stmt w))"

definition exec :: "env \<Rightarrow> (db \<Rightarrow> string + (nat \<times> db)) \<Rightarrow> world \<Rightarrow> (nat result) result \<times> world" where
  "exec env f w =
     (case Fault env (w_stmts w) of
        Fails m \<Rightarrow> (Inl (Errorf m), tick_stmt w)
      | out \<Rightarrow>
          (case f (w_db w) of
             Inl m \<Rightarrow> (Inl (Errorf m), tick_stmt w)
           | Inr (n, d) \<Rightarrow>
               (case out of
                  Lost m \<Rightarrow> (Inl (Errorf m), (tick_stmt w)\<lparr>w_db := d\<rparr>)
                | NoCount m \<Rightarrow> (Inr (Inl (Errorf m)), (tick_stmt w)\<lparr>w_db := d\<rparr>)
                | _ \<Rightarrow> (Inr (Inr n), (tick_stmt w)\<lparr>w_db := d\<rparr>))))"

text \<open>
  \<open>Transactor.Within\<close>. Between the reads of an operation and its transaction other sessions
  commit: \<open>Others\<close> is applied where the transaction begins. A failed body is rolled back to
  that state; a failed \<open>COMMIT\<close> has either not happened or (\<open>Lost\<close>) has.
\<close>

definition Within :: "env \<Rightarrow> bool \<Rightarrow> (world \<Rightarrow> 'a result \<times> world) \<Rightarrow> world \<Rightarrow> 'a result \<times> world" where
  "Within env db_enabled fn w =
     (if \<not> db_enabled then (Inl (Errorf ''begin transaction: database is disabled''), w)
      else
        (case Fault env (w_stmts w) of
           Fails m \<Rightarrow> (Inl (Errorf (''begin transaction: '' @ m)), tick_stmt w)
         | Lost m \<Rightarrow> (Inl (Errorf (''begin transaction: '' @ m)), tick_stmt w)
         | _ \<Rightarrow>
             (let w1 = (tick_stmt w)\<lparr>w_db := Others env (w_stmts w) (w_db w)\<rparr> in
              (case fn w1 of
                 (Inl e, w2) \<Rightarrow>
                   (let w3 = (tick_stmt w2)\<lparr>w_db := w_db w1\<rparr>;
                        wrapped = (\<lambda>m. Errorf (''rollback transaction after '' @ error_text e @ '': '' @ m))
                    in (case Fault env (w_stmts w2) of
                          Fails m \<Rightarrow> (Inl (wrapped m), w3)
                        | Lost m \<Rightarrow> (Inl (wrapped m), w3)
                        | _ \<Rightarrow> (Inl e, w3)))
               | (Inr x, w2) \<Rightarrow>
                   (case Fault env (w_stmts w2) of
                      Fails m \<Rightarrow>
                        (Inl (Errorf (''commit transaction: '' @ m)), (tick_stmt w2)\<lparr>w_db := w_db w1\<rparr>)
                    | Lost m \<Rightarrow> (Inl (Errorf (''commit transaction: '' @ m)), tick_stmt w2)
                    | _ \<Rightarrow> (Inr x, tick_stmt w2))))))"

text \<open>The instant at which a transaction sees the tables: after what other sessions committed.\<close>

definition begun :: "env \<Rightarrow> world \<Rightarrow> world" where
  "begun env w = (tick_stmt w)\<lparr>w_db := Others env (w_stmts w) (w_db w)\<rparr>"

section \<open>Lemmas\<close>

lemma read_clock_db [simp]: "w_db (snd (read_clock env w)) = w_db w"
  by (simp add: read_clock_def)

lemma new_uuid_db [simp]: "w_db (snd (new_uuid env w)) = w_db w"
  by (simp add: new_uuid_def)

lemma tick_stmt_simps [simp]:
  "w_db (tick_stmt w) = w_db w" "w_stmts (tick_stmt w) = Suc (w_stmts w)"
  "w_ticks (tick_stmt w) = w_ticks w" "w_uuids (tick_stmt w) = w_uuids w"
  "w_calls (tick_stmt w) = w_calls w" "w_limits (tick_stmt w) = w_limits w"
  by (simp_all add: tick_stmt_def)

lemma query_db: "query env f w = (r, w') \<Longrightarrow> w_db w' = w_db w"
  by (auto simp: query_def split: fault.splits)

lemma query_result: "query env f w = (Inr x, w') \<Longrightarrow> x = f (w_db w)"
  by (auto simp: query_def split: fault.splits)

lemma query_error: "query env f w = (Inl e, w') \<Longrightarrow> \<exists>m. e = Errorf m"
  by (auto simp: query_def split: fault.splits)

text \<open>What a statement that reports a count did.\<close>

lemma exec_Inr:
  "exec env f w = (Inr r, w') \<Longrightarrow> \<exists>n. f (w_db w) = Inr (n, w_db w') \<and> (\<forall>k. r = Inr k \<longrightarrow> k = n)"
  by (auto simp: exec_def split: fault.splits sum.splits prod.splits)

lemma exec_error: "exec env f w = (Inl e, w') \<Longrightarrow> \<exists>m. e = Errorf m"
  by (auto simp: exec_def split: fault.splits sum.splits prod.splits)

lemma exec_db:
  "exec env f w = (r, w') \<Longrightarrow> w_db w' = w_db w \<or> (\<exists>n. f (w_db w) = Inr (n, w_db w'))"
  by (auto simp: exec_def split: fault.splits sum.splits prod.splits)

text \<open>
  Atomicity of \<open>Within\<close>: success is the body's effect on the tables the transaction began
  with; after an error the tables are those it began with, or those of the body when only the
  answer to \<open>COMMIT\<close> was lost, or nothing happened at all.
\<close>

lemma Within_Inr:
  assumes "Within env en fn w = (Inr x, w')"
  shows "en \<and> (\<exists>w2. fn (begun env w) = (Inr x, w2) \<and> w_db w' = w_db w2)"
  using assms
  by (auto simp: Within_def begun_def Let_def split: if_splits fault.splits prod.splits sum.splits)

lemma Within_db:
  assumes "Within env en fn w = (r, w')"
  shows "w_db w' = w_db w \<or> (en \<and> w_db w' = w_db (begun env w)) \<or>
    (en \<and> (\<exists>x w2. fn (begun env w) = (Inr x, w2) \<and> w_db w' = w_db w2))"
  using assms
  by (auto simp: Within_def begun_def Let_def split: if_splits fault.splits prod.splits sum.splits)

lemma Within_error:
  assumes "Within env en fn w = (Inl e, w')"
  shows "(\<exists>m. e = Errorf m) \<or> (\<exists>w2. fn (begun env w) = (Inl e, w2))"
  using assms
  by (auto simp: Within_def begun_def Let_def split: if_splits fault.splits prod.splits sum.splits)

lemma Within_quiet:
  assumes "\<And>n. Fault env n = NoFault" and "fn (begun env w) = (Inr x, w2)"
  shows "Within env True fn w = (Inr x, tick_stmt w2)"
  using assms by (simp add: Within_def begun_def Let_def)

end
