(* ===== verification/Repository.thy ===== *)
theory Repository
  imports World
begin

text \<open>
  The SQL repository (\<open>internal/notification/repository.go\<close>): each method runs the statements
  of the source on the tables of \<open>World\<close>. A row is accepted by \<open>INSERT\<close> when it
  violates no primary key, unique or check constraint of the schema that the migrations create
  (PostgreSQL); rows of equal keys are read in an order the database chooses (\<open>Choose\<close>).
  The optimistic update that all three versioned tables share is \<open>cas_update\<close>, with its laws
  in the locale \<open>versioned_rows\<close>.
\<close>

section \<open>Definitions\<close>

subsection \<open>Statements\<close>

text \<open>
  \<open>UPDATE t SET f WHERE id=i AND version=expected\<close>: refused when an updated row would break
  a column constraint, otherwise the number of rows touched and the new table.
\<close>

definition at_version :: "('r \<Rightarrow> string) \<Rightarrow> ('r \<Rightarrow> int) \<Rightarrow> string \<Rightarrow> int \<Rightarrow> 'r \<Rightarrow> bool" where
  "at_version ident vers i expected r \<longleftrightarrow> ident r = i \<and> vers r = expected"

definition cas_update ::
  "('r \<Rightarrow> string) \<Rightarrow> ('r \<Rightarrow> int) \<Rightarrow> ('r \<Rightarrow> bool) \<Rightarrow> ('r \<Rightarrow> 'r) \<Rightarrow> string \<Rightarrow> int \<Rightarrow> 'r list
   \<Rightarrow> string + (nat \<times> 'r list)" where
  "cas_update ident vers ok f i expected rows =
     (if list_ex (\<lambda>r. at_version ident vers i expected r \<and> \<not> ok (f r)) rows
      then Inl ''value violates a column constraint''
      else Inr (count_where (at_version ident vers i expected) rows,
                update_where (at_version ident vers i expected) f rows))"

text \<open>\<open>SELECT ... WHERE\<close> into one struct: the first row the database returns.\<close>

definition select_one :: "env \<Rightarrow> (db \<Rightarrow> 'r list) \<Rightarrow> world \<Rightarrow> 'r result \<times> world" where
  "select_one env sel w =
     (case query env sel w of
        (Inl e, w') \<Rightarrow> (Inl e, w')
      | (Inr rows, w') \<Rightarrow>
          ((if rows = [] then Inl ErrNotFound
            else Inr (rows ! (Choose env (w_stmts w) (length rows) mod length rows))), w'))"

text \<open>\<open>SELECT count(*)\<close> and then the page \<open>LIMIT n OFFSET k\<close> of the ordered rows.\<close>

definition select_page ::
  "env \<Rightarrow> (db \<Rightarrow> 'r list) \<Rightarrow> ('r list \<Rightarrow> 'r list) \<Rightarrow> int \<Rightarrow> int \<Rightarrow> world \<Rightarrow> ('r list \<times> int) result \<times> world" where
  "select_page env sel order n k w =
     (case query env (\<lambda>d. int (length (sel d))) w of
        (Inl e, w1) \<Rightarrow> (Inl e, w1)
      | (Inr cnt, w1) \<Rightarrow>
          (case query env (\<lambda>d. limit_offset n k (order (sel d))) w1 of
             (Inl e, w2) \<Rightarrow> (Inl e, w2)
           | (Inr rows, w2) \<Rightarrow>
               ((if n < 0 \<or> k < 0 then Inl (Errorf ''LIMIT and OFFSET must not be negative'')
                 else Inr (rows, cnt)), w2)))"

definition contains_like :: "string \<Rightarrow> string \<Rightarrow> bool" where
  "contains_like keyword s \<longleftrightarrow> sql_like (''%'' @ keyword @ ''%'') s"

text \<open>The result of an update whose affected rows are checked to be one.\<close>

definition require_one :: "(nat result) result \<Rightarrow> unit result" where
  "require_one r =
     (case r of
        Inl e \<Rightarrow> Inl e
      | Inr (Inl e) \<Rightarrow> Inl e
      | Inr (Inr n) \<Rightarrow> if n \<noteq> 1 then Inl ErrStaleVersion else Inr ())"

subsection \<open>Providers\<close>

definition provider_row_ok :: "Provider \<Rightarrow> bool" where
  "provider_row_ok r \<longleftrightarrow>
     0 \<le> p_Priority r \<and> p_Priority r \<le> max_int32 \<and> is_int64 (p_Version r) \<and>
     (p_Status r = ''active'' \<or> p_Status r = ''disabled'')"

definition provider_key :: "Provider \<Rightarrow> string \<times> string \<times> string" where
  "provider_key r = (p_TenantID r, p_ApplicationID r, p_Code r)"

definition GetProvider :: "env \<Rightarrow> string \<Rightarrow> string \<Rightarrow> string \<Rightarrow> world \<Rightarrow> Provider result \<times> world" where
  "GetProvider env tenant application code w =
     select_one env
       (\<lambda>d. filter (\<lambda>r. p_TenantID r = tenant \<and> p_ApplicationID r = application \<and> p_Code r = code)
              (Providers d)) w"

definition ListProviders ::
  "env \<Rightarrow> string \<Rightarrow> string \<Rightarrow> string \<Rightarrow> string \<Rightarrow> string \<Rightarrow> int \<Rightarrow> int \<Rightarrow> world
   \<Rightarrow> (Provider list \<times> int) result \<times> world" where
  "ListProviders env tenant application keyword channel status limit offset w =
     select_page env
       (\<lambda>d. filter (\<lambda>r. p_TenantID r = tenant \<and> p_ApplicationID r = application \<and>
               (keyword = [] \<or> contains_like keyword (p_Code r) \<or> contains_like keyword (p_Upstream r)) \<and>
               (channel = [] \<or> p_Channel r = channel) \<and> (status = [] \<or> p_Status r = status))
              (Providers d))
       (sort_key (\<lambda>r. (p_Priority r, p_Code r))) limit offset w"

definition insert_provider :: "Provider \<Rightarrow> db \<Rightarrow> string + (nat \<times> db)" where
  "insert_provider v d =
     (if p_ID v \<in> p_ID ` set (Providers d) \<or> provider_key v \<in> provider_key ` set (Providers d) \<or>
         \<not> provider_row_ok v
      then Inl ''row violates a constraint''
      else Inr (1, d\<lparr>Providers := Providers d @ [v]\<rparr>))"

definition InsertProvider :: "env \<Rightarrow> Provider \<Rightarrow> world \<Rightarrow> unit result \<times> world" where
  "InsertProvider env v w =
     (case exec env (insert_provider v) w of
        (Inl e, w') \<Rightarrow> (Inl e, w')
      | (Inr _, w') \<Rightarrow> (Inr (), w'))"

definition set_provider :: "Provider \<Rightarrow> Provider \<Rightarrow> Provider" where
  "set_provider v r =
     r\<lparr>p_Channel := p_Channel v, p_Upstream := p_Upstream v, p_Path := p_Path v,
       p_Priority := p_Priority v, p_Status := p_Status v, p_Version := p_Version r + 1,
       p_UpdatedAt := p_UpdatedAt v, p_UpdatedBy := p_UpdatedBy v\<rparr>"

definition update_provider :: "Provider \<Rightarrow> int \<Rightarrow> db \<Rightarrow> string + (nat \<times> db)" where
  "update_provider v expected d =
     map_sum id (map_prod id (\<lambda>rows. d\<lparr>Providers := rows\<rparr>))
       (cas_update p_ID p_Version provider_row_ok (set_provider v) (p_ID v) expected (Providers d))"

definition UpdateProvider :: "env \<Rightarrow> Provider \<Rightarrow> int \<Rightarrow> world \<Rightarrow> unit result \<times> world" where
  "UpdateProvider env v expected w =
     (case exec env (update_provider v expected) w of (r, w') \<Rightarrow> (require_one r, w'))"

subsection \<open>Templates\<close>

definition template_row_ok :: "Template \<Rightarrow> bool" where
  "template_row_ok r \<longleftrightarrow> t_ApplicationID r \<noteq> [] \<and> is_int64 (t_Version r)"

definition template_key :: "Template \<Rightarrow> string \<times> string \<times> string \<times> string \<times> string" where
  "template_key r = (t_TenantID r, t_ApplicationID r, t_Code r, t_Channel r, t_Locale r)"

definition GetTemplate ::
  "env \<Rightarrow> string \<Rightarrow> string \<Rightarrow> string \<Rightarrow> string \<Rightarrow> string \<Rightarrow> world \<Rightarrow> Template result \<times> world" where
  "GetTemplate env tenant application code channel locale w =
     select_one env
       (\<lambda>d. filter (\<lambda>r. t_TenantID r = tenant \<and> t_ApplicationID r = application \<and> t_Code r = code \<and>
               t_Channel r = channel \<and> t_Locale r = locale) (Templates d)) w"

definition ListTemplates ::
  "env \<Rightarrow> string \<Rightarrow> string \<Rightarrow> string \<Rightarrow> string \<Rightarrow> string \<Rightarrow> int \<Rightarrow> int \<Rightarrow> world
   \<Rightarrow> (Template list \<times> int) result \<times> world" where
  "ListTemplates env tenant application keyword channel status limit offset w =
     select_page env
       (\<lambda>d. filter (\<lambda>r. t_TenantID r = tenant \<and> t_ApplicationID r = application \<and>
               (keyword = [] \<or> contains_like keyword (t_Code r) \<or> contains_like keyword (t_Subject r)) \<and>
               (channel = [] \<or> t_Channel r = channel) \<and> (status = [] \<or> t_Status r = status))
              (Templates d))
       (\<lambda>rows. rev (sort_key (\<lambda>r. (t_UpdatedAt r, t_ID r)) rows)) limit offset w"

definition insert_template :: "Template \<Rightarrow> db \<Rightarrow> string + (nat \<times> db)" where
  "insert_template v d =
     (if t_ID v \<in> t_ID ` set (Templates d) \<or> template_key v \<in> template_key ` set (Templates d) \<or>
         \<not> template_row_ok v
      then Inl ''row violates a constraint''
      else Inr (1, d\<lparr>Templates := Templates d @ [v]\<rparr>))"

definition InsertTemplate :: "env \<Rightarrow> Template \<Rightarrow> world \<Rightarrow> unit result \<times> world" where
  "InsertTemplate env v w =
     (case exec env (insert_template v) w of
        (Inl e, w') \<Rightarrow> (Inl e, w')
      | (Inr _, w') \<Rightarrow> (Inr (), w'))"

definition set_template :: "Template \<Rightarrow> Template \<Rightarrow> Template" where
  "set_template v r =
     r\<lparr>t_Subject := t_Subject v, t_Content := t_Content v, t_Status := t_Status v,
       t_Version := t_Version r + 1, t_UpdatedAt := t_UpdatedAt v, t_UpdatedBy := t_UpdatedBy v\<rparr>"

definition update_template :: "Template \<Rightarrow> int \<Rightarrow> db \<Rightarrow> string + (nat \<times> db)" where
  "update_template v expected d =
     map_sum id (map_prod id (\<lambda>rows. d\<lparr>Templates := rows\<rparr>))
       (cas_update t_ID t_Version template_row_ok (set_template v) (t_ID v) expected (Templates d))"

text \<open>Here the source checks for zero affected rows instead of one.\<close>

definition UpdateTemplate :: "env \<Rightarrow> Template \<Rightarrow> int \<Rightarrow> world \<Rightarrow> unit result \<times> world" where
  "UpdateTemplate env v expected w =
     (case exec env (update_template v expected) w of
        (Inl e, w') \<Rightarrow> (Inl e, w')
      | (Inr (Inl e), w') \<Rightarrow> (Inl e, w')
      | (Inr (Inr n), w') \<Rightarrow> ((if n = 0 then Inl ErrStaleVersion else Inr ()), w'))"

subsection \<open>Deliveries\<close>

definition delivery_row_ok :: "Delivery \<Rightarrow> bool" where
  "delivery_row_ok r \<longleftrightarrow>
     d_ApplicationID r \<noteq> [] \<and> is_int64 (d_Version r) \<and> is_int32 (d_Attempts r)"

definition delivery_key :: "Delivery \<Rightarrow> string \<times> string \<times> string" where
  "delivery_key r = (d_TenantID r, d_ApplicationID r, d_IdempotencyKey r)"

definition GetDelivery :: "env \<Rightarrow> string \<Rightarrow> string \<Rightarrow> string \<Rightarrow> world \<Rightarrow> Delivery result \<times> world" where
  "GetDelivery env i tenant application w =
     select_one env
       (\<lambda>d. filter (\<lambda>r. d_ID r = i \<and> d_TenantID r = tenant \<and> d_ApplicationID r = application)
              (Deliveries d)) w"

definition GetDeliveryByKey :: "env \<Rightarrow> string \<Rightarrow> string \<Rightarrow> string \<Rightarrow> world \<Rightarrow> Delivery result \<times> world" where
  "GetDeliveryByKey env tenant application key w =
     select_one env
       (\<lambda>d. filter (\<lambda>r. d_TenantID r = tenant \<and> d_ApplicationID r = application \<and>
               d_IdempotencyKey r = key) (Deliveries d)) w"

definition GetDeliveryByProviderMessage ::
  "env \<Rightarrow> string \<Rightarrow> string \<Rightarrow> string \<Rightarrow> string \<Rightarrow> world \<Rightarrow> Delivery result \<times> world" where
  "GetDeliveryByProviderMessage env tenant application provider messageID w =
     select_one env
       (\<lambda>d. filter (\<lambda>r. d_TenantID r = tenant \<and> d_ApplicationID r = application \<and>
               d_Provider r = provider \<and> d_ProviderMessageID r = messageID) (Deliveries d)) w"

definition insert_delivery :: "Delivery \<Rightarrow> db \<Rightarrow> string + (nat \<times> db)" where
  "insert_delivery v d =
     (if d_ID v \<in> d_ID ` set (Deliveries d) \<or> delivery_key v \<in> delivery_key ` set (Deliveries d) \<or>
         \<not> delivery_row_ok v
      then Inl ''row violates a constraint''
      else Inr (1, d\<lparr>Deliveries := Deliveries d @ [v]\<rparr>))"

definition InsertDelivery :: "env \<Rightarrow> Delivery \<Rightarrow> world \<Rightarrow> unit result \<times> world" where
  "InsertDelivery env v w =
     (case exec env (insert_delivery v) w of
        (Inl e, w') \<Rightarrow> (Inl e, w')
      | (Inr _, w') \<Rightarrow> (Inr (), w'))"

definition ListDeliveries ::
  "env \<Rightarrow> string \<Rightarrow> string \<Rightarrow> string \<Rightarrow> int \<Rightarrow> int \<Rightarrow> world \<Rightarrow> (Delivery list \<times> int) result \<times> world" where
  "ListDeliveries env tenant application status limit offset w =
     select_page env
       (\<lambda>d. filter (\<lambda>r. d_TenantID r = tenant \<and> d_ApplicationID r = application \<and>
               (status = [] \<or> d_Status r = status)) (Deliveries d))
       (\<lambda>rows. rev (sort_key (\<lambda>r. (d_CreatedAt r, d_ID r)) rows)) limit offset w"

definition claimable :: "time \<Rightarrow> Delivery \<Rightarrow> bool" where
  "claimable now r \<longleftrightarrow>
     (d_Status r = ''pending'' \<or> d_Status r = ''retrying'') \<and> d_NextAttemptAt r \<le> now"

definition set_claimed :: "time \<Rightarrow> Delivery \<Rightarrow> Delivery" where
  "set_claimed now r =
     r\<lparr>d_Status := ''processing'', d_Attempts := d_Attempts r + 1, d_Version := d_Version r + 1,
       d_UpdatedAt := now\<rparr>"

definition update_claimed :: "time \<Rightarrow> Delivery \<Rightarrow> db \<Rightarrow> string + (nat \<times> db)" where
  "update_claimed now v d =
     map_sum id (map_prod id (\<lambda>rows. d\<lparr>Deliveries := rows\<rparr>))
       (cas_update d_ID d_Version delivery_row_ok (set_claimed now) (d_ID v) (d_Version v) (Deliveries d))"

text \<open>The Go value after its row was claimed; \<open>Attempts++\<close> and \<open>Version++\<close> wrap.\<close>

definition claimed_value :: "time \<Rightarrow> Delivery \<Rightarrow> Delivery" where
  "claimed_value now v =
     v\<lparr>d_Status := ''processing'', d_Attempts := wrap32 (d_Attempts v + 1),
       d_Version := wrap64 (d_Version v + 1), d_UpdatedAt := now\<rparr>"

fun claim_loop :: "env \<Rightarrow> time \<Rightarrow> Delivery list \<Rightarrow> world \<Rightarrow> (Delivery list) result \<times> world" where
  "claim_loop env now [] w = (Inr [], w)"
| "claim_loop env now (v # vs) w =
     (case exec env (update_claimed now v) w of
        (Inl e, w1) \<Rightarrow> (Inl e, w1)
      | (Inr (Inl _), w1) \<Rightarrow> (Inl ErrStaleVersion, w1)
      | (Inr (Inr n), w1) \<Rightarrow>
          (if n \<noteq> 1 then (Inl ErrStaleVersion, w1)
           else (case claim_loop env now vs w1 of
                   (Inl e, w2) \<Rightarrow> (Inl e, w2)
                 | (Inr rest, w2) \<Rightarrow> (Inr (claimed_value now v # rest), w2))))"

definition due_rows :: "env \<Rightarrow> nat \<Rightarrow> time \<Rightarrow> int \<Rightarrow> db \<Rightarrow> Delivery list" where
  "due_rows env n now limit d =
     limit_offset limit 0
       (sort_key (\<lambda>r. (d_NextAttemptAt r, d_ID r))
         (filter (\<lambda>r. claimable now r \<and> \<not> Locked env n (d_ID r)) (Deliveries d)))"

definition ClaimDue :: "env \<Rightarrow> time \<Rightarrow> int \<Rightarrow> world \<Rightarrow> (Delivery list) result \<times> world" where
  "ClaimDue env now limit w =
     (case query env (due_rows env (w_stmts w) now limit) w of
        (Inl e, w1) \<Rightarrow> (Inl e, w1)
      | (Inr values, w1) \<Rightarrow>
          (if limit < 0 then (Inl (Errorf ''LIMIT must not be negative''), w1)
           else claim_loop env now values w1))"

definition set_finished :: "Delivery \<Rightarrow> Delivery \<Rightarrow> Delivery" where
  "set_finished v r =
     r\<lparr>d_Status := d_Status v, d_Provider := d_Provider v,
       d_ProviderMessageID := d_ProviderMessageID v, d_FailureReason := d_FailureReason v,
       d_NextAttemptAt := d_NextAttemptAt v, d_Version := d_Version r + 1,
       d_UpdatedAt := d_UpdatedAt v, d_UpdatedBy := d_UpdatedBy v\<rparr>"

definition finish_delivery :: "Delivery \<Rightarrow> int \<Rightarrow> db \<Rightarrow> string + (nat \<times> db)" where
  "finish_delivery v expected d =
     map_sum id (map_prod id (\<lambda>rows. d\<lparr>Deliveries := rows\<rparr>))
       (cas_update d_ID d_Version delivery_row_ok (set_finished v) (d_ID v) expected (Deliveries d))"

definition Finish :: "env \<Rightarrow> Delivery \<Rightarrow> int \<Rightarrow> world \<Rightarrow> unit result \<times> world" where
  "Finish env v expected w =
     (case exec env (finish_delivery v expected) w of (r, w') \<Rightarrow> (require_one r, w'))"

definition expired :: "time \<Rightarrow> Delivery \<Rightarrow> bool" where
  "expired before r \<longleftrightarrow> (d_Status r = ''sent'' \<or> d_Status r = ''dead_letter'') \<and> d_UpdatedAt r < before"

definition expired_ids :: "time \<Rightarrow> int \<Rightarrow> db \<Rightarrow> string list" where
  "expired_ids before limit d =
     limit_offset limit 0
       (map d_ID (sort_key (\<lambda>r. (d_UpdatedAt r, d_ID r)) (filter (expired before) (Deliveries d))))"

definition delete_expired :: "string list \<Rightarrow> time \<Rightarrow> db \<Rightarrow> string + (nat \<times> db)" where
  "delete_expired ids before d =
     Inr (count_where (\<lambda>r. d_ID r \<in> set ids \<and> expired before r) (Deliveries d),
          d\<lparr>Deliveries := delete_where (\<lambda>r. d_ID r \<in> set ids \<and> expired before r) (Deliveries d)\<rparr>)"

text \<open>The two statements run outside a transaction: other sessions may commit in between.\<close>

definition DeleteTerminalDeliveriesBefore :: "env \<Rightarrow> time \<Rightarrow> int \<Rightarrow> world \<Rightarrow> int result \<times> world" where
  "DeleteTerminalDeliveriesBefore env before limit w =
     (case query env (expired_ids before limit) w of
        (Inl e, w1) \<Rightarrow> (Inl e, w1)
      | (Inr ids, w1) \<Rightarrow>
          (if limit < 0 then (Inl (Errorf ''LIMIT must not be negative''), w1)
           else if ids = [] then (Inr 0, w1)
           else
             (case exec env (delete_expired ids before)
                     (w1\<lparr>w_db := Others env (w_stmts w1) (w_db w1)\<rparr>) of
                (Inl e, w2) \<Rightarrow> (Inl e, w2)
              | (Inr (Inl e), w2) \<Rightarrow> (Inl e, w2)
              | (Inr (Inr n), w2) \<Rightarrow> (Inr (int n), w2))))"

subsection \<open>Outbox\<close>

definition outbox_row :: "OutboxEvent \<Rightarrow> OutboxRow" where
  "outbox_row event =
     \<lparr>ob_event = event, ob_attempts = 0, ob_published_at = None, ob_last_error = [], ob_version = 1\<rparr>"

definition insert_outbox :: "OutboxEvent \<Rightarrow> db \<Rightarrow> string + (nat \<times> db)" where
  "insert_outbox event d =
     (if oe_ID event \<in> (\<lambda>r. oe_ID (ob_event r)) ` set (Outbox d)
      then Inl ''row violates a constraint''
      else Inr (1, d\<lparr>Outbox := Outbox d @ [outbox_row event]\<rparr>))"

definition AddOutbox :: "env \<Rightarrow> OutboxEvent \<Rightarrow> world \<Rightarrow> unit result \<times> world" where
  "AddOutbox env event w =
     (case exec env (insert_outbox event) w of
        (Inl e, w') \<Rightarrow> (Inl e, w')
      | (Inr _, w') \<Rightarrow> (Inr (), w'))"

subsection \<open>The schema\<close>

text \<open>What the keys and checks of the schema guarantee of the tables at any time.\<close>

definition schema_ok :: "db \<Rightarrow> bool" where
  "schema_ok d \<longleftrightarrow>
     unique_by p_ID (Providers d) \<and> unique_by provider_key (Providers d) \<and>
     list_all provider_row_ok (Providers d) \<and>
     unique_by t_ID (Templates d) \<and> unique_by template_key (Templates d) \<and>
     list_all template_row_ok (Templates d) \<and>
     unique_by d_ID (Deliveries d) \<and> unique_by delivery_key (Deliveries d) \<and>
     list_all delivery_row_ok (Deliveries d) \<and>
     unique_by (\<lambda>r. oe_ID (ob_event r)) (Outbox d)"

section \<open>Lemmas\<close>

subsection \<open>Optimistic updates\<close>

text \<open>
  The contract of a versioned table: a change keeps the row's identity and increments its
  version. Under it the update of the repository touches at most the one row it names, and of
  two updates that expect the same version only the first finds its row.
\<close>

locale versioned_rows =
  fixes ident :: "'r \<Rightarrow> string" and vers :: "'r \<Rightarrow> int" and ok :: "'r \<Rightarrow> bool"
    and change :: "'v \<Rightarrow> 'r \<Rightarrow> 'r"
  assumes change_ident: "ident (change v r) = ident r"
    and change_vers: "vers (change v r) = vers r + 1"
begin

lemma cas_rows:
  "cas_update ident vers ok (change v) i x rows = Inr (n, rows') \<Longrightarrow>
   n = count_where (at_version ident vers i x) rows \<and>
   rows' = update_where (at_version ident vers i x) (change v) rows \<and>
   (\<forall>r \<in> set rows. at_version ident vers i x r \<longrightarrow> ok (change v r))"
  by (auto simp: cas_update_def list_ex_iff split: if_splits)

lemma cas_unique:
  "cas_update ident vers ok (change v) i x rows = Inr (n, rows') \<Longrightarrow>
   unique_by ident rows' = unique_by ident rows"
  by (auto dest!: cas_rows simp: change_ident unique_by_update_where)

lemma cas_ok:
  "cas_update ident vers ok (change v) i x rows = Inr (n, rows') \<Longrightarrow> list_all ok rows \<Longrightarrow>
   list_all ok rows'"
  by (auto dest!: cas_rows simp: list_all_iff set_update_where)

lemma cas_one:
  assumes "cas_update ident vers ok (change v) i x rows = Inr (1, rows')"
  shows "\<exists>r \<in> set rows. ident r = i \<and> vers r = x"
proof -
  from assms have "count_where (at_version ident vers i x) rows \<noteq> 0"
    by (metis cas_rows one_neq_zero)
  then show ?thesis by (auto simp: count_where_eq_0 at_version_def)
qed

lemma cas_count:
  assumes "cas_update ident vers ok (change v) i x rows = Inr (n, rows')"
    and "unique_by ident rows" and "r \<in> set rows" and "ident r = i" and "vers r = x"
  shows "n = 1"
proof -
  have "count_where (at_version ident vers i x) rows = 1"
    by (rule count_where_key [of ident rows r]) (use assms in \<open>auto simp: at_version_def\<close>)
  with assms(1) show ?thesis by (auto dest!: cas_rows)
qed

lemma cas_stale:
  assumes "\<And>r. r \<in> set rows \<Longrightarrow> ident r = i \<Longrightarrow> vers r \<noteq> x"
  shows "cas_update ident vers ok (change v) i x rows = Inr (0, rows)"
proof -
  from assms have none: "\<And>r. r \<in> set rows \<Longrightarrow> \<not> at_version ident vers i x r"
    by (auto simp: at_version_def)
  then have "count_where (at_version ident vers i x) rows = 0"
    by (simp add: count_where_eq_0)
  moreover from none have "\<not> list_ex (\<lambda>r. at_version ident vers i x r \<and> \<not> ok (change v r)) rows"
    by (auto simp: list_ex_iff)
  ultimately show ?thesis using none by (simp add: cas_update_def update_where_none)
qed

lemma cas_sole:
  assumes "unique_by ident rows" and "q \<in> set rows" and "ident q = i" and "vers q = x" and "ok (change v q)"
  shows "cas_update ident vers ok (change v) i x rows = Inr (1, map (\<lambda>r. if r = q then change v q else r) rows)"
proof -
  have at: "at_version ident vers i x r \<longleftrightarrow> r = q" if "r \<in> set rows" for r
    using unique_byD [OF assms(1) that assms(2)] assms(3,4) by (auto simp: at_version_def)
  have "count_where (at_version ident vers i x) rows = 1"
    by (rule count_where_key [OF assms(1,2)]) (use assms(3,4) in \<open>auto simp: at_version_def\<close>)
  moreover have "update_where (at_version ident vers i x) (change v) rows = map (\<lambda>r. if r = q then change v q else r) rows"
    unfolding update_where_def by (rule map_cong) (auto simp: at)
  moreover have "\<not> list_ex (\<lambda>r. at_version ident vers i x r \<and> \<not> ok (change v r)) rows"
    using at assms(5) by (auto simp: list_ex_iff)
  ultimately show ?thesis by (simp add: cas_update_def)
qed

text \<open>No lost update: the second of two updates with the same expected version changes nothing.\<close>

lemma cas_second_stale:
  assumes "cas_update ident vers ok (change v) i x rows = Inr (1, rows')"
    and "unique_by ident rows"
  shows "cas_update ident vers ok (change u) i x rows' = Inr (0, rows')"
proof (rule cas_stale)
  fix r' assume r': "r' \<in> set rows'" "ident r' = i"
  obtain r where r: "r \<in> set rows" "ident r = i" "vers r = x"
    using cas_one [OF assms(1)] by blast
  from r' assms(1) obtain r0 where r0: "r0 \<in> set rows"
    "r' = (if at_version ident vers i x r0 then change v r0 else r0)"
    by (auto dest!: cas_rows simp: set_update_where)
  with r' change_ident have "ident r0 = i" by (auto split: if_splits)
  with r r0 assms(2) have "r0 = r" by (auto dest: unique_byD)
  with r r0 show "vers r' \<noteq> x" by (simp add: at_version_def change_vers)
qed

end

interpretation providers: versioned_rows p_ID p_Version provider_row_ok set_provider
  by unfold_locales (simp_all add: set_provider_def)

interpretation templates: versioned_rows t_ID t_Version template_row_ok set_template
  by unfold_locales (simp_all add: set_template_def)

interpretation finishes: versioned_rows d_ID d_Version delivery_row_ok set_finished
  by unfold_locales (simp_all add: set_finished_def)

interpretation claims: versioned_rows d_ID d_Version delivery_row_ok set_claimed
  by unfold_locales (simp_all add: set_claimed_def)

subsection \<open>Selecting\<close>

lemma select_one_db: "select_one env sel w = (r, w') \<Longrightarrow> w_db w' = w_db w"
  by (auto simp: select_one_def split: prod.splits sum.splits dest: query_db)

lemma select_one_Inr:
  assumes "select_one env sel w = (Inr x, w')"
  shows "x \<in> set (sel (w_db w))"
  using assms
  by (auto simp: select_one_def split: prod.splits sum.splits if_splits dest!: query_result)

lemma select_one_NotFound:
  assumes "select_one env sel w = (Inl ErrNotFound, w')"
  shows "sel (w_db w) = []"
  using assms
  by (auto simp: select_one_def split: prod.splits sum.splits if_splits
        dest: query_result query_error)

lemma select_one_error:
  "select_one env sel w = (Inl e, w') \<Longrightarrow> e = ErrNotFound \<or> (\<exists>m. e = Errorf m)"
  by (auto simp: select_one_def split: prod.splits sum.splits if_splits dest: query_error)

lemma select_one_unique:
  assumes "Fault env (w_stmts w) = NoFault" and "sel (w_db w) = [x]"
  shows "select_one env sel w = (Inr x, tick_stmt w)"
  using assms by (simp add: select_one_def query_def)

lemma select_page_db: "select_page env sel order n k w = (r, w') \<Longrightarrow> w_db w' = w_db w"
  by (auto simp: select_page_def split: prod.splits sum.splits dest!: query_db)

lemma select_page_Inr:
  assumes "select_page env sel order n k w = (Inr (rows, total'), w')"
    and "\<And>xs. set (order xs) = set xs"
  shows "set rows \<subseteq> set (sel (w_db w)) \<and> total' = int (length (sel (w_db w))) \<and>
    0 \<le> n \<and> int (length rows) \<le> n"
proof -
  from assms(1) obtain w1 where "query env (\<lambda>d. int (length (sel d))) w = (Inr total', w1)"
    and "query env (\<lambda>d. limit_offset n k (order (sel d))) w1 = (Inr rows, w')" and "0 \<le> n"
    by (auto simp: select_page_def split: prod.splits sum.splits if_splits)
  then have "rows = limit_offset n k (order (sel (w_db w)))" "0 \<le> n"
    "total' = int (length (sel (w_db w)))"
    using query_db query_result by metis+
  then show ?thesis
    using set_limit_offset [of n k "order (sel (w_db w))"] assms(2)
    by (auto simp: length_limit_offset)
qed

end
