(* ===== verification/Ratelimit.thy ===== *)
theory Ratelimit
  imports World
begin

text \<open>
  The rate limiter (\<open>internal/ratelimit/limiter.go\<close>) in front of the Redis backend. The
  backend's answer to the n-th check is \<open>RedisAllow\<close> of the surroundings.
\<close>

section \<open>Definitions\<close>

record LimitResult =
  lr_Allowed :: bool
  lr_Limit :: int
  lr_Remaining :: int
  lr_RetryAfter :: duration

record Limiter =
  lim_enabled :: bool
  lim_failOpen :: bool
  lim_backend :: bool

definition NewLimiter :: "bool \<Rightarrow> Config \<Rightarrow> Limiter" where
  "NewLimiter redis_client cfg =
     \<lparr>lim_enabled = RateLimit_Enabled (c_RateLimit cfg), lim_failOpen = RateLimit_FailOpen (c_RateLimit cfg),
      lim_backend = redis_client\<rparr>"

definition Allow ::
  "env \<Rightarrow> Limiter \<Rightarrow> string \<Rightarrow> RateLimitRule_cfg \<Rightarrow> world \<Rightarrow> LimitResult result \<times> world" where
  "Allow env l key rule w =
     (if \<not> lim_enabled l then
        (Inr \<lparr>lr_Allowed = True, lr_Limit = 0, lr_Remaining = 0, lr_RetryAfter = 0\<rparr>, w)
      else if \<not> lim_backend l then (Inl (Errorf ''redis rate limiter is unavailable''), w)
      else
        (let w' = w\<lparr>w_limits := Suc (w_limits w)\<rparr> in
         (case RedisAllow env (w_limits w) key rule of
            Inl m \<Rightarrow> (Inl (Errorf (''check redis rate limit: '' @ m)), w')
          | Inr r \<Rightarrow>
              (Inr \<lparr>lr_Allowed = (0 < rr_allowed r), lr_Limit = RateLimitRule_Burst rule,
                 lr_Remaining = rr_remaining r, lr_RetryAfter = rr_retry_after r\<rparr>, w'))))"

section \<open>Lemmas\<close>

lemma Allow_db: "Allow env l key rule w = (r, w') \<Longrightarrow> w_db w' = w_db w"
  by (auto simp: Allow_def Let_def split: if_splits sum.splits)

lemma Allow_disabled: "\<not> lim_enabled l \<Longrightarrow> \<exists>r. Allow env l key rule w = (Inr r, w) \<and> lr_Allowed r"
  by (simp add: Allow_def)

end
