(* ===== verification/Service.thy ===== *)
theory Service
  imports Repository Ratelimit Url
begin

text \<open>
  The notification service (\<open>internal/notification/service.go\<close>): provider routes, templates,
  sending, receipts and queries. Every operation takes the surroundings, the service, the request
  context and its arguments, and returns the result with the world it leaves. Where the source
  returns a value beside an error, no caller looks at the value; the result is the error.
  \<open>authorize\<close> is the sequence \<open>FromContext\<close>, \<open>enforceTenant\<close>,
  \<open>verifyApplication\<close> that every operation performs.
\<close>

section \<open>Definitions\<close>

record Service =
  svc_db_enabled :: bool
  svc_limiter :: "Limiter option"
  svc_config :: Notification_cfg
  svc_outboundHTTP :: "(string \<times> HTTPUpstream_cfg) list"

definition NewRuntimeService :: "bool \<Rightarrow> Limiter option \<Rightarrow> Config \<Rightarrow> Service" where
  "NewRuntimeService db_enabled limiter cfg =
     \<lparr>svc_db_enabled = db_enabled, svc_limiter = limiter, svc_config = c_Notification cfg,
      svc_outboundHTTP = Outbound_HTTP (c_Outbound cfg)\<rparr>"

subsection \<open>Helpers\<close>

abbreviation lowered :: "env \<Rightarrow> string \<Rightarrow> string" where
  "lowered env s \<equiv> ToLower (UnicodeLower env) (TrimSpace s)"

definition translate :: "go_error \<Rightarrow> go_error" where
  "translate err =
     (if errors_is err ErrNotFound then NotFound ''notification resource not found''
      else if errors_is err ErrStaleVersion then StaleVersion (Some err)
      else Internal (Some err))"

definition translate_result :: "'a result \<Rightarrow> 'a result" where
  "translate_result r = (case r of Inl e \<Rightarrow> Inl (translate e) | Inr x \<Rightarrow> Inr x)"

definition enforceTenant :: "Principal \<Rightarrow> string \<Rightarrow> go_error option" where
  "enforceTenant caller requestedTenantID =
     (if pr_Type caller = TypeUser \<and>
         (TrimSpace (pr_TenantID caller) = [] \<or> pr_TenantID caller \<noteq> TrimSpace requestedTenantID)
      then Some (Forbidden ''tenant access denied'') else None)"

definition verifyApplication :: "env \<Rightarrow> string \<Rightarrow> string \<Rightarrow> go_error option" where
  "verifyApplication env tenantID applicationID =
     (let tenantID = TrimSpace tenantID; applicationID = TrimSpace applicationID in
      if tenantID = [] \<or> applicationID = []
      then Some (Invalid ''tenant_id and application_id are required'' None)
      else
        (case Verify env tenantID applicationID of
           Granted \<Rightarrow> None
         | NotGranted \<Rightarrow> Some (Forbidden ''application access denied'')
         | VerifyFailed m \<Rightarrow>
             Some (Unavailable ''application access verification unavailable'' (Some (Errorf m)))))"

definition authorize :: "env \<Rightarrow> Context \<Rightarrow> string \<Rightarrow> string \<Rightarrow> Principal result" where
  "authorize env ctx tenant application =
     (case ctx_Principal ctx of
        None \<Rightarrow> Inl (Unauthorized ''authenticated actor is required'')
      | Some caller \<Rightarrow>
          (case enforceTenant caller tenant of
             Some e \<Rightarrow> Inl e
           | None \<Rightarrow>
               (case verifyApplication env tenant application of
                  Some e \<Rightarrow> Inl e
                | None \<Rightarrow> Inr caller)))"

definition validProviderPath :: "string \<Rightarrow> bool" where
  "validProviderPath value =
     (case url_Parse value of
        None \<Rightarrow> False
      | Some parsed \<Rightarrow>
          HasPrefix (url_Path parsed) ''/'' \<and> \<not> HasPrefix (url_Path parsed) ''//'' \<and>
          url_Scheme parsed = [] \<and> url_Host parsed = [] \<and> url_User parsed = None \<and>
          url_Fragment parsed = [])"

definition providerUpstreamAllowed :: "string list \<Rightarrow> string \<Rightarrow> bool" where
  "providerUpstreamAllowed allowed upstream \<longleftrightarrow> list_ex (\<lambda>value. TrimSpace value = upstream) allowed"

definition toProtoDelivery :: "env \<Rightarrow> Delivery \<Rightarrow> ProtoDelivery" where
  "toProtoDelivery env v =
     \<lparr>pd_Id = d_ID v, pd_TenantId = d_TenantID v, pd_ApplicationId = d_ApplicationID v,
      pd_TemplateCode = d_TemplateCode v, pd_Channel = d_Channel v, pd_Recipient = d_Recipient v,
      pd_Variables = snd (JsonUnmarshal env (d_Variables v)), pd_Status = d_Status v,
      pd_Provider = d_Provider v, pd_ProviderMessageId = d_ProviderMessageID v,
      pd_FailureReason = d_FailureReason v, pd_Attempts = d_Attempts v,
      pd_NextAttemptAt = d_NextAttemptAt v, pd_Version = d_Version v, pd_CreatedAt = d_CreatedAt v,
      pd_UpdatedAt = d_UpdatedAt v, pd_CreatedBy = d_CreatedBy v, pd_UpdatedBy = d_UpdatedBy v\<rparr>"

definition delivery_envelope :: "env \<Rightarrow> string \<Rightarrow> Delivery \<Rightarrow> string \<Rightarrow> Envelope" where
  "delivery_envelope env event_id delivery eventType =
     \<lparr>ev_EventID = event_id, ev_EventType = eventType, ev_AggregateID = d_ID delivery,
      ev_AggregateType = ''notification_delivery'', ev_TenantID = d_TenantID delivery,
      ev_ApplicationID = d_ApplicationID delivery, ev_SchemaVersion = 1,
      ev_ActorID = d_UpdatedBy delivery, ev_OccurredAt = d_UpdatedAt delivery,
      ev_Message =
        (if ContainsStr eventType ''StatusChanged''
         then NotificationStatusChangedEvent (toProtoDelivery env delivery)
         else NotificationRequestedEvent (toProtoDelivery env delivery))\<rparr>"

definition delivery_event :: "env \<Rightarrow> string \<Rightarrow> Delivery \<Rightarrow> string \<Rightarrow> string \<Rightarrow> OutboxEvent" where
  "delivery_event env event_id delivery eventType subject =
     \<lparr>oe_ID = event_id, oe_Subject = subject,
      oe_Envelope = delivery_envelope env event_id delivery eventType,
      oe_AvailableAt = d_UpdatedAt delivery, oe_CreatedAt = d_UpdatedAt delivery,
      oe_UpdatedAt = d_UpdatedAt delivery, oe_CreatedBy = d_UpdatedBy delivery,
      oe_UpdatedBy = d_UpdatedBy delivery\<rparr>"

text \<open>\<open>EnvelopeError\<close> is an error of \<open>eventbus.NewEnvelope\<close> or \<open>proto.Marshal\<close>.\<close>

definition addDeliveryEvent ::
  "env \<Rightarrow> Delivery \<Rightarrow> string \<Rightarrow> string \<Rightarrow> world \<Rightarrow> unit result \<times> world" where
  "addDeliveryEvent env delivery eventType subject w =
     (case new_uuid env w of (event_id, w1) \<Rightarrow>
        (case EnvelopeError env (delivery_envelope env event_id delivery eventType) of
           Some m \<Rightarrow> (Inl (Errorf m), w1)
         | None \<Rightarrow> AddOutbox env (delivery_event env event_id delivery eventType subject) w1))"

abbreviation requested_type :: string where
  "requested_type \<equiv> ''platform.notification.v1.NotificationRequested''"
abbreviation requested_subject :: string where
  "requested_subject \<equiv> ''platform.notification.requested.v1''"
abbreviation status_type :: string where
  "status_type \<equiv> ''platform.notification.v1.NotificationStatusChanged''"
abbreviation status_subject :: string where
  "status_subject \<equiv> ''platform.notification.status.changed.v1''"

subsection \<open>Providers\<close>

definition normalize_provider :: "env \<Rightarrow> Provider \<Rightarrow> Provider" where
  "normalize_provider env v =
     (let status = lowered env (p_Status v) in
      v\<lparr>p_TenantID := TrimSpace (p_TenantID v), p_ApplicationID := TrimSpace (p_ApplicationID v),
        p_Code := lowered env (p_Code v), p_Channel := lowered env (p_Channel v),
        p_Upstream := TrimSpace (p_Upstream v), p_Path := TrimSpace (p_Path v),
        p_Status := (if status = [] then ''active'' else status)\<rparr>)"

definition valid_provider :: "Provider \<Rightarrow> bool" where
  "valid_provider v \<longleftrightarrow>
     \<not> (p_TenantID v = [] \<or> p_ApplicationID v = [] \<or> p_Code v = [] \<or> \<not> validChannel (p_Channel v) \<or>
        p_Upstream v = [] \<or> \<not> validProviderPath (p_Path v) \<or> p_Priority v < 0 \<or>
        (p_Status v \<noteq> ''active'' \<and> p_Status v \<noteq> ''disabled''))"

definition new_provider :: "Provider \<Rightarrow> string \<Rightarrow> time \<Rightarrow> string \<Rightarrow> Provider" where
  "new_provider value new_id now caller_id =
     value\<lparr>p_ID := new_id, p_Version := 1, p_CreatedAt := now, p_UpdatedAt := now,
       p_CreatedBy := caller_id, p_UpdatedBy := caller_id\<rparr>"

definition merge_provider :: "Provider \<Rightarrow> Provider \<Rightarrow> time \<Rightarrow> string \<Rightarrow> Provider" where
  "merge_provider current value now caller_id =
     current\<lparr>p_Channel := p_Channel value, p_Upstream := p_Upstream value, p_Path := p_Path value,
       p_Priority := p_Priority value, p_Status := p_Status value, p_UpdatedAt := now,
       p_UpdatedBy := caller_id\<rparr>"

definition PutProvider ::
  "env \<Rightarrow> Service \<Rightarrow> Context \<Rightarrow> Provider \<Rightarrow> int \<Rightarrow> world \<Rightarrow> Provider result \<times> world" where
  "PutProvider env s ctx value0 expected w =
     (let value = normalize_provider env value0 in
      if \<not> valid_provider value then (Inl (Invalid ''invalid notification provider'' None), w)
      else if map_of (svc_outboundHTTP s) (p_Upstream value) = None \<or>
              \<not> providerUpstreamAllowed (Notification_ProviderUpstreams (svc_config s)) (p_Upstream value)
      then (Inl (Invalid ''notification provider upstream is not configured'' None), w)
      else
        (case authorize env ctx (p_TenantID value) (p_ApplicationID value) of
           Inl e \<Rightarrow> (Inl e, w)
         | Inr caller \<Rightarrow>
             (case read_clock env w of (now, w1) \<Rightarrow>
               (case GetProvider env (p_TenantID value) (p_ApplicationID value) (p_Code value) w1 of
                  (Inl err, w2) \<Rightarrow>
                    (if errors_is err ErrNotFound then
                       (if expected \<noteq> 0
                        then (Inl (Conflict ''notification provider version conflict'' (Some ErrStaleVersion)), w2)
                        else
                          (case new_uuid env w2 of (new_id, w3) \<Rightarrow>
                             (let v = new_provider value new_id now (pr_ID caller)
                              in (case Within env (svc_db_enabled s) (InsertProvider env v) w3 of
                                    (r, w4) \<Rightarrow> (translate_result (map_sum id (\<lambda>_. v) r), w4)))))
                     else (Inl (translate err), w2))
                | (Inr current0, w2) \<Rightarrow>
                    (if expected \<le> 0 \<or> expected \<noteq> p_Version current0
                     then (Inl (Conflict ''notification provider version conflict'' (Some ErrStaleVersion)), w2)
                     else
                       (let current = merge_provider current0 value now (pr_ID caller)
                        in (case Within env (svc_db_enabled s) (UpdateProvider env current expected) w2 of
                              (r, w3) \<Rightarrow>
                                (translate_result
                                   (map_sum id (\<lambda>_. current\<lparr>p_Version := wrap64 (expected + 1)\<rparr>) r), w3))))))))"

definition GetProvider_op ::
  "env \<Rightarrow> Context \<Rightarrow> string \<Rightarrow> string \<Rightarrow> string \<Rightarrow> world \<Rightarrow> Provider result \<times> world" where
  "GetProvider_op env ctx tenant0 application0 code0 w =
     (let tenant = TrimSpace tenant0; application = TrimSpace application0; code = lowered env code0 in
      if tenant = [] \<or> application = [] \<or> code = []
      then (Inl (Invalid ''tenant_id, application_id and code are required'' None), w)
      else
        (case authorize env ctx tenant application of
           Inl e \<Rightarrow> (Inl e, w)
         | Inr caller \<Rightarrow>
             (case GetProvider env tenant application code w of
                (Inl e, w1) \<Rightarrow> (Inl (translate e), w1)
              | (Inr value, w1) \<Rightarrow>
                  (if p_TenantID value \<noteq> tenant \<or> p_ApplicationID value \<noteq> application
                   then (Inl (Forbidden ''notification provider access denied''), w1)
                   else (Inr value, w1)))))"

text \<open>The page arithmetic of the three list operations: page, page size and offset.\<close>

definition page_of :: "int \<Rightarrow> int" where
  "page_of page = (if page \<le> 0 then 1 else page)"

definition page_size_of :: "int \<Rightarrow> int" where
  "page_size_of pageSize = (if pageSize \<le> 0 then 20 else pageSize)"

definition page_offset :: "int \<Rightarrow> int \<Rightarrow> int" where
  "page_offset page pageSize = wrap64 (wrap64 (page - 1) * pageSize)"

definition ListProviders_op ::
  "env \<Rightarrow> Context \<Rightarrow> string \<Rightarrow> string \<Rightarrow> string \<Rightarrow> string \<Rightarrow> string \<Rightarrow> int \<Rightarrow> int \<Rightarrow> world
   \<Rightarrow> ProviderPage result \<times> world" where
  "ListProviders_op env ctx tenant0 application0 keyword0 channel0 status0 page0 pageSize0 w =
     (let tenant = TrimSpace tenant0; application = TrimSpace application0; keyword = TrimSpace keyword0;
          channel = lowered env channel0; status = lowered env status0;
          page = page_of page0; pageSize = page_size_of pageSize0 in
      (case authorize env ctx tenant application of
         Inl e \<Rightarrow> (Inl e, w)
       | Inr caller \<Rightarrow>
           (if channel \<noteq> [] \<and> \<not> validChannel channel
            then (Inl (Invalid ''invalid notification channel'' None), w)
            else if status \<noteq> [] \<and> status \<noteq> ''active'' \<and> status \<noteq> ''disabled''
            then (Inl (Invalid ''invalid notification provider status'' None), w)
            else if pageSize > 100 then (Inl (Invalid ''page_size must not exceed 100'' None), w)
            else
              (case ListProviders env tenant application keyword channel status pageSize
                      (page_offset page pageSize) w of
                 (Inl e, w1) \<Rightarrow> (Inl (translate e), w1)
               | (Inr (values, cnt), w1) \<Rightarrow>
                   (Inr \<lparr>ppg_Providers = values, ppg_Total = cnt, ppg_Page = page, ppg_PageSize = pageSize\<rparr>, w1)))))"

subsection \<open>Templates\<close>

definition normalize_template :: "env \<Rightarrow> Template \<Rightarrow> Template" where
  "normalize_template env v =
     v\<lparr>t_TenantID := TrimSpace (t_TenantID v), t_ApplicationID := TrimSpace (t_ApplicationID v),
       t_Code := lowered env (t_Code v), t_Channel := lowered env (t_Channel v),
       t_Locale := lowered env (t_Locale v)\<rparr>"

definition new_template :: "Template \<Rightarrow> string \<Rightarrow> time \<Rightarrow> string \<Rightarrow> Template" where
  "new_template v new_id now caller_id =
     v\<lparr>t_ID := new_id, t_Status := ''active'', t_Version := 1, t_CreatedAt := now, t_UpdatedAt := now,
       t_CreatedBy := caller_id, t_UpdatedBy := caller_id\<rparr>"

definition merge_template :: "Template \<Rightarrow> Template \<Rightarrow> time \<Rightarrow> string \<Rightarrow> Template" where
  "merge_template current v now caller_id =
     current\<lparr>t_Subject := t_Subject v, t_Content := t_Content v, t_Status := t_Status v,
       t_UpdatedAt := now, t_UpdatedBy := caller_id\<rparr>"

definition PutTemplate ::
  "env \<Rightarrow> Service \<Rightarrow> Context \<Rightarrow> Template \<Rightarrow> int \<Rightarrow> world \<Rightarrow> Template result \<times> world" where
  "PutTemplate env s ctx v0 expected w =
     (let v = normalize_template env v0 in
      if t_TenantID v = [] \<or> t_ApplicationID v = [] \<or> t_Code v = [] \<or> \<not> validChannel (t_Channel v) \<or>
         t_Locale v = [] \<or> t_Content v = []
      then (Inl (Invalid ''invalid notification template'' None), w)
      else
        (case TemplateParse env (t_Code v) (t_Subject v @ t_Content v) of
           Some m \<Rightarrow> (Inl (Invalid ''invalid template syntax'' (Some (Errorf m))), w)
         | None \<Rightarrow>
             (case authorize env ctx (t_TenantID v) (t_ApplicationID v) of
                Inl e \<Rightarrow> (Inl e, w)
              | Inr caller \<Rightarrow>
                  (case read_clock env w of (now, w1) \<Rightarrow>
                    (case GetTemplate env (t_TenantID v) (t_ApplicationID v) (t_Code v) (t_Channel v)
                            (t_Locale v) w1 of
                       (Inl err, w2) \<Rightarrow>
                         (if errors_is err ErrNotFound then
                            (case new_uuid env w2 of (new_id, w3) \<Rightarrow>
                               (let nv = new_template v new_id now (pr_ID caller)
                                in (case Within env (svc_db_enabled s) (InsertTemplate env nv) w3 of
                                      (r, w4) \<Rightarrow> (translate_result (map_sum id (\<lambda>_. nv) r), w4))))
                          else (Inl (translate err), w2))
                     | (Inr current0, w2) \<Rightarrow>
                         (let current = merge_template current0 v now (pr_ID caller)
                          in (case Within env (svc_db_enabled s) (UpdateTemplate env current expected) w2 of
                                (r, w3) \<Rightarrow>
                                  (translate_result
                                     (map_sum id (\<lambda>_. current\<lparr>t_Version := wrap64 (expected + 1)\<rparr>) r), w3))))))))"

definition GetTemplate_op ::
  "env \<Rightarrow> Context \<Rightarrow> string \<Rightarrow> string \<Rightarrow> string \<Rightarrow> string \<Rightarrow> string \<Rightarrow> world \<Rightarrow> Template result \<times> world" where
  "GetTemplate_op env ctx tenant0 application0 code0 channel0 locale0 w =
     (let tenant = TrimSpace tenant0; application = TrimSpace application0; code = lowered env code0;
          channel = lowered env channel0; locale = lowered env locale0 in
      if tenant = [] \<or> application = [] \<or> code = [] \<or> \<not> validChannel channel \<or> locale = []
      then (Inl (Invalid ''invalid notification template identity'' None), w)
      else
        (case authorize env ctx tenant application of
           Inl e \<Rightarrow> (Inl e, w)
         | Inr caller \<Rightarrow>
             (case GetTemplate env tenant application code channel locale w of
                (Inl e, w1) \<Rightarrow> (Inl (translate e), w1)
              | (Inr value, w1) \<Rightarrow>
                  (if t_TenantID value \<noteq> tenant \<or> t_ApplicationID value \<noteq> application
                   then (Inl (Forbidden ''notification template access denied''), w1)
                   else (Inr value, w1)))))"

definition ListTemplates_op ::
  "env \<Rightarrow> Context \<Rightarrow> string \<Rightarrow> string \<Rightarrow> string \<Rightarrow> string \<Rightarrow> string \<Rightarrow> int \<Rightarrow> int \<Rightarrow> world
   \<Rightarrow> TemplatePage result \<times> world" where
  "ListTemplates_op env ctx tenant0 application0 keyword0 channel0 status0 page0 pageSize0 w =
     (let tenant = TrimSpace tenant0; application = TrimSpace application0; keyword = TrimSpace keyword0;
          channel = lowered env channel0; status = lowered env status0;
          page = page_of page0; pageSize = page_size_of pageSize0 in
      (case authorize env ctx tenant application of
         Inl e \<Rightarrow> (Inl e, w)
       | Inr caller \<Rightarrow>
           (if channel \<noteq> [] \<and> \<not> validChannel channel
            then (Inl (Invalid ''invalid notification channel'' None), w)
            else if pageSize > 100 then (Inl (Invalid ''page_size must not exceed 100'' None), w)
            else
              (case ListTemplates env tenant application keyword channel status pageSize
                      (page_offset page pageSize) w of
                 (Inl e, w1) \<Rightarrow> (Inl (translate e), w1)
               | (Inr (values, cnt), w1) \<Rightarrow>
                   (Inr \<lparr>tpg_Templates = values, tpg_Total = cnt, tpg_Page = page, tpg_PageSize = pageSize\<rparr>, w1)))))"

subsection \<open>Sending\<close>

text \<open>The three frequency checks in order; the first that refuses or fails closed ends the loop.\<close>

fun frequency_loop ::
  "env \<Rightarrow> Limiter \<Rightarrow> (string \<times> RateLimitRule_cfg) list \<Rightarrow> world \<Rightarrow> go_error option \<times> world" where
  "frequency_loop env l [] w = (None, w)"
| "frequency_loop env l ((key, rule) # checks) w =
     (case Allow env l key rule w of
        (Inl err, w1) \<Rightarrow>
          (if lim_failOpen l then frequency_loop env l checks w1
           else (Some (Unavailable ''notification frequency limiter unavailable'' (Some err)), w1))
      | (Inr r, w1) \<Rightarrow>
          (if \<not> lr_Allowed r then (Some TooManyRequests, w1) else frequency_loop env l checks w1))"

definition frequency_checks ::
  "Notification_cfg \<Rightarrow> string \<Rightarrow> string \<Rightarrow> string \<Rightarrow> string \<Rightarrow> string \<Rightarrow> (string \<times> RateLimitRule_cfg) list" where
  "frequency_checks cfg tenant application code channel recipient =
     [(''notification:tenant:'' @ tenant @ '':application:'' @ application, Notification_TenantLimit cfg),
      (''notification:template:'' @ tenant @ '':'' @ application @ '':'' @ channel @ '':'' @ code,
         Notification_TemplateLimit cfg),
      (''notification:recipient:'' @ tenant @ '':'' @ application @ '':'' @ channel @ '':'' @ recipient,
         Notification_RecipientLimit cfg)]"

definition checkFrequency ::
  "env \<Rightarrow> Service \<Rightarrow> string \<Rightarrow> string \<Rightarrow> string \<Rightarrow> string \<Rightarrow> string \<Rightarrow> world \<Rightarrow> go_error option \<times> world" where
  "checkFrequency env s tenant application code channel recipient w =
     (case svc_limiter s of
        None \<Rightarrow> (None, w)
      | Some l \<Rightarrow>
          (if \<not> lim_enabled l then (None, w)
           else frequency_loop env l
                  (frequency_checks (svc_config s) tenant application code channel recipient) w))"

text \<open>The transaction of \<open>Send\<close>: the delivery and its event.\<close>

definition send_tx :: "env \<Rightarrow> Delivery \<Rightarrow> world \<Rightarrow> unit result \<times> world" where
  "send_tx env v w =
     (case InsertDelivery env v w of
        (Inl e, w1) \<Rightarrow> (Inl e, w1)
      | (Inr _, w1) \<Rightarrow> addDeliveryEvent env v requested_type requested_subject w1)"

definition new_delivery ::
  "string \<Rightarrow> string \<Rightarrow> string \<Rightarrow> string \<Rightarrow> string \<Rightarrow> string \<Rightarrow> string \<Rightarrow> string \<Rightarrow> string \<Rightarrow> time \<Rightarrow> string \<Rightarrow> Delivery" where
  "new_delivery new_id tenant application code channel locale recipient encoded key now caller_id =
     \<lparr>d_ID = new_id, d_TenantID = tenant, d_ApplicationID = application, d_TemplateCode = code,
      d_Channel = channel, d_Locale = locale, d_Recipient = recipient, d_Variables = encoded,
      d_IdempotencyKey = key, d_Status = ''pending'', d_Provider = [], d_ProviderMessageID = [],
      d_FailureReason = [], d_Attempts = 0, d_NextAttemptAt = now, d_Version = 1, d_CreatedAt = now,
      d_UpdatedAt = now, d_CreatedBy = caller_id, d_UpdatedBy = caller_id\<rparr>"

definition valid_send ::
  "string \<Rightarrow> string \<Rightarrow> string \<Rightarrow> string \<Rightarrow> string \<Rightarrow> string \<Rightarrow> string \<Rightarrow> bool" where
  "valid_send tenant application code channel locale recipient key \<longleftrightarrow>
     \<not> (tenant = [] \<or> application = [] \<or> code = [] \<or> \<not> validChannel channel \<or> locale = [] \<or>
        recipient = [] \<or> key = [])"

definition Send ::
  "env \<Rightarrow> Service \<Rightarrow> Context \<Rightarrow> string \<Rightarrow> string \<Rightarrow> string \<Rightarrow> string \<Rightarrow> string \<Rightarrow> string \<Rightarrow> string
   \<Rightarrow> (string \<rightharpoonup> string) \<Rightarrow> world \<Rightarrow> Delivery result \<times> world" where
  "Send env s ctx tenant0 application0 code0 channel0 locale0 recipient0 key0 variables w =
     (let tenant = TrimSpace tenant0; application = TrimSpace application0; code = lowered env code0;
          channel = lowered env channel0; locale = lowered env locale0;
          recipient = TrimSpace recipient0; key = TrimSpace key0 in
      if \<not> valid_send tenant application code channel locale recipient key
      then (Inl (Invalid ''invalid notification request'' None), w)
      else
        (case authorize env ctx tenant application of
           Inl e \<Rightarrow> (Inl e, w)
         | Inr caller \<Rightarrow>
             (case GetDeliveryByKey env tenant application key w of
                (Inr existing, w1) \<Rightarrow> (Inr existing, w1)
              | (Inl err, w1) \<Rightarrow>
                  (if \<not> errors_is err ErrNotFound then (Inl (translate err), w1)
                   else
                     (case checkFrequency env s tenant application code channel recipient w1 of
                        (Some e, w2) \<Rightarrow> (Inl e, w2)
                      | (None, w2) \<Rightarrow>
                          (case GetTemplate env tenant application code channel locale w2 of
                             (Inl e, w3) \<Rightarrow> (Inl (translate e), w3)
                           | (Inr tpl, w3) \<Rightarrow>
                               (if t_Status tpl \<noteq> ''active''
                                then (Inl (Conflict ''notification template is disabled'' None), w3)
                                else
                                  (case JsonMarshal env variables of
                                     Inl m \<Rightarrow> (Inl (Invalid ''invalid variables'' (Some (Errorf m))), w3)
                                   | Inr encoded \<Rightarrow>
                                       (case read_clock env w3 of (now, w4) \<Rightarrow>
                                         (case new_uuid env w4 of (new_id, w5) \<Rightarrow>
                                           (let v = new_delivery new_id tenant application code channel locale
                                                      recipient encoded key now (pr_ID caller)
                                            in (case Within env (svc_db_enabled s) (send_tx env v) w5 of
                                                  (r, w6) \<Rightarrow>
                                                    (translate_result (map_sum id (\<lambda>_. v) r), w6)))))))))))))"

subsection \<open>Deliveries and receipts\<close>

definition GetDelivery_op ::
  "env \<Rightarrow> Context \<Rightarrow> string \<Rightarrow> string \<Rightarrow> string \<Rightarrow> world \<Rightarrow> Delivery result \<times> world" where
  "GetDelivery_op env ctx i tenant application w =
     (case authorize env ctx tenant application of
        Inl e \<Rightarrow> (Inl e, w)
      | Inr caller \<Rightarrow>
          (case GetDelivery env i tenant application w of (r, w1) \<Rightarrow> (translate_result r, w1)))"

text \<open>The transaction that records a status change: the row at its version, then the event.\<close>

definition finish_tx :: "env \<Rightarrow> Delivery \<Rightarrow> world \<Rightarrow> unit result \<times> world" where
  "finish_tx env delivery w =
     (case Finish env delivery (d_Version delivery) w of
        (Inl e, w1) \<Rightarrow> (Inl e, w1)
      | (Inr _, w1) \<Rightarrow>
          addDeliveryEvent env (delivery\<lparr>d_Version := wrap64 (d_Version delivery + 1)\<rparr>)
            status_type status_subject w1)"

definition receipt_delivery :: "Delivery \<Rightarrow> string \<Rightarrow> string \<Rightarrow> time \<Rightarrow> string \<Rightarrow> Delivery" where
  "receipt_delivery delivery statusValue reason now caller_id =
     delivery\<lparr>d_Status := statusValue, d_FailureReason := reason, d_UpdatedAt := now,
       d_UpdatedBy := caller_id\<rparr>"

definition RecordReceipt ::
  "env \<Rightarrow> Service \<Rightarrow> Context \<Rightarrow> string \<Rightarrow> string \<Rightarrow> string \<Rightarrow> string \<Rightarrow> string \<Rightarrow> string \<Rightarrow> world
   \<Rightarrow> Delivery result \<times> world" where
  "RecordReceipt env s ctx tenant0 application0 provider0 messageID0 statusValue0 reason0 w =
     (let tenant = TrimSpace tenant0; provider = lowered env provider0; messageID = TrimSpace messageID0;
          application = TrimSpace application0; statusValue = lowered env statusValue0;
          reason = TrimSpace reason0 in
      if tenant = [] \<or> application = [] \<or> provider = [] \<or> messageID = [] \<or> \<not> validReceiptStatus statusValue
      then (Inl (Invalid ''invalid provider receipt'' None), w)
      else
        (case authorize env ctx tenant application of
           Inl e \<Rightarrow> (Inl e, w)
         | Inr caller \<Rightarrow>
             (case GetDeliveryByProviderMessage env tenant application provider messageID w of
                (Inl e, w1) \<Rightarrow> (Inl (translate e), w1)
              | (Inr delivery0, w1) \<Rightarrow>
                  (if d_Status delivery0 = statusValue then (Inr delivery0, w1)
                   else if terminalDeliveryStatus (d_Status delivery0)
                   then (Inl (Conflict ''delivery already has a terminal status'' None), w1)
                   else
                     (case read_clock env w1 of (now, w2) \<Rightarrow>
                       (let delivery = receipt_delivery delivery0 statusValue reason now (pr_ID caller)
                        in (case Within env (svc_db_enabled s) (finish_tx env delivery) w2 of
                              (r, w3) \<Rightarrow>
                                (translate_result
                                   (map_sum id
                                      (\<lambda>_. delivery\<lparr>d_Version := wrap64 (d_Version delivery + 1)\<rparr>) r), w3))))))))"

definition ListDeliveries_op ::
  "env \<Rightarrow> Context \<Rightarrow> string \<Rightarrow> string \<Rightarrow> string \<Rightarrow> int \<Rightarrow> int \<Rightarrow> world \<Rightarrow> Page result \<times> world" where
  "ListDeliveries_op env ctx tenant application status page0 pageSize0 w =
     (let page = page_of page0; pageSize = page_size_of pageSize0 in
      (case authorize env ctx tenant application of
         Inl e \<Rightarrow> (Inl e, w)
       | Inr caller \<Rightarrow>
           (if pageSize > 100 then (Inl (Invalid ''page_size must not exceed 100'' None), w)
            else
              (case ListDeliveries env tenant application status pageSize (page_offset page pageSize) w of
                 (Inl e, w1) \<Rightarrow> (Inl (translate e), w1)
               | (Inr (values, cnt), w1) \<Rightarrow>
                   (Inr \<lparr>pg_Deliveries = values, pg_Total = cnt, pg_Page = page, pg_PageSize = pageSize\<rparr>, w1)))))"

end
