(* ===== verification/Statements.thy ===== *)
theory Statements
  imports Repository
begin

text \<open>
  What the statements of the repository do to the tables: the effect of each method on success,
  and the locale \<open>table_invariant\<close>, the contract between the statements and everything
  that is built from them. A property of the tables that every single statement keeps is kept by
  every method, by a transaction, and by what other sessions commit when they keep it too. The
  constraints of the schema are one such property, the growth of the outbox another.
\<close>

section \<open>Methods that only read\<close>

lemma read_clock_result: "read_clock env w = (now, w') \<Longrightarrow> w_db w' = w_db w \<and> now = Clock env (w_ticks w)"
  by (auto simp: read_clock_def)

lemma new_uuid_result: "new_uuid env w = (u, w') \<Longrightarrow> w_db w' = w_db w \<and> u = NewUUID env (w_uuids w)"
  by (auto simp: new_uuid_def)

lemmas getter_defs =
  GetProvider_def GetTemplate_def GetDelivery_def GetDeliveryByKey_def
  GetDeliveryByProviderMessage_def

lemma getter_db:
  "GetProvider env t a c w = (rp, w') \<Longrightarrow> w_db w' = w_db w"
  "GetTemplate env t a c ch l w = (rt, w') \<Longrightarrow> w_db w' = w_db w"
  "GetDelivery env i t a w = (rd, w') \<Longrightarrow> w_db w' = w_db w"
  "GetDeliveryByKey env t a k w = (rd, w') \<Longrightarrow> w_db w' = w_db w"
  "GetDeliveryByProviderMessage env t a p m w = (rd, w') \<Longrightarrow> w_db w' = w_db w"
  by (auto simp: getter_defs dest: select_one_db)

lemma lister_db:
  "ListProviders env t a k ch st n off w = (rp, w') \<Longrightarrow> w_db w' = w_db w"
  "ListTemplates env t a k ch st n off w = (rt, w') \<Longrightarrow> w_db w' = w_db w"
  "ListDeliveries env t a st n off w = (rd, w') \<Longrightarrow> w_db w' = w_db w"
  by (auto simp: ListProviders_def ListTemplates_def ListDeliveries_def dest: select_page_db)

lemma GetProvider_row:
  "GetProvider env t a c w = (Inr v, w') \<Longrightarrow>
   v \<in> set (Providers (w_db w)) \<and> p_TenantID v = t \<and> p_ApplicationID v = a \<and> p_Code v = c"
  by (auto simp: GetProvider_def dest: select_one_Inr)

lemma GetTemplate_row:
  "GetTemplate env t a c ch l w = (Inr v, w') \<Longrightarrow>
   v \<in> set (Templates (w_db w)) \<and> t_TenantID v = t \<and> t_ApplicationID v = a \<and> t_Code v = c \<and>
   t_Channel v = ch \<and> t_Locale v = l"
  by (auto simp: GetTemplate_def dest: select_one_Inr)

lemma GetDelivery_row:
  "GetDelivery env i t a w = (Inr v, w') \<Longrightarrow>
   v \<in> set (Deliveries (w_db w)) \<and> d_ID v = i \<and> d_TenantID v = t \<and> d_ApplicationID v = a"
  by (auto simp: GetDelivery_def dest: select_one_Inr)

lemma GetDeliveryByKey_row:
  "GetDeliveryByKey env t a k w = (Inr v, w') \<Longrightarrow>
   v \<in> set (Deliveries (w_db w)) \<and> d_TenantID v = t \<and> d_ApplicationID v = a \<and> d_IdempotencyKey v = k"
  by (auto simp: GetDeliveryByKey_def dest: select_one_Inr)

lemma GetDeliveryByProviderMessage_row:
  "GetDeliveryByProviderMessage env t a p m w = (Inr v, w') \<Longrightarrow>
   v \<in> set (Deliveries (w_db w)) \<and> d_TenantID v = t \<and> d_ApplicationID v = a \<and> d_Provider v = p \<and>
   d_ProviderMessageID v = m"
  by (auto simp: GetDeliveryByProviderMessage_def dest: select_one_Inr)

lemma getter_NotFound:
  "GetProvider env t a c w = (Inl ErrNotFound, w') \<Longrightarrow> (t, a, c) \<notin> provider_key ` set (Providers (w_db w))"
  "GetTemplate env t a c ch l w = (Inl ErrNotFound, w') \<Longrightarrow>
     (t, a, c, ch, l) \<notin> template_key ` set (Templates (w_db w))"
  "GetDeliveryByKey env t a k w = (Inl ErrNotFound, w') \<Longrightarrow>
     (t, a, k) \<notin> delivery_key ` set (Deliveries (w_db w))"
  by (auto simp: getter_defs provider_key_def template_key_def delivery_key_def filter_empty_conv
      dest!: select_one_NotFound)

lemma getter_missing:
  "select_one env sel w = (Inl e, w') \<Longrightarrow> errors_is e ErrNotFound \<Longrightarrow> e = ErrNotFound"
  by (auto dest!: select_one_error)

text \<open>Everything a lookup tells: the tables are as before, and what it found or missed.\<close>

lemma GetProvider_result:
  "GetProvider env t a c w = (r, w') \<Longrightarrow>
   w_db w' = w_db w \<and>
   (\<forall>v. r = Inr v \<longrightarrow> v \<in> set (Providers (w_db w)) \<and> provider_key v = (t, a, c)) \<and>
   (\<forall>e. r = Inl e \<longrightarrow> errors_is e ErrNotFound \<longrightarrow> (t, a, c) \<notin> provider_key ` set (Providers (w_db w)))"
  using getter_NotFound(1) [of env t a c w w'] getter_missing [of env _ w _ w']
  by (auto simp: getter_db(1) provider_key_def dest: GetProvider_row)
     (auto simp: GetProvider_def)

lemma GetTemplate_result:
  "GetTemplate env t a c ch l w = (r, w') \<Longrightarrow>
   w_db w' = w_db w \<and>
   (\<forall>v. r = Inr v \<longrightarrow> v \<in> set (Templates (w_db w)) \<and> template_key v = (t, a, c, ch, l)) \<and>
   (\<forall>e. r = Inl e \<longrightarrow> errors_is e ErrNotFound \<longrightarrow>
      (t, a, c, ch, l) \<notin> template_key ` set (Templates (w_db w)))"
  using getter_NotFound(2) [of env t a c ch l w w'] getter_missing [of env _ w _ w']
  by (auto simp: getter_db(2) template_key_def dest: GetTemplate_row)
     (auto simp: GetTemplate_def)

lemma GetDeliveryByProviderMessage_result:
  "GetDeliveryByProviderMessage env t a p m w = (r, w') \<Longrightarrow>
   w_db w' = w_db w \<and>
   (\<forall>v. r = Inr v \<longrightarrow> v \<in> set (Deliveries (w_db w)) \<and> d_TenantID v = t \<and> d_ApplicationID v = a \<and>
      d_Provider v = p \<and> d_ProviderMessageID v = m)"
  by (auto simp: getter_db(5) dest: GetDeliveryByProviderMessage_row)

lemma GetDeliveryByKey_unique:
  assumes "schema_ok (w_db w)" and "Fault env (w_stmts w) = NoFault"
    and "v \<in> set (Deliveries (w_db w))"
  shows "GetDeliveryByKey env (d_TenantID v) (d_ApplicationID v) (d_IdempotencyKey v) w = (Inr v, tick_stmt w)"
proof -
  have "filter (\<lambda>r. delivery_key r = delivery_key v) (Deliveries (w_db w)) = [v]"
    by (rule unique_by_filter_key) (use assms in \<open>simp_all add: schema_ok_def\<close>)
  then show ?thesis
    unfolding GetDeliveryByKey_def
    by (intro select_one_unique assms) (simp add: delivery_key_def)
qed

section \<open>Statements that change tables\<close>

lemma insert_provider_Inr:
  "insert_provider v d = Inr (n, d') \<longleftrightarrow>
   p_ID v \<notin> p_ID ` set (Providers d) \<and> provider_key v \<notin> provider_key ` set (Providers d) \<and>
   provider_row_ok v \<and> n = 1 \<and> d' = d\<lparr>Providers := Providers d @ [v]\<rparr>"
  by (auto simp: insert_provider_def)

lemma insert_template_Inr:
  "insert_template v d = Inr (n, d') \<longleftrightarrow>
   t_ID v \<notin> t_ID ` set (Templates d) \<and> template_key v \<notin> template_key ` set (Templates d) \<and>
   template_row_ok v \<and> n = 1 \<and> d' = d\<lparr>Templates := Templates d @ [v]\<rparr>"
  by (auto simp: insert_template_def)

lemma insert_delivery_Inr:
  "insert_delivery v d = Inr (n, d') \<longleftrightarrow>
   d_ID v \<notin> d_ID ` set (Deliveries d) \<and> delivery_key v \<notin> delivery_key ` set (Deliveries d) \<and>
   delivery_row_ok v \<and> n = 1 \<and> d' = d\<lparr>Deliveries := Deliveries d @ [v]\<rparr>"
  by (auto simp: insert_delivery_def)

lemma insert_outbox_Inr:
  "insert_outbox e d = Inr (n, d') \<longleftrightarrow>
   oe_ID e \<notin> (\<lambda>r. oe_ID (ob_event r)) ` set (Outbox d) \<and> n = 1 \<and>
   d' = d\<lparr>Outbox := Outbox d @ [outbox_row e]\<rparr>"
  by (auto simp: insert_outbox_def)

lemmas insert_Inr = insert_provider_Inr insert_template_Inr insert_delivery_Inr insert_outbox_Inr

lemma sum_map_InrE:
  "map_sum id (map_prod id f) r = Inr (n, d') \<Longrightarrow> \<exists>x. r = Inr (n, x) \<and> d' = f x"
  by (cases r) auto

lemma update_provider_Inr:
  "update_provider v x d = Inr (n, d') \<Longrightarrow>
   \<exists>rows. cas_update p_ID p_Version provider_row_ok (set_provider v) (p_ID v) x (Providers d) = Inr (n, rows) \<and>
     d' = d\<lparr>Providers := rows\<rparr>"
  by (auto simp: update_provider_def dest!: sum_map_InrE)

lemma update_template_Inr:
  "update_template v x d = Inr (n, d') \<Longrightarrow>
   \<exists>rows. cas_update t_ID t_Version template_row_ok (set_template v) (t_ID v) x (Templates d) = Inr (n, rows) \<and>
     d' = d\<lparr>Templates := rows\<rparr>"
  by (auto simp: update_template_def dest!: sum_map_InrE)

lemma finish_delivery_Inr:
  "finish_delivery v x d = Inr (n, d') \<Longrightarrow>
   \<exists>rows. cas_update d_ID d_Version delivery_row_ok (set_finished v) (d_ID v) x (Deliveries d) = Inr (n, rows) \<and>
     d' = d\<lparr>Deliveries := rows\<rparr>"
  by (auto simp: finish_delivery_def dest!: sum_map_InrE)

lemma update_claimed_Inr:
  "update_claimed now v d = Inr (n, d') \<Longrightarrow>
   \<exists>rows. cas_update d_ID d_Version delivery_row_ok (set_claimed now) (d_ID v) (d_Version v) (Deliveries d)
       = Inr (n, rows) \<and> d' = d\<lparr>Deliveries := rows\<rparr>"
  by (auto simp: update_claimed_def dest!: sum_map_InrE)

lemmas update_Inr = update_provider_Inr update_template_Inr finish_delivery_Inr update_claimed_Inr

text \<open>The methods that insert: what happened when they report success.\<close>

lemma InsertProvider_Inr:
  "InsertProvider env v w = (Inr u, w') \<Longrightarrow> \<exists>n. insert_provider v (w_db w) = Inr (n, w_db w')"
  by (auto simp: InsertProvider_def split: prod.splits sum.splits dest!: exec_Inr)

lemma InsertTemplate_Inr:
  "InsertTemplate env v w = (Inr u, w') \<Longrightarrow> \<exists>n. insert_template v (w_db w) = Inr (n, w_db w')"
  by (auto simp: InsertTemplate_def split: prod.splits sum.splits dest!: exec_Inr)

lemma InsertDelivery_Inr:
  "InsertDelivery env v w = (Inr u, w') \<Longrightarrow> \<exists>n. insert_delivery v (w_db w) = Inr (n, w_db w')"
  by (auto simp: InsertDelivery_def split: prod.splits sum.splits dest!: exec_Inr)

lemma AddOutbox_Inr:
  "AddOutbox env e w = (Inr u, w') \<Longrightarrow> \<exists>n. insert_outbox e (w_db w) = Inr (n, w_db w')"
  by (auto simp: AddOutbox_def split: prod.splits sum.splits dest!: exec_Inr)

lemma require_one_Inr: "require_one r = Inr u \<longleftrightarrow> r = Inr (Inr 1)"
  by (auto simp: require_one_def split: sum.splits)

lemma UpdateProvider_Inr:
  "UpdateProvider env v x w = (Inr u, w') \<Longrightarrow> update_provider v x (w_db w) = Inr (1, w_db w')"
  by (auto simp: UpdateProvider_def require_one_Inr split: prod.splits dest!: exec_Inr)

lemma UpdateTemplate_Inr:
  "UpdateTemplate env v x w = (Inr u, w') \<Longrightarrow> \<exists>n. n \<noteq> 0 \<and> update_template v x (w_db w) = Inr (n, w_db w')"
  by (auto simp: UpdateTemplate_def split: prod.splits sum.splits if_splits dest!: exec_Inr)

lemma Finish_Inr:
  "Finish env v x w = (Inr u, w') \<Longrightarrow> finish_delivery v x (w_db w) = Inr (1, w_db w')"
  by (auto simp: Finish_def require_one_Inr split: prod.splits dest!: exec_Inr)

text \<open>Errors of the writing methods: the statement's own text, or a stale version.\<close>

lemma write_errors:
  "InsertProvider env pv w = (Inl e, w') \<Longrightarrow> \<exists>m. e = Errorf m"
  "InsertTemplate env tv w = (Inl e, w') \<Longrightarrow> \<exists>m. e = Errorf m"
  "InsertDelivery env dv w = (Inl e, w') \<Longrightarrow> \<exists>m. e = Errorf m"
  "AddOutbox env ov w = (Inl e, w') \<Longrightarrow> \<exists>m. e = Errorf m"
  by (auto simp: InsertProvider_def InsertTemplate_def InsertDelivery_def AddOutbox_def
      split: prod.splits sum.splits dest!: exec_error)

section \<open>The contract\<close>

locale table_invariant =
  fixes inv :: "db \<Rightarrow> bool"
  assumes insert_provider: "\<lbrakk>inv d; insert_provider pv d = Inr (n, d')\<rbrakk> \<Longrightarrow> inv d'"
    and update_provider: "\<lbrakk>inv d; update_provider pv x d = Inr (n, d')\<rbrakk> \<Longrightarrow> inv d'"
    and insert_template: "\<lbrakk>inv d; insert_template tv d = Inr (n, d')\<rbrakk> \<Longrightarrow> inv d'"
    and update_template: "\<lbrakk>inv d; update_template tv x d = Inr (n, d')\<rbrakk> \<Longrightarrow> inv d'"
    and insert_delivery: "\<lbrakk>inv d; insert_delivery dv d = Inr (n, d')\<rbrakk> \<Longrightarrow> inv d'"
    and finish_delivery: "\<lbrakk>inv d; finish_delivery dv x d = Inr (n, d')\<rbrakk> \<Longrightarrow> inv d'"
    and update_claimed: "\<lbrakk>inv d; update_claimed now dv d = Inr (n, d')\<rbrakk> \<Longrightarrow> inv d'"
    and delete_expired: "\<lbrakk>inv d; delete_expired ids before d = Inr (n, d')\<rbrakk> \<Longrightarrow> inv d'"
    and insert_outbox: "\<lbrakk>inv d; insert_outbox e d = Inr (n, d')\<rbrakk> \<Longrightarrow> inv d'"
begin

lemma exec_inv:
  assumes "exec env f w = (r, w')" and "inv (w_db w)"
    and "\<And>n d'. f (w_db w) = Inr (n, d') \<Longrightarrow> inv d'"
  shows "inv (w_db w')"
  using exec_db [OF assms(1)] assms(2,3) by auto

lemma InsertProvider_inv: "InsertProvider env v w = (r, w') \<Longrightarrow> inv (w_db w) \<Longrightarrow> inv (w_db w')"
  by (auto simp: InsertProvider_def split: prod.splits sum.splits
      elim!: exec_inv insert_provider [rotated])

lemma UpdateProvider_inv: "UpdateProvider env v x w = (r, w') \<Longrightarrow> inv (w_db w) \<Longrightarrow> inv (w_db w')"
  by (auto simp: UpdateProvider_def split: prod.splits elim!: exec_inv update_provider [rotated])

lemma InsertTemplate_inv: "InsertTemplate env v w = (r, w') \<Longrightarrow> inv (w_db w) \<Longrightarrow> inv (w_db w')"
  by (auto simp: InsertTemplate_def split: prod.splits sum.splits
      elim!: exec_inv insert_template [rotated])

lemma UpdateTemplate_inv: "UpdateTemplate env v x w = (r, w') \<Longrightarrow> inv (w_db w) \<Longrightarrow> inv (w_db w')"
  by (auto simp: UpdateTemplate_def split: prod.splits sum.splits
      elim!: exec_inv update_template [rotated])

lemma InsertDelivery_inv: "InsertDelivery env v w = (r, w') \<Longrightarrow> inv (w_db w) \<Longrightarrow> inv (w_db w')"
  by (auto simp: InsertDelivery_def split: prod.splits sum.splits
      elim!: exec_inv insert_delivery [rotated])

lemma Finish_inv: "Finish env v x w = (r, w') \<Longrightarrow> inv (w_db w) \<Longrightarrow> inv (w_db w')"
  by (auto simp: Finish_def split: prod.splits elim!: exec_inv finish_delivery [rotated])

lemma AddOutbox_inv: "AddOutbox env v w = (r, w') \<Longrightarrow> inv (w_db w) \<Longrightarrow> inv (w_db w')"
  by (auto simp: AddOutbox_def split: prod.splits sum.splits
      elim!: exec_inv insert_outbox [rotated])

lemma claim_loop_inv: "claim_loop env now vs w = (r, w') \<Longrightarrow> inv (w_db w) \<Longrightarrow> inv (w_db w')"
proof (induction vs arbitrary: w r)
  case (Cons v vs)
  from Cons.prems obtain r1 w1 where step: "exec env (update_claimed now v) w = (r1, w1)"
    by (cases "exec env (update_claimed now v) w") auto
  then have "inv (w_db w1)"
    using Cons.prems(2) by (rule exec_inv) (rule update_claimed [OF Cons.prems(2)])
  with Cons step show ?case
    by (auto split: sum.splits if_splits prod.splits)
qed simp

lemma ClaimDue_inv: "ClaimDue env now limit w = (r, w') \<Longrightarrow> inv (w_db w) \<Longrightarrow> inv (w_db w')"
  by (auto simp: ClaimDue_def split: prod.splits sum.splits if_splits
      dest!: query_db dest: claim_loop_inv)

lemma DeleteTerminalDeliveriesBefore_inv:
  assumes "DeleteTerminalDeliveriesBefore env before limit w = (r, w')" and "inv (w_db w)"
    and others: "\<And>n d. inv d \<Longrightarrow> inv (Others env n d)"
  shows "inv (w_db w')"
proof -
  obtain q w1 where q: "query env (expired_ids before limit) w = (q, w1)" by fastforce
  have at: "inv (Others env (w_stmts w1) (w_db w1))"
    using q assms(2) others by (simp add: query_db)
  show ?thesis
    using assms(1) q assms(2) query_db [OF q] at
    by (auto simp: DeleteTerminalDeliveriesBefore_def split: sum.splits if_splits prod.splits
        elim!: exec_inv delete_expired [rotated])
qed

text \<open>A transaction keeps the property when its body does and other sessions do.\<close>

lemma Within_inv:
  assumes "Within env en fn w = (r, w')" and "inv (w_db w)"
    and others: "\<And>n d. inv d \<Longrightarrow> inv (Others env n d)"
    and body: "\<And>w1 r1 w2. fn w1 = (r1, w2) \<Longrightarrow> inv (w_db w1) \<Longrightarrow> inv (w_db w2)"
  shows "inv (w_db w')"
proof -
  have start: "inv (w_db (begun env w))" by (simp add: begun_def others assms(2))
  from Within_db [OF assms(1)] show ?thesis
    using assms(2) start body [OF _ start] by metis
qed

end

subsection \<open>Updated rows\<close>

lemma UpdateProvider_rows:
  assumes "UpdateProvider env v x w = (Inr u, w')"
  obtains r where "r \<in> set (Providers (w_db w))" "p_ID r = p_ID v" "p_Version r = x"
    "provider_row_ok (set_provider v r)" "w_db w' = (w_db w)\<lparr>Providers :=
        update_where (at_version p_ID p_Version (p_ID v) x) (set_provider v) (Providers (w_db w))\<rparr>"
proof -
  from UpdateProvider_Inr [OF assms] obtain rows where rows:
    "cas_update p_ID p_Version provider_row_ok (set_provider v) (p_ID v) x (Providers (w_db w)) = Inr (1, rows)"
    "w_db w' = (w_db w)\<lparr>Providers := rows\<rparr>" by (blast dest: update_provider_Inr)
  from providers.cas_one [OF rows(1)] providers.cas_rows [OF rows(1)] rows(2) that
  show ?thesis by (auto simp: at_version_def)
qed

lemma UpdateTemplate_rows:
  assumes "UpdateTemplate env v x w = (Inr u, w')"
  obtains r where "r \<in> set (Templates (w_db w))" "t_ID r = t_ID v" "t_Version r = x"
    "template_row_ok (set_template v r)" "w_db w' = (w_db w)\<lparr>Templates :=
        update_where (at_version t_ID t_Version (t_ID v) x) (set_template v) (Templates (w_db w))\<rparr>"
proof -
  from UpdateTemplate_Inr [OF assms] obtain n rows where n: "n \<noteq> 0" and rows:
    "cas_update t_ID t_Version template_row_ok (set_template v) (t_ID v) x (Templates (w_db w)) = Inr (n, rows)"
    "w_db w' = (w_db w)\<lparr>Templates := rows\<rparr>" by (blast dest: update_template_Inr)
  from templates.cas_rows [OF rows(1)] n obtain r where "r \<in> set (Templates (w_db w))" "t_ID r = t_ID v"
    "t_Version r = x" "template_row_ok (set_template v r)"
    by (auto simp: count_where_eq_0 at_version_def)
  with templates.cas_rows [OF rows(1)] rows(2) that show ?thesis by (simp add: at_version_def)
qed

subsection \<open>The schema\<close>

lemma key_kept:
  "provider_key (set_provider v r) = provider_key r" "template_key (set_template u q) = template_key q"
  "delivery_key (set_finished x y) = delivery_key y" "delivery_key (set_claimed now y) = delivery_key y"
  by (simp_all add: provider_key_def set_provider_def template_key_def set_template_def
      delivery_key_def set_finished_def set_claimed_def)

lemmas cas_schema =
  providers.cas_unique providers.cas_ok templates.cas_unique templates.cas_ok
  finishes.cas_unique finishes.cas_ok claims.cas_unique claims.cas_ok

lemmas cas_rows_all = providers.cas_rows templates.cas_rows finishes.cas_rows claims.cas_rows

lemma cas_key:
  assumes "cas_update ident vers ok f i x rows = Inr (n, rows')" and "\<And>r. key (f r) = key r"
  shows "unique_by key rows' = unique_by key rows"
  using assms by (auto simp: cas_update_def unique_by_update_where split: if_splits)

lemma schema_update_provider:
  "schema_ok d \<Longrightarrow> update_provider v x d = Inr (n, d') \<Longrightarrow> schema_ok d'"
  by (auto simp: schema_ok_def key_kept cas_schema dest!: update_provider_Inr
      dest: cas_key [where key = provider_key])

lemma schema_update_template:
  "schema_ok d \<Longrightarrow> update_template v x d = Inr (n, d') \<Longrightarrow> schema_ok d'"
  by (auto simp: schema_ok_def key_kept cas_schema dest!: update_template_Inr
      dest: cas_key [where key = template_key])

lemma schema_finish_delivery:
  "schema_ok d \<Longrightarrow> finish_delivery v x d = Inr (n, d') \<Longrightarrow> schema_ok d'"
  by (auto simp: schema_ok_def key_kept cas_schema dest!: finish_delivery_Inr
      dest: cas_key [where key = delivery_key])

lemma schema_update_claimed:
  "schema_ok d \<Longrightarrow> update_claimed now v d = Inr (n, d') \<Longrightarrow> schema_ok d'"
  by (auto simp: schema_ok_def key_kept cas_schema dest!: update_claimed_Inr
      dest: cas_key [where key = delivery_key])

lemma schema_delete_expired:
  "schema_ok d \<Longrightarrow> delete_expired ids before d = Inr (n, d') \<Longrightarrow> schema_ok d'"
  by (auto simp: schema_ok_def delete_expired_def unique_by_delete_where list_all_iff set_delete_where)

interpretation schema: table_invariant schema_ok
proof unfold_locales
  fix d d' n pv assume "schema_ok d" "insert_provider pv d = Inr (n, d')"
  then show "schema_ok d'" by (auto simp: schema_ok_def insert_Inr unique_by_snoc)
next
  fix d d' n tv assume "schema_ok d" "insert_template tv d = Inr (n, d')"
  then show "schema_ok d'" by (auto simp: schema_ok_def insert_Inr unique_by_snoc)
next
  fix d d' n dv assume "schema_ok d" "insert_delivery dv d = Inr (n, d')"
  then show "schema_ok d'" by (auto simp: schema_ok_def insert_Inr unique_by_snoc)
next
  fix d d' n e assume "schema_ok d" "insert_outbox e d = Inr (n, d')"
  then show "schema_ok d'" by (auto simp: schema_ok_def insert_Inr unique_by_snoc outbox_row_def)
qed (fact schema_update_provider schema_update_template schema_finish_delivery
      schema_update_claimed schema_delete_expired)+

text \<open>Events are only appended: what the outbox held stays in front.\<close>

definition outbox_extends :: "OutboxRow list \<Rightarrow> db \<Rightarrow> bool" where
  "outbox_extends base d \<longleftrightarrow> take (length base) (Outbox d) = base"

interpretation outbox: table_invariant "outbox_extends base" for base
  by unfold_locales
    (auto simp: outbox_extends_def insert_Inr delete_expired_def dest!: update_Inr
      dest: arg_cong [where f = length])

end
