(* ===== verification/ServiceProps.thy ===== *)
theory ServiceProps
  imports Service Statements
begin

text \<open>
  The ways each operation of the service can end, as elimination rules: refused before the
  tables are touched, answered from a read, or one transaction on them. The properties of the
  operations are proved by cases on these rules.
\<close>

section \<open>How an operation ends\<close>

lemma frequency_loop_db: "frequency_loop env l checks w = (r, w') \<Longrightarrow> w_db w' = w_db w"
  by (induction env l checks w rule: frequency_loop.induct)
     (auto split: prod.splits sum.splits if_splits dest!: Allow_db)

lemma checkFrequency_db: "checkFrequency env s t a c ch rc w = (r, w') \<Longrightarrow> w_db w' = w_db w"
  by (auto simp: checkFrequency_def split: option.splits if_splits dest: frequency_loop_db)

lemmas read_results =
  GetProvider_result GetTemplate_result GetDeliveryByProviderMessage_result checkFrequency_db
  read_clock_result new_uuid_result

lemmas operation_splits = if_splits sum.splits prod.splits option.splits

lemma Send_cases:
  assumes "Send env s ctx t a c ch lo rc k vars w = (r, w')"
  obtains (refused) e where "r = Inl e" "w_db w' = w_db w"
  | (replayed) d caller where "r = Inr d" "w_db w' = w_db w"
      "authorize env ctx (TrimSpace t) (TrimSpace a) = Inr caller"
      "GetDeliveryByKey env (TrimSpace t) (TrimSpace a) (TrimSpace k) w = (Inr d, w')"
  | (attempted) v caller encoded i j w5 r' where "w_db w5 = w_db w"
      "authorize env ctx (TrimSpace t) (TrimSpace a) = Inr caller"
      "TrimSpace a \<noteq> []" "validChannel (lowered env ch)"
      "v = new_delivery (NewUUID env i) (TrimSpace t) (TrimSpace a) (lowered env c) (lowered env ch)
             (lowered env lo) (TrimSpace rc) encoded (TrimSpace k) (Clock env j) (pr_ID caller)"
      "Within env (svc_db_enabled s) (send_tx env v) w5 = (r', w')"
      "r = translate_result (map_sum id (\<lambda>_. v) r')"
  using assms unfolding Send_def valid_send_def Let_def
  by (auto split: operation_splits dest!: read_results getter_db(4))

lemma PutProvider_cases:
  assumes "PutProvider env s ctx v0 x w = (r, w')"
  obtains (refused) e where "r = Inl e" "w_db w' = w_db w"
  | (created) nv v caller i j w3 r' where "nv = normalize_provider env v0" "valid_provider nv"
      "map_of (svc_outboundHTTP s) (p_Upstream nv) \<noteq> None"
      "providerUpstreamAllowed (Notification_ProviderUpstreams (svc_config s)) (p_Upstream nv)"
      "authorize env ctx (p_TenantID nv) (p_ApplicationID nv) = Inr caller"
      "w_db w3 = w_db w" "x = 0" "provider_key nv \<notin> provider_key ` set (Providers (w_db w))"
      "v = new_provider nv (NewUUID env i) (Clock env j) (pr_ID caller)"
      "Within env (svc_db_enabled s) (InsertProvider env v) w3 = (r', w')"
      "r = translate_result (map_sum id (\<lambda>_. v) r')"
  | (updated) nv v old caller j w2 r' where "nv = normalize_provider env v0" "valid_provider nv"
      "map_of (svc_outboundHTTP s) (p_Upstream nv) \<noteq> None"
      "providerUpstreamAllowed (Notification_ProviderUpstreams (svc_config s)) (p_Upstream nv)"
      "authorize env ctx (p_TenantID nv) (p_ApplicationID nv) = Inr caller"
      "w_db w2 = w_db w" "0 < x" "old \<in> set (Providers (w_db w))" "p_Version old = x"
      "provider_key old = provider_key nv"
      "v = merge_provider old nv (Clock env j) (pr_ID caller)"
      "Within env (svc_db_enabled s) (UpdateProvider env v x) w2 = (r', w')"
      "r = translate_result (map_sum id (\<lambda>_. v\<lparr>p_Version := wrap64 (x + 1)\<rparr>) r')"
  using assms unfolding PutProvider_def Let_def
  by (auto split: operation_splits dest!: read_results simp: provider_key_def)

lemma PutTemplate_cases:
  assumes "PutTemplate env s ctx v0 x w = (r, w')"
  obtains (refused) e where "r = Inl e" "w_db w' = w_db w"
  | (created) nv v caller i j w3 r' where "nv = normalize_template env v0"
      "t_ApplicationID nv \<noteq> []" "validChannel (t_Channel nv)"
      "TemplateParse env (t_Code nv) (t_Subject nv @ t_Content nv) = None"
      "authorize env ctx (t_TenantID nv) (t_ApplicationID nv) = Inr caller"
      "w_db w3 = w_db w" "template_key nv \<notin> template_key ` set (Templates (w_db w))"
      "v = new_template nv (NewUUID env i) (Clock env j) (pr_ID caller)"
      "Within env (svc_db_enabled s) (InsertTemplate env v) w3 = (r', w')"
      "r = translate_result (map_sum id (\<lambda>_. v) r')"
  | (updated) nv v old caller j w2 r' where "nv = normalize_template env v0"
      "t_ApplicationID nv \<noteq> []" "validChannel (t_Channel nv)"
      "TemplateParse env (t_Code nv) (t_Subject nv @ t_Content nv) = None"
      "authorize env ctx (t_TenantID nv) (t_ApplicationID nv) = Inr caller"
      "w_db w2 = w_db w" "old \<in> set (Templates (w_db w))" "template_key old = template_key nv"
      "v = merge_template old nv (Clock env j) (pr_ID caller)"
      "Within env (svc_db_enabled s) (UpdateTemplate env v x) w2 = (r', w')"
      "r = translate_result (map_sum id (\<lambda>_. v\<lparr>t_Version := wrap64 (x + 1)\<rparr>) r')"
  using assms unfolding PutTemplate_def Let_def
  by (auto split: operation_splits dest!: read_results simp: template_key_def)

lemma RecordReceipt_cases:
  assumes "RecordReceipt env s ctx t a p m st rs w = (r, w')"
  obtains (refused) e where "r = Inl e" "w_db w' = w_db w"
  | (repeated) d where "r = Inr d" "w_db w' = w_db w" "d \<in> set (Deliveries (w_db w))"
      "d_Status d = lowered env st" "validReceiptStatus (lowered env st)"
      "d_TenantID d = TrimSpace t" "d_ApplicationID d = TrimSpace a"
      "d_Provider d = lowered env p" "d_ProviderMessageID d = TrimSpace m"
  | (recorded) d v caller j w2 r' where "w_db w2 = w_db w"
      "authorize env ctx (TrimSpace t) (TrimSpace a) = Inr caller"
      "d \<in> set (Deliveries (w_db w))" "\<not> terminalDeliveryStatus (d_Status d)"
      "d_TenantID d = TrimSpace t" "d_ApplicationID d = TrimSpace a"
      "d_Provider d = lowered env p" "d_ProviderMessageID d = TrimSpace m" "TrimSpace m \<noteq> []"
      "validReceiptStatus (lowered env st)"
      "v = receipt_delivery d (lowered env st) (TrimSpace rs) (Clock env j) (pr_ID caller)"
      "Within env (svc_db_enabled s) (finish_tx env v) w2 = (r', w')"
      "r = translate_result (map_sum id (\<lambda>_. v\<lparr>d_Version := wrap64 (d_Version v + 1)\<rparr>) r')"
  using assms unfolding RecordReceipt_def Let_def
  by (auto split: operation_splits dest!: read_results)

section \<open>The transactions\<close>

lemma translate_simps [simp]:
  "translate (Errorf m) = Internal (Some (Errorf m))"
  "translate ErrNotFound = NotFound ''notification resource not found''"
  "translate ErrStaleVersion = StaleVersion (Some ErrStaleVersion)"
  by (simp_all add: translate_def)

lemma translate_result_simps [simp]:
  "translate_result (Inl e) = Inl (translate e)" "translate_result (Inr x) = Inr x"
  by (simp_all add: translate_result_def)

lemma addDeliveryEvent_Inr:
  assumes "addDeliveryEvent env v ty sub w = (Inr u, w')"
  obtains i where "w_db w' = (w_db w)\<lparr>Outbox := Outbox (w_db w) @ [outbox_row (delivery_event env (NewUUID env i) v ty sub)]\<rparr>"
    "EnvelopeError env (delivery_envelope env (NewUUID env i) v ty) = None"
    "NewUUID env i \<notin> (\<lambda>r. oe_ID (ob_event r)) ` set (Outbox (w_db w))"
  using assms
  by (auto simp: addDeliveryEvent_def insert_Inr delivery_event_def split: prod.splits option.splits
      dest!: AddOutbox_Inr new_uuid_result)

lemma addDeliveryEvent_error: "addDeliveryEvent env v ty sub w = (Inl e, w') \<Longrightarrow> \<exists>m. e = Errorf m"
  by (auto simp: addDeliveryEvent_def split: prod.splits option.splits dest!: write_errors)

text \<open>The delivery and its event appear together.\<close>

lemma send_tx_Inr:
  assumes "send_tx env v w = (Inr u, w')"
  obtains i where "w_db w' = (w_db w)\<lparr>Deliveries := Deliveries (w_db w) @ [v],
      Outbox := Outbox (w_db w) @ [outbox_row (delivery_event env (NewUUID env i) v requested_type requested_subject)]\<rparr>"
    "delivery_key v \<notin> delivery_key ` set (Deliveries (w_db w))"
    "d_ID v \<notin> d_ID ` set (Deliveries (w_db w))"
  using assms
  by (auto simp: send_tx_def insert_Inr split: prod.splits sum.splits
      dest!: InsertDelivery_Inr elim!: addDeliveryEvent_Inr)

lemma send_tx_error: "send_tx env v w = (Inl e, w') \<Longrightarrow> \<exists>m. e = Errorf m"
  by (auto simp: send_tx_def split: prod.splits sum.splits dest: write_errors addDeliveryEvent_error)

text \<open>So do a status change and its event; exactly the row at the expected version changes.\<close>

definition finished_rows :: "Delivery \<Rightarrow> Delivery list \<Rightarrow> Delivery list" where
  "finished_rows v rows =
     update_where (at_version d_ID d_Version (d_ID v) (d_Version v)) (set_finished v) rows"

lemma finish_tx_Inr:
  assumes "finish_tx env v w = (Inr u, w')"
  obtains i r where "r \<in> set (Deliveries (w_db w))" "d_ID r = d_ID v" "d_Version r = d_Version v"
    "delivery_row_ok (set_finished v r)"
    "w_db w' = (w_db w)\<lparr>Deliveries := finished_rows v (Deliveries (w_db w)),
      Outbox := Outbox (w_db w) @
        [outbox_row (delivery_event env (NewUUID env i) (v\<lparr>d_Version := wrap64 (d_Version v + 1)\<rparr>)
           status_type status_subject)]\<rparr>"
proof -
  from assms obtain w1 where w1: "Finish env v (d_Version v) w = (Inr (), w1)"
    "addDeliveryEvent env (v\<lparr>d_Version := wrap64 (d_Version v + 1)\<rparr>) status_type status_subject w1 = (Inr u, w')"
    by (auto simp: finish_tx_def split: prod.splits sum.splits)
  from w1(1) obtain rows where rows:
    "cas_update d_ID d_Version delivery_row_ok (set_finished v) (d_ID v) (d_Version v) (Deliveries (w_db w))
       = Inr (1, rows)" "w_db w1 = (w_db w)\<lparr>Deliveries := rows\<rparr>"
    by (blast dest: Finish_Inr finish_delivery_Inr)
  from finishes.cas_one [OF rows(1)] obtain r where r: "r \<in> set (Deliveries (w_db w))" "d_ID r = d_ID v"
    "d_Version r = d_Version v" by blast
  with finishes.cas_rows [OF rows(1)] have "rows = finished_rows v (Deliveries (w_db w))"
    "delivery_row_ok (set_finished v r)"
    by (auto simp: finished_rows_def at_version_def)
  with w1(2) rows(2) r that show ?thesis
    by (elim addDeliveryEvent_Inr) auto
qed

section \<open>Table properties\<close>

context table_invariant
begin

lemma addDeliveryEvent_inv:
  "addDeliveryEvent env v ty sub w = (r, w') \<Longrightarrow> inv (w_db w) \<Longrightarrow> inv (w_db w')"
  by (auto simp: addDeliveryEvent_def split: prod.splits option.splits
      dest!: new_uuid_result dest: AddOutbox_inv)

lemma send_tx_inv: "send_tx env v w = (r, w') \<Longrightarrow> inv (w_db w) \<Longrightarrow> inv (w_db w')"
  by (auto simp: send_tx_def split: prod.splits sum.splits
      dest: InsertDelivery_inv addDeliveryEvent_inv)

lemma finish_tx_inv: "finish_tx env v w = (r, w') \<Longrightarrow> inv (w_db w) \<Longrightarrow> inv (w_db w')"
  by (auto simp: finish_tx_def split: prod.splits sum.splits dest: Finish_inv addDeliveryEvent_inv)

lemma Send_inv:
  assumes "Send env s ctx t a c ch lo rc k vars w = (r, w')" and "inv (w_db w)"
    and "\<And>n d. inv d \<Longrightarrow> inv (Others env n d)"
  shows "inv (w_db w')"
  using assms(1) by (cases rule: Send_cases) (use assms in \<open>auto elim!: Within_inv send_tx_inv\<close>)

lemma PutProvider_inv:
  assumes "PutProvider env s ctx v x w = (r, w')" and "inv (w_db w)"
    and "\<And>n d. inv d \<Longrightarrow> inv (Others env n d)"
  shows "inv (w_db w')"
  using assms(1)
  by (cases rule: PutProvider_cases)
     (use assms in \<open>auto elim!: Within_inv InsertProvider_inv UpdateProvider_inv\<close>)

lemma PutTemplate_inv:
  assumes "PutTemplate env s ctx v x w = (r, w')" and "inv (w_db w)"
    and "\<And>n d. inv d \<Longrightarrow> inv (Others env n d)"
  shows "inv (w_db w')"
  using assms(1)
  by (cases rule: PutTemplate_cases)
     (use assms in \<open>auto elim!: Within_inv InsertTemplate_inv UpdateTemplate_inv\<close>)

lemma RecordReceipt_inv:
  assumes "RecordReceipt env s ctx t a p m st rs w = (r, w')" and "inv (w_db w)"
    and "\<And>n d. inv d \<Longrightarrow> inv (Others env n d)"
  shows "inv (w_db w')"
  using assms(1) by (cases rule: RecordReceipt_cases) (use assms in \<open>auto elim!: Within_inv finish_tx_inv\<close>)

end

end
