(* ===== verification/OutboundHTTP.thy ===== *)
theory OutboundHTTP
  imports World Url
begin

text \<open>
  The outbound HTTP client and the client registry (\<open>internal/outbound/http.go\<close>,
  \<open>internal/outbound/registry.go\<close>). The exchange of a request, the decision of the circuit
  breaker and a cancellation during a back-off come from the surroundings; \<open>hr_client\<close> names
  the upstream. The URL of a request is the resolved reference; printing it and parsing it again, as
  \<open>http.NewRequest\<close> does, is left to \<open>RequestError\<close>. What is recorded of
  a call is in \<open>Observability\<close>, the length of a back-off in \<open>Backoff\<close>.
\<close>

section \<open>Definitions\<close>

record HTTPClient =
  hc_name :: string
  hc_baseURL :: URL
  hc_cfg :: HTTPUpstream_cfg
  hc_breaker :: bool

text \<open>\<open>tls_error\<close>: reading the CA file or loading the client certificate fails.\<close>

definition NewHTTPClient ::
  "(ClientTLS_cfg \<Rightarrow> string option) \<Rightarrow> string \<Rightarrow> HTTPUpstream_cfg \<Rightarrow> HTTPClient result" where
  "NewHTTPClient tls_error name cfg =
     (if ClientAuth_Type (HTTPUpstream_Auth cfg) \<noteq> [] \<and> \<not> ClientTLS_Enabled (HTTPUpstream_TLS cfg)
      then Inl (Errorf ''refusing to send outbound HTTP credentials without TLS'')
      else
        (case url_Parse (HTTPUpstream_BaseURL cfg) of
           None \<Rightarrow> Inl (Errorf (''parse outbound HTTP base URL '' @ quoted (HTTPUpstream_BaseURL cfg)))
         | Some baseURL \<Rightarrow>
             (if url_Scheme baseURL = [] \<or> url_Host baseURL = []
              then Inl (Errorf (''parse outbound HTTP base URL '' @ quoted (HTTPUpstream_BaseURL cfg)))
              else
                (case tls_error (HTTPUpstream_TLS cfg) of
                   Some m \<Rightarrow> Inl (Errorf m)
                 | None \<Rightarrow>
                     Inr \<lparr>hc_name = name, hc_baseURL = baseURL, hc_cfg = cfg,
                       hc_breaker = Breaker_Enabled (HTTPUpstream_Breaker cfg)\<rparr>))))"

definition retryableMethod :: "Context \<Rightarrow> string \<Rightarrow> bool" where
  "retryableMethod ctx method \<longleftrightarrow>
     method = ''GET'' \<or> method = ''HEAD'' \<or> method = ''OPTIONS'' \<or> method = ''PUT'' \<or>
     method = ''DELETE'' \<or> ctx_IdempotencyKey ctx \<noteq> None"

definition retryableHTTPStatus :: "int \<Rightarrow> bool" where
  "retryableHTTPStatus status \<longleftrightarrow> status = 429 \<or> status = 502 \<or> status = 503 \<or> status = 504"

definition header_set :: "string \<Rightarrow> string \<Rightarrow> (string \<times> string) list \<Rightarrow> (string \<times> string) list" where
  "header_set k v headers = (k, v) # filter (\<lambda>h. fst h \<noteq> k) headers"

definition header_get :: "(string \<times> string) list \<Rightarrow> string \<Rightarrow> string" where
  "header_get headers k = (case map_of headers k of None \<Rightarrow> [] | Some v \<Rightarrow> v)"

definition applyHTTPAuth :: "ClientAuth_cfg \<Rightarrow> (string \<times> string) list \<Rightarrow> (string \<times> string) list" where
  "applyHTTPAuth auth headers =
     (if ClientAuth_Type auth = ''bearer'' then header_set ''Authorization'' (''Bearer '' @ ClientAuth_Token auth) headers
      else if ClientAuth_Type auth = ''psk'' then header_set ''Authorization'' (''PSK '' @ ClientAuth_Token auth) headers
      else headers)"

definition build_request ::
  "HTTPClient \<Rightarrow> string \<Rightarrow> URL \<Rightarrow> string \<Rightarrow> (string \<times> string) list \<Rightarrow> http_request" where
  "build_request c method ref body headers =
     (let h1 = (if body \<noteq> [] \<and> header_get headers ''Content-Type'' = []
                then header_set ''Content-Type'' ''application/json'' headers else headers)
      in \<lparr>hr_client = hc_name c, hr_method = method, hr_url = ResolveReference (hc_baseURL c) ref,
          hr_body = body,
          hr_headers = applyHTTPAuth (HTTPUpstream_Auth (hc_cfg c)) h1\<rparr>)"

text \<open>The attempt loop; the first argument counts the attempts that are left.\<close>

fun retry_loop :: "nat \<Rightarrow> env \<Rightarrow> http_request \<Rightarrow> world \<Rightarrow> http_response result \<times> world" where
  "retry_loop 0 env request w = (Inl (Errorf ''outbound HTTP attempts exhausted''), w)"
| "retry_loop (Suc left) env request w =
     (case RequestError env request of
        Some m \<Rightarrow> (Inl (Errorf (''create outbound HTTP request: '' @ m)), w)
      | None \<Rightarrow>
          (let w1 = w\<lparr>w_calls := Suc (w_calls w)\<rparr>; outcome = Exchange env (w_calls w) request in
           (case outcome of
              Responded response \<Rightarrow>
                (if \<not> retryableHTTPStatus (resp_StatusCode response) \<or> left = 0 then (Inr response, w1)
                 else
                   (case WaitCancelled env (w_calls w) of
                      Some m \<Rightarrow> (Inl (Errorf m), w1)
                    | None \<Rightarrow> retry_loop left env request w1))
            | TransportError m \<Rightarrow>
                (if left = 0 then (Inl (Errorf (''call outbound HTTP service: '' @ m)), w1)
                 else
                   (case WaitCancelled env (w_calls w) of
                      Some m' \<Rightarrow> (Inl (Errorf m'), w1)
                    | None \<Rightarrow> retry_loop left env request w1)))))"

definition doWithRetry ::
  "env \<Rightarrow> HTTPClient \<Rightarrow> Context \<Rightarrow> string \<Rightarrow> string \<Rightarrow> string \<Rightarrow> (string \<times> string) list \<Rightarrow> world
   \<Rightarrow> http_response result \<times> world" where
  "doWithRetry env c ctx method requestPath body headers w =
     (case url_Parse requestPath of
        None \<Rightarrow> (Inl (Errorf ''outbound HTTP path must be relative''), w)
      | Some reference \<Rightarrow>
          (if url_Scheme reference \<noteq> [] \<or> url_Host reference \<noteq> []
           then (Inl (Errorf ''outbound HTTP path must be relative''), w)
           else
             (let maxAttempts =
                    (if retryableMethod ctx method then Retry_MaxAttempts (HTTPUpstream_Retry (hc_cfg c)) else 1)
              in retry_loop (nat maxAttempts) env (build_request c method reference body headers) w)))"

text \<open>
  \<open>execute\<close> and \<open>Do\<close>: behind an enabled breaker the call may be rejected; a retryable
  status is reported to the breaker as a failure and still returned to the caller.
\<close>

definition HTTPClient_Do ::
  "env \<Rightarrow> HTTPClient \<Rightarrow> Context \<Rightarrow> string \<Rightarrow> string \<Rightarrow> string \<Rightarrow> (string \<times> string) list \<Rightarrow> world
   \<Rightarrow> http_response result \<times> world" where
  "HTTPClient_Do env c ctx method requestPath body headers w =
     (if \<not> hc_breaker c then doWithRetry env c ctx method requestPath body headers w
      else
        (case BreakerRejects env (w_calls w) of
           Some m \<Rightarrow> (Inl (Errorf m), w)
         | None \<Rightarrow> doWithRetry env c ctx method requestPath body headers w))"

type_synonym HTTPRegistry = "(string \<times> HTTPClient) list"

text \<open>The HTTP half of \<open>NewRegistry\<close>: the first client that cannot be built is the error.\<close>

fun new_http_clients ::
  "(ClientTLS_cfg \<Rightarrow> string option) \<Rightarrow> (string \<times> HTTPUpstream_cfg) list \<Rightarrow> HTTPRegistry result" where
  "new_http_clients tls_error [] = Inr []"
| "new_http_clients tls_error ((name, upstream) # rest) =
     (case NewHTTPClient tls_error name upstream of
        Inl e \<Rightarrow> Inl (Errorf (''create outbound HTTP client '' @ quoted name @ '': '' @ error_text e))
      | Inr client \<Rightarrow>
          (case new_http_clients tls_error rest of
             Inl e \<Rightarrow> Inl e
           | Inr clients \<Rightarrow> Inr ((name, client) # clients)))"

definition Registry_HTTP :: "HTTPRegistry \<Rightarrow> string \<Rightarrow> HTTPClient option" where
  "Registry_HTTP registry name = map_of registry name"

section \<open>Lemmas\<close>

lemma retry_loop_step:
  assumes "retry_loop (Suc n) env req w = (r, w')"
  obtains (ended) "w_db w' = w_db w" "w_calls w \<le> w_calls w'" "w_calls w' \<le> Suc (w_calls w)"
  | (again) w1 where "retry_loop n env req w1 = (r, w')" "w_db w1 = w_db w" "w_calls w1 = Suc (w_calls w)"
  using assms
  by (auto simp: Let_def split: option.splits http_outcome.splits if_splits)

lemma retry_loop_world:
  "retry_loop n env req w = (r, w') \<Longrightarrow>
   w_db w' = w_db w \<and> w_calls w \<le> w_calls w' \<and> w_calls w' \<le> w_calls w + n"
proof (induction n arbitrary: w)
  case (Suc n)
  from Suc.prems show ?case
    by (cases rule: retry_loop_step) (auto dest: Suc.IH)
qed simp

declare retry_loop.simps [simp del]

lemma HTTPClient_Do_db: "HTTPClient_Do env c ctx m p b h w = (r, w') \<Longrightarrow> w_db w' = w_db w"
  by (auto simp: HTTPClient_Do_def doWithRetry_def Let_def split: if_splits option.splits
        dest: retry_loop_world)

lemma HTTPClient_Do_calls:
  assumes "HTTPClient_Do env c ctx m p b h w = (r, w')"
  shows "w_calls w \<le> w_calls w' \<and>
    w_calls w' \<le> w_calls w +
      (if retryableMethod ctx m then nat (Retry_MaxAttempts (HTTPUpstream_Retry (hc_cfg c))) else 1)"
  using assms
  by (auto simp: HTTPClient_Do_def doWithRetry_def Let_def simp del: One_nat_def
        split: if_splits option.splits dest!: retry_loop_world)

end
