(* ===== verification/Dispatcher.thy ===== *)
theory Dispatcher
  imports Service OutboundHTTP
begin

text \<open>
  The dispatcher (\<open>internal/notification/dispatcher.go\<close>): senders, the resolution of a
  delivery's sender, one delivery attempt and one round of the worker.
\<close>

section \<open>Definitions\<close>

subsection \<open>Senders\<close>

record Message =
  m_DeliveryID :: string
  m_Channel :: string
  m_Recipient :: string
  m_Subject :: string
  m_Content :: string

record SendResult =
  sr_Provider :: string
  sr_MessageID :: string

datatype Sender =
    InAppSender
  | unavailableSender string
  | ProviderSender string string HTTPClient string

type_synonym SenderRegistry = "string \<rightharpoonup> Sender"

definition provider_payload :: "Message \<Rightarrow> (string \<rightharpoonup> string)" where
  "provider_payload message =
     [''delivery_id'' \<mapsto> m_DeliveryID message, ''channel'' \<mapsto> m_Channel message,
      ''recipient'' \<mapsto> m_Recipient message, ''subject'' \<mapsto> m_Subject message,
      ''content'' \<mapsto> m_Content message]"

definition ProviderSender_Send ::
  "env \<Rightarrow> Context \<Rightarrow> string \<Rightarrow> HTTPClient \<Rightarrow> string \<Rightarrow> Message \<Rightarrow> world \<Rightarrow> SendResult result \<times> world" where
  "ProviderSender_Send env ctx provider client path message w =
     (case JsonMarshal env (provider_payload message) of
        Inl m \<Rightarrow> (Inl (Errorf (''encode provider request: '' @ m)), w)
      | Inr payload \<Rightarrow>
          (case HTTPClient_Do env client ctx ''POST'' path payload [] w of
             (Inl e, w1) \<Rightarrow> (Inl e, w1)
           | (Inr response, w1) \<Rightarrow>
               (if resp_StatusCode response < 200 \<or> resp_StatusCode response \<ge> 300
                then (Inl (Errorf (''provider returned status '' @ int_text (resp_StatusCode response))), w1)
                else
                  (case JsonMessageID env (resp_Body response) of
                     Inl m \<Rightarrow> (Inl (Errorf (''decode provider response: '' @ m)), w1)
                   | Inr message_id \<Rightarrow>
                       (if message_id = []
                        then (Inl (Errorf ''provider response omitted message_id''), w1)
                        else (Inr \<lparr>sr_Provider = provider, sr_MessageID = message_id\<rparr>, w1))))))"

fun Sender_Send :: "env \<Rightarrow> Context \<Rightarrow> Sender \<Rightarrow> Message \<Rightarrow> world \<Rightarrow> SendResult result \<times> world" where
  "Sender_Send env ctx InAppSender message w =
     (Inr \<lparr>sr_Provider = ''in_app'', sr_MessageID = ''stored''\<rparr>, w)"
| "Sender_Send env ctx (unavailableSender channel) message w =
     (Inl (Errorf (channel @ '' provider is not configured'')), w)"
| "Sender_Send env ctx (ProviderSender provider channel client path) message w =
     ProviderSender_Send env ctx provider client path message w"

definition base_senders :: SenderRegistry where
  "base_senders =
     [''in_app'' \<mapsto> InAppSender, ''email'' \<mapsto> unavailableSender ''email'',
      ''sms'' \<mapsto> unavailableSender ''sms'', ''webhook'' \<mapsto> unavailableSender ''webhook'']"

definition NewSenderRegistry :: "HTTPRegistry \<Rightarrow> Config \<Rightarrow> SenderRegistry" where
  "NewSenderRegistry registry cfg =
     fold (\<lambda>(channel, provider) senders.
             (case Registry_HTTP registry (NotificationProvider_Upstream provider) of
                None \<Rightarrow> senders
              | Some client \<Rightarrow>
                  (if channel = ''email'' \<or> channel = ''sms'' \<or> channel = ''webhook''
                   then senders(channel \<mapsto> ProviderSender channel channel client (NotificationProvider_Path provider))
                   else senders)))
       (Notification_Providers (c_Notification cfg)) base_senders"

subsection \<open>The dispatcher\<close>

record Dispatcher =
  dp_db_enabled :: bool
  dp_senders :: SenderRegistry
  dp_outbound :: HTTPRegistry
  dp_cfg :: Notification_cfg

definition NewDispatcher :: "bool \<Rightarrow> SenderRegistry \<Rightarrow> HTTPRegistry \<Rightarrow> Config \<Rightarrow> Dispatcher" where
  "NewDispatcher db_enabled senders registry cfg =
     (let n = c_Notification cfg in
      \<lparr>dp_db_enabled = db_enabled, dp_senders = senders, dp_outbound = registry,
       dp_cfg = n\<lparr>
         Notification_DispatchInterval :=
           (if Notification_DispatchInterval n \<le> 0 then second else Notification_DispatchInterval n),
         Notification_BatchSize := (if Notification_BatchSize n \<le> 0 then 100 else Notification_BatchSize n),
         Notification_MaxAttempts := (if Notification_MaxAttempts n \<le> 0 then 8 else Notification_MaxAttempts n),
         Notification_RetryBase := (if Notification_RetryBase n \<le> 0 then 5 * second else Notification_RetryBase n)\<rparr>\<rparr>)"

definition render :: "env \<Rightarrow> string \<Rightarrow> string \<Rightarrow> (string \<rightharpoonup> string) \<Rightarrow> string result" where
  "render env name source variables =
     (case TemplateParse env name source of
        Some m \<Rightarrow> Inl (Errorf m)
      | None \<Rightarrow>
          (case TemplateExecute env name source variables of
             Inl m \<Rightarrow> Inl (Errorf m)
           | Inr out \<Rightarrow> Inr out))"

text \<open>\<open>errors.Join\<close> of the two rendering errors.\<close>

definition join_errors :: "'a result \<Rightarrow> 'b result \<Rightarrow> ('a \<times> 'b) result" where
  "join_errors a b =
     (case (a, b) of
        (Inr x, Inr y) \<Rightarrow> Inr (x, y)
      | (Inl e, Inr _) \<Rightarrow> Inl (Errorf (error_text e))
      | (Inr _, Inl e) \<Rightarrow> Inl (Errorf (error_text e))
      | (Inl e, Inl e') \<Rightarrow> Inl (Errorf (error_text e @ [CHR 0x0A] @ error_text e')))"

definition retryBackoff :: "duration \<Rightarrow> int \<Rightarrow> duration" where
  "retryBackoff base attempt =
     (let shift = max 0 (min (wrap32 (attempt - 1)) 10) in wrap64 (base * wrap64 (2 ^ nat shift)))"

definition find_sender :: "env \<Rightarrow> Dispatcher \<Rightarrow> Delivery \<Rightarrow> world \<Rightarrow> (Sender option) result \<times> world" where
  "find_sender env d delivery w =
     (case ListProviders env (d_TenantID delivery) (d_ApplicationID delivery) [] (d_Channel delivery)
             ''active'' 1 0 w of
        (Inl e, w1) \<Rightarrow> (Inl (Errorf (''resolve notification provider: '' @ error_text e)), w1)
      | (Inr ([], _), w1) \<Rightarrow> (Inr (dp_senders d (d_Channel delivery)), w1)
      | (Inr (provider # _, _), w1) \<Rightarrow>
          (if \<not> providerUpstreamAllowed (Notification_ProviderUpstreams (dp_cfg d)) (p_Upstream provider)
           then (Inl (Errorf (''notification provider upstream '' @ quoted (p_Upstream provider) @ '' is not allowed'')), w1)
           else
             (case Registry_HTTP (dp_outbound d) (p_Upstream provider) of
                None \<Rightarrow>
                  (Inl (Errorf (''notification provider upstream '' @ quoted (p_Upstream provider) @ '' is not configured'')), w1)
              | Some client \<Rightarrow>
                  (Inr (Some (ProviderSender (p_Code provider) (p_Channel provider) client (p_Path provider))), w1))))"

text \<open>The attempt: template, variables, rendering, sender, send; the first error ends it.\<close>

definition attempt :: "env \<Rightarrow> Dispatcher \<Rightarrow> Context \<Rightarrow> Delivery \<Rightarrow> world \<Rightarrow> SendResult result \<times> world" where
  "attempt env d ctx delivery w =
     (case GetTemplate env (d_TenantID delivery) (d_ApplicationID delivery) (d_TemplateCode delivery)
             (d_Channel delivery) (d_Locale delivery) w of
        (Inl e, w1) \<Rightarrow> (Inl e, w1)
      | (Inr tpl, w1) \<Rightarrow>
          (case JsonUnmarshal env (d_Variables delivery) of
             (Some m, _) \<Rightarrow> (Inl (Errorf m), w1)
           | (None, variables) \<Rightarrow>
               (case join_errors (render env (t_Code tpl @ ''-subject'') (t_Subject tpl) variables)
                                 (render env (t_Code tpl @ ''-content'') (t_Content tpl) variables) of
                  Inl e \<Rightarrow> (Inl e, w1)
                | Inr (subject, content) \<Rightarrow>
                    (case find_sender env d delivery w1 of
                       (Inl e, w2) \<Rightarrow> (Inl e, w2)
                     | (Inr None, w2) \<Rightarrow>
                         (Inl (Errorf (''sender for '' @ d_Channel delivery @ '' is not configured'')), w2)
                     | (Inr (Some sender), w2) \<Rightarrow>
                         Sender_Send env ctx sender
                           \<lparr>m_DeliveryID = d_ID delivery, m_Channel = d_Channel delivery,
                            m_Recipient = d_Recipient delivery, m_Subject = subject, m_Content = content\<rparr> w2))))"

text \<open>The delivery value after the attempt, before it is stored.\<close>

definition settled :: "Notification_cfg \<Rightarrow> time \<Rightarrow> SendResult result \<Rightarrow> Delivery \<Rightarrow> Delivery" where
  "settled cfg now outcome delivery0 =
     (let delivery = delivery0\<lparr>d_UpdatedAt := now, d_UpdatedBy := ''notification-dispatcher''\<rparr> in
      (case outcome of
         Inr result \<Rightarrow>
           delivery\<lparr>d_Status := ''sent'', d_Provider := sr_Provider result,
             d_ProviderMessageID := sr_MessageID result, d_FailureReason := []\<rparr>
       | Inl err \<Rightarrow>
           (if d_Attempts delivery \<ge> Notification_MaxAttempts cfg
            then delivery\<lparr>d_FailureReason := error_text err, d_Status := ''dead_letter''\<rparr>
            else delivery\<lparr>d_FailureReason := error_text err, d_Status := ''retrying'',
                   d_NextAttemptAt := now + retryBackoff (Notification_RetryBase cfg) (d_Attempts delivery)\<rparr>)))"

text \<open>\<open>deliver\<close> drops the error of the final transaction.\<close>

definition deliver :: "env \<Rightarrow> Dispatcher \<Rightarrow> Context \<Rightarrow> Delivery \<Rightarrow> world \<Rightarrow> world" where
  "deliver env d ctx delivery w =
     (case attempt env d ctx delivery w of (outcome, w1) \<Rightarrow>
        (case read_clock env w1 of (now, w2) \<Rightarrow>
           snd (Within env (dp_db_enabled d) (finish_tx env (settled (dp_cfg d) now outcome delivery)) w2)))"

fun deliver_all :: "env \<Rightarrow> Dispatcher \<Rightarrow> Context \<Rightarrow> Delivery list \<Rightarrow> world \<Rightarrow> world" where
  "deliver_all env d ctx [] w = w"
| "deliver_all env d ctx (delivery # rest) w = deliver_all env d ctx rest (deliver env d ctx delivery w)"

definition claim_tx :: "env \<Rightarrow> Dispatcher \<Rightarrow> world \<Rightarrow> (Delivery list) result \<times> world" where
  "claim_tx env d w =
     (case read_clock env w of (now, w1) \<Rightarrow> ClaimDue env now (Notification_BatchSize (dp_cfg d)) w1)"

definition RunOnce :: "env \<Rightarrow> Dispatcher \<Rightarrow> Context \<Rightarrow> world \<Rightarrow> int result \<times> world" where
  "RunOnce env d ctx w =
     (case Within env (dp_db_enabled d) (claim_tx env d) w of
        (Inl e, w1) \<Rightarrow> (Inl e, w1)
      | (Inr due, w1) \<Rightarrow> (Inr (int (length due)), deliver_all env d ctx due w1))"

end
