(* ===== verification/Interference.thy ===== *)
theory Interference
  imports Statements
begin

text \<open>
  What the sessions of the service may rely on while others commit. An \<open>orderly\<close> environment
  keeps the constraints of the schema, never changes a row without raising its version and never
  changes its key, so a row that is found at the version it was read with is the row that was read. The statements of
  the repository give the same guarantee (\<open>statement_forward\<close>): several instances of the
  service are orderly surroundings for each other, as long as ids are not reused.
\<close>

section \<open>Definitions\<close>

definition rows_forward ::
  "('r \<Rightarrow> string) \<Rightarrow> ('r \<Rightarrow> int) \<Rightarrow> ('r \<Rightarrow> 'k) \<Rightarrow> 'r list \<Rightarrow> 'r list \<Rightarrow> bool" where
  "rows_forward ident vers key rows rows' \<longleftrightarrow>
     (\<forall>r \<in> set rows. \<forall>r' \<in> set rows'. ident r' = ident r \<longrightarrow>
        r' = r \<or> (vers r < vers r' \<and> key r' = key r))"

definition db_forward :: "db \<Rightarrow> db \<Rightarrow> bool" where
  "db_forward d d' \<longleftrightarrow>
     rows_forward p_ID p_Version provider_key (Providers d) (Providers d') \<and>
     rows_forward t_ID t_Version template_key (Templates d) (Templates d') \<and>
     rows_forward d_ID d_Version delivery_key (Deliveries d) (Deliveries d')"

definition orderly :: "env \<Rightarrow> bool" where
  "orderly env \<longleftrightarrow>
     (\<forall>n d. schema_ok d \<longrightarrow> schema_ok (Others env n d) \<and> db_forward d (Others env n d))"

section \<open>Lemmas\<close>

lemma orderlyD:
  "orderly env \<Longrightarrow> schema_ok d \<Longrightarrow> schema_ok (Others env n d)"
  "orderly env \<Longrightarrow> schema_ok d \<Longrightarrow> db_forward d (Others env n d)"
  by (auto simp: orderly_def)

lemma rows_forward_same:
  "rows_forward ident vers key rows rows' \<Longrightarrow> r \<in> set rows \<Longrightarrow> r' \<in> set rows' \<Longrightarrow> ident r' = ident r \<Longrightarrow>
   vers r' = vers r \<Longrightarrow> r' = r"
  unfolding rows_forward_def by (metis less_irrefl)

lemma rows_forward_key:
  "rows_forward ident vers key rows rows' \<Longrightarrow> r \<in> set rows \<Longrightarrow> r' \<in> set rows' \<Longrightarrow> ident r' = ident r \<Longrightarrow>
   key r' = key r"
  unfolding rows_forward_def by metis

lemma begun_forward:
  assumes "orderly env" and "schema_ok (w_db w)"
  shows "schema_ok (w_db (begun env w)) \<and> db_forward (w_db w) (w_db (begun env w))"
  using assms by (simp add: begun_def orderlyD)

lemma rows_forward_refl: "unique_by ident rows \<Longrightarrow> rows_forward ident vers key rows rows"
  by (auto simp: rows_forward_def dest: unique_byD)

lemma rows_forward_snoc:
  "unique_by ident rows \<Longrightarrow> ident v \<notin> ident ` set rows \<Longrightarrow> rows_forward ident vers key rows (rows @ [v])"
  by (auto simp: rows_forward_def image_iff dest: unique_byD)

lemma rows_forward_subset:
  "unique_by ident rows \<Longrightarrow> set rows' \<subseteq> set rows \<Longrightarrow> rows_forward ident vers key rows rows'"
  by (auto simp: rows_forward_def dest: unique_byD)

text \<open>Versioned rows whose changes also keep a key.\<close>

locale keyed_rows = versioned_rows ident vers ok change
  for ident :: "'r \<Rightarrow> string" and vers :: "'r \<Rightarrow> int" and ok :: "'r \<Rightarrow> bool" and change :: "'v \<Rightarrow> 'r \<Rightarrow> 'r" +
  fixes key :: "'r \<Rightarrow> 'k"
  assumes change_key: "key (change v r) = key r"
begin

lemma cas_forward:
  assumes "cas_update ident vers ok (change v) i x rows = Inr (n, rows')" and "unique_by ident rows"
  shows "rows_forward ident vers key rows rows'"
  unfolding rows_forward_def
proof (intro ballI impI)
  fix r r' assume r: "r \<in> set rows" "r' \<in> set rows'" "ident r' = ident r"
  from cas_rows [OF assms(1)] r(2) obtain r0 where r0: "r0 \<in> set rows" "r' = r0 \<or> r' = change v r0"
    by (auto simp: set_update_where)
  with r change_ident have "r0 = r" by (auto dest!: unique_byD [OF assms(2), of r r0])
  with r0 show "r' = r \<or> (vers r < vers r' \<and> key r' = key r)" by (auto simp: change_vers change_key)
qed

end

interpretation keyed_providers: keyed_rows p_ID p_Version provider_row_ok set_provider provider_key
  by unfold_locales (rule key_kept)

interpretation keyed_templates: keyed_rows t_ID t_Version template_row_ok set_template template_key
  by unfold_locales (rule key_kept)

interpretation keyed_finishes: keyed_rows d_ID d_Version delivery_row_ok set_finished delivery_key
  by unfold_locales (rule key_kept)

interpretation keyed_claims: keyed_rows d_ID d_Version delivery_row_ok set_claimed delivery_key
  by unfold_locales (rule key_kept)

lemma db_forward_refl: "schema_ok d \<Longrightarrow> db_forward d d"
  by (simp add: db_forward_def schema_ok_def rows_forward_refl)

text \<open>The guarantee of every statement.\<close>

lemma statement_forward:
  assumes "schema_ok d"
  shows "insert_provider pv d = Inr (n, d') \<Longrightarrow> db_forward d d'"
    and "update_provider pv x d = Inr (n, d') \<Longrightarrow> db_forward d d'"
    and "insert_template tv d = Inr (n, d') \<Longrightarrow> db_forward d d'"
    and "update_template tv x d = Inr (n, d') \<Longrightarrow> db_forward d d'"
    and "insert_delivery dv d = Inr (n, d') \<Longrightarrow> db_forward d d'"
    and "finish_delivery dv x d = Inr (n, d') \<Longrightarrow> db_forward d d'"
    and "update_claimed now dv d = Inr (n, d') \<Longrightarrow> db_forward d d'"
    and "delete_expired ids before d = Inr (n, d') \<Longrightarrow> db_forward d d'"
    and "insert_outbox e d = Inr (n, d') \<Longrightarrow> db_forward d d'"
  using assms
  by (auto simp: db_forward_def schema_ok_def insert_Inr delete_expired_def rows_forward_refl
      rows_forward_snoc rows_forward_subset set_delete_where
      dest!: update_Inr intro: keyed_providers.cas_forward keyed_templates.cas_forward
        keyed_finishes.cas_forward keyed_claims.cas_forward)

end
