(* ===== verification/Samples.thy ===== *)
theory Samples
  imports Dispatcher Interference
begin

text \<open>
  Concrete surroundings, a service, a template and a caller, on which the witnesses of the
  properties evaluate the model. Every library answers here, no statement fails, and no other
  session interferes.
\<close>

section \<open>Definitions\<close>

definition sample_env :: env where
  "sample_env =
     \<lparr>Fault = (\<lambda>_. NoFault), Others = (\<lambda>_ d. d), Locked = (\<lambda>_ _. False), Choose = (\<lambda>_ _. 0),
      Clock = (\<lambda>n. 1000 + int n), NewUUID = (\<lambda>n. ''u'' @ replicate n (CHR ''x'')),
      UnicodeLower = id, JsonMarshal = (\<lambda>_. Inr ''{}''), JsonUnmarshal = (\<lambda>_. (None, Map.empty)),
      JsonMessageID = (\<lambda>_. Inr ''m1''), TemplateParse = (\<lambda>_ _. None),
      TemplateExecute = (\<lambda>_ source _. Inr source), EnvelopeError = (\<lambda>_. None),
      Verify = (\<lambda>_ _. Granted),
      RedisAllow = (\<lambda>_ _ _. Inr \<lparr>rr_allowed = 1, rr_remaining = 4, rr_retry_after = 0\<rparr>),
      RequestError = (\<lambda>_. None),
      Exchange = (\<lambda>_ _. Responded \<lparr>resp_StatusCode = 200, resp_Body = ''ok''\<rparr>),
      WaitCancelled = (\<lambda>_. None), BreakerRejects = (\<lambda>_. None)\<rparr>"

definition sample_rule :: RateLimitRule_cfg where
  "sample_rule = \<lparr>RateLimitRule_Rate = 10, RateLimitRule_Burst = 20, RateLimitRule_Period = second\<rparr>"

definition sample_notification :: Notification_cfg where
  "sample_notification =
     \<lparr>Notification_DispatchInterval = second, Notification_BatchSize = 2, Notification_MaxAttempts = 3,
      Notification_RetryBase = 5 * second, Notification_Retention = 720 * hour,
      Notification_CleanupInterval = hour, Notification_CleanupBatchSize = 500,
      Notification_TenantLimit = sample_rule, Notification_TemplateLimit = sample_rule,
      Notification_RecipientLimit = sample_rule, Notification_Providers = [],
      Notification_ProviderUpstreams = [''mailer'']\<rparr>"

definition sample_upstream :: HTTPUpstream_cfg where
  "sample_upstream =
     \<lparr>HTTPUpstream_BaseURL = ''https://mail.example.com'', HTTPUpstream_Timeout = 5 * second,
      HTTPUpstream_Auth = \<lparr>ClientAuth_Type = ''bearer'', ClientAuth_Token = ''secret''\<rparr>,
      HTTPUpstream_Retry = \<lparr>Retry_MaxAttempts = 3, Retry_InitialBackoff = second,
        Retry_MaxBackoff = 2 * second, Retry_Methods = []\<rparr>,
      HTTPUpstream_Breaker = \<lparr>Breaker_Enabled = False, Breaker_FailureThreshold = 5,
        Breaker_OpenTimeout = second\<rparr>,
      HTTPUpstream_TLS = \<lparr>ClientTLS_Enabled = True, ClientTLS_ServerName = [], ClientTLS_CAFile = [],
        ClientTLS_CertFile = [], ClientTLS_KeyFile = []\<rparr>\<rparr>"

definition sample_service :: Service where
  "sample_service =
     \<lparr>svc_db_enabled = True, svc_limiter = None, svc_config = sample_notification,
      svc_outboundHTTP = [(''mailer'', sample_upstream)]\<rparr>"

definition sample_caller :: Principal where
  "sample_caller = \<lparr>pr_ID = ''alice'', pr_Type = TypeUser, pr_TenantID = ''t1''\<rparr>"

definition sample_ctx :: Context where
  "sample_ctx =
     \<lparr>ctx_Principal = Some sample_caller,
      ctx_IdempotencyKey = None, ctx_RequestID = None,
      ctx_Environment = None, ctx_Credential = None\<rparr>"

definition sample_template :: Template where
  "sample_template =
     \<lparr>t_ID = ''tpl'', t_TenantID = ''t1'', t_ApplicationID = ''app'', t_Code = ''welcome'',
      t_Channel = ''in_app'', t_Locale = ''en'', t_Subject = ''Hi'', t_Content = ''Hello'',
      t_Status = ''active'', t_Version = 1, t_CreatedAt = 0, t_UpdatedAt = 0, t_CreatedBy = ''root'',
      t_UpdatedBy = ''root''\<rparr>"

definition sample_delivery :: Delivery where
  "sample_delivery =
     new_delivery ''d1'' ''t1'' ''app'' ''welcome'' ''in_app'' ''en'' ''bob'' ''{}'' ''k1'' 10 ''alice''"

definition sample_db :: db where
  "sample_db =
     \<lparr>Templates = [sample_template], Providers = [], Deliveries = [sample_delivery], Outbox = []\<rparr>"

definition sample_world :: "db \<Rightarrow> world" where
  "sample_world d = \<lparr>w_db = d, w_stmts = 0, w_ticks = 0, w_uuids = 0, w_calls = 0, w_limits = 0\<rparr>"

definition sample_send :: "string \<Rightarrow> string \<Rightarrow> world \<Rightarrow> Delivery result \<times> world" where
  "sample_send channel key w =
     Send sample_env sample_service sample_ctx ''t1'' ''app'' ''welcome'' channel ''en'' ''bob'' key Map.empty w"

definition sample_provider :: "string \<Rightarrow> int \<Rightarrow> Provider" where
  "sample_provider path priority =
     \<lparr>p_ID = [], p_TenantID = '' t1'', p_ApplicationID = ''app'', p_Code = ''Mail'', p_Channel = ''email'',
      p_Upstream = ''mailer'', p_Path = path, p_Priority = priority, p_Status = [], p_Version = 0,
      p_CreatedAt = 0, p_UpdatedAt = 0, p_CreatedBy = [], p_UpdatedBy = []\<rparr>"

definition sample_put :: "string \<Rightarrow> int \<Rightarrow> int \<Rightarrow> world \<Rightarrow> Provider result \<times> world" where
  "sample_put path priority expected w =
     PutProvider sample_env sample_service sample_ctx (sample_provider path priority) expected w"

definition sample_sent :: Delivery where
  "sample_sent =
     sample_delivery\<lparr>d_Status := ''sent'', d_Provider := ''mail'', d_ProviderMessageID := ''m1'',
       d_Attempts := 1, d_Version := 3\<rparr>"

definition sample_sent_db :: db where
  "sample_sent_db = sample_db\<lparr>Deliveries := [sample_sent]\<rparr>"

definition sample_receipt :: "string \<Rightarrow> world \<Rightarrow> Delivery result \<times> world" where
  "sample_receipt status w =
     RecordReceipt sample_env sample_service sample_ctx ''t1'' ''app'' ''Mail'' ''m1'' status ''ok '' w"

definition sample_dispatcher :: Dispatcher where
  "sample_dispatcher =
     \<lparr>dp_db_enabled = True, dp_senders = base_senders, dp_outbound = [], dp_cfg = sample_notification\<rparr>"

definition sample_claimed :: Delivery where
  "sample_claimed = set_claimed 20 sample_delivery"

definition sample_claimed_db :: db where
  "sample_claimed_db = sample_db\<lparr>Deliveries := [sample_claimed]\<rparr>"

section \<open>Lemmas\<close>

lemma sample_env_quiet [simp]:
  "Fault sample_env n = NoFault" "Others sample_env n d = d" "NewUUID sample_env n = ''u'' @ replicate n (CHR ''x'')"
  "Clock sample_env n = 1000 + int n" "Verify sample_env t a = Granted" "UnicodeLower sample_env = id"
  "JsonMarshal sample_env m = Inr ''{}''" "EnvelopeError sample_env e = None"
  by (simp_all add: sample_env_def)

lemma sample_principal:
  "ctx_Principal sample_ctx = Some sample_caller" "pr_Type sample_caller = TypeUser"
  "pr_TenantID sample_caller = ''t1''" "pr_ID sample_caller = ''alice''"
  by (simp_all add: sample_ctx_def sample_caller_def)

lemma sample_world_simps [simp]:
  "w_db (sample_world d) = d" "w_stmts (sample_world d) = 0" "w_ticks (sample_world d) = 0"
  "w_uuids (sample_world d) = 0" "w_calls (sample_world d) = 0" "w_limits (sample_world d) = 0"
  by (simp_all add: sample_world_def)

lemma sample_rows [simp]:
  "Deliveries sample_db = [sample_delivery]" "Outbox sample_db = []"
  "Deliveries sample_sent_db = [sample_sent]" "Outbox sample_sent_db = []"
  "Deliveries sample_claimed_db = [sample_claimed]" "Outbox sample_claimed_db = []"
  by (simp_all add: sample_db_def sample_sent_db_def sample_claimed_db_def)

lemma sample_columns:
  "d_Version sample_delivery = 1" "d_Attempts sample_delivery = 0" "d_Status sample_delivery = ''pending''"
  "d_Version sample_claimed = 2" "d_Attempts sample_claimed = 1" "d_Status sample_claimed = ''processing''"
  by (simp_all add: sample_claimed_def set_claimed_def sample_delivery_def new_delivery_def)

lemma sample_dispatcher_simps [simp]:
  "dp_db_enabled sample_dispatcher" "dp_cfg sample_dispatcher = sample_notification"
  "Notification_BatchSize sample_notification = 2" "Notification_MaxAttempts sample_notification = 3"
  by (simp_all add: sample_dispatcher_def sample_notification_def)

lemma sample_db_ok [simp]: "schema_ok sample_db"
  by (simp add: sample_db_def schema_ok_def template_row_ok_def delivery_row_ok_def sample_template_def
      sample_delivery_def new_delivery_def is_int64_def is_int32_def)

lemma sample_sent_db_ok [simp]: "schema_ok sample_sent_db"
  by (simp add: sample_sent_db_def sample_db_def schema_ok_def template_row_ok_def delivery_row_ok_def
      sample_template_def sample_sent_def sample_delivery_def new_delivery_def is_int64_def is_int32_def)

lemma sample_claimed_db_ok [simp]: "schema_ok sample_claimed_db"
  by (simp add: sample_claimed_db_def sample_db_def schema_ok_def template_row_ok_def delivery_row_ok_def
      sample_template_def sample_claimed_def set_claimed_def sample_delivery_def new_delivery_def
      is_int64_def is_int32_def)

lemma sample_orderly: "orderly sample_env"
  by (simp add: orderly_def db_forward_refl)

lemma Inr_case: "\<not> isl (fst p) \<Longrightarrow> (\<And>v w. p = (Inr v, w) \<Longrightarrow> P) \<Longrightarrow> P"
  by (cases p, cases "fst p") auto

end
