(* ===== verification/SendCorrect.thy ===== *)
theory SendCorrect
  imports ServiceProps Samples
begin

text \<open>
  Sending: a request with an idempotency key that was already used is answered with the delivery
  it created, and a new delivery appears together with its event or not at all.
\<close>

section \<open>Lemmas\<close>

lemma Send_stored:
  assumes "Send env s ctx t a c ch lo rc k vars w = (Inr v, w')"
  shows "v \<in> set (Deliveries (w_db w')) \<and> delivery_key v = (TrimSpace t, TrimSpace a, TrimSpace k)"
  using assms
proof (cases rule: Send_cases)
  case (replayed d caller)
  then show ?thesis by (auto simp: delivery_key_def dest: GetDeliveryByKey_row)
next
  case (attempted v' caller encoded i j w5 r')
  then obtain u where "r' = Inr u" "v = v'"
    by (cases r') (auto simp: translate_result_def)
  with attempted obtain w2 where "send_tx env v (begun env w5) = (Inr u, w2)" "w_db w' = w_db w2"
    by (auto dest!: Within_Inr)
  then have "v \<in> set (Deliveries (w_db w'))" by (auto elim!: send_tx_Inr)
  with attempted \<open>v = v'\<close> show ?thesis by (simp add: delivery_key_def new_delivery_def)
qed simp

text \<open>The lookup of a stored key misses only by an error; then the request is refused.\<close>

lemma GetDeliveryByKey_stored:
  assumes "schema_ok (w_db w)" and "v \<in> set (Deliveries (w_db w))" and "delivery_key v = (t, a, k)"
    and "GetDeliveryByKey env t a k w = (r, w')"
  shows "w_db w' = w_db w \<and> (r = Inr v \<or> (\<exists>e. r = Inl e \<and> \<not> errors_is e ErrNotFound))"
proof (cases r)
  case (Inl e)
  have "\<not> errors_is e ErrNotFound"
  proof
    assume "errors_is e ErrNotFound"
    with Inl assms(4) have "e = ErrNotFound"
      by (auto simp: GetDeliveryByKey_def dest: getter_missing)
    with Inl assms(2-4) show False by (force dest!: getter_NotFound(3))
  qed
  with Inl assms(4) show ?thesis by (auto dest: getter_db)
next
  case (Inr v')
  with assms have "v' \<in> set (Deliveries (w_db w))" "delivery_key v' = delivery_key v"
    by (auto simp: delivery_key_def dest: GetDeliveryByKey_row)
  with assms(1,2) have "v' = v" by (auto simp: schema_ok_def dest: unique_byD)
  with Inr assms(4) show ?thesis by (auto dest: getter_db)
qed

lemma Send_found:
  assumes "schema_ok (w_db w)" and "v \<in> set (Deliveries (w_db w))"
    and "delivery_key v = (TrimSpace t, TrimSpace a, TrimSpace k)"
    and "Send env s ctx t a c ch lo rc k vars w = (r, w')"
  shows "w_db w' = w_db w \<and> (r = Inr v \<or> (\<exists>e. r = Inl e))"
  using assms(4) GetDeliveryByKey_stored [OF assms(1-3)] unfolding Send_def Let_def
  by (auto split: if_splits sum.splits prod.splits)

section \<open>Properties\<close>

text \<open>
  C1. Two requests of one tenant and application with the same idempotency key, whatever else
  differs between them and whatever fails: when the first returned a delivery, the second leaves
  the tables unchanged and answers with the same delivery or with an error, never with a second
  delivery.
\<close>

theorem Send_idempotent:
  assumes "schema_ok (w_db w)" and "\<And>n d. schema_ok d \<Longrightarrow> schema_ok (Others env n d)"
    and "Send env s ctx t a c ch lo rc k vars w = (Inr v, w1)"
    and "Send env' s' ctx' t' a' c' ch' lo' rc' k' vars' w1 = (r, w2)"
    and "TrimSpace t' = TrimSpace t" and "TrimSpace a' = TrimSpace a" and "TrimSpace k' = TrimSpace k"
  shows "w_db w2 = w_db w1 \<and> (r = Inr v \<or> (\<exists>e. r = Inl e))"
proof (rule Send_found)
  show "schema_ok (w_db w1)" by (rule schema.Send_inv [OF assms(3,1,2)])
  show "v \<in> set (Deliveries (w_db w1))" using Send_stored [OF assms(3)] by simp
  show "delivery_key v = (TrimSpace t', TrimSpace a', TrimSpace k')"
    using Send_stored [OF assms(3)] assms(5-7) by simp
qed (fact assms(4))

theorem Send_idempotent_witness:
  "\<exists>v w1 again w2. sample_send ''in_app'' ''k2'' (sample_world sample_db) = (Inr v, w1) \<and>
     sample_send ''email'' ''k2 '' w1 = (again, w2) \<and>
     w_db w2 = w_db w1 \<and> (again = Inr v \<or> (\<exists>e. again = Inl e))"
proof -
  have "\<not> isl (fst (sample_send ''in_app'' ''k2'' (sample_world sample_db)))" by code_simp
  then obtain v w1 where first: "sample_send ''in_app'' ''k2'' (sample_world sample_db) = (Inr v, w1)"
    by (rule Inr_case)
  obtain again w2 where again: "sample_send ''email'' ''k2 '' w1 = (again, w2)" by fastforce
  have "w_db w2 = w_db w1 \<and> (again = Inr v \<or> (\<exists>e. again = Inl e))"
  proof (rule Send_idempotent [OF _ _ first [unfolded sample_send_def] again [unfolded sample_send_def]])
    show "TrimSpace ''k2 '' = TrimSpace ''k2''" by code_simp
  qed simp_all
  with first again show ?thesis by blast
qed

text \<open>
  Replay: when the lookup does not fail, an authorized, well-formed request whose key a stored
  delivery has is answered with exactly that delivery; one query is all it does. No limit is
  consumed, no id drawn, no row written.
\<close>

lemma Send_replay:
  assumes "schema_ok (w_db w)" and "v \<in> set (Deliveries (w_db w))"
    and "delivery_key v = (TrimSpace t, TrimSpace a, TrimSpace k)"
    and "valid_send (TrimSpace t) (TrimSpace a) (lowered env c) (lowered env ch) (lowered env lo)
           (TrimSpace rc) (TrimSpace k)"
    and "authorize env ctx (TrimSpace t) (TrimSpace a) = Inr caller"
    and "Fault env (w_stmts w) = NoFault"
  shows "Send env s ctx t a c ch lo rc k vars w = (Inr v, tick_stmt w)"
  using assms GetDeliveryByKey_unique [of w env v]
  by (simp add: Send_def Let_def delivery_key_def)

lemma Send_replay_witness:
  "Send sample_env sample_service sample_ctx '' t1 '' ''app'' ''Welcome'' ''in_app'' ''EN'' ''carol'' ''k1'' Map.empty
     (sample_world sample_db) = (Inr sample_delivery, tick_stmt (sample_world sample_db))"
  by (rule Send_replay [where caller = sample_caller]; code_simp)

text \<open>
  C2. Atomicity of sending under any faults and any interference: a request leaves the tables as
  they were, or as other sessions left them when its transaction began, or adds exactly one
  pending delivery of the requested tenant, application and key together with exactly one
  NotificationRequested event for it. When it reports a delivery, that row is in the table.
\<close>

theorem Send_atomic:
  assumes "Send env s ctx t a c ch lo rc k vars w = (r, w')"
  shows "(w_db w' = w_db w \<and> (\<forall>v. r = Inr v \<longrightarrow> v \<in> set (Deliveries (w_db w)))) \<or>
    (\<exists>n e. w_db w' = Others env n (w_db w) \<and> r = Inl e) \<or>
    (\<exists>n i v. let d = Others env n (w_db w) in
       w_db w' = d\<lparr>Deliveries := Deliveries d @ [v],
         Outbox := Outbox d @
           [outbox_row (delivery_event env (NewUUID env i) v requested_type requested_subject)]\<rparr> \<and>
       d_Status v = ''pending'' \<and> d_Attempts v = 0 \<and> d_Version v = 1 \<and>
       delivery_key v = (TrimSpace t, TrimSpace a, TrimSpace k) \<and>
       delivery_key v \<notin> delivery_key ` set (Deliveries d) \<and>
       (r = Inr v \<or> (\<exists>m. r = Inl (Internal (Some (Errorf m))))))"
  using assms
proof (cases rule: Send_cases)
  case (attempted v caller encoded i j w5 r')
  let ?d = "Others env (w_stmts w5) (w_db w)"
  have start: "w_db (begun env w5) = ?d" using attempted(1) by (simp add: begun_def)
  have ok: "r = Inr v" if "\<not> isl r'" using that attempted by (cases r') auto
  have failed: "\<exists>m. r = Inl (Internal (Some (Errorf m)))" if "isl r'"
    using that attempted by (cases r') (auto dest!: Within_error send_tx_error)
  have committed: ?thesis if "send_tx env v (begun env w5) = (Inr u, w2)" "w_db w' = w_db w2" for u w2
    using that(1)
  proof (rule send_tx_Inr)
    fix i' assume "w_db w2 = (w_db (begun env w5))\<lparr>Deliveries := Deliveries (w_db (begun env w5)) @ [v],
        Outbox := Outbox (w_db (begun env w5)) @
          [outbox_row (delivery_event env (NewUUID env i') v requested_type requested_subject)]\<rparr>"
      and "delivery_key v \<notin> delivery_key ` set (Deliveries (w_db (begun env w5)))"
    moreover have "r = Inr v \<or> (\<exists>m. r = Inl (Internal (Some (Errorf m))))"
      using ok failed by blast
    moreover have "d_Status v = ''pending''" "d_Attempts v = 0" "d_Version v = 1"
      "delivery_key v = (TrimSpace t, TrimSpace a, TrimSpace k)"
      using attempted by (simp_all add: new_delivery_def delivery_key_def)
    ultimately show ?thesis
      unfolding Let_def start that(2) by blast
  qed
  show ?thesis
  proof (cases r')
    case (Inr u)
    from Within_Inr [OF attempted(6) [unfolded Inr]] committed show ?thesis by blast
  next
    case (Inl e)
    with failed obtain e' where r: "r = Inl e'" by auto
    from Within_db [OF attempted(6)] show ?thesis
    proof (elim disjE exE conjE)
      assume "w_db w' = w_db w5"
      with r attempted(1) show ?thesis by simp
    next
      assume "w_db w' = w_db (begun env w5)"
      then have "w_db w' = ?d \<and> r = Inl e'" using r start by simp
      then show ?thesis by blast
    qed (rule committed)
  qed
qed (auto dest: GetDeliveryByKey_row)

theorem Send_atomic_witness:
  "\<exists>v w' i. sample_send ''in_app'' ''k2'' (sample_world sample_db) = (Inr v, w') \<and>
     Deliveries (w_db w') = [sample_delivery, v] \<and> d_Status v = ''pending'' \<and>
     Outbox (w_db w') =
       [outbox_row (delivery_event sample_env (NewUUID sample_env i) v requested_type requested_subject)]"
proof -
  let ?run = "sample_send ''in_app'' ''k2'' (sample_world sample_db)"
  have "\<not> isl (fst ?run)" by code_simp
  then obtain v w' where run: "?run = (Inr v, w')" by (rule Inr_case)
  have "length (Deliveries (w_db (snd ?run))) = 2" by code_simp
  then have "w_db w' \<noteq> sample_db" using run by (auto simp: sample_db_def)
  with Send_atomic [OF run [unfolded sample_send_def]]
  have "\<exists>i. w_db w' = sample_db\<lparr>Deliveries := Deliveries sample_db @ [v],
         Outbox := Outbox sample_db @
           [outbox_row (delivery_event sample_env (NewUUID sample_env i) v requested_type requested_subject)]\<rparr> \<and>
       d_Status v = ''pending''"
    by (auto simp: Let_def)
  with run show ?thesis by (auto simp: sample_db_def)
qed

end
