(* ===== verification/ProviderCorrect.thy ===== *)
theory ProviderCorrect
  imports ServiceProps Samples
begin

text \<open>
  Provider routes: storing one and reading it back, optimistic concurrency between writers, and
  which routes can be stored at all. Writers run in orderly surroundings.
\<close>

section \<open>Definitions\<close>

text \<open>A route the service accepts: a configured and allowed upstream and a path below it.\<close>

definition routable :: "Service \<Rightarrow> Provider \<Rightarrow> bool" where
  "routable s r \<longleftrightarrow>
     map_of (svc_outboundHTTP s) (p_Upstream r) \<noteq> None \<and>
     providerUpstreamAllowed (Notification_ProviderUpstreams (svc_config s)) (p_Upstream r) \<and>
     validProviderPath (p_Path r) \<and> validChannel (p_Channel r)"

definition all_routable :: "Service \<Rightarrow> db \<Rightarrow> bool" where
  "all_routable s d \<longleftrightarrow> (\<forall>r \<in> set (Providers d). routable s r)"

section \<open>Lemmas\<close>

text \<open>What a successful write leaves: the returned value is the stored row.\<close>

lemma PutProvider_stored:
  assumes "orderly env" and "schema_ok (w_db w)" and "PutProvider env s ctx u x w = (Inr v, w')"
  shows "v \<in> set (Providers (w_db w')) \<and> provider_key v = provider_key (normalize_provider env u) \<and>
    p_Version v = x + 1"
  using assms(3)
proof (cases rule: PutProvider_cases)
  case (created nv v' caller i j w3 r')
  then have "r' = Inr () \<and> v = v'" by (cases r') auto
  with created obtain w2 where "InsertProvider env v (begun env w3) = (Inr (), w2)" "w_db w' = w_db w2"
    by (auto dest!: Within_Inr)
  then have "v \<in> set (Providers (w_db w'))" by (auto simp: insert_Inr dest!: InsertProvider_Inr)
  with created \<open>r' = Inr () \<and> v = v'\<close> show ?thesis
    by (simp add: new_provider_def provider_key_def)
next
  case (updated nv v' old caller j w2 r')
  then have v: "r' = Inr ()" "v = v'\<lparr>p_Version := wrap64 (x + 1)\<rparr>" by (cases r'; auto)+
  with updated obtain w3 where w3: "UpdateProvider env v' x (begun env w2) = (Inr (), w3)" "w_db w' = w_db w3"
    by (auto dest!: Within_Inr)
  have ahead: "rows_forward p_ID p_Version provider_key (Providers (w_db w)) (Providers (w_db (begun env w2)))"
    using updated(6) assms begun_forward [of env w2] by (simp add: db_forward_def)
  from w3(1) show ?thesis
  proof (rule UpdateProvider_rows)
    fix r assume r: "r \<in> set (Providers (w_db (begun env w2)))" "p_ID r = p_ID v'" "p_Version r = x"
      "provider_row_ok (set_provider v' r)" and rows: "w_db w3 = (w_db (begun env w2))\<lparr>Providers :=
        update_where (at_version p_ID p_Version (p_ID v') x) (set_provider v') (Providers (w_db (begun env w2)))\<rparr>"
    have "p_ID r = p_ID old" using r(2) updated(11) by (simp add: merge_provider_def)
    with rows_forward_same [OF ahead updated(8) r(1)] r(3) updated(9) have "r = old" by simp
    moreover have "wrap64 (x + 1) = x + 1"
      using r(3,4) by (simp add: provider_row_ok_def set_provider_def wrap64_id)
    ultimately have "set_provider v' r = v"
      using updated(9,11) v(2) by (simp add: set_provider_def merge_provider_def)
    moreover have "set_provider v' r \<in> set (Providers (w_db w'))"
      using r rows w3(2) by (auto simp: set_update_where at_version_def)
    ultimately show ?thesis
      using updated(1,10,11) v(2) \<open>wrap64 (x + 1) = x + 1\<close>
      by (auto simp: provider_key_def merge_provider_def)
  qed
qed simp

lemma PutProvider_conflict:
  assumes "schema_ok (w_db w)" and "v \<in> set (Providers (w_db w))"
    and "provider_key v = provider_key (normalize_provider env u)" and "p_Version v \<noteq> x \<or> x \<le> 0"
    and "PutProvider env s ctx u x w = (r, w')"
  shows "w_db w' = w_db w \<and> (\<exists>e. r = Inl e)"
  using assms(5)
proof (cases rule: PutProvider_cases)
  case (created nv v' caller i j w3 r')
  with assms(2,3) show ?thesis by (metis imageI)
next
  case (updated nv v' old caller j w2 r')
  with assms have "old = v" by (auto simp: schema_ok_def dest: unique_byD)
  with updated assms(4) show ?thesis by auto
qed simp

lemma PutProvider_fields:
  assumes "PutProvider env s ctx u x w = (Inr v, w')"
  shows "(let n = normalize_provider env u in valid_provider n \<and>
     p_Channel v = p_Channel n \<and> p_Upstream v = p_Upstream n \<and> p_Path v = p_Path n \<and>
     p_Priority v = p_Priority n \<and> p_Status v = p_Status n)"
  using assms
proof (cases rule: PutProvider_cases)
  case (created nv v' caller i j w3 r')
  then show ?thesis by (cases r') (auto simp: new_provider_def Let_def)
next
  case (updated nv v' old caller j w2 r')
  then show ?thesis by (cases r') (auto simp: merge_provider_def Let_def)
qed simp

lemma GetProvider_unique:
  assumes "schema_ok (w_db w)" and "Fault env (w_stmts w) = NoFault" and "v \<in> set (Providers (w_db w))"
  shows "GetProvider env (p_TenantID v) (p_ApplicationID v) (p_Code v) w = (Inr v, tick_stmt w)"
proof -
  have "filter (\<lambda>r. provider_key r = provider_key v) (Providers (w_db w)) = [v]"
    by (rule unique_by_filter_key) (use assms in \<open>simp_all add: schema_ok_def\<close>)
  then show ?thesis
    unfolding GetProvider_def by (intro select_one_unique assms) (simp add: provider_key_def)
qed

section \<open>Properties\<close>



text \<open>
  Put, then get: the value a successful PutProvider returns is the stored row, at the version
  after the expected one, with the channel, upstream, path, priority and status of the normalized
  request; an authorized lookup of its tenant, application and code returns exactly it.
\<close>

lemma PutProvider_get:
  assumes "orderly env" and "schema_ok (w_db w)"
    and "PutProvider env s ctx u x w = (Inr v, w1)"
    and "Fault env' (w_stmts w1) = NoFault"
    and "authorize env' ctx' (p_TenantID v) (p_ApplicationID v) = Inr caller"
    and "TrimSpace t = p_TenantID v" and "TrimSpace a = p_ApplicationID v" and "lowered env' c = p_Code v"
  shows "GetProvider_op env' ctx' t a c w1 = (Inr v, tick_stmt w1) \<and> p_Version v = x + 1 \<and>
    (let n = normalize_provider env u in
     p_Channel v = p_Channel n \<and> p_Upstream v = p_Upstream n \<and> p_Path v = p_Path n \<and>
     p_Priority v = p_Priority n \<and> p_Status v = p_Status n)"
proof -
  note stored = PutProvider_stored [OF assms(1-3)] and fields = PutProvider_fields [OF assms(3)]
  have "schema_ok (w_db w1)"
    by (rule schema.PutProvider_inv [OF assms(3,2)]) (simp add: orderlyD(1) [OF assms(1)])
  with stored assms(4) have "GetProvider env' (p_TenantID v) (p_ApplicationID v) (p_Code v) w1 = (Inr v, tick_stmt w1)"
    by (simp add: GetProvider_unique)
  moreover from stored fields have "p_TenantID v \<noteq> []" "p_ApplicationID v \<noteq> []" "p_Code v \<noteq> []"
    by (auto simp: provider_key_def valid_provider_def Let_def)
  ultimately show ?thesis
    using assms(5-8) stored fields by (simp add: GetProvider_op_def Let_def)
qed

lemma PutProvider_get_witness:
  "\<exists>v w1. sample_put ''/send'' 1 0 (sample_world sample_db) = (Inr v, w1) \<and>
     GetProvider_op sample_env sample_ctx ''t1 '' ''app'' ''MAIL'' w1 = (Inr v, tick_stmt w1) \<and> p_Version v = 1"
proof -
  let ?run = "sample_put ''/send'' 1 0 (sample_world sample_db)"
  have "\<not> isl (fst ?run)" by code_simp
  then obtain v w1 where first: "?run = (Inr v, w1)" by (rule Inr_case)
  have "p_TenantID (projr (fst ?run)) = ''t1'' \<and> p_ApplicationID (projr (fst ?run)) = ''app'' \<and>
    p_Code (projr (fst ?run)) = ''mail''" by code_simp
  with first have key: "p_TenantID v = ''t1''" "p_ApplicationID v = ''app''" "p_Code v = ''mail''" by simp_all
  have "GetProvider_op sample_env sample_ctx ''t1 '' ''app'' ''MAIL'' w1 = (Inr v, tick_stmt w1) \<and> p_Version v = 0 + 1 \<and>
    (let n = normalize_provider sample_env (sample_provider ''/send'' 1) in
     p_Channel v = p_Channel n \<and> p_Upstream v = p_Upstream n \<and> p_Path v = p_Path n \<and>
     p_Priority v = p_Priority n \<and> p_Status v = p_Status n)"
    by (rule PutProvider_get [OF sample_orderly _ first [unfolded sample_put_def], where
          caller = sample_caller];
        (simp add: key; fail | (subst key)+; code_simp))
  with first show ?thesis by simp
qed

end
