(* ===== verification/Lifecycle.thy ===== *)
theory Lifecycle
  imports ServiceProps Samples
begin

text \<open>
  The life of one delivery row as a step relation: it is claimed, the attempt succeeds or fails,
  and a receipt of the provider may follow. The row invariant says what its columns tell of each
  other, every step keeps it, and no row takes more steps than its attempts allow. That the
  operations of the service and of the dispatcher change a delivery only by such steps is shown
  with them (\<open>ReceiptCorrect\<close>, \<open>DispatcherCorrect\<close>).
\<close>

section \<open>Definitions\<close>

inductive lifecycle_step :: "Notification_cfg \<Rightarrow> Delivery \<Rightarrow> Delivery \<Rightarrow> bool" for cfg where
  claim: "d_Status r = ''pending'' \<or> d_Status r = ''retrying'' \<Longrightarrow> lifecycle_step cfg r (set_claimed now r)"
| settle: "d_Status r = ''processing'' \<Longrightarrow> (\<And>res. outcome = Inr res \<Longrightarrow> sr_MessageID res \<noteq> []) \<Longrightarrow>
    lifecycle_step cfg r (set_finished (settled cfg now outcome r) r)"
| receipt: "\<not> terminalDeliveryStatus (d_Status r) \<Longrightarrow> d_ProviderMessageID r \<noteq> [] \<Longrightarrow> validReceiptStatus st \<Longrightarrow>
    lifecycle_step cfg r (set_finished (receipt_delivery r st reason now who) r)"

definition known_status :: "string \<Rightarrow> bool" where
  "known_status st \<longleftrightarrow>
     st = ''pending'' \<or> st = ''processing'' \<or> st = ''retrying'' \<or> st = ''sent'' \<or> terminalDeliveryStatus st"

text \<open>
  The columns of a row agree: a message id exactly from the successful attempt on, no attempt
  before the first claim, a retry only while attempts are left, a dead letter only when they are
  used up, and a version for each claim.
\<close>

definition row_inv :: "Notification_cfg \<Rightarrow> Delivery \<Rightarrow> bool" where
  "row_inv cfg r \<longleftrightarrow>
     known_status (d_Status r) \<and>
     (d_Status r = ''pending'' \<longrightarrow> d_Attempts r = 0) \<and>
     (d_Status r \<noteq> ''pending'' \<longrightarrow> 1 \<le> d_Attempts r) \<and>
     (d_Status r = ''retrying'' \<longrightarrow> d_Attempts r < Notification_MaxAttempts cfg) \<and>
     (d_Status r = ''dead_letter'' \<longrightarrow> d_Attempts r = Notification_MaxAttempts cfg) \<and>
     d_Attempts r \<le> Notification_MaxAttempts cfg \<and> 1 + d_Attempts r \<le> d_Version r \<and>
     (d_ProviderMessageID r \<noteq> [] \<longleftrightarrow> d_Status r = ''sent'' \<or> validReceiptStatus (d_Status r))"

text \<open>The steps a row can still take.\<close>

definition steps_left :: "Notification_cfg \<Rightarrow> Delivery \<Rightarrow> nat" where
  "steps_left cfg r =
     (let left = nat (Notification_MaxAttempts cfg - d_Attempts r) in
      if d_Status r = ''pending'' \<or> d_Status r = ''retrying'' then 2 * left + 2
      else if d_Status r = ''processing'' then 2 * left + 3
      else if d_Status r = ''sent'' then 1 else 0)"

section \<open>Lemmas\<close>

lemmas finished_defs = set_finished_def settled_def receipt_delivery_def set_claimed_def

lemma step_identity:
  "lifecycle_step cfg r r' \<Longrightarrow> d_ID r' = d_ID r \<and> delivery_key r' = delivery_key r \<and>
   d_Version r' = d_Version r + 1 \<and> d_TemplateCode r' = d_TemplateCode r \<and> d_Recipient r' = d_Recipient r \<and>
   d_Channel r' = d_Channel r \<and> d_Variables r' = d_Variables r \<and> d_CreatedAt r' = d_CreatedAt r"
  by (cases rule: lifecycle_step.cases) (auto simp: finished_defs delivery_key_def)

lemma step_not_terminal: "lifecycle_step cfg r r' \<Longrightarrow> \<not> terminalDeliveryStatus (d_Status r)"
  by (cases rule: lifecycle_step.cases) (auto simp: terminalDeliveryStatus_def)

lemma claimed_columns:
  "d_Status (set_claimed now r) = ''processing''" "d_Attempts (set_claimed now r) = d_Attempts r + 1"
  "d_Version (set_claimed now r) = d_Version r + 1"
  "d_ProviderMessageID (set_claimed now r) = d_ProviderMessageID r"
  by (simp_all add: set_claimed_def)

lemma finished_columns:
  "d_Status (set_finished v r) = d_Status v" "d_Attempts (set_finished v r) = d_Attempts r"
  "d_Version (set_finished v r) = d_Version r + 1"
  "d_ProviderMessageID (set_finished v r) = d_ProviderMessageID v"
  by (simp_all add: set_finished_def)

lemma settled_columns:
  "d_Status (settled cfg now (Inr res) r) = ''sent''"
  "d_ProviderMessageID (settled cfg now (Inr res) r) = sr_MessageID res"
  "d_Status (settled cfg now (Inl err) r) =
     (if Notification_MaxAttempts cfg \<le> d_Attempts r then ''dead_letter'' else ''retrying'')"
  "d_ProviderMessageID (settled cfg now (Inl err) r) = d_ProviderMessageID r"
  by (simp_all add: settled_def Let_def)

lemma receipt_columns:
  "d_Status (receipt_delivery r st reason now who) = st"
  "d_ProviderMessageID (receipt_delivery r st reason now who) = d_ProviderMessageID r"
  by (simp_all add: receipt_delivery_def)

lemmas column_simps = claimed_columns finished_columns settled_columns receipt_columns

lemmas status_defs = known_status_def validReceiptStatus_def terminalDeliveryStatus_def

lemma claim_row_inv:
  assumes "d_Status r = ''pending'' \<or> d_Status r = ''retrying''" and "row_inv cfg r"
    and "0 < Notification_MaxAttempts cfg"
  shows "row_inv cfg (set_claimed now r)"
  using assms by (elim disjE) (simp_all add: row_inv_def column_simps status_defs)

lemma settle_row_inv:
  assumes "d_Status r = ''processing''" and "row_inv cfg r"
    and "\<And>res. outcome = Inr res \<Longrightarrow> sr_MessageID res \<noteq> []"
  shows "row_inv cfg (set_finished (settled cfg now outcome r) r)"
proof (cases outcome)
  case (Inl err)
  with assms(1,2) show ?thesis by (simp add: row_inv_def column_simps status_defs)
next
  case (Inr res)
  with assms show ?thesis by (simp add: row_inv_def column_simps status_defs)
qed

lemma receipt_row_inv:
  assumes "d_ProviderMessageID r \<noteq> []" and "validReceiptStatus st" and "row_inv cfg r"
  shows "row_inv cfg (set_finished (receipt_delivery r st reason now who) r)"
proof -
  from assms have "1 \<le> d_Attempts r" "d_Attempts r \<le> Notification_MaxAttempts cfg" "1 + d_Attempts r \<le> d_Version r"
    by (auto simp: row_inv_def validReceiptStatus_def)
  with assms(1,2) show ?thesis
    by (auto simp: row_inv_def column_simps status_defs)
qed

lemma step_row_inv:
  assumes "lifecycle_step cfg r r'" and "row_inv cfg r" and "0 < Notification_MaxAttempts cfg"
  shows "row_inv cfg r'"
  using assms by (cases rule: lifecycle_step.cases) (simp_all add: claim_row_inv settle_row_inv receipt_row_inv)

text \<open>Receipts only ever reach a row whose attempt succeeded.\<close>

lemma receipt_from_sent:
  assumes "row_inv cfg r" and "d_ProviderMessageID r \<noteq> []" and "\<not> terminalDeliveryStatus (d_Status r)"
  shows "d_Status r = ''sent''"
  using assms by (auto simp: row_inv_def status_defs)

lemma step_steps_left:
  assumes "lifecycle_step cfg r r'" and "row_inv cfg r" and "0 < Notification_MaxAttempts cfg"
  shows "steps_left cfg r' < steps_left cfg r"
  using assms(1)
proof (cases rule: lifecycle_step.cases)
  case (claim now)
  then have "steps_left cfg r = 2 * nat (Notification_MaxAttempts cfg - d_Attempts r) + 2"
    by (simp add: steps_left_def Let_def)
  moreover have "d_Attempts r < Notification_MaxAttempts cfg"
    using claim(2) assms(2,3) by (auto simp: row_inv_def)
  moreover have "steps_left cfg r' = 2 * nat (Notification_MaxAttempts cfg - (d_Attempts r + 1)) + 3"
    using claim(1) by (simp add: steps_left_def Let_def column_simps)
  ultimately show ?thesis by linarith
next
  case (settle outcome now)
  then show ?thesis by (cases outcome) (simp_all add: steps_left_def Let_def column_simps)
next
  case (receipt st reason now who)
  with receipt_from_sent [OF assms(2)] have "d_Status r = ''sent''" by simp
  with receipt show ?thesis by (auto simp: steps_left_def Let_def column_simps validReceiptStatus_def)
qed

section \<open>Properties\<close>

text \<open>
  C5. The life of a delivery ends: from a row that satisfies the row invariant no sequence of
  steps is longer than the steps that are left to it, every row on the way satisfies the
  invariant, and a delivery that starts pending is attempted at most the configured number of
  times and takes at most twice that number of steps plus two.
\<close>

theorem lifecycle_terminates:
  assumes "(lifecycle_step cfg ^^ n) r r'" and "row_inv cfg r" and "0 < Notification_MaxAttempts cfg"
  shows "row_inv cfg r' \<and> n + steps_left cfg r' \<le> steps_left cfg r \<and>
    d_Attempts r' \<le> Notification_MaxAttempts cfg \<and>
    (d_Status r = ''pending'' \<longrightarrow> n \<le> 2 * nat (Notification_MaxAttempts cfg) + 2)"
proof -
  have "row_inv cfg r' \<and> n + steps_left cfg r' \<le> steps_left cfg r"
    using assms(1)
  proof (induction n arbitrary: r')
    case (Suc n)
    then obtain q where q: "(lifecycle_step cfg ^^ n) r q" "lifecycle_step cfg q r'" by auto
    from Suc.IH [OF q(1)] step_row_inv [OF q(2)] step_steps_left [OF q(2)] assms(3) show ?case by auto
  qed (use assms(2) in auto)
  moreover from assms(2) have "d_Status r = ''pending'' \<longrightarrow> steps_left cfg r = 2 * nat (Notification_MaxAttempts cfg) + 2"
    by (simp add: row_inv_def steps_left_def Let_def)
  ultimately show ?thesis by (auto simp: row_inv_def)
qed

theorem lifecycle_terminates_witness:
  "\<exists>r'. (lifecycle_step sample_notification ^^ 2) sample_delivery r' \<and> d_Status r' = ''retrying'' \<and>
     2 + steps_left sample_notification r' \<le> 8"
proof -
  let ?c = "set_claimed 20 sample_delivery"
  let ?r = "set_finished (settled sample_notification 30 (Inl (Errorf ''down'')) ?c) ?c"
  have "lifecycle_step sample_notification sample_delivery ?c"
    by (rule lifecycle_step.claim) (simp add: sample_delivery_def new_delivery_def)
  moreover have "lifecycle_step sample_notification ?c ?r"
    by (rule lifecycle_step.settle) (simp_all add: column_simps)
  ultimately have path: "(lifecycle_step sample_notification ^^ 2) sample_delivery ?r"
    by (auto simp: numeral_2_eq_2)
  have inv: "row_inv sample_notification sample_delivery" by code_simp
  have "2 + steps_left sample_notification ?r \<le> steps_left sample_notification sample_delivery"
    using lifecycle_terminates [OF path inv] by (simp add: sample_notification_def)
  moreover have "steps_left sample_notification sample_delivery = 8" by code_simp
  moreover have "d_Status ?r = ''retrying''"
    by (simp add: column_simps sample_notification_def sample_delivery_def new_delivery_def)
  ultimately show ?thesis using path by auto
qed

end
