(* ===== verification/AccessCorrect.thy ===== *)
theory AccessCorrect
  imports ServiceProps Samples
begin

text \<open>
  Who may do what: every operation of the service first authorizes its caller. A user only reads
  rows of his own tenant and only writes rows of it.
\<close>

section \<open>Definitions\<close>

text \<open>The rows of the tables that do not belong to a tenant.\<close>

definition foreign :: "string \<Rightarrow> db \<Rightarrow> Provider list \<times> Template list \<times> Delivery list" where
  "foreign tenant d =
     (filter (\<lambda>r. p_TenantID r \<noteq> tenant) (Providers d), filter (\<lambda>r. t_TenantID r \<noteq> tenant) (Templates d),
      filter (\<lambda>r. d_TenantID r \<noteq> tenant) (Deliveries d))"

section \<open>Lemmas\<close>

lemma authorize_Inr:
  "authorize env ctx t a = Inr caller \<longleftrightarrow>
   ctx_Principal ctx = Some caller \<and> enforceTenant caller t = None \<and>
   TrimSpace t \<noteq> [] \<and> TrimSpace a \<noteq> [] \<and> Verify env (TrimSpace t) (TrimSpace a) = Granted"
  by (auto simp: authorize_def verifyApplication_def Let_def split: option.splits if_splits verdict.splits)

lemma authorize_user:
  "authorize env ctx t a = Inr caller \<Longrightarrow> pr_Type caller = TypeUser \<Longrightarrow> TrimSpace t = pr_TenantID caller"
  by (auto simp: authorize_Inr enforceTenant_def split: if_splits)

lemma authorize_caller: "authorize env ctx t a = Inr caller \<Longrightarrow> ctx_Principal ctx = Some caller"
  by (simp add: authorize_Inr)

lemma GetDelivery_op_Inr:
  "GetDelivery_op env ctx i t a w = (Inr v, w') \<Longrightarrow>
   \<exists>caller. authorize env ctx t a = Inr caller \<and> v \<in> set (Deliveries (w_db w)) \<and> d_ID v = i \<and> d_TenantID v = t"
  by (auto simp: GetDelivery_op_def translate_result_def split: sum.splits prod.splits dest!: GetDelivery_row)

lemma ListDeliveries_Inr:
  "ListDeliveries env t a st n k w = (Inr (rows, cnt), w') \<Longrightarrow>
   (\<forall>r \<in> set rows. r \<in> set (Deliveries (w_db w)) \<and> d_TenantID r = t \<and> d_ApplicationID r = a \<and> (st = [] \<or> d_Status r = st)) \<and>
   int (length rows) \<le> n"
  by (force simp: ListDeliveries_def dest!: select_page_Inr)

lemma ListTemplates_Inr:
  "ListTemplates env t a kw ch st n k w = (Inr (rows, cnt), w') \<Longrightarrow>
   (\<forall>r \<in> set rows. r \<in> set (Templates (w_db w)) \<and> t_TenantID r = t \<and> t_ApplicationID r = a) \<and>
   int (length rows) \<le> n"
  by (force simp: ListTemplates_def dest!: select_page_Inr)

lemma ListProviders_Inr:
  "ListProviders env t a kw ch st n k w = (Inr (rows, cnt), w') \<Longrightarrow>
   (\<forall>r \<in> set rows. r \<in> set (Providers (w_db w)) \<and> p_TenantID r = t \<and> p_ApplicationID r = a \<and>
      (ch = [] \<or> p_Channel r = ch) \<and> (st = [] \<or> p_Status r = st)) \<and>
   int (length rows) \<le> n"
  by (force simp: ListProviders_def dest!: select_page_Inr)

lemma ListDeliveries_op_Inr:
  "ListDeliveries_op env ctx t a st p ps w = (Inr pg, w') \<Longrightarrow>
   \<exists>caller. authorize env ctx t a = Inr caller \<and> (\<forall>r \<in> set (pg_Deliveries pg). d_TenantID r = t)"
  by (auto simp: ListDeliveries_op_def Let_def split: sum.splits prod.splits if_splits
      dest!: ListDeliveries_Inr)

lemma GetTemplate_op_Inr:
  "GetTemplate_op env ctx t a c ch lo w = (Inr v, w') \<Longrightarrow>
   \<exists>caller. authorize env ctx (TrimSpace t) (TrimSpace a) = Inr caller \<and> t_TenantID v = TrimSpace t"
  by (auto simp: GetTemplate_op_def Let_def split: sum.splits prod.splits if_splits)

lemma ListTemplates_op_Inr:
  "ListTemplates_op env ctx t a kw ch st p ps w = (Inr pg, w') \<Longrightarrow>
   \<exists>caller. authorize env ctx (TrimSpace t) (TrimSpace a) = Inr caller \<and>
     (\<forall>r \<in> set (tpg_Templates pg). t_TenantID r = TrimSpace t)"
  by (auto simp: ListTemplates_op_def Let_def split: sum.splits prod.splits if_splits
      dest!: ListTemplates_Inr)

lemma GetProvider_op_Inr:
  "GetProvider_op env ctx t a c w = (Inr v, w') \<Longrightarrow>
   \<exists>caller. authorize env ctx (TrimSpace t) (TrimSpace a) = Inr caller \<and> p_TenantID v = TrimSpace t"
  by (auto simp: GetProvider_op_def Let_def split: sum.splits prod.splits if_splits)

lemma ListProviders_op_Inr:
  "ListProviders_op env ctx t a kw ch st p ps w = (Inr pg, w') \<Longrightarrow>
   \<exists>caller. authorize env ctx (TrimSpace t) (TrimSpace a) = Inr caller \<and>
     (\<forall>r \<in> set (ppg_Providers pg). p_TenantID r = TrimSpace t)"
  by (auto simp: ListProviders_op_def Let_def split: sum.splits prod.splits if_splits
      dest!: ListProviders_Inr)

lemmas read_op_Inr =
  GetDelivery_op_Inr ListDeliveries_op_Inr GetTemplate_op_Inr ListTemplates_op_Inr GetProvider_op_Inr
  ListProviders_op_Inr

lemma user_tenant:
  "ctx_Principal ctx = Some caller \<Longrightarrow> pr_Type caller = TypeUser \<Longrightarrow>
   authorize env ctx t a = Inr caller' \<Longrightarrow> TrimSpace t = pr_TenantID caller"
  by (metis authorize_caller authorize_user option.inject)

subsection \<open>Writes\<close>

lemma filter_update_where:
  assumes "\<And>r. key (f r) = key r" and "\<And>r. r \<in> set rows \<Longrightarrow> p r \<Longrightarrow> key r = k"
  shows "filter (\<lambda>r. key r \<noteq> k) (update_where p f rows) = filter (\<lambda>r. key r \<noteq> k) rows"
  using assms by (induction rows) auto

lemma tenant_kept [simp]:
  "p_TenantID (set_provider v r) = p_TenantID r" "t_TenantID (set_template tv tr) = t_TenantID tr"
  "d_TenantID (set_finished dv dr) = d_TenantID dr"
  by (simp_all add: set_provider_def set_template_def set_finished_def)

text \<open>
  A write of a tenant's session ends with the tables it started from, those other sessions left,
  or those of its transaction; when the latter differ only in rows of the tenant, so does the
  whole operation.
\<close>

definition only_own :: "env \<Rightarrow> string \<Rightarrow> db \<Rightarrow> db \<Rightarrow> bool" where
  "only_own env tenant d d' \<longleftrightarrow>
     foreign tenant d' = foreign tenant d \<or> (\<exists>n. foreign tenant d' = foreign tenant (Others env n d))"

lemma Within_foreign:
  assumes "Within env en fn w0 = (r, w')" and "w_db w0 = w_db w"
    and "\<And>x w2. fn (begun env w0) = (Inr x, w2) \<Longrightarrow>
           foreign tenant (w_db w2) = foreign tenant (w_db (begun env w0))"
  shows "only_own env tenant (w_db w) (w_db w')"
proof -
  have "w_db (begun env w0) = Others env (w_stmts w0) (w_db w)" by (simp add: begun_def assms(2))
  with Within_db [OF assms(1)] assms(2,3) show ?thesis
    unfolding only_own_def by metis
qed

lemma Send_foreign:
  assumes "Send env s ctx t a c ch lo rc k vars w = (r, w')"
  shows "only_own env (TrimSpace t) (w_db w) (w_db w')"
  using assms
proof (cases rule: Send_cases)
  case (attempted v caller encoded i j w5 r')
  show ?thesis
    using attempted(6,1)
    by (rule Within_foreign) (auto simp: foreign_def attempted(5) new_delivery_def elim!: send_tx_Inr)
qed (auto simp: only_own_def)

lemma PutProvider_foreign:
  assumes "orderly env" and "schema_ok (w_db w)" and "PutProvider env s ctx u x w = (r, w')"
  shows "only_own env (TrimSpace (p_TenantID u)) (w_db w) (w_db w')"
  using assms(3)
proof (cases rule: PutProvider_cases)
  case (created nv v caller i j w3 r')
  show ?thesis
    using created(10,6)
    by (rule Within_foreign)
       (auto simp: foreign_def insert_Inr created(1,9) new_provider_def normalize_provider_def Let_def
          dest!: InsertProvider_Inr)
next
  case (updated nv v old caller j w2 r')
  have ahead: "rows_forward p_ID p_Version provider_key (Providers (w_db w)) (Providers (w_db (begun env w2)))"
    using updated(6) assms begun_forward [of env w2] by (simp add: db_forward_def)
  have own: "p_TenantID q = TrimSpace (p_TenantID u)"
    if "q \<in> set (Providers (w_db (begun env w2)))" "at_version p_ID p_Version (p_ID v) x q" for q
    using rows_forward_key [OF ahead updated(8) that(1)] that(2) updated(1,10,11)
    by (auto simp: at_version_def merge_provider_def provider_key_def normalize_provider_def Let_def)
  show ?thesis
    using updated(12,6)
    by (rule Within_foreign)
       (auto simp: foreign_def elim!: UpdateProvider_rows intro!: filter_update_where own)
qed (simp add: only_own_def)

lemma PutTemplate_foreign:
  assumes "orderly env" and "schema_ok (w_db w)" and "PutTemplate env s ctx u x w = (r, w')"
  shows "only_own env (TrimSpace (t_TenantID u)) (w_db w) (w_db w')"
  using assms(3)
proof (cases rule: PutTemplate_cases)
  case (created nv v caller i j w3 r')
  show ?thesis
    using created(9,6)
    by (rule Within_foreign)
       (auto simp: foreign_def insert_Inr created(1,8) new_template_def normalize_template_def
          dest!: InsertTemplate_Inr)
next
  case (updated nv v old caller j w2 r')
  have ahead: "rows_forward t_ID t_Version template_key (Templates (w_db w)) (Templates (w_db (begun env w2)))"
    using updated(6) assms begun_forward [of env w2] by (simp add: db_forward_def)
  have own: "t_TenantID q = TrimSpace (t_TenantID u)"
    if "q \<in> set (Templates (w_db (begun env w2)))" "at_version t_ID t_Version (t_ID v) x q" for q
    using rows_forward_key [OF ahead updated(7) that(1)] that(2) updated(1,8,9)
    by (auto simp: at_version_def merge_template_def template_key_def normalize_template_def)
  show ?thesis
    using updated(10,6)
    by (rule Within_foreign)
       (auto simp: foreign_def elim!: UpdateTemplate_rows intro!: filter_update_where own)
qed (simp add: only_own_def)

lemma RecordReceipt_foreign:
  assumes "orderly env" and "schema_ok (w_db w)" and "RecordReceipt env s ctx t a p m st rs w = (r, w')"
  shows "only_own env (TrimSpace t) (w_db w) (w_db w')"
  using assms(3)
proof (cases rule: RecordReceipt_cases)
  case (recorded d v caller j w2 r')
  have ahead: "rows_forward d_ID d_Version delivery_key (Deliveries (w_db w)) (Deliveries (w_db (begun env w2)))"
    using recorded(1) assms begun_forward [of env w2] by (simp add: db_forward_def)
  have own: "d_TenantID q = TrimSpace t"
    if "q \<in> set (Deliveries (w_db (begun env w2)))" "at_version d_ID d_Version (d_ID v) (d_Version v) q" for q
    using rows_forward_key [OF ahead recorded(3) that(1)] that(2) recorded(5,11)
    by (auto simp: at_version_def receipt_delivery_def delivery_key_def)
  show ?thesis
    using recorded(12,1)
    by (rule Within_foreign)
       (auto simp: foreign_def finished_rows_def elim!: finish_tx_Inr
          intro!: filter_update_where own)
qed (auto simp: only_own_def)

text \<open>An operation that changed tables was authorized for the tenant it names.\<close>

lemma Send_authorized:
  assumes "Send env s ctx t a c ch lo rc k vars w = (r, w')"
  shows "w_db w' = w_db w \<or> (\<exists>a caller. authorize env ctx (TrimSpace t) a = Inr caller)"
  using assms by (cases rule: Send_cases) auto

lemma PutProvider_authorized:
  assumes "PutProvider env s ctx u x w = (r, w')"
  shows "w_db w' = w_db w \<or>
    (\<exists>a caller. authorize env ctx (TrimSpace (p_TenantID u)) a = Inr caller)"
  using assms by (cases rule: PutProvider_cases) (auto simp: normalize_provider_def Let_def)

lemma PutTemplate_authorized:
  assumes "PutTemplate env s ctx u x w = (r, w')"
  shows "w_db w' = w_db w \<or>
    (\<exists>a caller. authorize env ctx (TrimSpace (t_TenantID u)) a = Inr caller)"
  using assms by (cases rule: PutTemplate_cases) (auto simp: normalize_template_def)

lemma RecordReceipt_authorized:
  assumes "RecordReceipt env s ctx t a p m st rs w = (r, w')"
  shows "w_db w' = w_db w \<or> (\<exists>a caller. authorize env ctx (TrimSpace t) a = Inr caller)"
  using assms by (cases rule: RecordReceipt_cases) auto

lemma only_own_user:
  assumes "ctx_Principal ctx = Some caller" and "pr_Type caller = TypeUser"
    and "w_db w' = w_db w \<or> (\<exists>a caller'. authorize env ctx (TrimSpace t) a = Inr caller')"
    and "only_own env (TrimSpace t) (w_db w) (w_db w')"
  shows "only_own env (pr_TenantID caller) (w_db w) (w_db w')"
  using assms(3)
proof
  assume "\<exists>a caller'. authorize env ctx (TrimSpace t) a = Inr caller'"
  then have "TrimSpace t = pr_TenantID caller"
    using user_tenant [OF assms(1,2)] TrimSpace_idem by metis
  with assms(4) show ?thesis by simp
qed (simp add: only_own_def)

section \<open>Properties\<close>

text \<open>
  C21. Tenant isolation of reads: every row that any of the six read operations returns to a user
  belongs to the user's own tenant (up to surrounding white space of the stored tenant id, which
  the delivery queries do not trim).
\<close>

theorem reads_stay_in_tenant:
  assumes "ctx_Principal ctx = Some caller" and "pr_Type caller = TypeUser"
  shows "(\<forall>i t a w v w'. GetDelivery_op env ctx i t a w = (Inr v, w') \<longrightarrow>
      TrimSpace (d_TenantID v) = pr_TenantID caller) \<and>
    (\<forall>t a st p ps w pg w'. ListDeliveries_op env ctx t a st p ps w = (Inr pg, w') \<longrightarrow>
      (\<forall>v \<in> set (pg_Deliveries pg). TrimSpace (d_TenantID v) = pr_TenantID caller)) \<and>
    (\<forall>t a c ch lo w v w'. GetTemplate_op env ctx t a c ch lo w = (Inr v, w') \<longrightarrow>
      t_TenantID v = pr_TenantID caller) \<and>
    (\<forall>t a kw ch st p ps w pg w'. ListTemplates_op env ctx t a kw ch st p ps w = (Inr pg, w') \<longrightarrow>
      (\<forall>v \<in> set (tpg_Templates pg). t_TenantID v = pr_TenantID caller)) \<and>
    (\<forall>t a c w v w'. GetProvider_op env ctx t a c w = (Inr v, w') \<longrightarrow> p_TenantID v = pr_TenantID caller) \<and>
    (\<forall>t a kw ch st p ps w pg w'. ListProviders_op env ctx t a kw ch st p ps w = (Inr pg, w') \<longrightarrow>
      (\<forall>v \<in> set (ppg_Providers pg). p_TenantID v = pr_TenantID caller))"
  by (intro conjI allI impI; drule read_op_Inr; metis user_tenant [OF assms] TrimSpace_idem)

theorem reads_stay_in_tenant_witness:
  "\<exists>pg w'. ListDeliveries_op sample_env sample_ctx ''t1'' ''app'' [] 1 10 (sample_world sample_db) = (Inr pg, w') \<and>
     pg_Deliveries pg = [sample_delivery] \<and> (\<forall>v \<in> set (pg_Deliveries pg). TrimSpace (d_TenantID v) = ''t1'')"
proof -
  let ?run = "ListDeliveries_op sample_env sample_ctx ''t1'' ''app'' [] 1 10 (sample_world sample_db)"
  have "\<not> isl (fst ?run)" by code_simp
  then obtain pg w' where run: "?run = (Inr pg, w')" by (rule Inr_case)
  have "pg_Deliveries (projr (fst ?run)) = [sample_delivery]" by code_simp
  with run have "pg_Deliveries pg = [sample_delivery]" by simp
  moreover have "TrimSpace (d_TenantID v) = pr_TenantID sample_caller" if "v \<in> set (pg_Deliveries pg)" for v
    using reads_stay_in_tenant [OF sample_principal(1,2), THEN conjunct2, THEN conjunct1, rule_format, OF run that] .
  ultimately show ?thesis using run by (simp add: sample_principal)
qed

text \<open>
  C22. Tenant isolation of writes: whatever a user sends, and whatever fails, none of the four
  writing operations changes a row of another tenant. The rows of all other tenants are those of
  before, or those that other sessions left when the operation's transaction began.
\<close>

theorem writes_stay_in_tenant:
  assumes "orderly env" and "schema_ok (w_db w)"
    and "ctx_Principal ctx = Some caller" and "pr_Type caller = TypeUser"
  shows "only_own env (pr_TenantID caller) (w_db w) (w_db (snd (Send env s ctx t a c ch lo rc k vars w))) \<and>
    only_own env (pr_TenantID caller) (w_db w) (w_db (snd (PutProvider env s ctx u x w))) \<and>
    only_own env (pr_TenantID caller) (w_db w) (w_db (snd (PutTemplate env s ctx v x w))) \<and>
    only_own env (pr_TenantID caller) (w_db w) (w_db (snd (RecordReceipt env s ctx t a p m st rs w)))"
proof (intro conjI)
  note user = only_own_user [OF assms(3,4)] and at = assms(1,2)
  show "only_own env (pr_TenantID caller) (w_db w) (w_db (snd (Send env s ctx t a c ch lo rc k vars w)))"
    by (rule user [OF Send_authorized Send_foreign]) (rule surjective_pairing)+
  show "only_own env (pr_TenantID caller) (w_db w) (w_db (snd (PutProvider env s ctx u x w)))"
    by (rule user [OF PutProvider_authorized PutProvider_foreign [OF at]]) (rule surjective_pairing)+
  show "only_own env (pr_TenantID caller) (w_db w) (w_db (snd (PutTemplate env s ctx v x w)))"
    by (rule user [OF PutTemplate_authorized PutTemplate_foreign [OF at]]) (rule surjective_pairing)+
  show "only_own env (pr_TenantID caller) (w_db w) (w_db (snd (RecordReceipt env s ctx t a p m st rs w)))"
    by (rule user [OF RecordReceipt_authorized RecordReceipt_foreign [OF at]]) (rule surjective_pairing)+
qed

theorem writes_stay_in_tenant_witness:
  "foreign ''t1'' (w_db (snd (sample_send ''in_app'' ''k2'' (sample_world sample_db)))) = foreign ''t1'' sample_db \<and>
   length (Deliveries (w_db (snd (sample_send ''in_app'' ''k2'' (sample_world sample_db))))) = 2"
proof
  show "foreign ''t1'' (w_db (snd (sample_send ''in_app'' ''k2'' (sample_world sample_db)))) = foreign ''t1'' sample_db"
    using writes_stay_in_tenant [OF sample_orderly _ sample_principal(1,2), of "sample_world sample_db"]
    by (simp add: sample_principal sample_send_def only_own_def)
  show "length (Deliveries (w_db (snd (sample_send ''in_app'' ''k2'' (sample_world sample_db))))) = 2" by code_simp
qed

end
