(* ===== verification/ReceiptCorrect.thy ===== *)
theory ReceiptCorrect
  imports Lifecycle AccessCorrect
begin

text \<open>
  Provider receipts: what recording one does to the tables, and that a recorded result is final.
\<close>

section \<open>Definitions\<close>

text \<open>One row of the delivery table replaced by another, and the event of the change.\<close>

definition moved :: "env \<Rightarrow> nat \<Rightarrow> Delivery \<Rightarrow> Delivery \<Rightarrow> db \<Rightarrow> db" where
  "moved env i q q' d =
     d\<lparr>Deliveries := map (\<lambda>r. if r = q then q' else r) (Deliveries d),
       Outbox := Outbox d @ [outbox_row (delivery_event env (NewUUID env i) q' status_type status_subject)]\<rparr>"

section \<open>Lemmas\<close>

text \<open>
  A status change commits on the row that was read: \<open>v\<close> differs from the row \<open>q\<close> only in
  columns that the statement writes.
\<close>

lemma finish_tx_moved:
  assumes "finish_tx env v w = (Inr u, w')" and "unique_by d_ID (Deliveries (w_db w))"
    and held: "\<And>r. r \<in> set (Deliveries (w_db w)) \<Longrightarrow> d_ID r = d_ID q \<Longrightarrow> d_Version r = d_Version q \<Longrightarrow> r = q"
    and same: "d_ID v = d_ID q" "d_Version v = d_Version q" "set_finished v q = v\<lparr>d_Version := d_Version q + 1\<rparr>"
  obtains i where "q \<in> set (Deliveries (w_db w))" "w_db w' = moved env i q (set_finished v q) (w_db w)"
    "is_int64 (d_Version q + 1)"
  using assms(1)
proof (rule finish_tx_Inr)
  fix i r assume r: "r \<in> set (Deliveries (w_db w))" "d_ID r = d_ID v" "d_Version r = d_Version v"
    "delivery_row_ok (set_finished v r)"
    and db: "w_db w' = (w_db w)\<lparr>Deliveries := finished_rows v (Deliveries (w_db w)),
      Outbox := Outbox (w_db w) @ [outbox_row (delivery_event env (NewUUID env i)
        (v\<lparr>d_Version := wrap64 (d_Version v + 1)\<rparr>) status_type status_subject)]\<rparr>"
  from r same held have "r = q" by simp
  with r have q: "q \<in> set (Deliveries (w_db w))" and ok: "is_int64 (d_Version q + 1)"
    by (auto simp: delivery_row_ok_def set_finished_def)
  have "finished_rows v (Deliveries (w_db w)) = map (\<lambda>x. if x = q then set_finished v q else x) (Deliveries (w_db w))"
    unfolding finished_rows_def update_where_def
    by (rule map_cong) (auto simp: at_version_def same dest: held)
  with db have "w_db w' = moved env i q (set_finished v q) (w_db w)"
    using same ok by (simp add: moved_def wrap64_id)
  with q ok that show thesis by blast
qed

lemma receipt_value:
  "set_finished (receipt_delivery q st rs now who) q =
     (receipt_delivery q st rs now who)\<lparr>d_Version := d_Version q + 1\<rparr>"
  by (simp add: set_finished_def receipt_delivery_def)

lemma GetDeliveryByProviderMessage_sole:
  assumes "Fault env (w_stmts w) = NoFault" and "v \<in> set (Deliveries (w_db w))"
    and "\<And>q. q \<in> set (Deliveries (w_db w)) \<Longrightarrow> d_TenantID q = t \<Longrightarrow> d_ApplicationID q = a \<Longrightarrow>
           d_Provider q = p \<Longrightarrow> d_ProviderMessageID q = m \<Longrightarrow> q = v"
    and "d_TenantID v = t" "d_ApplicationID v = a" "d_Provider v = p" "d_ProviderMessageID v = m"
  shows "GetDeliveryByProviderMessage env t a p m w = (Inr v, tick_stmt w)"
proof -
  let ?sel = "filter (\<lambda>r. d_TenantID r = t \<and> d_ApplicationID r = a \<and> d_Provider r = p \<and>
    d_ProviderMessageID r = m) (Deliveries (w_db w))"
  have sole: "set ?sel = {v}" unfolding set_filter using assms(2-7) by blast
  then have ne: "?sel \<noteq> []" by (metis empty_set insert_not_empty)
  have "?sel ! k = v" if "k < length ?sel" for k
    using nth_mem [OF that] unfolding sole by blast
  with assms(1) ne show ?thesis
    unfolding GetDeliveryByProviderMessage_def select_one_def query_def by simp
qed

lemma RecordReceipt_accepted:
  assumes "RecordReceipt env s ctx t a p m st rs w = (Inr v, w')"
  shows "TrimSpace t \<noteq> [] \<and> TrimSpace a \<noteq> [] \<and> lowered env p \<noteq> [] \<and> TrimSpace m \<noteq> [] \<and>
    validReceiptStatus (lowered env st)"
  using assms by (auto simp: RecordReceipt_def Let_def split: if_splits)

text \<open>What a successful receipt leaves: its result is the stored row.\<close>

lemma RecordReceipt_stored:
  assumes "orderly env" and "schema_ok (w_db w)"
    and "RecordReceipt env s ctx t a p m st rs w = (Inr v, w')"
  shows "v \<in> set (Deliveries (w_db w')) \<and> d_Status v = lowered env st \<and> d_TenantID v = TrimSpace t \<and>
    d_ApplicationID v = TrimSpace a \<and> d_Provider v = lowered env p \<and> d_ProviderMessageID v = TrimSpace m"
  using assms(3)
proof (cases rule: RecordReceipt_cases)
  case (recorded q u caller j w2 r')
  let ?d = "Others env (w_stmts w2) (w_db w)"
  have start: "w_db (begun env w2) = ?d" using recorded(1) by (simp add: begun_def)
  have ahead: "rows_forward d_ID d_Version delivery_key (Deliveries (w_db w)) (Deliveries ?d)"
    and uniq: "unique_by d_ID (Deliveries ?d)"
    using orderlyD [OF assms(1,2)] by (auto simp: db_forward_def schema_ok_def)
  from recorded(13) have r': "r' = Inr ()" and v: "v = u\<lparr>d_Version := wrap64 (d_Version u + 1)\<rparr>"
    by (cases r'; simp)+
  obtain w3 where w3: "finish_tx env u (begun env w2) = (Inr (), w3)" "w_db w' = w_db w3"
    using Within_Inr [OF recorded(12) [unfolded r']] by blast
  from w3(1) have "v \<in> set (Deliveries (w_db w3))"
  proof (rule finish_tx_moved [where q = q])
    show "set_finished u q = u\<lparr>d_Version := d_Version q + 1\<rparr>" by (simp add: recorded(11) receipt_value)
    fix i assume i: "q \<in> set (Deliveries (w_db (begun env w2)))" "is_int64 (d_Version q + 1)"
      "w_db w3 = moved env i q (set_finished u q) (w_db (begun env w2))"
    have "v = set_finished u q"
      using i(2) by (simp add: v recorded(11) receipt_value wrap64_id receipt_delivery_def set_finished_def)
    with i(1,3) show "v \<in> set (Deliveries (w_db w3))" by (force simp: moved_def)
  qed (use start uniq rows_forward_same [OF ahead recorded(3)] in \<open>auto simp: recorded(11) receipt_delivery_def\<close>)
  with w3(2) recorded(5-8) v show ?thesis by (simp add: recorded(11) receipt_delivery_def)
qed auto

section \<open>Properties\<close>

text \<open>
  C6. A receipt changes at most one row, by a legal step of its life, together with its event:
  under any faults in orderly surroundings the tables stay as they were, or as other sessions left
  them, or a delivery of the named provider message that had no final status yet gets the status
  of the receipt and a NotificationStatusChanged event for it is appended. A returned delivery is
  the row as it is stored then.
\<close>

theorem RecordReceipt_step:
  assumes "orderly env" and "schema_ok (w_db w)"
    and "RecordReceipt env s ctx t a p m st rs w = (r, w')"
  shows "w_db w' = w_db w \<or> (\<exists>n e. w_db w' = Others env n (w_db w) \<and> r = Inl e) \<or>
    (\<exists>n i q q'. w_db w' = moved env i q q' (Others env n (w_db w)) \<and>
       q \<in> set (Deliveries (w_db w)) \<and> q \<in> set (Deliveries (Others env n (w_db w))) \<and>
       \<not> terminalDeliveryStatus (d_Status q) \<and> lifecycle_step cfg q q' \<and>
       d_Status q' = lowered env st \<and> d_FailureReason q' = TrimSpace rs \<and>
       d_TenantID q = TrimSpace t \<and> d_Provider q = lowered env p \<and> d_ProviderMessageID q = TrimSpace m \<and>
       (r = Inr q' \<or> (\<exists>e. r = Inl e)))"
  using assms(3)
proof (cases rule: RecordReceipt_cases)
  case (recorded q v caller j w2 r')
  let ?d = "Others env (w_stmts w2) (w_db w)"
  have start: "w_db (begun env w2) = ?d" using recorded(1) by (simp add: begun_def)
  have ahead: "rows_forward d_ID d_Version delivery_key (Deliveries (w_db w)) (Deliveries ?d)"
    and uniq: "unique_by d_ID (Deliveries ?d)"
    using orderlyD [OF assms(1,2)] by (auto simp: db_forward_def schema_ok_def)
  have committed: ?thesis if "finish_tx env v (begun env w2) = (Inr u, w3)" "w_db w' = w_db w3" for u w3
    using that(1)
  proof (rule finish_tx_moved [where q = q])
    show "set_finished v q = v\<lparr>d_Version := d_Version q + 1\<rparr>" by (simp add: recorded(11) receipt_value)
    fix i assume i: "q \<in> set (Deliveries (w_db (begun env w2)))" "is_int64 (d_Version q + 1)"
      "w_db w3 = moved env i q (set_finished v q) (w_db (begun env w2))"
    have "lifecycle_step cfg q (set_finished v q)"
      unfolding recorded(11) by (rule lifecycle_step.receipt) (use recorded in auto)
    moreover have "r = Inr (set_finished v q) \<or> (\<exists>e. r = Inl e)"
      using i(2) by (cases r') (simp_all add: recorded(11,13) set_finished_def receipt_delivery_def wrap64_id)
    moreover have "d_Status (set_finished v q) = lowered env st" "d_FailureReason (set_finished v q) = TrimSpace rs"
      by (simp_all add: recorded(11) set_finished_def receipt_delivery_def)
    ultimately show ?thesis
      using i(1,3) start that(2) recorded(3-9) by metis
  qed (use start uniq rows_forward_same [OF ahead recorded(3)] in \<open>auto simp: recorded(11) receipt_delivery_def\<close>)
  show ?thesis
  proof (cases r')
    case (Inr u)
    from Within_Inr [OF recorded(12) [unfolded Inr]] committed show ?thesis by blast
  next
    case (Inl e)
    then have "r = Inl (translate e)" by (simp add: recorded(13))
    with Within_db [OF recorded(12)] committed start recorded(1) show ?thesis by metis
  qed
qed auto

theorem RecordReceipt_step_witness:
  "\<exists>q' i w'. sample_receipt ''Delivered'' (sample_world sample_sent_db) = (Inr q', w') \<and>
     w_db w' = moved sample_env i sample_sent q' sample_sent_db \<and> d_Status q' = ''delivered'' \<and>
     lifecycle_step sample_notification sample_sent q'"
proof -
  let ?run = "sample_receipt ''Delivered'' (sample_world sample_sent_db)"
  have "\<not> isl (fst ?run)" by code_simp
  then obtain v w' where run: "?run = (Inr v, w')" by (rule Inr_case)
  have "length (Outbox (w_db (snd ?run))) = 1" by code_simp
  then have "w_db w' \<noteq> sample_sent_db" using run by (auto simp: sample_sent_db_def sample_db_def)
  with RecordReceipt_step [OF sample_orderly _ run [unfolded sample_receipt_def], of sample_notification]
  obtain i q q' where "w_db w' = moved sample_env i q q' sample_sent_db" "q \<in> set (Deliveries sample_sent_db)"
    "lifecycle_step sample_notification q q'" "d_Status q' = lowered sample_env ''Delivered''" "v = q'"
    by auto
  moreover have "lowered sample_env ''Delivered'' = ''delivered''" by code_simp
  ultimately show ?thesis using run by (auto simp: sample_sent_db_def)
qed

text \<open>
  C23. A recorded result is final: after a successful receipt, and as long as the provider message
  id names one delivery, a further authorized receipt for it is answered with the stored delivery
  when it carries the same status and refused with a conflict otherwise; neither changes a table.
\<close>

theorem RecordReceipt_final:
  assumes "orderly env" and "schema_ok (w_db w)"
    and "RecordReceipt env s ctx t a p m st rs w = (Inr v, w1)"
    and "\<And>q. q \<in> set (Deliveries (w_db w1)) \<Longrightarrow> d_TenantID q = TrimSpace t \<Longrightarrow> d_ApplicationID q = TrimSpace a \<Longrightarrow>
           d_Provider q = lowered env p \<Longrightarrow> d_ProviderMessageID q = TrimSpace m \<Longrightarrow> q = v"
    and "Fault env' (w_stmts w1) = NoFault"
    and "authorize env' ctx' (TrimSpace t) (TrimSpace a) = Inr caller"
    and "TrimSpace t' = TrimSpace t" "TrimSpace a' = TrimSpace a" "lowered env' p' = lowered env p"
      "TrimSpace m' = TrimSpace m" and "validReceiptStatus (lowered env' st')"
  shows "RecordReceipt env' s' ctx' t' a' p' m' st' rs' w1 =
    ((if lowered env' st' = lowered env st then Inr v
      else Inl (Conflict ''delivery already has a terminal status'' None)), tick_stmt w1)"
proof -
  note stored = RecordReceipt_stored [OF assms(1-3)] and accepted = RecordReceipt_accepted [OF assms(3)]
  have "GetDeliveryByProviderMessage env' (TrimSpace t) (TrimSpace a) (lowered env p) (TrimSpace m) w1
      = (Inr v, tick_stmt w1)"
    by (rule GetDeliveryByProviderMessage_sole) (use stored assms(4,5) in \<open>blast+\<close>)
  moreover have "terminalDeliveryStatus (d_Status v)"
    using stored accepted by (auto simp: validReceiptStatus_def terminalDeliveryStatus_def)
  ultimately show ?thesis
    using stored accepted assms(6-11) by (simp add: RecordReceipt_def Let_def)
qed

theorem RecordReceipt_final_witness:
  "\<exists>v w1. sample_receipt ''delivered'' (sample_world sample_sent_db) = (Inr v, w1) \<and>
     sample_receipt ''DELIVERED'' w1 = (Inr v, tick_stmt w1) \<and>
     sample_receipt ''bounced'' w1 = (Inl (Conflict ''delivery already has a terminal status'' None), tick_stmt w1)"
proof -
  let ?run = "sample_receipt ''delivered'' (sample_world sample_sent_db)"
  have "\<not> isl (fst ?run)" by code_simp
  then obtain v w1 where run: "?run = (Inr v, w1)" by (rule Inr_case)
  have "Deliveries (w_db (snd ?run)) = [projr (fst ?run)]" by code_simp
  with run have sole: "q = v" if "q \<in> set (Deliveries (w_db w1))" for q using that by simp
  have auth: "authorize sample_env sample_ctx (TrimSpace ''t1'') (TrimSpace ''app'') = Inr sample_caller" by code_simp
  have low: "ToLower id (TrimSpace ''DELIVERED'') = ''delivered''" "ToLower id (TrimSpace ''delivered'') = ''delivered''"
    "ToLower id (TrimSpace ''bounced'') = ''bounced''" by code_simp+
  note final = RecordReceipt_final [OF sample_orderly _ run [unfolded sample_receipt_def] _ _ auth refl refl refl refl]
  have "sample_receipt ''DELIVERED'' w1 = (Inr v, tick_stmt w1)"
    unfolding sample_receipt_def
    by (subst final) (use sole in \<open>auto simp: low validReceiptStatus_def\<close>)
  moreover have "sample_receipt ''bounced'' w1 =
      (Inl (Conflict ''delivery already has a terminal status'' None), tick_stmt w1)"
    unfolding sample_receipt_def
    by (subst final) (use sole in \<open>auto simp: low validReceiptStatus_def\<close>)
  ultimately show ?thesis using run by blast
qed

end
