(* ===== verification/DispatcherCorrect.thy ===== *)
theory DispatcherCorrect
  imports ReceiptCorrect
begin

text \<open>
  The dispatcher: the retry schedule, what claiming, one attempt and a whole round do to the
  tables, and how many requests an attempt sends.
\<close>

section \<open>Definitions\<close>

text \<open>What an attempt leaves alone: the tables, the clock and the ids.\<close>

definition still :: "world \<Rightarrow> world \<Rightarrow> bool" where
  "still w w' \<longleftrightarrow> w_db w' = w_db w \<and> w_uuids w' = w_uuids w \<and> w_ticks w' = w_ticks w \<and> w_stmts w \<le> w_stmts w'"

text \<open>The table after the rows \<open>vs\<close> of it were claimed.\<close>

text \<open>
  A row that was read as \<open>h\<close> is still \<open>h\<close>, or it has moved on to a later version, or it
  is gone.
\<close>

definition past :: "Delivery \<Rightarrow> db \<Rightarrow> bool" where
  "past h d \<longleftrightarrow> (\<forall>r \<in> set (Deliveries d). d_ID r = d_ID h \<longrightarrow> r = h \<or> d_Version h < d_Version r)"

definition claimed_rows :: "time \<Rightarrow> Delivery list \<Rightarrow> Delivery list \<Rightarrow> Delivery list" where
  "claimed_rows now vs rows = map (\<lambda>r. if r \<in> set vs then set_claimed now r else r) rows"

text \<open>
  Quiet surroundings: every statement succeeds, nobody else commits or holds a lock, and events can
  be encoded. Fresh ids: no id that will still be drawn is taken in the outbox.
\<close>

definition quiet :: "env \<Rightarrow> bool" where
  "quiet env \<longleftrightarrow>
     (\<forall>n. Fault env n = NoFault) \<and> (\<forall>n d. Others env n d = d) \<and> (\<forall>n i. \<not> Locked env n i) \<and>
     (\<forall>e. EnvelopeError env e = None)"

definition outbox_ids :: "db \<Rightarrow> string set" where
  "outbox_ids d = (\<lambda>r. oe_ID (ob_event r)) ` set (Outbox d)"

definition fresh_ids :: "env \<Rightarrow> world \<Rightarrow> bool" where
  "fresh_ids env w \<longleftrightarrow> inj (NewUUID env) \<and> (\<forall>i \<ge> w_uuids w. NewUUID env i \<notin> outbox_ids (w_db w))"

section \<open>Lemmas\<close>

subsection \<open>The retry schedule\<close>

lemma retryBackoff_eq:
  assumes "0 < base" and "base \<le> max_int64 div 1024" and "0 \<le> n" and "is_int32 n"
  shows "retryBackoff base n = base * 2 ^ nat (max 0 (min (n - 1) 10))"
proof -
  define p where "p = (2::int) ^ nat (max 0 (min (n - 1) 10))"
  have "p \<le> 2 ^ 10" unfolding p_def by (rule power_increasing) simp_all
  then have p: "p \<le> 1024" by simp
  have p1: "1 \<le> p" by (simp add: p_def)
  have "wrap32 (n - 1) = n - 1"
    using assms(3,4) by (intro wrap32_id) (auto simp: is_int32_def)
  moreover have "wrap64 p = p" using p p1 by (intro wrap64_id) (simp add: is_int64_def)
  moreover have "base * p \<le> (max_int64 div 1024) * 1024"
    using p p1 assms(1,2) by (intro mult_mono) auto
  moreover have "0 \<le> base * p" using p1 assms(1) by simp
  ultimately have "retryBackoff base n = base * p"
    by (simp add: retryBackoff_def Let_def p_def [symmetric] wrap64_id is_int64_def)
  then show ?thesis by (simp add: p_def)
qed

lemma backoff_mono:
  fixes base :: int
  assumes "0 < base" and "a \<le> b"
  shows "base * 2 ^ nat (max 0 (min (a - 1) 10)) \<le> base * 2 ^ nat (max 0 (min (b - 1) 10))"
  using assms by (intro mult_left_mono power_increasing nat_mono) auto

subsection \<open>Attempts\<close>

lemma still_refl [simp]: "still w w"
  by (simp add: still_def)

lemma still_trans: "still w w1 \<Longrightarrow> still w1 w2 \<Longrightarrow> still w w2"
  by (simp add: still_def)

lemma query_still: "query env f w = (r, w') \<Longrightarrow> still w w' \<and> w_calls w' = w_calls w"
  by (auto simp: query_def still_def split: fault.splits)

lemma select_one_still: "select_one env sel w = (r, w') \<Longrightarrow> still w w' \<and> w_calls w' = w_calls w"
  by (auto simp: select_one_def split: prod.splits sum.splits dest!: query_still)

lemma select_page_still: "select_page env sel ord n k w = (r, w') \<Longrightarrow> still w w' \<and> w_calls w' = w_calls w"
  by (auto simp: select_page_def split: prod.splits sum.splits dest!: query_still elim: still_trans)

lemma retry_loop_still: "retry_loop n env req w = (r, w') \<Longrightarrow> still w w'"
proof (induction n arbitrary: w)
  case (Suc n)
  have tick: "still w (w\<lparr>w_calls := k\<rparr>)" for k by (simp add: still_def)
  with Suc.IH have "retry_loop n env req (w\<lparr>w_calls := k\<rparr>) = (r, w') \<Longrightarrow> still w w'" for k
    by (blast intro: still_trans)
  with Suc.prems tick show ?case
    by (auto simp: retry_loop.simps Let_def split: option.splits http_outcome.splits if_splits)
qed (simp add: retry_loop.simps)

lemma HTTPClient_Do_still: "HTTPClient_Do env c ctx m p b h w = (r, w') \<Longrightarrow> still w w'"
  by (auto simp: HTTPClient_Do_def doWithRetry_def Let_def split: if_splits option.splits
        dest: retry_loop_still)

lemma Sender_Send_still: "Sender_Send env ctx sender msg w = (r, w') \<Longrightarrow> still w w'"
  by (cases sender)
     (auto simp: ProviderSender_Send_def split: sum.splits prod.splits if_splits dest: HTTPClient_Do_still)

lemma Sender_Send_message:
  "Sender_Send env ctx sender msg w = (Inr res, w') \<Longrightarrow> sr_MessageID res \<noteq> []"
  by (cases sender)
     (auto simp: ProviderSender_Send_def split: sum.splits prod.splits if_splits)

lemma Sender_Send_calls:
  assumes "Sender_Send env ctx sender msg w = (r, w')" and "ctx_IdempotencyKey ctx = None"
  shows "w_calls w \<le> w_calls w' \<and> w_calls w' \<le> Suc (w_calls w)"
  using assms
  by (cases sender)
     (auto simp: ProviderSender_Send_def retryableMethod_def split: sum.splits prod.splits if_splits
        dest!: HTTPClient_Do_calls)

lemma find_sender_still: "find_sender env d v w = (r, w') \<Longrightarrow> still w w' \<and> w_calls w' = w_calls w"
  by (auto simp: find_sender_def ListProviders_def split: prod.splits sum.splits list.splits if_splits
      option.splits dest!: select_page_still)

text \<open>An attempt that gets as far as a sender ends with what the sender says.\<close>

lemma attempt_cases:
  assumes "attempt env d ctx v w = (r, w')"
  obtains (early) e where "r = Inl e" "still w w'" "w_calls w' = w_calls w"
  | (sender) sender msg w2 where "still w w2" "w_calls w2 = w_calls w"
      "Sender_Send env ctx sender msg w2 = (r, w')"
  using assms unfolding attempt_def GetTemplate_def
  by (auto split: prod.splits sum.splits option.splits
      dest!: select_one_still find_sender_still)
    (blast intro: still_trans)+

lemma attempt_still: "attempt env d ctx v w = (r, w') \<Longrightarrow> still w w'"
  by (erule attempt_cases) (auto dest!: Sender_Send_still elim: still_trans)

lemma attempt_message: "attempt env d ctx v w = (Inr res, w') \<Longrightarrow> sr_MessageID res \<noteq> []"
  by (erule attempt_cases) (auto dest: Sender_Send_message)

subsection \<open>Delivering\<close>

lemma settled_value:
  "d_ID (settled cfg now outcome h) = d_ID h" "d_Version (settled cfg now outcome h) = d_Version h"
  "set_finished (settled cfg now outcome h) h = (settled cfg now outcome h)\<lparr>d_Version := d_Version h + 1\<rparr>"
  by (auto simp: settled_def set_finished_def Let_def split: sum.splits)

lemma attempt_settles:
  assumes "attempt env d ctx h w = (outcome, w')" and "d_Status h = ''processing''"
  shows "lifecycle_step cfg h (set_finished (settled cfg now outcome h) h)"
  using assms by (intro lifecycle_step.settle) (auto dest: attempt_message)

lemma Within_calls:
  assumes "Within env en fn w = (r, w')" and "\<And>w1 r1 w2. fn w1 = (r1, w2) \<Longrightarrow> w_calls w2 = w_calls w1"
  shows "w_calls w' = w_calls w"
proof -
  let ?w1 = "(tick_stmt w)\<lparr>w_db := Others env (w_stmts w) (w_db w)\<rparr>"
  obtain r1 w2 where body: "fn ?w1 = (r1, w2)" by fastforce
  with assms(2) have "w_calls w2 = w_calls w" by fastforce
  with assms(1) body show ?thesis
    by (auto simp: Within_def Let_def split: if_splits fault.splits sum.splits)
qed

lemma exec_calls: "exec env f w = (r, w') \<Longrightarrow> w_calls w' = w_calls w"
  by (auto simp: exec_def split: fault.splits sum.splits prod.splits)

lemma finish_tx_calls: "finish_tx env v w = (r, w') \<Longrightarrow> w_calls w' = w_calls w"
  by (auto simp: finish_tx_def Finish_def addDeliveryEvent_def AddOutbox_def new_uuid_def
      split: prod.splits sum.splits option.splits dest!: exec_calls)

subsection \<open>Claiming\<close>

lemma claimed_value_row:
  assumes "delivery_row_ok (set_claimed now v)"
  shows "claimed_value now v = set_claimed now v"
  using assms by (simp add: delivery_row_ok_def claimed_value_def set_claimed_def wrap32_id wrap64_id)

lemma claim_one:
  assumes "exec env (update_claimed now v) w = (Inr (Inr 1), w')"
    and "unique_by d_ID (Deliveries (w_db w))" and "v \<in> set (Deliveries (w_db w))"
  shows "w_db w' = (w_db w)\<lparr>Deliveries := map (\<lambda>r. if r = v then set_claimed now r else r) (Deliveries (w_db w))\<rparr> \<and>
    claimed_value now v = set_claimed now v"
proof -
  from exec_Inr [OF assms(1)] obtain rows where rows:
    "cas_update d_ID d_Version delivery_row_ok (set_claimed now) (d_ID v) (d_Version v) (Deliveries (w_db w)) = Inr (1, rows)"
    "w_db w' = (w_db w)\<lparr>Deliveries := rows\<rparr>" by (auto dest!: update_claimed_Inr)
  note rows' = claims.cas_rows [OF rows(1)]
  have "at_version d_ID d_Version (d_ID v) (d_Version v) r \<longleftrightarrow> r = v" if "r \<in> set (Deliveries (w_db w))" for r
    using unique_byD [OF assms(2) that assms(3)] by (auto simp: at_version_def)
  with rows' rows(2) assms(3) show ?thesis
    by (auto simp: update_where_def intro: claimed_value_row)
qed

lemma claimed_ID [simp]: "d_ID (set_claimed now r) = d_ID r"
  by (simp add: set_claimed_def)

lemma claimed_rows_IDs [simp]: "map d_ID (claimed_rows now vs rows) = map d_ID rows"
  by (auto simp: claimed_rows_def)

lemma claimed_rows_Cons:
  assumes "d_ID v \<notin> d_ID ` set vs"
  shows "claimed_rows now vs (map (\<lambda>r. if r = v then set_claimed now r else r) rows) = claimed_rows now (v # vs) rows"
proof -
  have "set_claimed now v \<notin> set vs" using assms by (metis claimed_ID imageI)
  then show ?thesis by (auto simp: claimed_rows_def)
qed

lemma claim_loop_Inr:
  assumes "claim_loop env now vs w = (Inr cs, w')" and "unique_by d_ID (Deliveries (w_db w))"
    and "set vs \<subseteq> set (Deliveries (w_db w))" and "distinct (map d_ID vs)"
  shows "cs = map (set_claimed now) vs \<and>
    w_db w' = (w_db w)\<lparr>Deliveries := claimed_rows now vs (Deliveries (w_db w))\<rparr>"
  using assms
proof (induction vs arbitrary: w cs)
  case Nil
  then show ?case by (simp add: claimed_rows_def)
next
  case (Cons v vs)
  let ?rows = "map (\<lambda>r. if r = v then set_claimed now r else r) (Deliveries (w_db w))"
  from Cons.prems(1) obtain w1 rest where step: "exec env (update_claimed now v) w = (Inr (Inr 1), w1)"
    and rest: "claim_loop env now vs w1 = (Inr rest, w')" "cs = claimed_value now v # rest"
    by (auto split: prod.splits sum.splits if_splits)
  from claim_one [OF step Cons.prems(2)] Cons.prems(3)
  have w1: "w_db w1 = (w_db w)\<lparr>Deliveries := ?rows\<rparr>" "claimed_value now v = set_claimed now v" by auto
  have ids: "map d_ID ?rows = map d_ID (Deliveries (w_db w))" by auto
  have "unique_by d_ID ?rows" using Cons.prems(2) unfolding unique_by_def ids .
  then have "unique_by d_ID (Deliveries (w_db w1))" using w1 by simp
  moreover have "set vs \<subseteq> set (Deliveries (w_db w1))" using Cons.prems(3,4) w1 by force
  ultimately have "rest = map (set_claimed now) vs \<and>
      w_db w' = (w_db w1)\<lparr>Deliveries := claimed_rows now vs (Deliveries (w_db w1))\<rparr>"
    using Cons.IH [OF rest(1)] Cons.prems(4) by simp
  then show ?case
    using rest(2) w1 claimed_rows_Cons [of v vs now] Cons.prems(4) by simp
qed

lemma due_rows_props:
  assumes "unique_by d_ID (Deliveries d)" and "0 \<le> limit"
  shows "set (due_rows env n now limit d) \<subseteq> {r \<in> set (Deliveries d). claimable now r \<and> \<not> Locked env n (d_ID r)}"
    and "distinct (map d_ID (due_rows env n now limit d))"
    and "int (length (due_rows env n now limit d)) \<le> limit"
    and "sorted (map (\<lambda>r. (d_NextAttemptAt r, d_ID r)) (due_rows env n now limit d))"
proof -
  let ?free = "filter (\<lambda>r. claimable now r \<and> \<not> Locked env n (d_ID r)) (Deliveries d)"
  let ?sorted = "sort_key (\<lambda>r. (d_NextAttemptAt r, d_ID r)) ?free"
  show "set (due_rows env n now limit d) \<subseteq> {r \<in> set (Deliveries d). claimable now r \<and> \<not> Locked env n (d_ID r)}"
    using set_limit_offset [of limit 0 ?sorted] by (auto simp: due_rows_def)
  have "distinct (map d_ID ?free)" using assms(1) by (simp add: unique_by_def distinct_map_filter)
  then have "distinct (map d_ID ?sorted)"
    by (metis (no_types, lifting) distinct_map distinct_sort set_sort)
  then show "distinct (map d_ID (due_rows env n now limit d))"
    by (simp add: due_rows_def limit_offset_def take_map [symmetric] distinct_take)
  show "int (length (due_rows env n now limit d)) \<le> limit"
    unfolding due_rows_def by (rule length_limit_offset [OF assms(2)])
  show "sorted (map (\<lambda>r. (d_NextAttemptAt r, d_ID r)) (due_rows env n now limit d))"
    unfolding due_rows_def limit_offset_def
    by (simp add: take_map [symmetric] sorted_wrt_take)
qed

text \<open>A successful claim takes exactly the due rows it read.\<close>

lemma ClaimDue_Inr:
  assumes "schema_ok (w_db w)" and "ClaimDue env now limit w = (Inr cs, w')"
  shows "0 \<le> limit \<and> cs = map (set_claimed now) (due_rows env (w_stmts w) now limit (w_db w)) \<and>
    w_db w' = (w_db w)\<lparr>Deliveries := claimed_rows now (due_rows env (w_stmts w) now limit (w_db w)) (Deliveries (w_db w))\<rparr>"
proof -
  let ?vs = "due_rows env (w_stmts w) now limit (w_db w)"
  from assms(2) obtain w1 where "w_db w1 = w_db w" and limit: "0 \<le> limit"
    and loop: "claim_loop env now ?vs w1 = (Inr cs, w')"
    by (auto simp: ClaimDue_def split: prod.splits sum.splits if_splits dest: query_db query_result)
  moreover have uniq: "unique_by d_ID (Deliveries (w_db w))" using assms(1) by (simp add: schema_ok_def)
  moreover note due_rows_props(1,2) [OF uniq limit, of env "w_stmts w" now]
  ultimately show ?thesis using claim_loop_Inr [OF loop] by auto
qed

subsection \<open>Quiet surroundings\<close>

lemma finish_tx_quiet:
  assumes "quiet env" and "fresh_ids env w" and "unique_by d_ID (Deliveries (w_db w))"
    and "q \<in> set (Deliveries (w_db w))" and "d_ID v = d_ID q" and "d_Version v = d_Version q"
    and "set_finished v q = v\<lparr>d_Version := d_Version q + 1\<rparr>" and "delivery_row_ok (set_finished v q)"
  obtains w' where "finish_tx env v w = (Inr (), w')" "w_uuids w' = Suc (w_uuids w)" "w_ticks w' = w_ticks w"
    "w_db w' = moved env (w_uuids w) q (set_finished v q) (w_db w)"
proof -
  have ok: "wrap64 (d_Version q + 1) = d_Version q + 1"
    using assms(8) by (simp add: delivery_row_ok_def set_finished_def wrap64_id)
  have fresh: "NewUUID env (w_uuids w) \<notin> (\<lambda>r. oe_ID (ob_event r)) ` set (Outbox (w_db w))"
    using assms(2) by (simp add: fresh_ids_def outbox_ids_def)
  let ?w1 = "(tick_stmt w)\<lparr>w_db := (w_db w)\<lparr>Deliveries := map (\<lambda>r. if r = q then set_finished v q else r) (Deliveries (w_db w))\<rparr>\<rparr>"
  have "Finish env v (d_Version v) w = (Inr (), ?w1)"
    using assms(1) finishes.cas_sole [where v = v, OF assms(3,4) assms(5,6) [symmetric] assms(8)]
    by (simp add: Finish_def exec_def quiet_def require_one_def finish_delivery_def)
  moreover have "\<exists>w'. addDeliveryEvent env (v\<lparr>d_Version := wrap64 (d_Version v + 1)\<rparr>) status_type status_subject ?w1 = (Inr (), w') \<and>
      w_uuids w' = Suc (w_uuids w) \<and> w_ticks w' = w_ticks w \<and>
      w_db w' = moved env (w_uuids w) q (set_finished v q) (w_db w)"
    using assms(1,6,7) fresh ok
    by (auto simp: addDeliveryEvent_def new_uuid_def quiet_def AddOutbox_def exec_def insert_outbox_def
        moved_def delivery_event_def)
  ultimately show thesis using that by (auto simp: finish_tx_def)
qed

lemma moved_simps [simp]:
  "Templates (moved env i q q' d) = Templates d" "Providers (moved env i q q' d) = Providers d"
  "Deliveries (moved env i q q' d) = map (\<lambda>r. if r = q then q' else r) (Deliveries d)"
  "outbox_ids (moved env i q q' d) = insert (NewUUID env i) (outbox_ids d)"
  by (auto simp: moved_def outbox_ids_def outbox_row_def delivery_event_def)

lemma settled_row_ok:
  "delivery_row_ok (set_finished (settled cfg now outcome h) h) \<longleftrightarrow>
   d_ApplicationID h \<noteq> [] \<and> is_int64 (d_Version h + 1) \<and> is_int32 (d_Attempts h)"
  by (simp add: delivery_row_ok_def set_finished_def)

lemma deliver_quiet:
  assumes "quiet env" and "dp_db_enabled d" and "fresh_ids env w" and "schema_ok (w_db w)"
    and "h \<in> set (Deliveries (w_db w))" and "is_int64 (d_Version h + 1)"
  shows "\<exists>outcome w1. attempt env d ctx h w = (outcome, w1) \<and>
    w_uuids (deliver env d ctx h w) = Suc (w_uuids w) \<and>
    w_db (deliver env d ctx h w) = moved env (w_uuids w) h
      (set_finished (settled (dp_cfg d) (Clock env (w_ticks w)) outcome h) h) (w_db w)"
proof -
  obtain outcome w1 where att: "attempt env d ctx h w = (outcome, w1)" by fastforce
  let ?v = "settled (dp_cfg d) (Clock env (w_ticks w)) outcome h"
  let ?w2 = "w1\<lparr>w_ticks := Suc (w_ticks w)\<rparr>"
  have st: "w_db w1 = w_db w" "w_uuids w1 = w_uuids w" "w_ticks w1 = w_ticks w"
    using attempt_still [OF att] by (simp_all add: still_def)
  have begun: "w_db (begun env ?w2) = w_db w" "w_uuids (begun env ?w2) = w_uuids w"
    using assms(1) st by (simp_all add: begun_def quiet_def)
  obtain w3 where w3: "finish_tx env ?v (begun env ?w2) = (Inr (), w3)" "w_uuids w3 = Suc (w_uuids w)"
    "w_db w3 = moved env (w_uuids w) h (set_finished ?v h) (w_db w)"
  proof (rule finish_tx_quiet [OF assms(1), of "begun env ?w2" h ?v])
    have "delivery_row_ok h" using assms(4,5) by (simp add: schema_ok_def list_all_iff)
    with assms(6) show "delivery_row_ok (set_finished ?v h)"
      unfolding settled_row_ok by (simp add: delivery_row_ok_def)
  qed (use begun assms(3-5) in \<open>auto simp: fresh_ids_def schema_ok_def settled_value\<close>)
  have "Within env True (finish_tx env ?v) ?w2 = (Inr (), tick_stmt w3)"
    by (rule Within_quiet) (use assms(1) w3(1) in \<open>auto simp: quiet_def\<close>)
  then have "deliver env d ctx h w = tick_stmt w3"
    using att assms(2) st by (simp add: deliver_def read_clock_def)
  with att w3 show ?thesis by auto
qed

lemma claim_loop_quiet:
  assumes "quiet env" and "unique_by d_ID (Deliveries (w_db w))" and "set vs \<subseteq> set (Deliveries (w_db w))"
    and "distinct (map d_ID vs)" and "\<And>v. v \<in> set vs \<Longrightarrow> delivery_row_ok (set_claimed now v)"
  shows "\<exists>cs w'. claim_loop env now vs w = (Inr cs, w') \<and> w_uuids w' = w_uuids w"
  using assms(2-5)
proof (induction vs arbitrary: w)
  case (Cons v vs)
  let ?rows = "map (\<lambda>r. if r = v then set_claimed now v else r) (Deliveries (w_db w))"
  let ?w1 = "(tick_stmt w)\<lparr>w_db := (w_db w)\<lparr>Deliveries := ?rows\<rparr>\<rparr>"
  have step: "exec env (update_claimed now v) w = (Inr (Inr 1), ?w1)"
    using assms(1) claims.cas_sole [where v = now, OF Cons.prems(1), of v] Cons.prems(2,4)
    by (simp add: exec_def quiet_def update_claimed_def)
  have ids: "map d_ID ?rows = map d_ID (Deliveries (w_db w))" by auto
  have "unique_by d_ID ?rows" using Cons.prems(1) unfolding unique_by_def ids .
  moreover have "set vs \<subseteq> set ?rows" using Cons.prems(2,3) by force
  ultimately have "\<exists>cs w'. claim_loop env now vs ?w1 = (Inr cs, w') \<and> w_uuids w' = w_uuids ?w1"
    using Cons.prems(3,4) by (intro Cons.IH) auto
  with step show ?case by auto
qed simp

context table_invariant
begin

lemma deliver_inv:
  assumes "inv (w_db w)" and "\<And>n d. inv d \<Longrightarrow> inv (Others env n d)"
  shows "inv (w_db (deliver env dp ctx h w))"
proof -
  obtain outcome w1 where att: "attempt env dp ctx h w = (outcome, w1)" by fastforce
  let ?tx = "finish_tx env (settled (dp_cfg dp) (Clock env (w_ticks w1)) outcome h)"
  obtain r w' where tx: "Within env (dp_db_enabled dp) ?tx (w1\<lparr>w_ticks := Suc (w_ticks w1)\<rparr>) = (r, w')"
    by fastforce
  have "inv (w_db (w1\<lparr>w_ticks := Suc (w_ticks w1)\<rparr>))"
    using assms(1) attempt_still [OF att] by (simp add: still_def)
  with tx have "inv (w_db w')" using assms(2) finish_tx_inv by (rule Within_inv)
  with att tx show ?thesis by (simp add: deliver_def read_clock_def)
qed

lemma deliver_all_inv:
  assumes "inv (w_db w)" and "\<And>n d. inv d \<Longrightarrow> inv (Others env n d)"
  shows "inv (w_db (deliver_all env dp ctx hs w))"
  using assms by (induction hs arbitrary: w) (simp_all add: deliver_inv)

lemma RunOnce_inv:
  assumes "inv (w_db w)" and "\<And>n d. inv d \<Longrightarrow> inv (Others env n d)"
  shows "inv (w_db (snd (RunOnce env dp ctx w)))"
proof -
  obtain r w1 where tx: "Within env (dp_db_enabled dp) (claim_tx env dp) w = (r, w1)" by fastforce
  have "inv (w_db w1)"
    using tx assms(1,2)
    by (rule Within_inv) (auto simp: claim_tx_def read_clock_def dest: ClaimDue_inv)
  with tx assms(2) show ?thesis by (auto simp: RunOnce_def deliver_all_inv split: sum.split)
qed

end

lemma schema_quiet: "quiet env \<Longrightarrow> schema_ok d \<Longrightarrow> schema_ok (Others env n d)"
  by (simp add: quiet_def)

lemma fresh_ids_deliver:
  assumes "fresh_ids env w" and "w_uuids w' = Suc (w_uuids w)" and "w_db w' = moved env (w_uuids w) q q' (w_db w)"
  shows "fresh_ids env w'"
  using assms by (auto simp: fresh_ids_def dest: injD)

lemma deliver_all_quiet:
  assumes "quiet env" and "dp_db_enabled dp" and "fresh_ids env w" and "schema_ok (w_db w)"
    and "set hs \<subseteq> set (Deliveries (w_db w))" and "distinct (map d_ID hs)"
    and "\<And>h. h \<in> set hs \<Longrightarrow> d_Status h = ''processing'' \<and> is_int64 (d_Version h + 1)"
  shows "(\<forall>h \<in> set hs. \<exists>h' \<in> set (Deliveries (w_db (deliver_all env dp ctx hs w))).
      \<exists>now outcome. h' = set_finished (settled (dp_cfg dp) now outcome h) h \<and> lifecycle_step (dp_cfg dp) h h') \<and>
    (\<forall>r \<in> set (Deliveries (w_db w)). d_ID r \<notin> d_ID ` set hs \<longrightarrow>
      r \<in> set (Deliveries (w_db (deliver_all env dp ctx hs w))))"
  using assms(3-7)
proof (induction hs arbitrary: w)
  case (Cons h hs)
  let ?w1 = "deliver env dp ctx h w"
  obtain outcome w0 where att: "attempt env dp ctx h w = (outcome, w0)"
    and ids: "w_uuids ?w1 = Suc (w_uuids w)"
    and db: "w_db ?w1 = moved env (w_uuids w) h (set_finished (settled (dp_cfg dp) (Clock env (w_ticks w)) outcome h) h) (w_db w)"
    using deliver_quiet [OF assms(1,2) Cons.prems(1,2), of h ctx] Cons.prems(3,5) by auto
  let ?h' = "set_finished (settled (dp_cfg dp) (Clock env (w_ticks w)) outcome h) h"
  have step: "lifecycle_step (dp_cfg dp) h ?h'" using Cons.prems(5) by (intro attempt_settles [OF att]) simp
  then have id': "d_ID ?h' = d_ID h" by (simp add: step_identity)
  have others: "r \<in> set (Deliveries (w_db ?w1))" if "r \<in> set (Deliveries (w_db w))" "r \<noteq> h" for r
    using that by (force simp: db)
  have in1: "?h' \<in> set (Deliveries (w_db ?w1))" using Cons.prems(3) by (force simp: db)
  have "schema_ok (w_db ?w1)" by (rule schema.deliver_inv [OF Cons.prems(2) schema_quiet [OF assms(1)]])
  moreover have "fresh_ids env ?w1" by (rule fresh_ids_deliver [OF Cons.prems(1) ids db])
  moreover have "set hs \<subseteq> set (Deliveries (w_db ?w1))" using Cons.prems(3,4) others by force
  ultimately have IH: "\<forall>x \<in> set hs. \<exists>x' \<in> set (Deliveries (w_db (deliver_all env dp ctx hs ?w1))).
      \<exists>now outcome. x' = set_finished (settled (dp_cfg dp) now outcome x) x \<and> lifecycle_step (dp_cfg dp) x x'"
    "\<forall>r \<in> set (Deliveries (w_db ?w1)). d_ID r \<notin> d_ID ` set hs \<longrightarrow> r \<in> set (Deliveries (w_db (deliver_all env dp ctx hs ?w1)))"
    using Cons.IH [of ?w1] Cons.prems(4,5) by auto
  have "?h' \<in> set (Deliveries (w_db (deliver_all env dp ctx hs ?w1)))"
    using IH(2) in1 id' Cons.prems(4) by auto
  with IH step others show ?case by (auto 4 3)
qed simp

lemma claim_tx_quiet:
  assumes "quiet env" and "schema_ok (w_db w)" and "0 \<le> Notification_BatchSize (dp_cfg dp)"
    and "\<And>r. r \<in> set (Deliveries (w_db w)) \<Longrightarrow> d_Version r < max_int64 - 1 \<and> d_Attempts r < max_int32"
  defines "now \<equiv> Clock env (w_ticks w)"
  defines "vs \<equiv> due_rows env (w_stmts w) now (Notification_BatchSize (dp_cfg dp)) (w_db w)"
  obtains w' where "claim_tx env dp w = (Inr (map (set_claimed now) vs), w')" "w_uuids w' = w_uuids w"
    "w_db w' = (w_db w)\<lparr>Deliveries := claimed_rows now vs (Deliveries (w_db w))\<rparr>"
proof -
  have uniq: "unique_by d_ID (Deliveries (w_db w))" using assms(2) by (simp add: schema_ok_def)
  note due = due_rows_props [OF uniq assms(3), of env "w_stmts w" now, folded vs_def]
  let ?w1 = "tick_stmt (w\<lparr>w_ticks := Suc (w_ticks w)\<rparr>)"
  have "delivery_row_ok (set_claimed now v)" if "v \<in> set vs" for v
  proof -
    have "v \<in> set (Deliveries (w_db w))" using that due(1) by auto
    with assms(2,4) show ?thesis
      by (force simp: schema_ok_def list_all_iff delivery_row_ok_def set_claimed_def is_int64_def is_int32_def)
  qed
  then obtain cs w' where loop: "claim_loop env now vs ?w1 = (Inr cs, w')" "w_uuids w' = w_uuids w"
    using claim_loop_quiet [OF assms(1), of ?w1 vs now] uniq due(1,2) by auto
  have "claim_tx env dp w = claim_loop env now vs ?w1"
    using assms(1,3) by (simp add: claim_tx_def read_clock_def ClaimDue_def query_def quiet_def now_def vs_def)
  moreover have "cs = map (set_claimed now) vs \<and>
      w_db w' = (w_db ?w1)\<lparr>Deliveries := claimed_rows now vs (Deliveries (w_db ?w1))\<rparr>"
    by (rule claim_loop_Inr [OF loop(1)]) (use uniq due(1,2) in auto)
  ultimately show thesis using that loop by simp
qed

text \<open>One quiet round: what becomes of the due rows and of all others.\<close>

lemma RunOnce_quiet:
  assumes "quiet env" and "dp_db_enabled dp" and "fresh_ids env w" and "schema_ok (w_db w)"
    and "0 \<le> Notification_BatchSize (dp_cfg dp)"
    and "\<And>r. r \<in> set (Deliveries (w_db w)) \<Longrightarrow> d_Version r < max_int64 - 1 \<and> d_Attempts r < max_int32"
  defines "now \<equiv> Clock env (w_ticks w)"
  defines "due \<equiv> due_rows env (Suc (w_stmts w)) now (Notification_BatchSize (dp_cfg dp)) (w_db w)"
  obtains w' where "RunOnce env dp ctx w = (Inr (int (length due)), w')"
    "\<And>v. v \<in> set due \<Longrightarrow> \<exists>h' \<in> set (Deliveries (w_db w')). \<exists>now' outcome.
       h' = set_finished (settled (dp_cfg dp) now' outcome (set_claimed now v)) (set_claimed now v) \<and>
       lifecycle_step (dp_cfg dp) (set_claimed now v) h'"
    "\<And>r. r \<in> set (Deliveries (w_db w)) \<Longrightarrow> r \<notin> set due \<Longrightarrow> r \<in> set (Deliveries (w_db w'))"
proof -
  have b: "w_db (begun env w) = w_db w" "w_ticks (begun env w) = w_ticks w" "w_stmts (begun env w) = Suc (w_stmts w)"
    "w_uuids (begun env w) = w_uuids w"
    using assms(1) by (simp_all add: begun_def quiet_def)
  obtain w1 where w1: "claim_tx env dp (begun env w) = (Inr (map (set_claimed now) due), w1)" "w_uuids w1 = w_uuids w"
    "w_db w1 = (w_db w)\<lparr>Deliveries := claimed_rows now due (Deliveries (w_db w))\<rparr>"
    using claim_tx_quiet [OF assms(1), of "begun env w" dp] assms(4-6) unfolding b now_def due_def by auto
  let ?hs = "map (set_claimed now) due" and ?w2 = "tick_stmt w1"
  have uniq: "unique_by d_ID (Deliveries (w_db w))" using assms(4) by (simp add: schema_ok_def)
  note due = due_rows_props [OF uniq assms(5), of env "Suc (w_stmts w)" now, folded due_def]
  have "Within env True (claim_tx env dp) w = (Inr ?hs, ?w2)"
    by (rule Within_quiet) (use assms(1) w1(1) in \<open>auto simp: quiet_def\<close>)
  then have run: "RunOnce env dp ctx w = (Inr (int (length due)), deliver_all env dp ctx ?hs ?w2)"
    using assms(2) by (simp add: RunOnce_def)
  have "schema_ok (w_db w1)"
    using w1(1) b(1) assms(4) schema.ClaimDue_inv by (auto simp: claim_tx_def read_clock_def)
  then have ok: "schema_ok (w_db ?w2)" by simp
  have fresh: "fresh_ids env ?w2" using assms(3) w1 by (simp add: fresh_ids_def outbox_ids_def)
  have held: "set ?hs \<subseteq> set (Deliveries (w_db ?w2))" using due(1) w1(3) by (auto simp: claimed_rows_def)
  have bounds: "d_Status h = ''processing'' \<and> is_int64 (d_Version h + 1)" if h: "h \<in> set ?hs" for h
  proof -
    from h obtain v where v: "v \<in> set (Deliveries (w_db w))" "h = set_claimed now v" using due(1) by auto
    with assms(4) have "is_int64 (d_Version v)" by (simp add: schema_ok_def list_all_iff delivery_row_ok_def)
    with assms(6) [OF v(1)] v(2) show ?thesis by (simp add: set_claimed_def is_int64_def)
  qed
  have dist: "distinct (map d_ID ?hs)" using due(2) by (simp add: comp_def)
  note all = deliver_all_quiet [OF assms(1,2) fresh ok held dist bounds, of ctx]
  from all have settled: "\<exists>h' \<in> set (Deliveries (w_db (deliver_all env dp ctx ?hs ?w2))).
      \<exists>now' outcome. h' = set_finished (settled (dp_cfg dp) now' outcome (set_claimed now v)) (set_claimed now v) \<and>
        lifecycle_step (dp_cfg dp) (set_claimed now v) h'" if "v \<in> set due" for v
    using that by auto
  have "r \<in> set (Deliveries (w_db (deliver_all env dp ctx ?hs ?w2)))"
    if r: "r \<in> set (Deliveries (w_db w))" "r \<notin> set due" for r
  proof -
    have "r \<in> set (Deliveries (w_db ?w2))" using r w1(3) by (force simp: claimed_rows_def)
    moreover have "d_ID r \<notin> d_ID ` set ?hs"
    proof
      assume "d_ID r \<in> d_ID ` set ?hs"
      then obtain v where v: "v \<in> set due" "d_ID r = d_ID v" by auto
      with due(1) have "v \<in> set (Deliveries (w_db w))" by auto
      from unique_byD [OF uniq r(1) this v(2)] v(1) r(2) show False by simp
    qed
    ultimately show ?thesis using all by blast
  qed
  with run settled that show thesis by blast
qed

lemma due_rows_all:
  assumes "quiet env" and "int (length (filter (claimable now) (Deliveries d))) \<le> limit"
  shows "set (due_rows env n now limit d) = {r \<in> set (Deliveries d). claimable now r}"
proof -
  have "filter (\<lambda>r. claimable now r \<and> \<not> Locked env n (d_ID r)) (Deliveries d) = filter (claimable now) (Deliveries d)"
    using assms(1) by (simp add: quiet_def)
  then have "set (due_rows env n now limit d) =
      set (sort_key (\<lambda>r. (d_NextAttemptAt r, d_ID r)) (filter (claimable now) (Deliveries d)))"
    using assms(2) by (simp add: due_rows_def limit_offset_def nat_le_iff le_nat_iff take_all)
  then show ?thesis by simp
qed

lemma sample_quiet: "quiet sample_env"
  by (simp add: quiet_def) (simp add: sample_env_def)

lemma sample_fresh: "Outbox d = [] \<Longrightarrow> fresh_ids sample_env (sample_world d)"
  by (auto simp: fresh_ids_def outbox_ids_def intro!: injI dest: arg_cong [where f = length])

lemma past_forward:
  "db_forward d d' \<Longrightarrow> h \<in> set (Deliveries d) \<Longrightarrow> past h d'"
  by (auto simp: past_def db_forward_def rows_forward_def)

lemma deliver_changes:
  assumes "\<And>n. unique_by d_ID (Deliveries (Others env n (w_db w)))" and "\<And>n. w_stmts w \<le> n \<Longrightarrow> past h (Others env n (w_db w))"
    and "d_Status h = ''processing''" and "attempt env dp ctx h w = (outcome, w1)"
  shows "w_db (deliver env dp ctx h w) = w_db w \<or>
    (\<exists>n \<ge> w_stmts w. w_db (deliver env dp ctx h w) = Others env n (w_db w)) \<or>
    (\<exists>n i. let h' = set_finished (settled (dp_cfg dp) (Clock env (w_ticks w)) outcome h) h in
       w_stmts w \<le> n \<and> w_db (deliver env dp ctx h w) = moved env i h h' (Others env n (w_db w)) \<and>
       h \<in> set (Deliveries (Others env n (w_db w))) \<and> lifecycle_step (dp_cfg dp) h h')"
proof -
  let ?v = "settled (dp_cfg dp) (Clock env (w_ticks w)) outcome h"
  let ?w2 = "w1\<lparr>w_ticks := Suc (w_ticks w)\<rparr>"
  have st: "w_db w1 = w_db w" "w_ticks w1 = w_ticks w" "w_stmts w \<le> w_stmts w1"
    using attempt_still [OF assms(4)] by (simp_all add: still_def)
  obtain r w' where tx: "Within env (dp_db_enabled dp) (finish_tx env ?v) ?w2 = (r, w')" by fastforce
  have del: "deliver env dp ctx h w = w'"
    using assms(4) tx st by (simp add: deliver_def read_clock_def)
  let ?d = "Others env (w_stmts w1) (w_db w)"
  have start: "w_db (begun env ?w2) = ?d" using st by (simp add: begun_def)
  have here: "past h ?d" by (rule assms(2)) (rule st(3))
  have "\<exists>i. w_db w3 = moved env i h (set_finished ?v h) ?d \<and> h \<in> set (Deliveries ?d)"
    if "finish_tx env ?v (begun env ?w2) = (Inr u, w3)" for u w3
    using that
    by (rule finish_tx_moved [where q = h])
       (use start assms(1) here in \<open>auto simp: settled_value past_def\<close>)
  with Within_db [OF tx] st start del attempt_settles [OF assms(4,3)] show ?thesis
    unfolding Let_def by (metis world.select_convs(1) world.surjective world.update_convs(3))
qed

section \<open>Properties\<close>

text \<open>
  C33. The retry schedule neither overflows nor shrinks: for every base delay up to
  9007199254740991 nanoseconds (over a hundred days) and every attempt number, the delay lies
  between the base and 1024 times the base, is the base doubled for each attempt from the second
  to the eleventh, and never decreases with the attempts.
\<close>

theorem retryBackoff_schedule:
  assumes "0 < base" and "base \<le> max_int64 div 1024" and "0 \<le> n" and "n \<le> m" and "is_int32 m"
  shows "base \<le> retryBackoff base n \<and> retryBackoff base n \<le> 1024 * base \<and>
    retryBackoff base n \<le> retryBackoff base m \<and>
    (1 \<le> n \<and> n \<le> 11 \<longrightarrow> retryBackoff base n = base * 2 ^ nat (n - 1))"
proof -
  have n: "retryBackoff base n = base * 2 ^ nat (max 0 (min (n - 1) 10))"
    by (rule retryBackoff_eq) (use assms in \<open>auto simp: is_int32_def\<close>)
  have m: "retryBackoff base m = base * 2 ^ nat (max 0 (min (m - 1) 10))"
    by (rule retryBackoff_eq) (use assms in \<open>auto simp: is_int32_def\<close>)
  have "base * 2 ^ nat (max 0 (min (n - 1) 10)) \<le> base * 2 ^ nat (max 0 (min (11 - 1) 10))"
    if "n \<le> 11" using backoff_mono [OF assms(1) that] .
  moreover have "min (n - 1) 10 = 10" if "11 < n" using that by simp
  ultimately have "retryBackoff base n \<le> 1024 * base" unfolding n by (cases "n \<le> 11") auto
  moreover have "base \<le> base * 2 ^ nat (max 0 (min (n - 1) 10))"
    using assms(1) by simp
  ultimately show ?thesis using n m backoff_mono [OF assms(1,4)] by auto
qed

theorem retryBackoff_schedule_witness:
  "5 * second \<le> retryBackoff (5 * second) 3 \<and> retryBackoff (5 * second) 3 \<le> 1024 * (5 * second) \<and>
   retryBackoff (5 * second) 3 \<le> retryBackoff (5 * second) 400 \<and> retryBackoff (5 * second) 3 = 20 * second"
  using retryBackoff_schedule [of "5 * second" 3 400] by (simp add: is_int32_def)

text \<open>
  C7. A delivery attempt changes at most the row it was claimed with, by a legal step of its life
  and together with its event: under any faults in orderly surroundings the tables stay as they
  were, or as other sessions left them, or the processing row is settled as the outcome of the
  attempt says and a NotificationStatusChanged event is appended.
\<close>

theorem deliver_step:
  assumes "orderly env" and "schema_ok (w_db w)" and "h \<in> set (Deliveries (w_db w))"
    and "d_Status h = ''processing''" and "attempt env dp ctx h w = (outcome, w1)"
  shows "w_db (deliver env dp ctx h w) = w_db w \<or>
    (\<exists>n. w_db (deliver env dp ctx h w) = Others env n (w_db w)) \<or>
    (\<exists>n i. let h' = set_finished (settled (dp_cfg dp) (Clock env (w_ticks w)) outcome h) h in
       w_db (deliver env dp ctx h w) = moved env i h h' (Others env n (w_db w)) \<and>
       h \<in> set (Deliveries (Others env n (w_db w))) \<and> lifecycle_step (dp_cfg dp) h h')"
proof -
  have "past h (Others env n (w_db w))" and "unique_by d_ID (Deliveries (Others env n (w_db w)))" for n
    using orderlyD [OF assms(1,2)] past_forward [OF _ assms(3)] by (auto simp: schema_ok_def)
  from deliver_changes [OF this(2,1) assms(4,5)] show ?thesis unfolding Let_def by blast
qed

theorem deliver_step_witness:
  "\<exists>i h'. w_db (deliver sample_env sample_dispatcher background sample_claimed (sample_world sample_claimed_db)) =
     moved sample_env i sample_claimed h' sample_claimed_db \<and>
     lifecycle_step sample_notification sample_claimed h' \<and> d_Status h' = ''sent''"
proof -
  let ?w = "sample_world sample_claimed_db"
  let ?del = "deliver sample_env sample_dispatcher background sample_claimed ?w"
  obtain outcome w1 where att: "attempt sample_env sample_dispatcher background sample_claimed ?w = (outcome, w1)"
    by fastforce
  have "\<not> isl (fst (attempt sample_env sample_dispatcher background sample_claimed ?w))" by code_simp
  with att obtain res where out: "outcome = Inr res" by (cases outcome) auto
  have "length (Outbox (w_db ?del)) = 1" by code_simp
  then have changed: "w_db ?del \<noteq> sample_claimed_db" by (auto simp: sample_claimed_db_def sample_db_def)
  have mem: "sample_claimed \<in> set (Deliveries (w_db ?w))" by (simp add: sample_claimed_db_def)
  have st: "d_Status sample_claimed = ''processing''" by (simp add: sample_claimed_def set_claimed_def)
  have cfg: "dp_cfg sample_dispatcher = sample_notification" by (simp add: sample_dispatcher_def)
  let ?h' = "set_finished (settled sample_notification (Clock sample_env (w_ticks ?w)) outcome sample_claimed) sample_claimed"
  from deliver_step [OF sample_orderly _ mem st att] changed obtain i where
    "w_db ?del = moved sample_env i sample_claimed ?h' sample_claimed_db"
    "lifecycle_step sample_notification sample_claimed ?h'"
    unfolding Let_def cfg by auto
  moreover have "d_Status ?h' = ''sent''" by (simp add: out column_simps)
  ultimately show ?thesis by blast
qed

text \<open>
  C14. Claiming is exact: a successful ClaimDue returns the due rows it read, at most as many as
  the limit, oldest first and no id twice; each was pending or retrying and due, each is now
  processing with one more attempt and the next version, as returned; no other row and no other
  table changes. Without locks, and when the due rows fit into the limit, all of them are taken.
\<close>

theorem ClaimDue_exact:
  assumes "schema_ok (w_db w)" and "ClaimDue env now limit w = (Inr cs, w')"
  shows "\<exists>vs. cs = map (set_claimed now) vs \<and> distinct (map d_ID vs) \<and> int (length vs) \<le> limit \<and>
    sorted (map (\<lambda>r. (d_NextAttemptAt r, d_ID r)) vs) \<and>
    (\<forall>v \<in> set vs. v \<in> set (Deliveries (w_db w)) \<and> claimable now v) \<and>
    w_db w' = (w_db w)\<lparr>Deliveries := claimed_rows now vs (Deliveries (w_db w))\<rparr> \<and>
    (quiet env \<and> int (length (filter (claimable now) (Deliveries (w_db w)))) \<le> limit \<longrightarrow>
      set vs = {r \<in> set (Deliveries (w_db w)). claimable now r})"
proof -
  note claimed = ClaimDue_Inr [OF assms]
  have uniq: "unique_by d_ID (Deliveries (w_db w))" using assms(1) by (simp add: schema_ok_def)
  from claimed due_rows_props [OF uniq, of limit env "w_stmts w" now] show ?thesis
    by (intro exI [of _ "due_rows env (w_stmts w) now limit (w_db w)"]) (auto simp: due_rows_all)
qed

theorem ClaimDue_exact_witness:
  "\<exists>cs w'. ClaimDue sample_env 1000 5 (sample_world sample_db) = (Inr cs, w') \<and>
     w_db w' = sample_db\<lparr>Deliveries := claimed_rows 1000 [sample_delivery] [sample_delivery]\<rparr> \<and>
     cs = [set_claimed 1000 sample_delivery]"
proof -
  let ?run = "ClaimDue sample_env 1000 5 (sample_world sample_db)"
  have "\<not> isl (fst ?run)" by code_simp
  then obtain cs w' where run: "?run = (Inr cs, w')" by (rule Inr_case)
  have "projr (fst ?run) = [set_claimed 1000 sample_delivery]" by code_simp
  with run have cs: "cs = [set_claimed 1000 sample_delivery]" by simp
  have rows: "Deliveries sample_db = [sample_delivery]" by (simp add: sample_db_def)
  from ClaimDue_exact [OF _ run] obtain vs where "cs = map (set_claimed 1000) vs" "set vs \<subseteq> {sample_delivery}"
    "w_db w' = sample_db\<lparr>Deliveries := claimed_rows 1000 vs [sample_delivery]\<rparr>"
    by (auto simp: rows)
  with cs run show ?thesis by (cases vs) auto
qed

text \<open>
  No delivery is claimed twice: after a successful claim, a further claim of any dispatcher,
  at any time and with any limit, returns none of the claimed deliveries, since they are
  processing.
\<close>

lemma ClaimDue_disjoint:
  assumes "schema_ok (w_db w)" and "ClaimDue env now limit w = (Inr cs, w1)"
    and "w_db w2 = w_db w1" and "ClaimDue env' now' limit' w2 = (Inr cs', w3)"
  shows "d_ID ` set cs \<inter> d_ID ` set cs' = {}"
proof -
  note first = ClaimDue_Inr [OF assms(1,2)]
  have ok: "schema_ok (w_db w2)" using schema.ClaimDue_inv [OF assms(2,1)] assms(3) by simp
  note second = ClaimDue_Inr [OF ok assms(4)]
  have uniq: "unique_by d_ID (Deliveries (w_db w2))" using ok by (simp add: schema_ok_def)
  have uniq0: "unique_by d_ID (Deliveries (w_db w))" using assms(1) by (simp add: schema_ok_def)
  have taken: "c \<in> set (Deliveries (w_db w2)) \<and> d_Status c = ''processing''" if "c \<in> set cs" for c
  proof -
    from that first obtain v where v: "v \<in> set (due_rows env (w_stmts w) now limit (w_db w))" "c = set_claimed now v"
      by auto
    with due_rows_props(1) [OF uniq0, of limit env "w_stmts w" now] first have "v \<in> set (Deliveries (w_db w))" by auto
    with v first assms(3) show ?thesis by (auto simp: claimed_rows_def set_claimed_def)
  qed
  have free: "\<exists>v \<in> set (Deliveries (w_db w2)). d_ID v = d_ID c' \<and> d_Status v \<noteq> ''processing''" if "c' \<in> set cs'" for c'
  proof -
    from that second obtain v where v: "v \<in> set (due_rows env' (w_stmts w2) now' limit' (w_db w2))" "c' = set_claimed now' v"
      by auto
    with due_rows_props(1) [OF uniq, of limit' env' "w_stmts w2" now'] second
    have "v \<in> set (Deliveries (w_db w2))" "claimable now' v" by auto
    with v(2) show ?thesis by (intro bexI [of _ v]) (auto simp: claimable_def)
  qed
  show ?thesis
  proof (rule equals0I)
    fix i assume "i \<in> d_ID ` set cs \<inter> d_ID ` set cs'"
    then obtain c c' where c: "c \<in> set cs" "c' \<in> set cs'" "d_ID c = d_ID c'" by auto
    from free [OF c(2)] obtain v where v: "v \<in> set (Deliveries (w_db w2))" "d_ID v = d_ID c'"
      "d_Status v \<noteq> ''processing''" by blast
    from taken [OF c(1)] v c(3) unique_byD [OF uniq, of c v] show False by simp
  qed
qed

lemma ClaimDue_disjoint_witness:
  "\<exists>cs w1 cs' w3. ClaimDue sample_env 1000 5 (sample_world sample_db) = (Inr cs, w1) \<and> length cs = 1 \<and>
     ClaimDue sample_env 2000 5 w1 = (Inr cs', w3) \<and> d_ID ` set cs \<inter> d_ID ` set cs' = {}"
proof -
  let ?run = "ClaimDue sample_env 1000 5 (sample_world sample_db)"
  have "\<not> isl (fst ?run)" and two: "\<not> isl (fst (ClaimDue sample_env 2000 5 (snd ?run)))" by code_simp+
  then obtain cs w1 where run: "?run = (Inr cs, w1)" by (blast elim: Inr_case)
  with two have "\<not> isl (fst (ClaimDue sample_env 2000 5 w1))" by simp
  then obtain cs' w3 where again: "ClaimDue sample_env 2000 5 w1 = (Inr cs', w3)" by (rule Inr_case)
  have "length (projr (fst ?run)) = 1" by code_simp
  with run have "length cs = 1" by simp
  moreover have "d_ID ` set cs \<inter> d_ID ` set cs' = {}" by (rule ClaimDue_disjoint [OF _ run refl again]) simp
  ultimately show ?thesis using run again by blast
qed

text \<open>
  C8. A round makes progress: in quiet surroundings, with ids unused so far and counters below
  their limits, RunOnce reports the number of due deliveries of its batch, and every one of them
  is found afterwards two steps further in its life, with one more attempt and either sent, or
  scheduled again, or a dead letter; it is a dead letter only when its attempts are used up and
  scheduled again only when they are not. All other rows stay as they were.
\<close>

theorem RunOnce_progress:
  assumes "quiet env" and "dp_db_enabled dp" and "fresh_ids env w" and "schema_ok (w_db w)"
    and "0 \<le> Notification_BatchSize (dp_cfg dp)"
    and "\<And>r. r \<in> set (Deliveries (w_db w)) \<Longrightarrow> d_Version r < max_int64 - 1 \<and> d_Attempts r < max_int32"
  shows "let due = due_rows env (Suc (w_stmts w)) (Clock env (w_ticks w)) (Notification_BatchSize (dp_cfg dp)) (w_db w) in
    \<exists>w'. RunOnce env dp ctx w = (Inr (int (length due)), w') \<and>
     (\<forall>v \<in> set due. \<exists>v' \<in> set (Deliveries (w_db w')).
        (lifecycle_step (dp_cfg dp) ^^ 2) v v' \<and> d_ID v' = d_ID v \<and> d_Attempts v' = d_Attempts v + 1 \<and>
        (d_Status v' = ''sent'' \<or>
         d_Status v' = (if Notification_MaxAttempts (dp_cfg dp) \<le> d_Attempts v + 1 then ''dead_letter'' else ''retrying''))) \<and>
     (\<forall>r \<in> set (Deliveries (w_db w)). r \<notin> set due \<longrightarrow> r \<in> set (Deliveries (w_db w')))"
proof -
  let ?now = "Clock env (w_ticks w)"
  let ?due = "due_rows env (Suc (w_stmts w)) ?now (Notification_BatchSize (dp_cfg dp)) (w_db w)"
  have uniq: "unique_by d_ID (Deliveries (w_db w))" using assms(4) by (simp add: schema_ok_def)
  obtain w' where run: "RunOnce env dp ctx w = (Inr (int (length ?due)), w')"
    and due: "\<And>v. v \<in> set ?due \<Longrightarrow> \<exists>h' \<in> set (Deliveries (w_db w')). \<exists>now' outcome.
       h' = set_finished (settled (dp_cfg dp) now' outcome (set_claimed ?now v)) (set_claimed ?now v) \<and>
       lifecycle_step (dp_cfg dp) (set_claimed ?now v) h'"
    and others: "\<And>r. r \<in> set (Deliveries (w_db w)) \<Longrightarrow> r \<notin> set ?due \<Longrightarrow> r \<in> set (Deliveries (w_db w'))"
    using RunOnce_quiet [OF assms(1-5), of ctx] assms(6) by blast
  have "\<exists>v' \<in> set (Deliveries (w_db w')). (lifecycle_step (dp_cfg dp) ^^ 2) v v' \<and> d_ID v' = d_ID v \<and>
      d_Attempts v' = d_Attempts v + 1 \<and> (d_Status v' = ''sent'' \<or>
       d_Status v' = (if Notification_MaxAttempts (dp_cfg dp) \<le> d_Attempts v + 1 then ''dead_letter'' else ''retrying''))"
    if v: "v \<in> set ?due" for v
  proof -
    from due [OF v] obtain h' now' outcome where h': "h' \<in> set (Deliveries (w_db w'))"
      "h' = set_finished (settled (dp_cfg dp) now' outcome (set_claimed ?now v)) (set_claimed ?now v)"
      "lifecycle_step (dp_cfg dp) (set_claimed ?now v) h'" by blast
    have "claimable ?now v" using v due_rows_props(1) [OF uniq assms(5), of env "Suc (w_stmts w)" ?now] by auto
    then have "lifecycle_step (dp_cfg dp) v (set_claimed ?now v)"
      by (intro lifecycle_step.claim) (simp add: claimable_def)
    with h'(3) have "(lifecycle_step (dp_cfg dp) ^^ 2) v h'" by (auto simp: numeral_2_eq_2)
    moreover have "d_ID h' = d_ID v" using step_identity [OF h'(3)] by simp
    moreover have "d_Attempts h' = d_Attempts v + 1" by (simp add: h'(2) column_simps)
    moreover have "d_Status h' = ''sent'' \<or>
        d_Status h' = (if Notification_MaxAttempts (dp_cfg dp) \<le> d_Attempts v + 1 then ''dead_letter'' else ''retrying'')"
      by (cases outcome) (simp_all add: h'(2) column_simps)
    ultimately show ?thesis using h'(1) by blast
  qed
  with run others show ?thesis by (auto simp: Let_def)
qed

theorem RunOnce_progress_witness:
  "\<exists>w' v'. RunOnce sample_env sample_dispatcher background (sample_world sample_db) = (Inr 1, w') \<and>
     v' \<in> set (Deliveries (w_db w')) \<and> (lifecycle_step sample_notification ^^ 2) sample_delivery v' \<and>
     d_Status v' = ''sent''"
proof -
  let ?w = "sample_world sample_db"
  let ?due = "due_rows sample_env (Suc (w_stmts ?w)) (Clock sample_env (w_ticks ?w)) (Notification_BatchSize (dp_cfg sample_dispatcher)) (w_db ?w)"
  have due: "?due = [sample_delivery]" by code_simp
  have st: "d_Status r = ''sent''" if "r \<in> set (Deliveries (w_db (snd (RunOnce sample_env sample_dispatcher background ?w))))" for r
  proof -
    have "list_all (\<lambda>r. d_Status r = ''sent'') (Deliveries (w_db (snd (RunOnce sample_env sample_dispatcher background ?w))))"
      by code_simp
    with that show ?thesis by (simp add: list_all_iff)
  qed
  have "let due = ?due in
    \<exists>w'. RunOnce sample_env sample_dispatcher background ?w = (Inr (int (length due)), w') \<and>
     (\<forall>v \<in> set due. \<exists>v' \<in> set (Deliveries (w_db w')).
        (lifecycle_step (dp_cfg sample_dispatcher) ^^ 2) v v' \<and> d_ID v' = d_ID v \<and> d_Attempts v' = d_Attempts v + 1 \<and>
        (d_Status v' = ''sent'' \<or>
         d_Status v' = (if Notification_MaxAttempts (dp_cfg sample_dispatcher) \<le> d_Attempts v + 1 then ''dead_letter'' else ''retrying''))) \<and>
     (\<forall>r \<in> set (Deliveries (w_db ?w)). r \<notin> set due \<longrightarrow> r \<in> set (Deliveries (w_db w')))"
    by (rule RunOnce_progress [OF sample_quiet])
       (simp_all add: sample_fresh sample_columns)
  then obtain w' v' where run: "RunOnce sample_env sample_dispatcher background ?w = (Inr 1, w')"
    and v': "v' \<in> set (Deliveries (w_db w'))" "(lifecycle_step (dp_cfg sample_dispatcher) ^^ 2) sample_delivery v'"
    unfolding due by auto
  moreover have "d_Status v' = ''sent''" using st run v'(1) by simp
  ultimately show ?thesis by (auto simp: sample_dispatcher_def)
qed

text \<open>
  One attempt, one request: the worker's context carries no idempotency key, so a delivery
  attempt sends at most one HTTP request, whatever the retry policy of the upstream says and
  whatever the upstream answers.
\<close>

lemma deliver_one_request:
  assumes "ctx_IdempotencyKey ctx = None"
  shows "w_calls (deliver env dp ctx h w) \<le> Suc (w_calls w)"
proof -
  obtain outcome w1 where att: "attempt env dp ctx h w = (outcome, w1)" by fastforce
  then have calls: "w_calls w1 \<le> Suc (w_calls w)"
  proof (cases rule: attempt_cases)
    case (sender sender msg w2)
    with Sender_Send_calls [OF sender(3) assms] show ?thesis by simp
  qed simp
  let ?tx = "finish_tx env (settled (dp_cfg dp) (Clock env (w_ticks w1)) outcome h)"
  obtain r w' where tx: "Within env (dp_db_enabled dp) ?tx (w1\<lparr>w_ticks := Suc (w_ticks w1)\<rparr>) = (r, w')"
    by fastforce
  have "w_calls w' = w_calls w1" using Within_calls [OF tx finish_tx_calls] by simp
  with calls att tx show ?thesis by (simp add: deliver_def read_clock_def)
qed

lemma deliver_one_request_witness:
  "w_calls (deliver sample_env sample_dispatcher background sample_claimed (sample_world sample_claimed_db)) \<le> 1"
  using deliver_one_request [of background sample_env sample_dispatcher sample_claimed "sample_world sample_claimed_db"]
  by (simp add: background_def)

text \<open>
  A processing delivery is never picked up again: a round of the dispatcher leaves every row
  that is processing when it starts exactly as it is. A row whose final transaction was lost
  (its error is dropped by deliver) therefore stays processing in every later round.
\<close>

lemma RunOnce_leaves_processing:
  assumes "quiet env" and "dp_db_enabled dp" and "fresh_ids env w" and "schema_ok (w_db w)"
    and "0 \<le> Notification_BatchSize (dp_cfg dp)"
    and "\<And>r. r \<in> set (Deliveries (w_db w)) \<Longrightarrow> d_Version r < max_int64 - 1 \<and> d_Attempts r < max_int32"
    and "h \<in> set (Deliveries (w_db w))" and "d_Status h = ''processing''"
  shows "h \<in> set (Deliveries (w_db (snd (RunOnce env dp ctx w))))"
proof -
  have uniq: "unique_by d_ID (Deliveries (w_db w))" using assms(4) by (simp add: schema_ok_def)
  have "\<not> claimable t h" for t using assms(8) by (simp add: claimable_def)
  then have "h \<notin> set (due_rows env (Suc (w_stmts w)) (Clock env (w_ticks w)) (Notification_BatchSize (dp_cfg dp)) (w_db w))"
    using due_rows_props(1) [OF uniq assms(5)] by blast
  then show ?thesis
    using RunOnce_quiet [OF assms(1-5), of ctx] assms(6,7) by (metis snd_conv)
qed

lemma RunOnce_leaves_processing_witness:
  "sample_claimed \<in> set (Deliveries (w_db (snd (RunOnce sample_env sample_dispatcher background (sample_world sample_claimed_db)))))"
  by (rule RunOnce_leaves_processing [OF sample_quiet])
     (simp_all add: sample_fresh sample_columns)

end
