(* ===== verification/Cleanup.thy ===== *)
theory Cleanup
  imports Repository
begin

text \<open>
  The retention cleaner (\<open>internal/notification/cleanup.go\<close>). Its loop ends when a batch comes
  back short; each iteration spends one unit of fuel, and \<open>None\<close> means that the fuel ran out.
\<close>

section \<open>Definitions\<close>

record RetentionCleaner =
  rc_retention :: duration
  rc_interval :: duration
  rc_batchSize :: int
  rc_enabled :: bool

definition NewRetentionCleaner :: "Config \<Rightarrow> RetentionCleaner" where
  "NewRetentionCleaner cfg =
     (let n = c_Notification cfg in
      \<lparr>rc_retention = (if Notification_Retention n \<le> 0 then 30 * 24 * hour else Notification_Retention n),
       rc_interval = (if Notification_CleanupInterval n \<le> 0 then hour else Notification_CleanupInterval n),
       rc_batchSize = (if Notification_CleanupBatchSize n \<le> 0 then 500 else Notification_CleanupBatchSize n),
       rc_enabled = Database_Enabled (c_Database cfg)\<rparr>)"

fun clean :: "nat \<Rightarrow> env \<Rightarrow> RetentionCleaner \<Rightarrow> world \<Rightarrow> (unit result \<times> world) option" where
  "clean 0 env c w = None"
| "clean (Suc fuel) env c w =
     (case read_clock env w of (now, w1) \<Rightarrow>
        (case DeleteTerminalDeliveriesBefore env (now - rc_retention c) (rc_batchSize c) w1 of
           (Inl e, w2) \<Rightarrow> Some (Inl e, w2)
         | (Inr deleted, w2) \<Rightarrow>
             (if deleted < rc_batchSize c then Some (Inr (), w2) else clean fuel env c w2)))"

end
