(* ===== verification/PathMatch.thy ===== *)
theory PathMatch
  imports GoStrings
begin

text \<open>
  Go's \<open>path.Match\<close>, which decides the configured route patterns (\<open>auth.MatchesAny\<close>, the
  retry patterns of the gRPC client and the pattern checks of the configuration). The definitions
  follow the library's own structure: a pattern is cut into chunks at its stars
  (\<open>scanChunk\<close>), a chunk is matched byte by byte (\<open>matchChunk\<close>) with character classes
  read through \<open>getEsc\<close>. \<open>None\<close> is \<open>ErrBadPattern\<close>.
\<close>

section \<open>Definitions\<close>

definition byte_at :: "string \<Rightarrow> nat \<Rightarrow> nat" where
  "byte_at s i = (if i < length s then of_char (s ! i) else 0)"

definition cont_at :: "string \<Rightarrow> nat \<Rightarrow> bool" where
  "cont_at s i \<longleftrightarrow> 128 \<le> byte_at s i \<and> byte_at s i \<le> 191"

text \<open>\<open>utf8.DecodeRuneInString\<close>: the rune and its width; a malformed sequence is the error rune
  (65533) of width 1, an empty string the error rune of width 0.\<close>

definition decode_rune :: "string \<Rightarrow> nat \<times> nat" where
  "decode_rune s =
     (if s = [] then (65533, 0)
      else
        (let b0 = byte_at s 0; b1 = byte_at s 1; b2 = byte_at s 2; b3 = byte_at s 3 in
         if b0 < 128 then (b0, 1)
         else if 194 \<le> b0 \<and> b0 \<le> 223 \<and> cont_at s 1 then ((b0 - 192) * 64 + (b1 - 128), 2)
         else if 224 \<le> b0 \<and> b0 \<le> 239 \<and> cont_at s 1 \<and> cont_at s 2 \<and>
                 (b0 = 224 \<longrightarrow> 160 \<le> b1) \<and> (b0 = 237 \<longrightarrow> b1 \<le> 159)
              then ((b0 - 224) * 4096 + (b1 - 128) * 64 + (b2 - 128), 3)
         else if 240 \<le> b0 \<and> b0 \<le> 244 \<and> cont_at s 1 \<and> cont_at s 2 \<and> cont_at s 3 \<and>
                 (b0 = 240 \<longrightarrow> 144 \<le> b1) \<and> (b0 = 244 \<longrightarrow> b1 \<le> 143)
              then ((b0 - 240) * 262144 + (b1 - 128) * 4096 + (b2 - 128) * 64 + (b3 - 128), 4)
         else (65533, 1)))"

definition getEsc :: "string \<Rightarrow> (nat \<times> string) option" where
  "getEsc chunk =
     (if chunk = [] \<or> hd chunk = CHR ''-'' \<or> hd chunk = CHR '']'' then None
      else
        (let c = (if hd chunk = CHR 0x5C then tl chunk else chunk) in
         if c = [] then None
         else
           (case decode_rune c of (r, n) \<Rightarrow>
              if r = 65533 \<and> n = 1 then None
              else if drop n c = [] then None
              else Some (r, drop n c))))"

lemma decode_rune_pos: "s \<noteq> [] \<Longrightarrow> 0 < snd (decode_rune s)"
  by (auto simp: decode_rune_def Let_def)

lemma getEsc_shorter: "getEsc chunk = Some (r, rest) \<Longrightarrow> length rest < length chunk"
  using decode_rune_pos [of chunk] decode_rune_pos [of "tl chunk"]
  by (cases chunk) (auto simp: getEsc_def Let_def split: if_splits prod.splits)

lemma getEsc_nonempty: "getEsc chunk = Some (r, rest) \<Longrightarrow> rest \<noteq> []"
  by (auto simp: getEsc_def Let_def split: if_splits prod.splits)

text \<open>The ranges of a character class, up to its closing bracket.\<close>

function class_loop :: "string \<Rightarrow> nat \<Rightarrow> bool \<Rightarrow> nat \<Rightarrow> (bool \<times> string) option" where
  "class_loop chunk r matched nrange =
     (if HasPrefix chunk '']'' \<and> 0 < nrange then Some (matched, tl chunk)
      else
        (case getEsc chunk of
           None \<Rightarrow> None
         | Some (lo, c1) \<Rightarrow>
             (if hd c1 = CHR ''-'' then
                (case getEsc (tl c1) of
                   None \<Rightarrow> None
                 | Some (hi, c2) \<Rightarrow> class_loop c2 r (matched \<or> (lo \<le> r \<and> r \<le> hi)) (Suc nrange))
              else class_loop c1 r (matched \<or> (lo \<le> r \<and> r \<le> lo)) (Suc nrange))))"
  by pat_completeness auto
termination
proof (relation "measure (\<lambda>(chunk, r, m, n). length chunk)", goal_cases)
  case (2 chunk r matched nrange x lo c1 x' hi c2)
  then have "length c1 < length chunk" "length c2 < length (tl c1)"
    by (auto dest: getEsc_shorter)
  then show ?case by simp
qed (auto dest: getEsc_shorter)

declare class_loop.simps [simp del]

lemma class_loop_shorter:
  "class_loop chunk r m n = Some (m', rest) \<Longrightarrow> length rest < length chunk"
proof (induction chunk r m n rule: class_loop.induct)
  case (1 chunk r m n)
  show ?case
  proof (cases "HasPrefix chunk '']'' \<and> 0 < n")
    case True
    with "1.prems" have "rest = tl chunk" by (simp add: class_loop.simps [of chunk])
    moreover from True have "chunk \<noteq> []" by (auto simp: HasPrefix_def)
    ultimately show ?thesis by simp
  next
    case closed: False
    with "1.prems" obtain lo c1 where c1: "getEsc chunk = Some (lo, c1)"
      by (auto simp: class_loop.simps [of chunk] split: option.splits)
    then have l1: "length c1 < length chunk" by (rule getEsc_shorter)
    show ?thesis
    proof (cases "hd c1 = CHR ''-''")
      case True
      with closed c1 "1.prems" obtain hi c2 where c2: "getEsc (tl c1) = Some (hi, c2)"
        by (auto simp: class_loop.simps [of chunk] split: option.splits)
      then have "length c2 < length (tl c1)" by (rule getEsc_shorter)
      moreover have "length rest < length c2"
        using "1.IH"(1) [OF closed c1 _ True c2] "1.prems" closed c1 True c2
        by (simp add: class_loop.simps [of chunk])
      ultimately show ?thesis using l1 by simp
    next
      case False
      then show ?thesis
        using "1.IH"(2) [OF closed c1 _ False] "1.prems" closed c1 l1
        by (simp add: class_loop.simps [of chunk])
    qed
  qed
qed

text \<open>
  \<open>matchChunk(chunk, s)\<close>: \<open>Some (Some rest)\<close> when the chunk matches a prefix of the
  string, \<open>Some None\<close> when it does not (the rest of the chunk is still checked).
\<close>

function match_chunk :: "bool \<Rightarrow> string \<Rightarrow> string \<Rightarrow> string option option" where
  "match_chunk failed [] s = Some (if failed then None else Some s)"
| "match_chunk failed (c # cs) s =
     (let failed' = (failed \<or> s = []) in
      if c = CHR ''['' then
        (let r = (if failed' then 0 else fst (decode_rune s));
             s' = (if failed' then s else drop (snd (decode_rune s)) s);
             negated = HasPrefix cs ''^'';
             ch = (if negated then tl cs else cs)
         in (case class_loop ch r False 0 of
               None \<Rightarrow> None
             | Some (m, rest) \<Rightarrow> match_chunk (failed' \<or> m = negated) rest s'))
      else if c = CHR ''?'' then
        (if failed' then match_chunk True cs s
         else match_chunk (hd s = CHR ''/'') cs (drop (snd (decode_rune s)) s))
      else if c = CHR 0x5C then
        (case cs of
           [] \<Rightarrow> None
         | d # ds \<Rightarrow> if failed' then match_chunk True ds s else match_chunk (d \<noteq> hd s) ds (tl s))
      else (if failed' then match_chunk True cs s else match_chunk (c \<noteq> hd s) cs (tl s)))"
  by pat_completeness auto
termination
proof (relation "measure (\<lambda>(f, chunk, s). length chunk)", goal_cases)
  case (2 failed c cs s failed' r s' negated ch x m rest)
  then have "length rest < length ch" by (auto dest: class_loop_shorter)
  moreover have "length ch \<le> length cs" using 2 by auto
  ultimately show ?case by simp
qed auto

fun scan_body :: "bool \<Rightarrow> string \<Rightarrow> string \<times> string" where
  "scan_body inrange [] = ([], [])"
| "scan_body inrange (c # cs) =
     (if c = CHR 0x5C then
        (case cs of
           [] \<Rightarrow> ([c], [])
         | d # ds \<Rightarrow> (case scan_body inrange ds of (a, b) \<Rightarrow> (c # d # a, b)))
      else if c = CHR ''['' then (case scan_body True cs of (a, b) \<Rightarrow> (c # a, b))
      else if c = CHR '']'' then (case scan_body False cs of (a, b) \<Rightarrow> (c # a, b))
      else if c = CHR ''*'' \<and> \<not> inrange then ([], c # cs)
      else (case scan_body inrange cs of (a, b) \<Rightarrow> (c # a, b)))"

definition scanChunk :: "string \<Rightarrow> bool \<times> string \<times> string" where
  "scanChunk pattern =
     (case scan_body False (dropWhile (\<lambda>c. c = CHR ''*'') pattern) of
        (chunk, rest) \<Rightarrow> (HasPrefix pattern ''*'', chunk, rest))"

lemma scan_body_append: "scan_body b s = (chunk, rest) \<Longrightarrow> s = chunk @ rest"
  by (induction b s arbitrary: chunk rule: scan_body.induct)
     (auto split: if_splits list.splits prod.splits)

lemma scan_body_progress:
  assumes "scan_body False (c # cs) = (chunk, rest)" and "c \<noteq> CHR ''*''"
  shows "length rest < length (c # cs)"
proof -
  from assms have "chunk \<noteq> []" by (auto split: if_splits list.splits prod.splits)
  moreover from assms(1) have "c # cs = chunk @ rest" by (rule scan_body_append)
  ultimately show ?thesis by (cases chunk) auto
qed

lemma scanChunk_shorter:
  assumes "scanChunk pattern = (star, chunk, rest)" and "pattern \<noteq> []"
  shows "length rest < length pattern"
proof (cases "dropWhile (\<lambda>c. c = CHR ''*'') pattern")
  case Nil
  with assms show ?thesis by (auto simp: scanChunk_def)
next
  case (Cons c cs)
  then have "c \<noteq> CHR ''*''"
    using hd_dropWhile [of "\<lambda>c. c = CHR ''*''" pattern] by auto
  moreover have "length (c # cs) \<le> length pattern"
    using Cons length_dropWhile_le [of "\<lambda>c. c = CHR ''*''" pattern] by simp
  moreover have "scan_body False (c # cs) = (chunk, rest)"
    using assms(1) Cons by (auto simp: scanChunk_def split: prod.splits)
  ultimately show ?thesis using scan_body_progress by fastforce
qed

text \<open>The search for a later match of a chunk behind a star; it stops at a slash.\<close>

fun skip_star :: "string \<Rightarrow> bool \<Rightarrow> string \<Rightarrow> string option option" where
  "skip_star chunk final [] = Some None"
| "skip_star chunk final (c # cs) =
     (if c = CHR ''/'' then Some None
      else
        (case match_chunk False chunk cs of
           None \<Rightarrow> None
         | Some (Some t) \<Rightarrow> if final \<and> t \<noteq> [] then skip_star chunk final cs else Some (Some t)
         | Some None \<Rightarrow> skip_star chunk final cs))"

text \<open>Before a mismatch is reported, the remaining chunks are checked for syntax.\<close>

function check_rest :: "string \<Rightarrow> bool option" where
  "check_rest pattern =
     (if pattern = [] then Some False
      else
        (case scanChunk pattern of (star, chunk, rest) \<Rightarrow>
           (case match_chunk False chunk [] of None \<Rightarrow> None | Some _ \<Rightarrow> check_rest rest)))"
  by pat_completeness auto
termination
  by (relation "measure length") (auto dest: scanChunk_shorter [OF sym])

function Match :: "string \<Rightarrow> string \<Rightarrow> bool option" where
  "Match pattern name =
     (if pattern = [] then Some (name = [])
      else
        (case scanChunk pattern of (star, chunk, rest) \<Rightarrow>
           if star \<and> chunk = [] then Some (CHR ''/'' \<notin> set name)
           else
             (case match_chunk False chunk name of
                None \<Rightarrow> None
              | Some here \<Rightarrow>
                  (if here \<noteq> None \<and> (the here = [] \<or> rest \<noteq> []) then Match rest (the here)
                   else if star then
                     (case skip_star chunk (rest = []) name of
                        None \<Rightarrow> None
                      | Some (Some t) \<Rightarrow> Match rest t
                      | Some None \<Rightarrow> check_rest rest)
                   else check_rest rest))))"
  by pat_completeness auto
termination
  by (relation "measure (\<lambda>(p, n). length p)") (auto dest: scanChunk_shorter [OF sym])

declare match_chunk.simps [simp del] check_rest.simps [simp del]
  Match.simps [simp del]

text \<open>A pattern byte that stands for itself.\<close>

definition literal_byte :: "char \<Rightarrow> bool" where
  "literal_byte c \<longleftrightarrow> c \<notin> {CHR ''*'', CHR ''?'', CHR ''['', CHR 0x5C, CHR '']''}"

section \<open>Lemmas\<close>

lemma literal_byteD:
  assumes "literal_byte c"
  shows "c \<noteq> CHR ''*''" "c \<noteq> CHR ''?''" "c \<noteq> CHR ''[''" "c \<noteq> CHR 0x5C" "c \<noteq> CHR '']''"
  using assms by (auto simp: literal_byte_def)

lemma match_chunk_failed: "list_all literal_byte chunk \<Longrightarrow> match_chunk True chunk s = Some None"
  by (induction chunk arbitrary: s) (auto simp: match_chunk.simps dest: literal_byteD)

text \<open>A chunk of literal bytes matches exactly itself.\<close>

lemma match_chunk_literal:
  "list_all literal_byte chunk \<Longrightarrow>
   match_chunk False chunk s =
     Some (if HasPrefix s chunk then Some (drop (length chunk) s) else None)"
proof (induction chunk arbitrary: s)
  case Nil
  then show ?case by (simp add: match_chunk.simps HasPrefix_def)
next
  case (Cons c cs)
  then have c: "c \<noteq> CHR ''*''" "c \<noteq> CHR ''?''" "c \<noteq> CHR ''[''" "c \<noteq> CHR 0x5C"
    by (auto dest: literal_byteD)
  show ?case
  proof (cases s)
    case Nil
    with Cons c show ?thesis by (simp add: match_chunk.simps HasPrefix_def match_chunk_failed)
  next
    case (Cons d ds)
    with Cons.IH [of ds] Cons.prems c show ?thesis
      by (cases "c = d") (auto simp: match_chunk.simps HasPrefix_def match_chunk_failed)
  qed
qed

lemma scan_body_literal:
  "list_all literal_byte p \<Longrightarrow> scan_body False (p @ CHR ''*'' # q) = (p, CHR ''*'' # q)"
  "list_all literal_byte p \<Longrightarrow> scan_body False p = (p, [])"
  by (induction p) (auto dest: literal_byteD)

lemma scanChunk_literal:
  assumes "list_all literal_byte p" and "p \<noteq> []"
  shows "scanChunk p = (False, p, [])" "scanChunk (p @ ''*'') = (False, p, ''*'')"
proof -
  from assms obtain c cs where p: "p = c # cs" "c \<noteq> CHR ''*''"
    by (cases p) (auto dest: literal_byteD)
  then have "dropWhile (\<lambda>c. c = CHR ''*'') (p @ q) = p @ q" "\<not> HasPrefix (p @ q) ''*''" for q
    by (auto simp: HasPrefix_def)
  from this [of "[]"] this [of "''*''"]
  show "scanChunk p = (False, p, [])" "scanChunk (p @ ''*'') = (False, p, ''*'')"
    using scan_body_literal [OF assms(1)] by (simp_all add: scanChunk_def)
qed

lemma Match_Nil [simp]: "Match [] name = Some (name = [])"
  by (simp add: Match.simps)

lemma Match_star: "Match ''*'' name = Some (CHR ''/'' \<notin> set name)"
  by (simp add: Match.simps scanChunk_def HasPrefix_def)

lemma check_rest_simps [simp]: "check_rest [] = Some False" "check_rest ''*'' = Some False"
  by (simp_all add: check_rest.simps scanChunk_def match_chunk.simps)

text \<open>A pattern of literal bytes matches its own text only.\<close>

lemma Match_literal:
  assumes "list_all literal_byte p"
  shows "Match p name = Some (p = name)"
proof (cases "p = []")
  case False
  with assms show ?thesis
    by (subst Match.simps) (auto simp: scanChunk_literal match_chunk_literal HasPrefix_def)
qed auto

text \<open>A literal prefix and a final star match the prefix and a rest without a slash.\<close>

lemma Match_prefix_star:
  assumes "list_all literal_byte p" and "p \<noteq> []"
  shows "Match (p @ ''*'') name =
    Some (HasPrefix name p \<and> CHR ''/'' \<notin> set (drop (length p) name))"
  using assms
  by (subst Match.simps) (auto simp: scanChunk_literal match_chunk_literal Match_star)

end
