(* ===== verification/Auth.thy ===== *)
theory Auth
  imports World PathMatch
begin

text \<open>
  Authentication (\<open>internal/auth/jwt.go\<close>, \<open>pattern.go\<close>, \<open>psk.go\<close>) and request
  ids (\<open>internal/requestid/requestid.go\<close>). The JWT library, the JWKS verifier of the platform
  module and the random source are the fields of \<open>auth_env\<close>: \<open>jwt_Parse\<close> takes the key
  function that the source passes to \<open>ParseWithClaims\<close> and the expected issuer. Reading the
  clock and drawing random bytes are numbered by \<open>w_ticks\<close> and \<open>w_uuids\<close>.
\<close>

section \<open>Definitions\<close>

subsection \<open>Route patterns and the pre-shared key\<close>

fun MatchesAny :: "string \<Rightarrow> string list \<Rightarrow> bool" where
  "MatchesAny value [] = False"
| "MatchesAny value (pattern # patterns) =
     (case Match pattern value of
        Some True \<Rightarrow> True
      | _ \<Rightarrow> MatchesAny value patterns)"

definition VerifyPSK :: "string \<Rightarrow> string \<Rightarrow> bool" where
  "VerifyPSK authorization expected =
     (case Cut authorization CHR '' '' of (scheme, supplied, ok) \<Rightarrow>
        if \<not> ok \<or> \<not> EqualFold scheme ''PSK'' \<or> supplied = [] \<or> length supplied \<noteq> length expected
        then False
        else ConstantTimeCompare supplied expected)"

subsection \<open>Tokens\<close>

record Claims =
  cl_Issuer :: string
  cl_Subject :: string
  cl_ID :: string
  cl_IssuedAt :: time
  cl_NotBefore :: time
  cl_ExpiresAt :: time

text \<open>A parsed token: its claims, when they have the requested type, and whether it is valid.\<close>

record Token =
  tok_Claims :: "Claims option"
  tok_Valid :: bool

text \<open>
  \<open>jwt_Parse keyfunc issuer now raw\<close>, \<open>jwt_Sign secret claims\<close>, \<open>jwt_NumericDate\<close>,
  \<open>jwks_New\<close> (the error of \<open>NewJWKSVerifier\<close>), \<open>jwks_VerifyBearer\<close> and the n-th read
  of the random source.
\<close>

record auth_env =
  jwt_Parse :: "(string \<Rightarrow> string + string) \<Rightarrow> string \<Rightarrow> time \<Rightarrow> string \<Rightarrow> string + Token"
  jwt_Sign :: "string \<Rightarrow> Claims \<Rightarrow> string + string"
  jwt_NumericDate :: "time \<Rightarrow> time"
  jwks_New :: "Auth_cfg \<Rightarrow> string option"
  jwks_VerifyBearer :: "time \<Rightarrow> string \<Rightarrow> string + Principal"
  rand_Read :: "nat \<Rightarrow> nat \<Rightarrow> string + string"

record AuthService =
  as_issuer :: string
  as_secret :: string
  as_ttl :: duration
  as_clientID :: string
  as_clientSecret :: string
  as_verifier :: bool

definition NewAuth :: "Config \<Rightarrow> AuthService" where
  "NewAuth cfg =
     \<lparr>as_issuer = JWT_Issuer (c_JWT cfg), as_secret = JWT_Secret (c_JWT cfg), as_ttl = JWT_TTL (c_JWT cfg),
      as_clientID = Auth_ClientID (c_Auth cfg), as_clientSecret = Auth_ClientSecret (c_Auth cfg),
      as_verifier = False\<rparr>"

definition NewAuthRuntime :: "auth_env \<Rightarrow> Config \<Rightarrow> AuthService result" where
  "NewAuthRuntime ae cfg =
     (let s = NewAuth cfg in
      if Auth_JWKSURL (c_Auth cfg) = [] then Inr s
      else
        (case jwks_New ae (c_Auth cfg) of
           Some m \<Rightarrow> Inl (Errorf (''configure identity token verifier: '' @ m))
         | None \<Rightarrow> Inr (s\<lparr>as_verifier := True\<rparr>)))"

definition Enabled :: "AuthService \<Rightarrow> bool" where
  "Enabled s \<longleftrightarrow> 32 \<le> length (as_secret s) \<and> as_clientID s \<noteq> [] \<and> as_clientSecret s \<noteq> []"

definition Authenticate :: "AuthService \<Rightarrow> string \<Rightarrow> string \<Rightarrow> bool" where
  "Authenticate s clientID clientSecret =
     (if \<not> Enabled s then False
      else ConstantTimeCompare clientID (as_clientID s) \<and> ConstantTimeCompare clientSecret (as_clientSecret s))"

definition randomID :: "auth_env \<Rightarrow> world \<Rightarrow> string result \<times> world" where
  "randomID ae w =
     (let w' = w\<lparr>w_uuids := Suc (w_uuids w)\<rparr> in
      (case rand_Read ae (w_uuids w) 16 of
         Inl m \<Rightarrow> (Inl (Errorf m), w')
       | Inr b \<Rightarrow> (Inr (base64_EncodeToString b), w')))"

definition Issue :: "env \<Rightarrow> auth_env \<Rightarrow> AuthService \<Rightarrow> string \<Rightarrow> world \<Rightarrow> string result \<times> world" where
  "Issue env ae s subject w =
     (if \<not> Enabled s then (Inl (Errorf ''authentication is not configured''), w)
      else
        (case read_clock env w of (now, w1) \<Rightarrow>
          (case randomID ae w1 of
             (Inl e, w2) \<Rightarrow> (Inl (Errorf (''create token id: '' @ error_text e)), w2)
           | (Inr jti, w2) \<Rightarrow>
               (let claims =
                      \<lparr>cl_Issuer = as_issuer s, cl_Subject = subject, cl_ID = jti,
                       cl_IssuedAt = jwt_NumericDate ae now, cl_NotBefore = jwt_NumericDate ae now,
                       cl_ExpiresAt = jwt_NumericDate ae (now + as_ttl s)\<rparr>
                in (map_sum Errorf id (jwt_Sign ae (as_secret s) claims), w2)))))"

text \<open>The key function of \<open>Parse\<close>: only HS256 tokens get the secret.\<close>

definition key_for :: "AuthService \<Rightarrow> string \<Rightarrow> string + string" where
  "key_for s alg =
     (if alg \<noteq> ''HS256'' then Inl (''unexpected signing method '' @ alg) else Inr (as_secret s))"

definition Parse :: "env \<Rightarrow> auth_env \<Rightarrow> AuthService \<Rightarrow> string \<Rightarrow> world \<Rightarrow> Claims result \<times> world" where
  "Parse env ae s raw w =
     (if \<not> Enabled s then (Inl (Errorf ''authentication is not configured''), w)
      else
        (case read_clock env w of (now, w1) \<Rightarrow>
          (case jwt_Parse ae (key_for s) (as_issuer s) now raw of
             Inl m \<Rightarrow> (Inl (Errorf (''parse jwt: '' @ m)), w1)
           | Inr token \<Rightarrow>
               (case tok_Claims token of
                  None \<Rightarrow> (Inl (Errorf ''invalid jwt claims''), w1)
                | Some claims \<Rightarrow>
                    (if \<not> tok_Valid token then (Inl (Errorf ''invalid jwt claims''), w1)
                     else (Inr claims, w1))))))"

definition Verify_token :: "env \<Rightarrow> auth_env \<Rightarrow> AuthService \<Rightarrow> string \<Rightarrow> world \<Rightarrow> Principal result \<times> world" where
  "Verify_token env ae s raw w =
     (if as_verifier s then
        (case read_clock env w of (now, w1) \<Rightarrow> (map_sum Errorf id (jwks_VerifyBearer ae now raw), w1))
      else
        (case Parse env ae s raw w of
           (Inl e, w1) \<Rightarrow> (Inl e, w1)
         | (Inr claims, w1) \<Rightarrow>
             (Inr \<lparr>pr_ID = cl_Subject claims, pr_Type = TypeUser, pr_TenantID = []\<rparr>, w1)))"

subsection \<open>Request ids\<close>

text \<open>
  \<open>Valid\<close> ranges over the runes of the string. The allowed runes are ASCII, and a byte that is
  not ASCII always contributes a rune (or the error rune) that is not allowed, so the loop reads
  bytes.
\<close>

definition allowedCharacter :: "char \<Rightarrow> bool" where
  "allowedCharacter c \<longleftrightarrow>
     c \<in> set lower_letters \<or> c \<in> set upper_letters \<or> c \<in> set digits \<or> c \<in> set ''-_.''"

definition Valid :: "string \<Rightarrow> bool" where
  "Valid v = (if v = [] \<or> 128 < length v then False else list_all allowedCharacter v)"

definition Generate :: "env \<Rightarrow> auth_env \<Rightarrow> world \<Rightarrow> string \<times> world" where
  "Generate env ae w =
     (let w1 = w\<lparr>w_uuids := Suc (w_uuids w)\<rparr> in
      (case rand_Read ae (w_uuids w) 16 of
         Inl m \<Rightarrow> (case read_clock env w1 of (now, w2) \<Rightarrow> (''fallback-'' @ int_text (wrap64 now), w2))
       | Inr bytes \<Rightarrow> (hex_EncodeToString bytes, w1)))"

end
