(* ===== verification/HttpModel.thy ===== *)
theory HttpModel
  imports Auth Service
begin

text \<open>
  The data of the HTTP transport (\<open>internal/transport/http\<close>): request and response structs of
  \<open>handler.go\<close>, the envelope \<open>Response\<close> of \<open>response.go\<close>, health and build information
  (\<open>internal/health\<close>, \<open>internal/buildinfo\<close>), and the request context of the gin router.
  \<open>gate\<close> holds the functions of the libraries and platform services that the transports call;
  \<open>web\<close> is the world of a run with the calls that leave it recorded; the gRPC transport uses
  it too.
\<close>

section \<open>Request structs\<close>

record PutTemplateRequest =
  ptr_TenantID :: string
  ptr_ApplicationID :: string
  ptr_Code :: string
  ptr_Channel :: string
  ptr_Locale :: string
  ptr_Subject :: string
  ptr_Content :: string
  ptr_Status :: string
  ptr_ExpectedVersion :: int

record PutProviderRequest =
  ppr_TenantID :: string
  ppr_ApplicationID :: string
  ppr_Code :: string
  ppr_Channel :: string
  ppr_Upstream :: string
  ppr_Path :: string
  ppr_Priority :: int
  ppr_Status :: string
  ppr_ExpectedVersion :: int

record GetProviderRequest =
  gpr_TenantID :: string
  gpr_ApplicationID :: string
  gpr_Code :: string

record ListProvidersRequest =
  lpr_TenantID :: string
  lpr_ApplicationID :: string
  lpr_Keyword :: string
  lpr_Channel :: string
  lpr_Status :: string
  lpr_Page :: int
  lpr_PageSize :: int

record SendNotificationRequest =
  snr_TenantID :: string
  snr_ApplicationID :: string
  snr_TemplateCode :: string
  snr_Channel :: string
  snr_Locale :: string
  snr_Recipient :: string
  snr_Variables :: "string \<rightharpoonup> string"
  snr_IdempotencyKey :: string

record ListTemplatesRequest =
  ltr_TenantID :: string
  ltr_ApplicationID :: string
  ltr_Keyword :: string
  ltr_Channel :: string
  ltr_Status :: string
  ltr_Page :: int
  ltr_PageSize :: int

record GetTemplateRequest =
  gtr_TenantID :: string
  gtr_ApplicationID :: string
  gtr_Code :: string
  gtr_Channel :: string
  gtr_Locale :: string

record GetDeliveryRequest =
  gdr_ID :: string
  gdr_TenantID :: string
  gdr_ApplicationID :: string

record ListDeliveriesRequest =
  ldr_TenantID :: string
  ldr_ApplicationID :: string
  ldr_Status :: string
  ldr_Page :: int
  ldr_PageSize :: int

record ProviderReceiptRequest =
  prr_TenantID :: string
  prr_ApplicationID :: string
  prr_Provider :: string
  prr_ProviderMessageID :: string
  prr_Status :: string
  prr_FailureReason :: string

text \<open>
  The fields with \<open>binding:"required"\<close>: the validator rejects a request in which one of them
  has its zero value. All of them are strings.
\<close>

definition missing :: "(string \<times> string) list \<Rightarrow> string list" where
  "missing fs = map fst (filter (\<lambda>f. snd f = []) fs)"

definition required_PutTemplateRequest :: "PutTemplateRequest \<Rightarrow> (string \<times> string) list" where
  "required_PutTemplateRequest r =
     [(''TenantID'', ptr_TenantID r), (''ApplicationID'', ptr_ApplicationID r),
      (''Code'', ptr_Code r), (''Channel'', ptr_Channel r), (''Locale'', ptr_Locale r),
      (''Content'', ptr_Content r)]"

definition required_PutProviderRequest :: "PutProviderRequest \<Rightarrow> (string \<times> string) list" where
  "required_PutProviderRequest r =
     [(''TenantID'', ppr_TenantID r), (''ApplicationID'', ppr_ApplicationID r),
      (''Code'', ppr_Code r), (''Channel'', ppr_Channel r), (''Upstream'', ppr_Upstream r),
      (''Path'', ppr_Path r)]"

definition required_GetProviderRequest :: "GetProviderRequest \<Rightarrow> (string \<times> string) list" where
  "required_GetProviderRequest r =
     [(''TenantID'', gpr_TenantID r), (''ApplicationID'', gpr_ApplicationID r),
      (''Code'', gpr_Code r)]"

definition required_ListProvidersRequest :: "ListProvidersRequest \<Rightarrow> (string \<times> string) list" where
  "required_ListProvidersRequest r =
     [(''TenantID'', lpr_TenantID r), (''ApplicationID'', lpr_ApplicationID r)]"

definition required_SendNotificationRequest :: "SendNotificationRequest \<Rightarrow> (string \<times> string) list" where
  "required_SendNotificationRequest r =
     [(''TenantID'', snr_TenantID r), (''ApplicationID'', snr_ApplicationID r),
      (''TemplateCode'', snr_TemplateCode r), (''Channel'', snr_Channel r),
      (''Locale'', snr_Locale r), (''Recipient'', snr_Recipient r),
      (''IdempotencyKey'', snr_IdempotencyKey r)]"

definition required_ListTemplatesRequest :: "ListTemplatesRequest \<Rightarrow> (string \<times> string) list" where
  "required_ListTemplatesRequest r =
     [(''TenantID'', ltr_TenantID r), (''ApplicationID'', ltr_ApplicationID r)]"

definition required_GetTemplateRequest :: "GetTemplateRequest \<Rightarrow> (string \<times> string) list" where
  "required_GetTemplateRequest r =
     [(''TenantID'', gtr_TenantID r), (''ApplicationID'', gtr_ApplicationID r),
      (''Code'', gtr_Code r), (''Channel'', gtr_Channel r), (''Locale'', gtr_Locale r)]"

definition required_GetDeliveryRequest :: "GetDeliveryRequest \<Rightarrow> (string \<times> string) list" where
  "required_GetDeliveryRequest r =
     [(''ID'', gdr_ID r), (''TenantID'', gdr_TenantID r), (''ApplicationID'', gdr_ApplicationID r)]"

definition required_ListDeliveriesRequest :: "ListDeliveriesRequest \<Rightarrow> (string \<times> string) list" where
  "required_ListDeliveriesRequest r =
     [(''TenantID'', ldr_TenantID r), (''ApplicationID'', ldr_ApplicationID r)]"

definition required_ProviderReceiptRequest :: "ProviderReceiptRequest \<Rightarrow> (string \<times> string) list" where
  "required_ProviderReceiptRequest r =
     [(''TenantID'', prr_TenantID r), (''ApplicationID'', prr_ApplicationID r),
      (''Provider'', prr_Provider r), (''ProviderMessageID'', prr_ProviderMessageID r),
      (''Status'', prr_Status r)]"

section \<open>Response bodies\<close>

record ProviderResponseBody =
  prb_ID :: string
  prb_TenantID :: string
  prb_ApplicationID :: string
  prb_Code :: string
  prb_Channel :: string
  prb_Upstream :: string
  prb_Path :: string
  prb_Priority :: int
  prb_Status :: string
  prb_Version :: int
  prb_CreatedAt :: time
  prb_UpdatedAt :: time
  prb_CreatedBy :: string
  prb_UpdatedBy :: string

record TemplateResponseBody =
  trb_ID :: string
  trb_TenantID :: string
  trb_ApplicationID :: string
  trb_Code :: string
  trb_Channel :: string
  trb_Locale :: string
  trb_Subject :: string
  trb_Content :: string
  trb_Status :: string
  trb_Version :: int
  trb_CreatedAt :: time
  trb_UpdatedAt :: time
  trb_CreatedBy :: string
  trb_UpdatedBy :: string

text \<open>\<open>Variables any\<close>: the decoded JSON value, by its encoding; \<open>None\<close> is \<open>nil\<close>.\<close>

record DeliveryResponseBody =
  drb_ID :: string
  drb_TenantID :: string
  drb_ApplicationID :: string
  drb_TemplateCode :: string
  drb_Channel :: string
  drb_Locale :: string
  drb_Recipient :: string
  drb_Variables :: "string option"
  drb_IdempotencyKey :: string
  drb_Status :: string
  drb_Provider :: string
  drb_ProviderMessageID :: string
  drb_FailureReason :: string
  drb_Attempts :: int
  drb_NextAttemptAt :: time
  drb_Version :: int
  drb_CreatedAt :: time
  drb_UpdatedAt :: time
  drb_CreatedBy :: string
  drb_UpdatedBy :: string

record ProviderPageResponseBody =
  ppb_Providers :: "ProviderResponseBody list"
  ppb_Total :: int
  ppb_Page :: int
  ppb_PageSize :: int

record TemplatePageResponseBody =
  tpb_Templates :: "TemplateResponseBody list"
  tpb_Total :: int
  tpb_Page :: int
  tpb_PageSize :: int

record DeliveryPageResponseBody =
  dpb_Deliveries :: "DeliveryResponseBody list"
  dpb_Total :: int
  dpb_Page :: int
  dpb_PageSize :: int

record Dependency =
  dep_Status :: string
  dep_Latency :: string

record HealthStatus =
  hs_Status :: string
  hs_Dependencies :: "string \<rightharpoonup> Dependency"

record Info =
  info_Version :: string
  info_Commit :: string
  info_BuildTime :: string
  info_StartedAt :: time
  info_Uptime :: string

text \<open>
  The values of \<open>Response.Body\<close>: \<open>nil\<close>, the bodies the handlers build, and a decoded JSON
  value of an earlier response, by its encoding.
\<close>

datatype body =
    NilBody
  | StatusBody HealthStatus
  | InfoBody Info
  | SubjectBody "string option"
  | ProviderBody ProviderResponseBody
  | ProviderPageBody ProviderPageResponseBody
  | TemplateBody TemplateResponseBody
  | TemplatePageBody TemplatePageResponseBody
  | DeliveryBody DeliveryResponseBody
  | DeliveryPageBody DeliveryPageResponseBody
  | AnyBody string

record Response =
  rs_Code :: err_code
  rs_Message :: string
  rs_Body :: body
  rs_RequestID :: string

section \<open>Idempotency records and access requirements\<close>

text \<open>\<open>idempotency.State\<close>; any other value is \<open>StateOther\<close>.\<close>

datatype State = StateAcquired | StateProcessing | StateCompleted | StateFailed | StateConflict | StateOther string

record Failure =
  fl_Code :: err_code
  fl_Message :: string
  fl_HTTPStatus :: int

record Decision =
  dc_State :: State
  dc_Owner :: string
  dc_Response :: string
  dc_Failure :: Failure

datatype Scope = ScopePrincipal | ScopePlatform

record Requirement =
  rq_Resource :: string
  rq_Action :: string
  rq_Scope :: Scope

text \<open>What \<open>platformauthz.Enforce\<close> returns: no error, \<open>ErrDecisionUnavailable\<close>, or a denial.\<close>

datatype enforcement = Permitted | DecisionUnavailable string | Denied string

section \<open>The surroundings of a transport\<close>

text \<open>
  A request body is the bytes that can be read and the error that reading ends with (\<open>None\<close> is
  the end of the body). Field by field: \<open>platformidempotency.Valid\<close>; the n-th
  \<open>Manager.Begin\<close>; \<open>sha256\<close> as lower-case hex; \<open>mime.ParseMediaType\<close>; the n-th
  \<open>Enforce\<close>; whether the deadline of a request has passed after the n-th clock reading;
  \<open>json.Unmarshal\<close> into a \<open>Response\<close>; what a body becomes when its encoding is decoded into
  an \<open>any\<close>; \<open>json.Unmarshal\<close> into an \<open>any\<close>; the validator's text; the decoders of the
  request structs; pings; \<open>Duration.String\<close>; build information; the error of setting the
  n-th response header of a gRPC stream.
\<close>

type_synonym request_body = "string \<times> string option"

record gate =
  key_Valid :: "string \<Rightarrow> bool"
  idem_Begin :: "nat \<Rightarrow> string \<Rightarrow> string \<Rightarrow> string + Decision"
  sha256_hex :: "string \<Rightarrow> string"
  ParseMediaType :: "string \<Rightarrow> string + string"
  Enforce :: "nat \<Rightarrow> Context \<Rightarrow> Requirement \<Rightarrow> enforcement"
  TimedOut :: "duration \<Rightarrow> nat \<Rightarrow> bool"
  json_Response :: "string \<Rightarrow> string + Response"
  json_through_any :: "body \<Rightarrow> body"
  json_any :: "string \<Rightarrow> string option"
  validator_error :: "string list \<Rightarrow> string"
  json_PutTemplateRequest :: "request_body \<Rightarrow> string + PutTemplateRequest"
  json_PutProviderRequest :: "request_body \<Rightarrow> string + PutProviderRequest"
  json_GetProviderRequest :: "request_body \<Rightarrow> string + GetProviderRequest"
  json_ListProvidersRequest :: "request_body \<Rightarrow> string + ListProvidersRequest"
  json_SendNotificationRequest :: "request_body \<Rightarrow> string + SendNotificationRequest"
  json_ListTemplatesRequest :: "request_body \<Rightarrow> string + ListTemplatesRequest"
  json_GetTemplateRequest :: "request_body \<Rightarrow> string + GetTemplateRequest"
  json_GetDeliveryRequest :: "request_body \<Rightarrow> string + GetDeliveryRequest"
  json_ListDeliveriesRequest :: "request_body \<Rightarrow> string + ListDeliveriesRequest"
  json_ProviderReceiptRequest :: "request_body \<Rightarrow> string + ProviderReceiptRequest"
  ping_database :: "nat \<Rightarrow> string option"
  ping_redis :: "nat \<Rightarrow> string option"
  database_first :: "nat \<Rightarrow> bool"
  Duration_String :: "duration \<Rightarrow> string"
  build_Version :: string
  build_Commit :: string
  build_BuildTime :: string
  build_startedAt :: time
  SetHeader_error :: "nat \<Rightarrow> string option"

text \<open>The status codes of gRPC that the service uses, and any other one.\<close>

datatype code =
    codes_OK | codes_InvalidArgument | codes_NotFound | codes_PermissionDenied | codes_Unauthenticated
  | codes_Aborted | codes_Unavailable | codes_Internal | codes_Other nat

text \<open>What \<open>Manager.Complete\<close> and \<open>Manager.Fail\<close> were called with: key, owner, outcome.\<close>

datatype persisted = CompletedWith string string Response | FailedWith string string Failure

record web =
  web_world :: world
  web_begins :: nat
  web_persisted :: "persisted list"
  web_enforced :: nat
  web_pings :: nat
  web_requests :: "(string \<times> string \<times> string) list"
  web_durations :: "(string \<times> string) list"
  web_rpc_requests :: "(string \<times> code) list"
  web_rpc_durations :: "string list"
  web_rpc_headers :: "(string \<times> string) list"

section \<open>The gin context\<close>

text \<open>
  The request (method, matched route, headers, declared length, body, TLS, client address), the
  request's context, the keys set on the gin context and the response writer: headers, status,
  whether it was written, and the JSON documents written to it. Header names are spelled as in
  the source; \<open>net/http\<close> canonicalises both sides. \<open>g_Panic\<close> is set while a panic unwinds:
  the code behind the call that panicked is skipped until the panic is recovered.
\<close>

record gin =
  g_Method :: string
  g_FullPath :: string
  g_Headers :: "(string \<times> string) list"
  g_ContentLength :: int
  g_Body :: request_body
  g_TLS :: bool
  g_ClientIP :: string
  g_Context :: Context
  g_request_id :: "string option"
  g_environment :: "string option"
  g_subject :: "string option"
  g_OutHeaders :: "(string \<times> string) list"
  g_Status :: int
  g_Written :: bool
  g_Written_JSON :: "Response list"
  g_Panic :: "string option"

type_synonym handler = "gin \<Rightarrow> web \<Rightarrow> gin \<times> web"
type_synonym middleware = "handler \<Rightarrow> handler"

end
