(* ===== verification/HttpMiddleware.thy ===== *)
theory HttpMiddleware
  imports HttpModel OutboundHTTP
begin

text \<open>
  The middleware of the HTTP transport (\<open>internal/transport/http/middleware.go\<close>) and its
  responses (\<open>response.go\<close>). A middleware takes the rest of the handler chain, \<open>c.Next()\<close>, as
  its first argument; not applying it is \<open>c.Abort()\<close>. What a middleware does behind
  \<open>c.Next()\<close> is skipped when the rest of the chain panics. Request logging and tracing do not
  influence what is computed and are left out.
\<close>

section \<open>Definitions\<close>

subsection \<open>Responses\<close>

text \<open>\<open>c.Header(key, value)\<close>: an empty value removes the header.\<close>

definition Header :: "string \<Rightarrow> string \<Rightarrow> gin \<Rightarrow> gin" where
  "Header k v c =
     c\<lparr>g_OutHeaders := (if v = [] then filter (\<lambda>h. fst h \<noteq> k) (g_OutHeaders c)
                       else header_set k v (g_OutHeaders c))\<rparr>"

definition GetHeader :: "gin \<Rightarrow> string \<Rightarrow> string" where
  "GetHeader c k = header_get (g_Headers c) k"

text \<open>Writing a status; a status that was sent is not replaced.\<close>

definition write_status :: "int \<Rightarrow> gin \<Rightarrow> gin" where
  "write_status status c = (if g_Written c then c else c\<lparr>g_Status := status, g_Written := True\<rparr>)"

definition write_json :: "int \<Rightarrow> Response \<Rightarrow> gin \<Rightarrow> gin" where
  "write_json status response c =
     (write_status status c)\<lparr>g_Written_JSON := g_Written_JSON c @ [response]\<rparr>"

definition requestID :: "gin \<Rightarrow> string" where
  "requestID c = (case g_request_id c of None \<Rightarrow> [] | Some i \<Rightarrow> i)"

definition OK :: "gin \<Rightarrow> body \<Rightarrow> gin" where
  "OK c b = write_json 200
     \<lparr>rs_Code = CodeOK, rs_Message = ''success'', rs_Body = b, rs_RequestID = requestID c\<rparr> c"

definition app_error :: "go_error \<Rightarrow> go_error" where
  "app_error err = (case errors_as_app err of Some appErr \<Rightarrow> appErr | None \<Rightarrow> Internal (Some err))"

definition Fail :: "gin \<Rightarrow> go_error \<Rightarrow> gin" where
  "Fail c err =
     (let appErr = app_error err in
      write_json (HTTPStatus appErr)
        \<lparr>rs_Code = Code appErr, rs_Message = Message appErr, rs_Body = NilBody, rs_RequestID = requestID c\<rparr> c)"

subsection \<open>Request metadata\<close>

definition RequestID :: "env \<Rightarrow> auth_env \<Rightarrow> middleware" where
  "RequestID env ae next c w =
     (let given = GetHeader c ''X-Request-ID'';
          (i, w') = (if Valid given then (given, web_world w) else Generate env ae (web_world w));
          c1 = Header ''X-Request-ID'' i (c\<lparr>g_request_id := Some i\<rparr>)
      in next (c1\<lparr>g_Context := (g_Context c1)\<lparr>ctx_RequestID := Some i\<rparr>\<rparr>) (w\<lparr>web_world := w'\<rparr>))"

definition Environment :: "string \<Rightarrow> middleware" where
  "Environment profile next c w =
     next (c\<lparr>g_environment := Some profile,
            g_Context := (g_Context c)\<lparr>ctx_Environment := Some profile\<rparr>\<rparr>) w"

definition IdempotencyKey :: "gate \<Rightarrow> middleware" where
  "IdempotencyKey g next c w =
     (let key = GetHeader c ''Idempotency-Key'' in
      if key = [] then next c w
      else if \<not> key_Valid g key then (Fail c (Invalid ''invalid Idempotency-Key'' None), w)
      else
        (let c1 = Header ''Idempotency-Key'' key c in
         next (c1\<lparr>g_Context := (g_Context c1)\<lparr>ctx_IdempotencyKey := Some key\<rparr>\<rparr>) w))"

subsection \<open>Idempotent execution\<close>

text \<open>
  \<open>fmt.Sprint(subject)\<close> of an absent subject is \<open><nil>\<close>. The body is read to its end and
  replaced by what was read.
\<close>

definition idempotencyFingerprint :: "gate \<Rightarrow> gin \<Rightarrow> string result \<times> gin" where
  "idempotencyFingerprint g c =
     (case g_Body c of
        (bytes, Some m) \<Rightarrow> (Inl (Errorf m), c\<lparr>g_Body := ([], Some m)\<rparr>)
      | (bytes, None) \<Rightarrow>
          (let subject = (case g_subject c of None \<Rightarrow> ''<nil>'' | Some s \<Rightarrow> s)
           in (Inr (sha256_hex g (subject @ [CHR 0x00] @ g_Method c @ [CHR 0x00] @ g_FullPath c @ [CHR 0x00] @ bytes)),
               c\<lparr>g_Body := (bytes, None)\<rparr>)))"

text \<open>
  \<open>json.Unmarshal\<close> of what was written while the rest of the chain ran: one document decodes, no
  document or several do not. The body of the document comes back as a decoded \<open>any\<close>.
\<close>

definition captured :: "gate \<Rightarrow> gin \<Rightarrow> gin \<Rightarrow> Response option" where
  "captured g c c' =
     (case drop (length (g_Written_JSON c)) (g_Written_JSON c') of
        [r] \<Rightarrow> Some (r\<lparr>rs_Body := json_through_any g (rs_Body r)\<rparr>)
      | _ \<Rightarrow> None)"

definition persist :: "gate \<Rightarrow> string \<Rightarrow> string \<Rightarrow> gin \<Rightarrow> gin \<Rightarrow> web \<Rightarrow> web" where
  "persist g key owner c c' w =
     (case captured g c c' of
        None \<Rightarrow> w
      | Some r \<Rightarrow>
          (let response = r\<lparr>rs_RequestID := []\<rparr>;
               entry = (if g_Status c' \<ge> 400
                        then FailedWith key owner
                               \<lparr>fl_Code = rs_Code response, fl_Message = rs_Message response,
                                fl_HTTPStatus = g_Status c'\<rparr>
                        else CompletedWith key owner response)
           in w\<lparr>web_persisted := web_persisted w @ [entry]\<rparr>))"

definition IdempotencyExecution :: "gate \<Rightarrow> bool \<Rightarrow> string list \<Rightarrow> middleware" where
  "IdempotencyExecution g enabled paths next c w =
     (case ctx_IdempotencyKey (g_Context c) of
        None \<Rightarrow> next c w
      | Some key \<Rightarrow>
          (if \<not> enabled \<or> g_Method c \<noteq> ''POST'' \<or> \<not> MatchesAny (g_FullPath c) paths then next c w
           else
             (case idempotencyFingerprint g c of
                (Inl e, c1) \<Rightarrow> (Fail c1 (Invalid ''read idempotent request'' (Some e)), w)
              | (Inr fingerprint, c1) \<Rightarrow>
                  (let w1 = w\<lparr>web_begins := Suc (web_begins w)\<rparr> in
                   (case idem_Begin g (web_begins w) key fingerprint of
                      Inl m \<Rightarrow> (Fail c1 (Unavailable ''idempotency is unavailable'' (Some (Errorf m))), w1)
                    | Inr decision \<Rightarrow>
                        (case dc_State decision of
                           StateCompleted \<Rightarrow>
                             (case json_Response g (dc_Response decision) of
                                Inl m \<Rightarrow>
                                  (Fail c1 (Unavailable ''idempotency response is unavailable'' (Some (Errorf m))), w1)
                              | Inr response \<Rightarrow>
                                  (write_json 200 (response\<lparr>rs_RequestID := requestID c1\<rparr>) c1, w1))
                         | StateFailed \<Rightarrow>
                             (let failure = dc_Failure decision in
                              (write_json (fl_HTTPStatus failure)
                                 \<lparr>rs_Code = fl_Code failure, rs_Message = fl_Message failure,
                                  rs_Body = NilBody, rs_RequestID = requestID c1\<rparr> c1, w1))
                         | StateProcessing \<Rightarrow> (Fail c1 RequestInProgress, w1)
                         | StateConflict \<Rightarrow>
                             (Fail c1 (Conflict ''idempotency key belongs to a different request'' None), w1)
                         | StateAcquired \<Rightarrow>
                             (case next c1 w1 of (c2, w2) \<Rightarrow>
                                if g_Panic c2 \<noteq> None then (c2, w2)
                                else (c2, persist g key (dc_Owner decision) c1 c2 w2))
                         | StateOther _ \<Rightarrow>
                             (Fail c1 (Unavailable ''idempotency state is invalid'' None), w1)))))))"

subsection \<open>Metrics, time limit, body, headers\<close>

definition HTTPMetrics :: "bool \<Rightarrow> middleware" where
  "HTTPMetrics enabled next c w =
     (case next c w of (c1, w1) \<Rightarrow>
        (if g_Panic c1 \<noteq> None \<or> \<not> enabled then (c1, w1)
         else
           (let route = (if g_FullPath c1 = [] then ''unmatched'' else g_FullPath c1)
            in (c1, w1\<lparr>web_requests := web_requests w1 @ [(g_Method c1, route, int_text (g_Status c1))],
                        web_durations := web_durations w1 @ [(g_Method c1, route)]\<rparr>))))"

text \<open>
  The recovery of a panic. \<open>gin.CustomRecovery\<close> treats a connection that the client broke apart
  from other panics; nobody receives that answer.
\<close>

definition Recovery :: middleware where
  "Recovery next c w =
     (case next c w of (c1, w1) \<Rightarrow>
        (case g_Panic c1 of
           None \<Rightarrow> (c1, w1)
         | Some recovered \<Rightarrow>
             (write_json 500
                \<lparr>rs_Code = CodeInternal, rs_Message = ''internal server error'', rs_Body = NilBody,
                 rs_RequestID = requestID c1\<rparr> (c1\<lparr>g_Panic := None\<rparr>), w1)))"

definition Timeout :: "gate \<Rightarrow> duration \<Rightarrow> middleware" where
  "Timeout g timeout next c w =
     (case next c w of (c1, w1) \<Rightarrow>
        (if g_Panic c1 = None \<and> TimedOut g timeout (w_ticks (web_world w1)) \<and> \<not> g_Written c1
         then (Fail c1 RequestTimeout, w1) else (c1, w1)))"

definition MaxBody :: "int \<Rightarrow> middleware" where
  "MaxBody limit next c w =
     (case g_Body c of (bytes, ending) \<Rightarrow>
        next (c\<lparr>g_Body := (if length bytes \<le> nat limit then (bytes, ending)
                           else (take (nat limit) bytes, Some ''http: request body too large''))\<rparr>) w)"

definition RequireJSON :: "gate \<Rightarrow> middleware" where
  "RequireJSON g next c w =
     (if g_Method c = ''POST'' \<and> g_ContentLength c \<noteq> 0 \<and>
         ParseMediaType g (GetHeader c ''Content-Type'') \<noteq> Inr ''application/json''
      then
        (write_json 415
           \<lparr>rs_Code = CodeInvalidArgument, rs_Message = ''content type must be application/json'',
            rs_Body = NilBody, rs_RequestID = requestID c\<rparr> c, w)
      else next c w)"

definition SecurityHeaders :: middleware where
  "SecurityHeaders next c w =
     (let c1 = Header ''Cache-Control'' ''no-store''
                 (Header ''Content-Security-Policy'' (''default-src 'none'; frame-ancestors 'none'' @ [CHR 0x27])
                   (Header ''Referrer-Policy'' ''no-referrer''
                     (Header ''X-Frame-Options'' ''DENY''
                       (Header ''X-Content-Type-Options'' ''nosniff'' c))));
          c2 = (if g_TLS c1
                then Header ''Strict-Transport-Security'' ''max-age=31536000; includeSubDomains'' c1 else c1)
      in next c2 w)"

text \<open>
  \<open>int(cfg.MaxAge.Seconds())\<close>; the conversion through \<open>float64\<close> is exact for whole seconds
  and for ages below \<open>2 ^ 23\<close> seconds.
\<close>

definition whole_seconds :: "duration \<Rightarrow> int" where
  "whole_seconds d = (if d < 0 then - ((- d) div second) else d div second)"

definition CORS :: "CORS_cfg \<Rightarrow> middleware" where
  "CORS cfg next c w =
     (let origin = GetHeader c ''Origin'' in
      if \<not> CORS_Enabled cfg then next c w
      else if origin = [] then next c w
      else if origin \<notin> set (CORS_AllowedOrigins cfg) then
        (write_json 403
           \<lparr>rs_Code = CodeForbidden, rs_Message = ''origin is not allowed'', rs_Body = NilBody,
            rs_RequestID = requestID c\<rparr> c, w)
      else
        (let c1 = Header ''Access-Control-Max-Age'' (int_text (whole_seconds (CORS_MaxAge cfg)))
                    (Header ''Access-Control-Expose-Headers'' (Join (CORS_ExposedHeaders cfg) '', '')
                      (Header ''Access-Control-Allow-Headers'' (Join (CORS_AllowedHeaders cfg) '', '')
                        (Header ''Access-Control-Allow-Methods'' ''POST, GET, OPTIONS''
                          (Header ''Vary'' ''Origin''
                            (Header ''Access-Control-Allow-Origin'' origin c)))))
         in if g_Method c = ''OPTIONS'' then (write_status 204 c1, w) else next c1 w))"

subsection \<open>Rate limits\<close>

text \<open>\<open>Duration.Round(time.Second)\<close>: half away from zero, saturating.\<close>

definition round_second :: "duration \<Rightarrow> duration" where
  "round_second d =
     (if d < 0 then
        (let r = (- d) mod second in
         if r + r < second then d + r else max min_int64 (d - (second - r)))
      else
        (let r = d mod second in
         if r + r < second then d - r else min max_int64 (d + (second - r))))"

definition retry_seconds :: "duration \<Rightarrow> int" where
  "retry_seconds d = max 1 (whole_seconds (round_second d))"

definition RateLimit :: "env \<Rightarrow> Limiter \<Rightarrow> RateLimitRule_cfg \<Rightarrow> string \<Rightarrow> (gin \<Rightarrow> string) \<Rightarrow> middleware" where
  "RateLimit env limiter rule dimension keyFunc next c w =
     (let key = keyFunc c in
      if \<not> lim_enabled limiter then next c w
      else if key = [] then next c w
      else
        (case Allow env limiter (''rate:'' @ dimension @ '':'' @ key) rule (web_world w) of
           (Inl e, w1) \<Rightarrow>
             (if lim_failOpen limiter then next c (w\<lparr>web_world := w1\<rparr>)
              else (Fail c (Unavailable ''rate limiter unavailable'' (Some e)), w\<lparr>web_world := w1\<rparr>))
         | (Inr result, w1) \<Rightarrow>
             (let c1 = Header ''X-RateLimit-Remaining'' (int_text (lr_Remaining result))
                         (Header ''X-RateLimit-Limit'' (int_text (lr_Limit result)) c)
              in if \<not> lr_Allowed result
                 then (Fail (Header ''Retry-After'' (int_text (retry_seconds (lr_RetryAfter result))) c1)
                         TooManyRequests, w\<lparr>web_world := w1\<rparr>)
                 else next c1 (w\<lparr>web_world := w1\<rparr>))))"

subsection \<open>Authentication and authorization\<close>

definition JWT :: "env \<Rightarrow> auth_env \<Rightarrow> AuthService \<Rightarrow> middleware" where
  "JWT env ae service next c w =
     (let header = GetHeader c ''Authorization'' in
      (case Cut header CHR '' '' of (scheme, raw, ok) \<Rightarrow>
         if \<not> ok \<or> \<not> EqualFold scheme ''Bearer'' \<or> raw = []
         then (Fail c (Unauthorized ''missing bearer token''), w)
         else
           (case Verify_token env ae service raw (web_world w) of
              (Inl e, w1) \<Rightarrow> (Fail c (Unauthorized ''invalid or expired token''), w\<lparr>web_world := w1\<rparr>)
            | (Inr caller, w1) \<Rightarrow>
                next (c\<lparr>g_subject := Some (pr_ID caller),
                       g_Context := (g_Context c)\<lparr>ctx_Principal := Some caller, ctx_Credential := Some header\<rparr>\<rparr>)
                  (w\<lparr>web_world := w1\<rparr>))))"

definition psk_principal :: Principal where
  "psk_principal = \<lparr>pr_ID = ''notification-service:psk'', pr_Type = TypeServiceAccount, pr_TenantID = []\<rparr>"

definition Authentication :: "env \<Rightarrow> auth_env \<Rightarrow> AuthService \<Rightarrow> Auth_cfg \<Rightarrow> middleware" where
  "Authentication env ae service cfg next c w =
     (if PSK_Enabled (Auth_PSK cfg) \<and> MatchesAny (g_FullPath c) (PSK_HTTPPaths (Auth_PSK cfg)) then
        (if \<not> VerifyPSK (GetHeader c ''Authorization'') (PSK_Key (Auth_PSK cfg))
         then (Fail c (Unauthorized ''missing or invalid PSK''), w)
         else
           next (c\<lparr>g_subject := Some ''psk'',
                  g_Context := (g_Context c)\<lparr>ctx_Principal := Some psk_principal,
                    ctx_Credential := Some (GetHeader c ''Authorization'')\<rparr>\<rparr>) w)
      else if MatchesAny (g_FullPath c) (Auth_SkipHTTPPaths cfg) then next c w
      else JWT env ae service next c w)"

definition notificationHTTPRequirement :: "string \<Rightarrow> Requirement option" where
  "notificationHTTPRequirement route =
     map_of
       [(''/api/v1/notifications/templates/put'',
           \<lparr>rq_Resource = ''notification.template'', rq_Action = ''update'', rq_Scope = ScopePrincipal\<rparr>),
        (''/api/v1/notifications/templates/get'',
           \<lparr>rq_Resource = ''notification.template'', rq_Action = ''read'', rq_Scope = ScopePrincipal\<rparr>),
        (''/api/v1/notifications/templates/list'',
           \<lparr>rq_Resource = ''notification.template'', rq_Action = ''list'', rq_Scope = ScopePrincipal\<rparr>),
        (''/api/v1/notifications/providers/put'',
           \<lparr>rq_Resource = ''notification.provider'', rq_Action = ''update'', rq_Scope = ScopePrincipal\<rparr>),
        (''/api/v1/notifications/providers/get'',
           \<lparr>rq_Resource = ''notification.provider'', rq_Action = ''read'', rq_Scope = ScopePrincipal\<rparr>),
        (''/api/v1/notifications/providers/list'',
           \<lparr>rq_Resource = ''notification.provider'', rq_Action = ''list'', rq_Scope = ScopePrincipal\<rparr>),
        (''/api/v1/notifications/send'',
           \<lparr>rq_Resource = ''notification.delivery'', rq_Action = ''send'', rq_Scope = ScopePrincipal\<rparr>),
        (''/api/v1/notifications/providers/receipt'',
           \<lparr>rq_Resource = ''notification.receipt'', rq_Action = ''record'', rq_Scope = ScopePlatform\<rparr>),
        (''/api/v1/notifications/deliveries/get'',
           \<lparr>rq_Resource = ''notification.delivery'', rq_Action = ''read'', rq_Scope = ScopePrincipal\<rparr>),
        (''/api/v1/notifications/deliveries/list'',
           \<lparr>rq_Resource = ''notification.delivery'', rq_Action = ''list'', rq_Scope = ScopePrincipal\<rparr>)]
       route"

definition Authorization :: "gate \<Rightarrow> bool \<Rightarrow> middleware" where
  "Authorization g enabled next c w =
     (case notificationHTTPRequirement (g_FullPath c) of
        None \<Rightarrow> next c w
      | Some requirement \<Rightarrow>
          (if \<not> enabled then next c w
           else
             (let w1 = w\<lparr>web_enforced := Suc (web_enforced w)\<rparr> in
              (case Enforce g (web_enforced w) (g_Context c) requirement of
                 Permitted \<Rightarrow> next c w1
               | DecisionUnavailable m \<Rightarrow>
                   (Fail c (Unavailable ''authorization decision is unavailable'' (Some (Errorf m))), w1)
               | Denied m \<Rightarrow> (Fail c (Forbidden ''permission denied''), w1)))))"

text \<open>\<open>server.go\<close>: the guard of the profiling endpoints.\<close>

definition pprofAuth :: "string \<Rightarrow> middleware" where
  "pprofAuth expected next c w =
     (case Cut (GetHeader c ''Authorization'') CHR '' '' of (scheme, token, ok) \<Rightarrow>
        if \<not> ok \<or> \<not> EqualFold scheme ''Bearer'' \<or> \<not> ConstantTimeCompare token expected
        then (write_status 401 c, w) else next c w)"

end
