(* ===== verification/HttpHandlers.thy ===== *)
theory HttpHandlers
  imports HttpMiddleware
begin

text \<open>
  Health and build information (\<open>internal/health/service.go\<close>, \<open>internal/buildinfo\<close>) and
  the handlers of the HTTP API (\<open>internal/transport/http/handler.go\<close>): decode and validate the
  body, call the notification service with the request's context, answer with its result.
\<close>

section \<open>Health\<close>

record HealthService =
  hsv_db :: bool
  hsv_redis :: bool
  hsv_cfg :: Health_cfg

record HealthResult =
  hr_name :: string
  hr_dependency :: Dependency
  hr_ready :: bool

definition NewHealth :: "bool \<Rightarrow> bool \<Rightarrow> Config \<Rightarrow> HealthService" where
  "NewHealth db redis cfg = \<lparr>hsv_db = db, hsv_redis = redis, hsv_cfg = c_Health cfg\<rparr>"

definition Live :: HealthStatus where
  "Live = \<lparr>hs_Status = ''up'', hs_Dependencies = Map.empty\<rparr>"

definition checkResult :: "gate \<Rightarrow> string \<Rightarrow> duration \<Rightarrow> string option \<Rightarrow> HealthResult" where
  "checkResult g name elapsed err =
     \<lparr>hr_name = name,
      hr_dependency = \<lparr>dep_Status = (if err = None then ''up'' else ''down''),
                       dep_Latency = Duration_String g elapsed\<rparr>,
      hr_ready = (err = None)\<rparr>"

text \<open>
  A check of one dependency: disabled when there is no client, otherwise a ping between two
  readings of the clock.
\<close>

definition disabled_result :: "string \<Rightarrow> HealthResult" where
  "disabled_result name =
     \<lparr>hr_name = name, hr_dependency = \<lparr>dep_Status = ''disabled'', dep_Latency = []\<rparr>, hr_ready = True\<rparr>"

definition timed_ping :: "env \<Rightarrow> gate \<Rightarrow> string \<Rightarrow> string option \<Rightarrow> web \<Rightarrow> HealthResult \<times> web" where
  "timed_ping env g name err w =
     (case read_clock env (web_world w) of (started, w1) \<Rightarrow>
       (case read_clock env w1 of (ended, w2) \<Rightarrow>
          (checkResult g name (ended - started) err, w\<lparr>web_world := w2\<rparr>)))"

definition checkDatabase :: "env \<Rightarrow> gate \<Rightarrow> HealthService \<Rightarrow> web \<Rightarrow> HealthResult \<times> web" where
  "checkDatabase env g s w =
     (if \<not> hsv_db s then (disabled_result ''database'', w)
      else timed_ping env g ''database'' (ping_database g (web_pings w)) w)"

definition checkRedis :: "env \<Rightarrow> gate \<Rightarrow> HealthService \<Rightarrow> web \<Rightarrow> HealthResult \<times> web" where
  "checkRedis env g s w =
     (if \<not> hsv_redis s then (disabled_result ''redis'', w)
      else timed_ping env g ''redis'' (ping_redis g (web_pings w)) w)"

text \<open>
  \<open>Ready\<close> runs the two checks in goroutines and receives their results in the order in which
  they finish, which \<open>database_first\<close> decides. The pings of one call are numbered together.
\<close>

fun collect :: "HealthResult list \<Rightarrow> HealthStatus \<Rightarrow> bool \<Rightarrow> HealthStatus \<times> bool" where
  "collect [] status ready = (status, ready)"
| "collect (item # items) status ready =
     collect items
       (status\<lparr>hs_Dependencies := (hs_Dependencies status)(hr_name item \<mapsto> hr_dependency item)\<rparr>)
       (ready \<and> hr_ready item)"

definition Ready :: "env \<Rightarrow> gate \<Rightarrow> HealthService \<Rightarrow> web \<Rightarrow> (HealthStatus \<times> bool) \<times> web" where
  "Ready env g s w =
     (let (results, w') =
        (if database_first g (web_pings w)
         then (case checkDatabase env g s w of (d, w1) \<Rightarrow>
                (case checkRedis env g s w1 of (r, w2) \<Rightarrow> ([d, r], w2)))
         else (case checkRedis env g s w of (r, w1) \<Rightarrow>
                (case checkDatabase env g s w1 of (d, w2) \<Rightarrow> ([r, d], w2))));
        (status, ready) = collect results \<lparr>hs_Status = ''ready'', hs_Dependencies = Map.empty\<rparr> True
      in ((if ready then status else status\<lparr>hs_Status := ''not_ready''\<rparr>, ready),
          w'\<lparr>web_pings := Suc (web_pings w')\<rparr>))"

definition Current :: "env \<Rightarrow> gate \<Rightarrow> world \<Rightarrow> Info \<times> world" where
  "Current env g w =
     (case read_clock env w of (now, w1) \<Rightarrow>
        (\<lparr>info_Version = build_Version g, info_Commit = build_Commit g, info_BuildTime = build_BuildTime g,
          info_StartedAt = build_startedAt g,
          info_Uptime = Duration_String g (round_second (now - build_startedAt g))\<rparr>, w1))"

section \<open>Response bodies\<close>

definition providerResponse :: "Provider \<Rightarrow> ProviderResponseBody" where
  "providerResponse value =
     \<lparr>prb_ID = p_ID value, prb_TenantID = p_TenantID value, prb_ApplicationID = p_ApplicationID value,
      prb_Code = p_Code value, prb_Channel = p_Channel value, prb_Upstream = p_Upstream value,
      prb_Path = p_Path value, prb_Priority = p_Priority value, prb_Status = p_Status value,
      prb_Version = p_Version value, prb_CreatedAt = p_CreatedAt value, prb_UpdatedAt = p_UpdatedAt value,
      prb_CreatedBy = p_CreatedBy value, prb_UpdatedBy = p_UpdatedBy value\<rparr>"

definition templateResponse :: "Template \<Rightarrow> TemplateResponseBody" where
  "templateResponse value =
     \<lparr>trb_ID = t_ID value, trb_TenantID = t_TenantID value, trb_ApplicationID = t_ApplicationID value,
      trb_Code = t_Code value, trb_Channel = t_Channel value, trb_Locale = t_Locale value,
      trb_Subject = t_Subject value, trb_Content = t_Content value, trb_Status = t_Status value,
      trb_Version = t_Version value, trb_CreatedAt = t_CreatedAt value, trb_UpdatedAt = t_UpdatedAt value,
      trb_CreatedBy = t_CreatedBy value, trb_UpdatedBy = t_UpdatedBy value\<rparr>"

definition deliveryResponse :: "gate \<Rightarrow> Delivery \<Rightarrow> DeliveryResponseBody" where
  "deliveryResponse g value =
     (let variables = (if 0 < length (d_Variables value) then json_any g (d_Variables value) else None) in
      \<lparr>drb_ID = d_ID value, drb_TenantID = d_TenantID value, drb_ApplicationID = d_ApplicationID value,
       drb_TemplateCode = d_TemplateCode value, drb_Channel = d_Channel value, drb_Locale = d_Locale value,
       drb_Recipient = d_Recipient value, drb_Variables = variables,
       drb_IdempotencyKey = d_IdempotencyKey value, drb_Status = d_Status value,
       drb_Provider = d_Provider value, drb_ProviderMessageID = d_ProviderMessageID value,
       drb_FailureReason = d_FailureReason value, drb_Attempts = d_Attempts value,
       drb_NextAttemptAt = d_NextAttemptAt value, drb_Version = d_Version value,
       drb_CreatedAt = d_CreatedAt value, drb_UpdatedAt = d_UpdatedAt value,
       drb_CreatedBy = d_CreatedBy value, drb_UpdatedBy = d_UpdatedBy value\<rparr>)"

section \<open>Handlers\<close>

record Handler =
  h_health :: HealthService
  h_notifications :: Service

text \<open>\<open>c.ShouldBindJSON(&request)\<close>: decode, then check the required fields.\<close>

definition ShouldBindJSON ::
  "gate \<Rightarrow> (request_body \<Rightarrow> string + 'r) \<Rightarrow> ('r \<Rightarrow> (string \<times> string) list) \<Rightarrow> gin \<Rightarrow> 'r result" where
  "ShouldBindJSON g decode required c =
     (case decode (g_Body c) of
        Inl m \<Rightarrow> Inl (Errorf m)
      | Inr r \<Rightarrow>
          (if missing (required r) = [] then Inr r
           else Inl (Errorf (validator_error g (missing (required r))))))"

text \<open>The part that the ten notification handlers share: bind, call, answer.\<close>

definition answer :: "gin \<Rightarrow> ('a \<Rightarrow> body) \<Rightarrow> 'a result \<times> world \<Rightarrow> web \<Rightarrow> gin \<times> web" where
  "answer c to_body outcome w =
     (case outcome of
        (Inl e, w1) \<Rightarrow> (Fail c e, w\<lparr>web_world := w1\<rparr>)
      | (Inr v, w1) \<Rightarrow> (OK c (to_body v), w\<lparr>web_world := w1\<rparr>))"

definition Live_handler :: "Handler \<Rightarrow> handler" where
  "Live_handler h c w = (OK c (StatusBody Live), w)"

definition Ready_handler :: "env \<Rightarrow> gate \<Rightarrow> Handler \<Rightarrow> handler" where
  "Ready_handler env g h c w =
     (case Ready env g (h_health h) w of ((status, ready), w1) \<Rightarrow>
        (if \<not> ready
         then (write_json 503
                 \<lparr>rs_Code = CodeDependencyUnavailable, rs_Message = ''service is not ready'',
                  rs_Body = StatusBody status, rs_RequestID = requestID c\<rparr> c, w1)
         else (OK c (StatusBody status), w1)))"

definition Me :: handler where
  "Me c w = (OK c (SubjectBody (g_subject c)), w)"

definition Version :: "env \<Rightarrow> gate \<Rightarrow> handler" where
  "Version env g c w =
     (case Current env g (web_world w) of (info, w1) \<Rightarrow> (OK c (InfoBody info), w\<lparr>web_world := w1\<rparr>))"

definition provider_of_request :: "PutProviderRequest \<Rightarrow> Provider" where
  "provider_of_request r =
     \<lparr>p_ID = [], p_TenantID = ppr_TenantID r, p_ApplicationID = ppr_ApplicationID r, p_Code = ppr_Code r,
      p_Channel = ppr_Channel r, p_Upstream = ppr_Upstream r, p_Path = ppr_Path r,
      p_Priority = ppr_Priority r, p_Status = ppr_Status r, p_Version = 0, p_CreatedAt = zero_time,
      p_UpdatedAt = zero_time,
      p_CreatedBy = [], p_UpdatedBy = []\<rparr>"

definition template_of_request :: "PutTemplateRequest \<Rightarrow> Template" where
  "template_of_request r =
     \<lparr>t_ID = [], t_TenantID = ptr_TenantID r, t_ApplicationID = ptr_ApplicationID r, t_Code = ptr_Code r,
      t_Channel = ptr_Channel r, t_Locale = ptr_Locale r, t_Subject = ptr_Subject r,
      t_Content = ptr_Content r, t_Status = ptr_Status r, t_Version = 0, t_CreatedAt = zero_time,
      t_UpdatedAt = zero_time,
      t_CreatedBy = [], t_UpdatedBy = []\<rparr>"

definition PutNotificationProvider :: "env \<Rightarrow> gate \<Rightarrow> Handler \<Rightarrow> handler" where
  "PutNotificationProvider env g h c w =
     (case ShouldBindJSON g (json_PutProviderRequest g) required_PutProviderRequest c of
        Inl e \<Rightarrow> (Fail c (Invalid ''invalid request body'' (Some e)), w)
      | Inr r \<Rightarrow>
          answer c (\<lambda>v. ProviderBody (providerResponse v))
            (PutProvider env (h_notifications h) (g_Context c) (provider_of_request r) (ppr_ExpectedVersion r)
               (web_world w))
            w)"

definition GetNotificationProvider :: "env \<Rightarrow> gate \<Rightarrow> Handler \<Rightarrow> handler" where
  "GetNotificationProvider env g h c w =
     (case ShouldBindJSON g (json_GetProviderRequest g) required_GetProviderRequest c of
        Inl e \<Rightarrow> (Fail c (Invalid ''invalid request body'' (Some e)), w)
      | Inr r \<Rightarrow>
          answer c (\<lambda>v. ProviderBody (providerResponse v))
            (GetProvider_op env (g_Context c) (gpr_TenantID r) (gpr_ApplicationID r) (gpr_Code r) (web_world w))
            w)"

definition ListNotificationProviders :: "env \<Rightarrow> gate \<Rightarrow> Handler \<Rightarrow> handler" where
  "ListNotificationProviders env g h c w =
     (case ShouldBindJSON g (json_ListProvidersRequest g) required_ListProvidersRequest c of
        Inl e \<Rightarrow> (Fail c (Invalid ''invalid request body'' (Some e)), w)
      | Inr r \<Rightarrow>
          answer c (\<lambda>page. ProviderPageBody
              \<lparr>ppb_Providers = map providerResponse (ppg_Providers page), ppb_Total = ppg_Total page,
               ppb_Page = ppg_Page page, ppb_PageSize = ppg_PageSize page\<rparr>)
            (ListProviders_op env (g_Context c) (lpr_TenantID r) (lpr_ApplicationID r) (lpr_Keyword r)
               (lpr_Channel r) (lpr_Status r) (lpr_Page r) (lpr_PageSize r) (web_world w))
            w)"

definition PutNotificationTemplate :: "env \<Rightarrow> gate \<Rightarrow> Handler \<Rightarrow> handler" where
  "PutNotificationTemplate env g h c w =
     (case ShouldBindJSON g (json_PutTemplateRequest g) required_PutTemplateRequest c of
        Inl e \<Rightarrow> (Fail c (Invalid ''invalid json request'' (Some e)), w)
      | Inr r \<Rightarrow>
          answer c (\<lambda>v. TemplateBody (templateResponse v))
            (PutTemplate env (h_notifications h) (g_Context c) (template_of_request r) (ptr_ExpectedVersion r)
               (web_world w))
            w)"

definition GetNotificationTemplate :: "env \<Rightarrow> gate \<Rightarrow> Handler \<Rightarrow> handler" where
  "GetNotificationTemplate env g h c w =
     (case ShouldBindJSON g (json_GetTemplateRequest g) required_GetTemplateRequest c of
        Inl e \<Rightarrow> (Fail c (Invalid ''invalid request body'' (Some e)), w)
      | Inr r \<Rightarrow>
          answer c (\<lambda>v. TemplateBody (templateResponse v))
            (GetTemplate_op env (g_Context c) (gtr_TenantID r) (gtr_ApplicationID r) (gtr_Code r)
               (gtr_Channel r) (gtr_Locale r) (web_world w))
            w)"

definition ListNotificationTemplates :: "env \<Rightarrow> gate \<Rightarrow> Handler \<Rightarrow> handler" where
  "ListNotificationTemplates env g h c w =
     (case ShouldBindJSON g (json_ListTemplatesRequest g) required_ListTemplatesRequest c of
        Inl e \<Rightarrow> (Fail c (Invalid ''invalid json request'' (Some e)), w)
      | Inr r \<Rightarrow>
          answer c (\<lambda>page. TemplatePageBody
              \<lparr>tpb_Templates = map templateResponse (tpg_Templates page), tpb_Total = tpg_Total page,
               tpb_Page = tpg_Page page, tpb_PageSize = tpg_PageSize page\<rparr>)
            (ListTemplates_op env (g_Context c) (ltr_TenantID r) (ltr_ApplicationID r) (ltr_Keyword r)
               (ltr_Channel r) (ltr_Status r) (ltr_Page r) (ltr_PageSize r) (web_world w))
            w)"

definition SendNotification :: "env \<Rightarrow> gate \<Rightarrow> Handler \<Rightarrow> handler" where
  "SendNotification env g h c w =
     (case ShouldBindJSON g (json_SendNotificationRequest g) required_SendNotificationRequest c of
        Inl e \<Rightarrow> (Fail c (Invalid ''invalid json request'' (Some e)), w)
      | Inr r \<Rightarrow>
          answer c (\<lambda>v. DeliveryBody (deliveryResponse g v))
            (Send env (h_notifications h) (g_Context c) (snr_TenantID r) (snr_ApplicationID r)
               (snr_TemplateCode r) (snr_Channel r) (snr_Locale r) (snr_Recipient r) (snr_IdempotencyKey r)
               (snr_Variables r) (web_world w))
            w)"

definition RecordProviderReceipt :: "env \<Rightarrow> gate \<Rightarrow> Handler \<Rightarrow> handler" where
  "RecordProviderReceipt env g h c w =
     (case ShouldBindJSON g (json_ProviderReceiptRequest g) required_ProviderReceiptRequest c of
        Inl e \<Rightarrow> (Fail c (Invalid ''invalid json request'' (Some e)), w)
      | Inr r \<Rightarrow>
          answer c (\<lambda>v. DeliveryBody (deliveryResponse g v))
            (RecordReceipt env (h_notifications h) (g_Context c) (prr_TenantID r) (prr_ApplicationID r)
               (prr_Provider r) (prr_ProviderMessageID r) (prr_Status r) (prr_FailureReason r) (web_world w))
            w)"

definition GetNotificationDelivery :: "env \<Rightarrow> gate \<Rightarrow> Handler \<Rightarrow> handler" where
  "GetNotificationDelivery env g h c w =
     (case ShouldBindJSON g (json_GetDeliveryRequest g) required_GetDeliveryRequest c of
        Inl e \<Rightarrow> (Fail c (Invalid ''invalid json request'' (Some e)), w)
      | Inr r \<Rightarrow>
          answer c (\<lambda>v. DeliveryBody (deliveryResponse g v))
            (GetDelivery_op env (g_Context c) (gdr_ID r) (gdr_TenantID r) (gdr_ApplicationID r) (web_world w))
            w)"

definition ListNotificationDeliveries :: "env \<Rightarrow> gate \<Rightarrow> Handler \<Rightarrow> handler" where
  "ListNotificationDeliveries env g h c w =
     (case ShouldBindJSON g (json_ListDeliveriesRequest g) required_ListDeliveriesRequest c of
        Inl e \<Rightarrow> (Fail c (Invalid ''invalid json request'' (Some e)), w)
      | Inr r \<Rightarrow>
          answer c (\<lambda>v. DeliveryPageBody
              \<lparr>dpb_Deliveries = map (deliveryResponse g) (pg_Deliveries v), dpb_Total = pg_Total v,
               dpb_Page = pg_Page v, dpb_PageSize = pg_PageSize v\<rparr>)
            (ListDeliveries_op env (g_Context c) (ldr_TenantID r) (ldr_ApplicationID r) (ldr_Status r)
               (ldr_Page r) (ldr_PageSize r) (web_world w))
            w)"

end
