(* ===== verification/HttpServer.thy ===== *)
theory HttpServer
  imports HttpHandlers
begin

text \<open>
  The HTTP server (\<open>internal/transport/http/server.go\<close>): the middleware of the router and of the
  API group, the routes, and what happens to a request that matches none. The handlers of
  Prometheus, pprof and Swagger UI are library code, the argument \<open>lib\<close>. The router has matched
  the path already: \<open>g_FullPath\<close> is the registered route, empty when there is none. Starting and
  stopping are in \<open>Assembly\<close>.
\<close>

section \<open>Definitions\<close>

record Server =
  srv_cfg :: Config
  srv_handler :: Handler
  srv_auth :: AuthService
  srv_limiter :: Limiter
  srv_idempotency :: bool

text \<open>\<open>cfg.Observability.MetricsEnabled\<close> decides \<open>metrics.Enabled()\<close>.\<close>

definition metrics_enabled :: "Server \<Rightarrow> bool" where
  "metrics_enabled srv = Observability_MetricsEnabled (c_Observability (srv_cfg srv))"

definition subject_key :: "gin \<Rightarrow> string" where
  "subject_key c = (case g_subject c of None \<Rightarrow> [] | Some s \<Rightarrow> s)"

definition global_chain :: "env \<Rightarrow> auth_env \<Rightarrow> gate \<Rightarrow> Server \<Rightarrow> middleware" where
  "global_chain env ae g srv next =
     RequestID env ae (IdempotencyKey g (Environment (Runtime_ActiveProfile (c_Runtime (srv_cfg srv)))
       (Recovery (HTTPMetrics (metrics_enabled srv) (SecurityHeaders (CORS (HTTP_CORS (c_HTTP (srv_cfg srv)))
         (MaxBody (HTTP_MaxBodyBytes (c_HTTP (srv_cfg srv)))
           (Timeout g (HTTP_RequestTimeout (c_HTTP (srv_cfg srv))) (RequireJSON g next)))))))))"

definition api_chain :: "env \<Rightarrow> auth_env \<Rightarrow> gate \<Rightarrow> Server \<Rightarrow> middleware" where
  "api_chain env ae g srv next =
     RateLimit env (srv_limiter srv) (RateLimit_IP (c_RateLimit (srv_cfg srv))) ''ip'' g_ClientIP
       (RateLimit env (srv_limiter srv) (RateLimit_API (c_RateLimit (srv_cfg srv))) ''api'' g_FullPath
         (Authentication env ae (srv_auth srv) (c_Auth (srv_cfg srv))
           (Authorization g (Authorization_Enabled (c_Authorization (srv_cfg srv)))
             (RateLimit env (srv_limiter srv) (RateLimit_User (c_RateLimit (srv_cfg srv))) ''user'' subject_key
               (IdempotencyExecution g (srv_idempotency srv)
                  (Idempotency_HTTPPaths (c_Idempotency (srv_cfg srv))) next)))))"

definition api_routes :: "env \<Rightarrow> gate \<Rightarrow> Handler \<Rightarrow> (string \<times> handler) list" where
  "api_routes env g h =
     [(''/api/v1/version'', Version env g),
      (''/api/v1/me'', Me),
      (''/api/v1/notifications/templates/put'', PutNotificationTemplate env g h),
      (''/api/v1/notifications/templates/get'', GetNotificationTemplate env g h),
      (''/api/v1/notifications/templates/list'', ListNotificationTemplates env g h),
      (''/api/v1/notifications/providers/put'', PutNotificationProvider env g h),
      (''/api/v1/notifications/providers/get'', GetNotificationProvider env g h),
      (''/api/v1/notifications/providers/list'', ListNotificationProviders env g h),
      (''/api/v1/notifications/send'', SendNotification env g h),
      (''/api/v1/notifications/providers/receipt'', RecordProviderReceipt env g h),
      (''/api/v1/notifications/deliveries/get'', GetNotificationDelivery env g h),
      (''/api/v1/notifications/deliveries/list'', ListNotificationDeliveries env g h)]"

definition pprof_routes :: "(string \<times> string) list" where
  "pprof_routes =
     [(''GET'', ''/''), (''GET'', ''/cmdline''), (''GET'', ''/profile''), (''POST'', ''/symbol''),
      (''GET'', ''/symbol''), (''GET'', ''/trace'')] @
     map (\<lambda>profile. (''GET'', ''/'' @ profile))
       [''allocs'', ''block'', ''goroutine'', ''heap'', ''mutex'', ''threadcreate'']"

text \<open>The handler chain registered for a method and a route.\<close>

definition route ::
  "env \<Rightarrow> auth_env \<Rightarrow> gate \<Rightarrow> (string \<Rightarrow> handler) \<Rightarrow> Server \<Rightarrow> string \<Rightarrow> string \<Rightarrow> handler option" where
  "route env ae g lib srv method path =
     (if (method = ''GET'' \<or> method = ''POST'') \<and> path = ''/live'' then Some (Live_handler (srv_handler srv))
      else if (method = ''GET'' \<or> method = ''POST'') \<and> path = ''/ready'' then Some (Ready_handler env g (srv_handler srv))
      else if metrics_enabled srv \<and> method = ''GET'' \<and> path = ''/metrics'' then Some (lib ''/metrics'')
      else if Observability_PprofEnabled (c_Observability (srv_cfg srv)) \<and>
              (method, path) \<in> set (map (\<lambda>(m, p). (m, ''/debug/pprof'' @ p)) pprof_routes)
      then Some (pprofAuth (Observability_PprofToken (c_Observability (srv_cfg srv))) (lib path))
      else if Swagger_Enabled (c_Swagger (srv_cfg srv)) \<and> method = ''GET'' \<and> path = ''/swagger/*any''
      then Some (if Swagger_RequireAuth (c_Swagger (srv_cfg srv))
                 then JWT env ae (srv_auth srv) (lib path) else lib path)
      else if method = ''POST'' then
        map_option (api_chain env ae g srv) (map_of (api_routes env g (srv_handler srv)) path)
      else None)"

text \<open>
  A request without a route runs the router's middleware, its status set to 404 beforehand, and is
  answered with that status.
\<close>

definition not_found :: handler where
  "not_found c w = (if g_Written c then (c, w) else (write_status 404 c, w))"

definition ServeHTTP :: "env \<Rightarrow> auth_env \<Rightarrow> gate \<Rightarrow> (string \<Rightarrow> handler) \<Rightarrow> Server \<Rightarrow> handler" where
  "ServeHTTP env ae g lib srv c w =
     (case route env ae g lib srv (g_Method c) (g_FullPath c) of
        Some h \<Rightarrow> global_chain env ae g srv h c w
      | None \<Rightarrow> (case global_chain env ae g srv (\<lambda>c w. (c, w)) (c\<lparr>g_Status := 404\<rparr>) w of (c1, w1) \<Rightarrow> not_found c1 w1))"

end
