(* ===== verification/AuthSamples.thy ===== *)
theory AuthSamples
  imports Auth Samples
begin

text \<open>
  A concrete authentication service and library: one token, \<open>good\<close>, which stands for the
  claims of the sample subject, signed with the sample secret.
\<close>

section \<open>Definitions\<close>

definition sample_secret :: string where
  "sample_secret = ''0123456789abcdef0123456789abcdef''"

definition sample_auth :: AuthService where
  "sample_auth =
     \<lparr>as_issuer = ''notification-service'', as_secret = sample_secret, as_ttl = hour, as_clientID = ''client'',
      as_clientSecret = ''hush'', as_verifier = False\<rparr>"

definition sample_claims :: Claims where
  "sample_claims =
     \<lparr>cl_Issuer = ''notification-service'', cl_Subject = ''alice'', cl_ID = replicate 22 (CHR ''A''),
      cl_IssuedAt = 1000, cl_NotBefore = 1000, cl_ExpiresAt = 1000 + hour\<rparr>"

definition sample_auth_env :: auth_env where
  "sample_auth_env =
     \<lparr>jwt_Parse = (\<lambda>keyfunc issuer now raw.
        if keyfunc ''HS256'' = Inr sample_secret \<and> issuer = cl_Issuer sample_claims \<and> raw = ''good'' \<and>
           cl_NotBefore sample_claims \<le> now \<and> now < cl_ExpiresAt sample_claims
        then Inr \<lparr>tok_Claims = Some sample_claims, tok_Valid = True\<rparr> else Inl ''token is invalid''),
      jwt_Sign = (\<lambda>secret claims.
        if secret = sample_secret \<and> claims = sample_claims then Inr ''good'' else Inl ''unsupported''),
      jwt_NumericDate = id, jwks_New = (\<lambda>_. None), jwks_VerifyBearer = (\<lambda>_ _. Inl ''unknown key''),
      rand_Read = (\<lambda>_ n. Inr (replicate n (CHR 0x00)))\<rparr>"

section \<open>Lemmas\<close>

lemma sample_auth_env_simps [simp]:
  "jwt_NumericDate sample_auth_env t = t"
  "rand_Read sample_auth_env k n = Inr (replicate n (CHR 0x00))"
  by (simp_all add: sample_auth_env_def)

end
