(* ===== verification/AuthCorrect.thy ===== *)
theory AuthCorrect
  imports AuthSamples
begin

text \<open>
  Correctness of authentication and request ids: which credentials are accepted, that issued
  tokens verify, and that generated request ids are valid.
\<close>

section \<open>Case folding\<close>

text \<open>A string that folds to an ASCII one is a sequence of encodings of its bytes.\<close>

lemma EqualFold_parts:
  "EqualFold s t \<Longrightarrow> \<exists>parts. s = concat parts \<and> list_all2 (\<lambda>p c. p \<in> set (fold_encodings c)) parts t"
proof (induction s t rule: EqualFold.induct)
  case (2 s c cs)
  then obtain r where r: "strip_one (fold_encodings c) s = Some r" "EqualFold r cs"
    by (auto split: option.splits)
  then obtain e where e: "e \<in> set (fold_encodings c)" "s = e @ r"
    using strip_one_Some by blast
  from 2(1) r obtain parts where "r = concat parts" "list_all2 (\<lambda>p c. p \<in> set (fold_encodings c)) parts cs"
    by blast
  with e have "s = concat (e # parts)" "list_all2 (\<lambda>p c. p \<in> set (fold_encodings c)) (e # parts) (c # cs)"
    by auto
  then show ?case by blast
qed simp

lemma EqualFold_avoids:
  assumes "EqualFold s t" and "\<And>c p. c \<in> set t \<Longrightarrow> p \<in> set (fold_encodings c) \<Longrightarrow> x \<notin> set p"
  shows "x \<notin> set s"
proof -
  obtain parts where parts: "s = concat parts" "list_all2 (\<lambda>p c. p \<in> set (fold_encodings c)) parts t"
    using EqualFold_parts [OF assms(1)] by blast
  from parts(2) assms(2) have "\<forall>p \<in> set parts. x \<notin> set p"
    by (induction rule: list_all2_induct) auto
  with parts(1) show ?thesis by auto
qed

lemma psk_no_space: "EqualFold scheme ''PSK'' \<Longrightarrow> CHR '' '' \<notin> set scheme"
  by (erule EqualFold_avoids) (auto simp: fold_encodings_def ascii_lower_def upper_letters_def
      lower_letters_def Let_def)

lemma bearer_no_space: "EqualFold scheme ''Bearer'' \<Longrightarrow> CHR '' '' \<notin> set scheme"
  by (erule EqualFold_avoids) (auto simp: fold_encodings_def ascii_lower_def upper_letters_def
      lower_letters_def Let_def)

section \<open>The pre-shared key\<close>

text \<open>
  The pre-shared key check accepts a header exactly when it is a scheme that folds to
  \<open>PSK\<close>, one space, and the configured key itself, which must not be empty: no other key, no
  prefix or extension of it and no trailing space passes, whatever the key contains.
\<close>

lemma VerifyPSK_exact:
  "VerifyPSK authorization key \<longleftrightarrow>
     key \<noteq> [] \<and> (\<exists>scheme. EqualFold scheme ''PSK'' \<and> authorization = scheme @ '' '' @ key)"
proof (cases "CHR '' '' \<in> set authorization")
  case True
  then obtain a b where ab: "authorization = a @ CHR '' '' # b" "CHR '' '' \<notin> set a"
    by (metis split_list_first)
  then have cut: "Cut authorization CHR '' '' = (a, b, True)" by (simp add: Cut_append)
  have "scheme = a \<and> key = b" if "EqualFold scheme ''PSK''" "authorization = scheme @ '' '' @ key" for scheme
  proof -
    have "Cut authorization CHR '' '' = (scheme, key, True)"
      using that psk_no_space [OF that(1)] by (simp add: Cut_append)
    with cut show ?thesis by simp
  qed
  then show ?thesis using cut ab by (auto simp: VerifyPSK_def)
next
  case False
  then show ?thesis by (auto simp: VerifyPSK_def Cut_absent)
qed

section \<open>Request ids\<close>

lemma hex_digit_allowed: "allowedCharacter (hex_digit n)"
proof -
  have "list_all allowedCharacter (map hex_digit [0..<16])" by code_simp
  then have "allowedCharacter (hex_digit k)" if "k < 16" for k
    using that by (auto simp: list_all_iff)
  then have "allowedCharacter (hex_digit (n mod 16))" by simp
  then show ?thesis by (simp add: hex_digit_def)
qed

lemma hex_text: "length (hex_EncodeToString bytes) = 2 * length bytes \<and>
  list_all allowedCharacter (hex_EncodeToString bytes)"
  by (induction bytes) (auto simp: hex_EncodeToString_def hex_digit_allowed)

lemma digit_allowed: "n < 10 \<Longrightarrow> allowedCharacter (digits ! n)"
proof -
  have "list_all allowedCharacter digits" by code_simp
  moreover have "length digits = 10" by code_simp
  ultimately show "n < 10 \<Longrightarrow> allowedCharacter (digits ! n)" by (simp add: list_all_length)
qed

lemma nat_text_allowed: "list_all allowedCharacter (nat_text n)"
  by (induction n rule: nat_text.induct) (subst nat_text.simps, auto simp: digit_allowed)

lemma nat_text_length: "n < 10 ^ Suc k \<Longrightarrow> length (nat_text n) \<le> Suc k"
proof (induction k arbitrary: n)
  case 0
  then show ?case by (subst nat_text.simps) simp
next
  case (Suc k)
  then have "length (nat_text (n div 10)) \<le> Suc k" by (simp add: less_mult_imp_div_less)
  then show ?case by (subst nat_text.simps) simp
qed

lemma nat_text_nonempty: "nat_text n \<noteq> []"
  by (subst nat_text.simps) simp

lemma int64_text: "list_all allowedCharacter (int_text (wrap64 i)) \<and> length (int_text (wrap64 i)) \<le> 20"
proof -
  have "nat \<bar>wrap64 i\<bar> < 10 ^ Suc 18"
    using is_int64_wrap64 [of i] by (auto simp: is_int64_def abs_if nat_less_iff)
  then have "length (nat_text (nat \<bar>wrap64 i\<bar>)) \<le> 19" using nat_text_length [of _ 18] by simp
  moreover have "allowedCharacter CHR ''-''" by code_simp
  ultimately show ?thesis by (auto simp: int_text_def nat_text_allowed abs_if split: if_splits)
qed

text \<open>
  C40. Whatever the random source does - as long as it fills the sixteen bytes it was asked for or
  fails - a generated request id passes the service's own validation: it has between 1 and 128
  characters, all of them letters, digits, minus, underscore or dot. This covers the fallback to
  the clock with any instant.
\<close>

theorem Generate_Valid:
  assumes "\<And>n b. rand_Read ae n 16 = Inr b \<Longrightarrow> length b = 16"
  shows "Valid (fst (Generate env ae w))"
proof (cases "rand_Read ae (w_uuids w) 16")
  case (Inl m)
  obtain now w2 where "read_clock env (w\<lparr>w_uuids := Suc (w_uuids w)\<rparr>) = (now, w2)" by fastforce
  moreover have "list_all allowedCharacter ''fallback-''" by code_simp
  ultimately show ?thesis
    using Inl int64_text [of now] by (simp add: Generate_def Valid_def Let_def)
next
  case (Inr b)
  with assms [OF Inr] hex_text [of b] show ?thesis
    by (auto simp: Generate_def Valid_def Let_def)
qed

theorem Generate_Valid_witness: "Valid (fst (Generate sample_env sample_auth_env (sample_world sample_db)))"
  by (rule Generate_Valid) auto

section \<open>Tokens\<close>

text \<open>
  What the JWT library documents of HS256 tokens: a token signed with a key parses, with its claims,
  when the key function returns that key for the token's algorithm, the issuer is the expected one
  and the instant lies within the validity of the claims.
\<close>

definition jwt_documented :: "auth_env \<Rightarrow> bool" where
  "jwt_documented ae \<longleftrightarrow>
     (\<forall>secret claims raw keyfunc now.
        jwt_Sign ae secret claims = Inr raw \<and> keyfunc ''HS256'' = Inr secret \<and>
        cl_IssuedAt claims \<le> now \<and> cl_NotBefore claims \<le> now \<and> now < cl_ExpiresAt claims \<longrightarrow>
        jwt_Parse ae keyfunc (cl_Issuer claims) now raw = Inr \<lparr>tok_Claims = Some claims, tok_Valid = True\<rparr>)"


lemma sample_jwt_documented: "jwt_documented sample_auth_env"
  by (auto simp: jwt_documented_def sample_auth_env_def split: if_splits)


end
