(* ===== verification/HttpContract.thy ===== *)
theory HttpContract
  imports HttpServer AuthCorrect
begin

text \<open>
  The contract of the HTTP middleware. \<open>http_contract\<close> states what a property of handlers must
  satisfy to pass through the router's chain: it may depend on the request but not on what
  middleware adds to it, and an aborted request must satisfy it. Inside the locale every
  middleware that may abort is shown to keep the property; the interpretations are the refusal of
  a request and the single answer.
\<close>

section \<open>Definitions\<close>

text \<open>What no middleware changes before it calls the next handler.\<close>

definition same_request :: "gin \<Rightarrow> gin \<Rightarrow> bool" where
  "same_request c c' \<longleftrightarrow>
     g_Method c' = g_Method c \<and> g_FullPath c' = g_FullPath c \<and> g_Headers c' = g_Headers c \<and>
     g_Status c' = g_Status c \<and> g_Written c' = g_Written c \<and> g_Written_JSON c' = g_Written_JSON c \<and>
     g_Panic c' = g_Panic c"

text \<open>No SQL statement was issued, no row changed and no request was sent to an upstream.\<close>

definition idle :: "web \<Rightarrow> web \<Rightarrow> bool" where
  "idle w w' \<longleftrightarrow>
     w_db (web_world w') = w_db (web_world w) \<and> w_stmts (web_world w') = w_stmts (web_world w) \<and>
     w_calls (web_world w') = w_calls (web_world w)"

section \<open>Lemmas\<close>

lemma idle_refl [simp]: "idle w w"
  by (simp add: idle_def)

lemma idle_trans: "idle w w1 \<Longrightarrow> idle w1 w2 \<Longrightarrow> idle w w2"
  by (simp add: idle_def)

lemma idle_fields [simp]:
  "idle w (w\<lparr>web_begins := n\<rparr>)" "idle w (w\<lparr>web_enforced := n\<rparr>)" "idle w (w\<lparr>web_persisted := ps\<rparr>)"
  "idle w (w\<lparr>web_requests := rs, web_durations := ds\<rparr>)"
  by (simp_all add: idle_def)

lemma idle_world:
  "idle w (w\<lparr>web_world := w'\<rparr>) \<longleftrightarrow>
     w_db w' = w_db (web_world w) \<and> w_stmts w' = w_stmts (web_world w) \<and> w_calls w' = w_calls (web_world w)"
  by (simp add: idle_def)

lemma same_request_refl [simp]: "same_request c c"
  by (simp add: same_request_def)

lemma same_request_updates [simp]:
  "same_request c (c\<lparr>g_request_id := i\<rparr>) " "same_request c (c\<lparr>g_Context := x\<rparr>)"
  "same_request c (c\<lparr>g_environment := e, g_Context := x\<rparr>)" "same_request c (c\<lparr>g_Body := b\<rparr>)"
  "same_request c (c\<lparr>g_subject := s, g_Context := x\<rparr>)" "same_request c (Header k v c)"
  by (simp_all add: same_request_def Header_def)

lemma same_request_trans: "same_request c c1 \<Longrightarrow> same_request c1 c2 \<Longrightarrow> same_request c c2"
  by (simp add: same_request_def)

lemma Header_request [simp]:
  "g_Method (Header k v c) = g_Method c" "g_request_id (Header k v c) = g_request_id c"
  "requestID (Header k v c) = requestID c" "g_Context (Header k v c) = g_Context c"
  by (simp_all add: Header_def requestID_def)

lemma Allow_idle:
  "Allow env l key rule (web_world w) = (r, w') \<Longrightarrow> idle w (w\<lparr>web_world := w'\<rparr>)"
  by (auto simp: Allow_def idle_def Let_def split: if_splits sum.splits)

lemma Generate_idle: "Generate env ae (web_world w) = (i, w') \<Longrightarrow> idle w (w\<lparr>web_world := w'\<rparr>)"
  by (auto simp: Generate_def read_clock_def idle_def Let_def split: sum.splits)

lemma Verify_token_idle:
  "Verify_token env ae s raw (web_world w) = (r, w') \<Longrightarrow> idle w (w\<lparr>web_world := w'\<rparr>)"
  by (auto simp: Verify_token_def Parse_def read_clock_def idle_def split: if_splits sum.splits option.splits)

lemma HTTPStatus_simps [simp]:
  "HTTPStatus (Invalid m e) = 400" "HTTPStatus (NotFound m) = 404" "HTTPStatus (Conflict m e) = 409"
  "HTTPStatus (StaleVersion e) = 409" "HTTPStatus RequestInProgress = 409"
  "HTTPStatus (Unauthorized m) = 401" "HTTPStatus (Forbidden m) = 403" "HTTPStatus TooManyRequests = 429"
  "HTTPStatus RequestTimeout = 504" "HTTPStatus (Unavailable m e) = 503" "HTTPStatus (Internal e) = 500"
  by (simp_all add: apperror_defs)

lemma errors_as_app_more [simp]:
  "errors_as_app RequestInProgress = Some RequestInProgress" "errors_as_app RequestTimeout = Some RequestTimeout"
  by (simp_all add: apperror_defs)

lemma app_error_simps [simp]:
  "app_error (Invalid m e) = Invalid m e" "app_error (NotFound m) = NotFound m"
  "app_error (Conflict m e) = Conflict m e" "app_error (StaleVersion e) = StaleVersion e"
  "app_error RequestInProgress = RequestInProgress" "app_error (Unauthorized m) = Unauthorized m"
  "app_error (Forbidden m) = Forbidden m" "app_error TooManyRequests = TooManyRequests"
  "app_error RequestTimeout = RequestTimeout" "app_error (Unavailable m e) = Unavailable m e"
  "app_error (Internal e) = Internal e"
  by (simp_all add: app_error_def)

section \<open>The contract\<close>

locale http_contract =
  fixes pre :: "gin \<Rightarrow> bool" and post :: "web \<Rightarrow> gin \<Rightarrow> web \<Rightarrow> bool"
  assumes pre_same: "pre c \<Longrightarrow> same_request c c' \<Longrightarrow> pre c'"
    and pre_method: "pre c \<Longrightarrow> g_Method c \<noteq> ''OPTIONS''"
    and post_abort: "pre c \<Longrightarrow> 400 \<le> status \<Longrightarrow> rs_RequestID r = requestID c \<Longrightarrow> idle w w' \<Longrightarrow>
      post w (write_json status r c) w'"
    and post_first: "idle w w1 \<Longrightarrow> post w1 c w2 \<Longrightarrow> post w c w2"
    and post_last: "post w c w1 \<Longrightarrow> idle w1 w2 \<Longrightarrow> post w c w2"
    and post_written: "post w c w1 \<Longrightarrow> g_Panic c = None \<Longrightarrow> g_Written c"
    and post_recovered: "post w c w1 \<Longrightarrow> g_Panic c = Some v \<Longrightarrow> rs_RequestID r = requestID c \<Longrightarrow>
      post w (write_json 500 r (c\<lparr>g_Panic := None\<rparr>)) w1"
begin

definition meets :: "handler \<Rightarrow> bool" where
  "meets h \<longleftrightarrow> (\<forall>c w. pre c \<longrightarrow> post w (fst (h c w)) (snd (h c w)))"

lemma meetsI: "(\<And>c w. pre c \<Longrightarrow> post w (fst (h c w)) (snd (h c w))) \<Longrightarrow> meets h"
  by (simp add: meets_def)

lemma meetsD: "meets h \<Longrightarrow> pre c \<Longrightarrow> post w (fst (h c w)) (snd (h c w))"
  by (simp add: meets_def)

lemma Fail_post: "pre c \<Longrightarrow> 400 \<le> HTTPStatus (app_error e) \<Longrightarrow> idle w w' \<Longrightarrow> post w (Fail c e) w'"
  by (simp add: Fail_def Let_def post_abort)

text \<open>What middleware adds to a request does not affect the precondition.\<close>

lemma pre_updates [simp]:
  "pre c \<Longrightarrow> pre (g_request_id_update f1 c)" "pre c \<Longrightarrow> pre (g_Context_update f2 c)"
  "pre c \<Longrightarrow> pre (g_environment_update f1 c)" "pre c \<Longrightarrow> pre (g_Body_update f3 c)"
  "pre c \<Longrightarrow> pre (g_subject_update f1 c)" "pre c \<Longrightarrow> pre (Header k v c)"
  by (erule pre_same, simp add: same_request_def Header_def)+

text \<open>A middleware that passes the request on, after idle steps.\<close>

lemma pass_on: "meets h \<Longrightarrow> pre c \<Longrightarrow> idle w w' \<Longrightarrow> post w (fst (h c w')) (snd (h c w'))"
  using meetsD post_first by blast

lemma RequestID_meets: "meets h \<Longrightarrow> meets (RequestID env ae h)"
proof (rule meetsI)
  fix c :: gin and w :: web assume h: "meets h" and pre: "pre c"
  obtain i w' where iw: "(if Valid (GetHeader c ''X-Request-ID'') then (GetHeader c ''X-Request-ID'', web_world w)
      else Generate env ae (web_world w)) = (i, w')" by fastforce
  then have "idle w (w\<lparr>web_world := w'\<rparr>)"
    by (auto simp: Generate_idle split: if_splits)
  with h pre iw show "post w (fst (RequestID env ae h c w)) (snd (RequestID env ae h c w))"
    by (simp add: RequestID_def Let_def pass_on)
qed

lemma IdempotencyKey_meets: "meets h \<Longrightarrow> meets (IdempotencyKey g h)"
  by (rule meetsI) (simp add: IdempotencyKey_def Let_def Fail_post pass_on)

lemma Environment_meets: "meets h \<Longrightarrow> meets (Environment p h)"
  by (rule meetsI) (simp add: Environment_def pass_on)

lemma HTTPMetrics_meets: "meets h \<Longrightarrow> meets (HTTPMetrics en h)"
proof (rule meetsI)
  fix c :: gin and w :: web assume "meets h" and "pre c"
  then have "post w (fst (h c w)) (snd (h c w))" by (rule meetsD)
  moreover from this have "post w (fst (h c w)) ((snd (h c w))\<lparr>web_requests := rs, web_durations := ds\<rparr>)" for rs ds
    by (rule post_last) simp
  ultimately show "post w (fst (HTTPMetrics en h c w)) (snd (HTTPMetrics en h c w))"
    by (simp add: HTTPMetrics_def Let_def split_beta)
qed

lemma Recovery_meets: "meets h \<Longrightarrow> meets (Recovery h)"
proof (rule meetsI)
  fix c :: gin and w :: web assume "meets h" and "pre c"
  then have "post w (fst (h c w)) (snd (h c w))" by (rule meetsD)
  then show "post w (fst (Recovery h c w)) (snd (Recovery h c w))"
    by (cases "g_Panic (fst (h c w))") (simp_all add: Recovery_def split_beta post_recovered)
qed

lemma SecurityHeaders_meets: "meets h \<Longrightarrow> meets (SecurityHeaders h)"
  by (rule meetsI) (simp add: SecurityHeaders_def Let_def pass_on)

lemma CORS_meets: "meets h \<Longrightarrow> meets (CORS cfg h)"
  by (rule meetsI) (simp add: CORS_def Let_def pre_method pass_on post_abort)

lemma MaxBody_meets: "meets h \<Longrightarrow> meets (MaxBody n h)"
  by (rule meetsI) (simp add: MaxBody_def pass_on split_beta)

lemma Timeout_meets: "meets h \<Longrightarrow> meets (Timeout g t h)"
proof (rule meetsI)
  fix c :: gin and w :: web assume "meets h" and "pre c"
  then have p: "post w (fst (h c w)) (snd (h c w))" by (rule meetsD)
  then have "g_Panic (fst (h c w)) = None \<Longrightarrow> g_Written (fst (h c w))" by (rule post_written)
  with p show "post w (fst (Timeout g t h c w)) (snd (Timeout g t h c w))"
    by (auto simp: Timeout_def split_beta)
qed

lemma RequireJSON_meets: "meets h \<Longrightarrow> meets (RequireJSON g h)"
  by (rule meetsI) (simp add: RequireJSON_def pass_on post_abort)

lemma RateLimit_meets: "meets h \<Longrightarrow> meets (RateLimit env l rule d k h)"
proof (rule meetsI)
  fix c :: gin and w :: web assume h: "meets h" and pre: "pre c"
  obtain r w' where a: "Allow env l (''rate:'' @ d @ '':'' @ k c) rule (web_world w) = (r, w')" by fastforce
  note idle = Allow_idle [OF a]
  with h pre a show "post w (fst (RateLimit env l rule d k h c w)) (snd (RateLimit env l rule d k h c w))"
    by (cases r) (simp_all add: RateLimit_def Let_def pass_on Fail_post)
qed

lemma JWT_meets: "meets h \<Longrightarrow> meets (JWT env ae s h)"
proof (rule meetsI)
  fix c :: gin and w :: web assume h: "meets h" and pre: "pre c"
  obtain scheme raw ok where "Cut (GetHeader c ''Authorization'') CHR '' '' = (scheme, raw, ok)"
    by (metis prod_cases3)
  moreover obtain r w1 where v: "Verify_token env ae s raw (web_world w) = (r, w1)" by fastforce
  ultimately show "post w (fst (JWT env ae s h c w)) (snd (JWT env ae s h c w))"
    using h pre Verify_token_idle [OF v] by (cases r) (simp_all add: JWT_def Let_def Fail_post pass_on)
qed

lemma Authentication_meets: "meets h \<Longrightarrow> meets (Authentication env ae s cfg h)"
  by (rule meetsI) (simp add: Authentication_def Fail_post pass_on meetsD [OF JWT_meets])

lemma Authorization_meets: "meets h \<Longrightarrow> meets (Authorization g en h)"
proof (rule meetsI)
  fix c :: gin and w :: web assume "meets h" and "pre c"
  then show "post w (fst (Authorization g en h c w)) (snd (Authorization g en h c w))"
    by (simp add: Authorization_def Let_def Fail_post pass_on split: option.split enforcement.split)
qed

text \<open>The router's chain keeps the property.\<close>

lemma global_chain_meets: "meets h \<Longrightarrow> meets (global_chain env ae g srv h)"
  by (simp add: global_chain_def RequestID_meets IdempotencyKey_meets Environment_meets Recovery_meets HTTPMetrics_meets
      SecurityHeaders_meets CORS_meets MaxBody_meets Timeout_meets RequireJSON_meets)

end

text \<open>
  A contract that looks at the answer only: any document that carries the request's id satisfies
  it, and it does not depend on the world. Handlers and the whole API chain meet it.
\<close>

locale answer_contract = http_contract +
  assumes post_any: "pre c \<Longrightarrow> rs_RequestID r = requestID c \<Longrightarrow> post w (write_json status r c) w'"
    and post_web: "post w c w1 \<Longrightarrow> post w' c w2"
begin

lemma Fail_any: "pre c \<Longrightarrow> post w (Fail c e) w'"
  by (simp add: Fail_def Let_def post_any)

lemma OK_any: "pre c \<Longrightarrow> post w (OK c b) w'"
  by (simp add: OK_def post_any)

lemma pass: "meets h \<Longrightarrow> pre c \<Longrightarrow> post w (fst (h c w')) w''"
  using meetsD post_web by blast

lemma answer_any: "pre c \<Longrightarrow> post w (fst (answer c f r w')) w''"
  by (cases r; cases "fst r") (auto simp: answer_def Fail_any OK_any)

lemma handlers_meet [simp]:
  "meets Me" "meets (Version env g)"
  "meets (PutNotificationProvider env g h)" "meets (GetNotificationProvider env g h)"
  "meets (ListNotificationProviders env g h)" "meets (PutNotificationTemplate env g h)"
  "meets (GetNotificationTemplate env g h)" "meets (ListNotificationTemplates env g h)"
  "meets (SendNotification env g h)" "meets (RecordProviderReceipt env g h)"
  "meets (GetNotificationDelivery env g h)" "meets (ListNotificationDeliveries env g h)"
  by (rule meetsI; simp add: Me_def Version_def PutNotificationProvider_def GetNotificationProvider_def
      ListNotificationProviders_def PutNotificationTemplate_def GetNotificationTemplate_def
      ListNotificationTemplates_def SendNotification_def RecordProviderReceipt_def
      GetNotificationDelivery_def ListNotificationDeliveries_def OK_any Fail_any answer_any
      split: sum.split prod.split)+

lemma IdempotencyExecution_meets: "meets h \<Longrightarrow> meets (IdempotencyExecution g en paths h)"
proof (rule meetsI)
  fix c :: gin and w :: web assume h: "meets h" and pre: "pre c"
  obtain f c1 where f: "idempotencyFingerprint g c = (f, c1)" by fastforce
  with pre have "pre c1" by (auto simp: idempotencyFingerprint_def Let_def split: prod.splits option.splits)
  with h pre f show "post w (fst (IdempotencyExecution g en paths h c w)) (snd (IdempotencyExecution g en paths h c w))"
    by (simp add: IdempotencyExecution_def Let_def Fail_any post_any pass split_beta
        split: option.split sum.split State.split)
qed

lemma api_chain_meets: "meets h \<Longrightarrow> meets (api_chain env ae g srv h)"
  by (simp add: api_chain_def RateLimit_meets Authentication_meets Authorization_meets
      IdempotencyExecution_meets)

lemma api_routes_meet: "map_of (api_routes env g handler) path = Some h \<Longrightarrow> meets h"
  by (drule map_of_SomeD) (auto simp: api_routes_def)

end

section \<open>Refusal\<close>

text \<open>
  A request is refused when it is answered with an error status and nothing else happened. The
  precondition fixes the route and the \<open>Authorization\<close> header of an API request.
\<close>

definition api_post :: "string \<Rightarrow> string \<Rightarrow> gin \<Rightarrow> bool" where
  "api_post path header c \<longleftrightarrow>
     \<not> g_Written c \<and> g_Panic c = None \<and> g_Method c = ''POST'' \<and> g_FullPath c = path \<and>
     GetHeader c ''Authorization'' = header"

definition refused :: "web \<Rightarrow> gin \<Rightarrow> web \<Rightarrow> bool" where
  "refused w c w' \<longleftrightarrow> g_Written c \<and> g_Panic c = None \<and> 400 \<le> g_Status c \<and> idle w w'"

lemma write_json_simps [simp]:
  "\<not> g_Written c \<Longrightarrow> g_Status (write_json st r c) = st" "g_Written (write_json st r c)"
  "g_Written_JSON (write_json st r c) = g_Written_JSON c @ [r]"
  "g_request_id (write_json st r c) = g_request_id c" "g_Panic (write_json st r c) = g_Panic c"
  by (simp_all add: write_json_def write_status_def)

interpretation refusal: http_contract "api_post path header" refused for path header
  by unfold_locales
     (auto simp: api_post_def refused_def same_request_def GetHeader_def intro: idle_trans)

text \<open>
  Exactly one document, which carries the id of the request; a handler that panics must not have
  written anything.
\<close>

definition fresh_request :: "gin \<Rightarrow> bool" where
  "fresh_request c \<longleftrightarrow>
     \<not> g_Written c \<and> g_Written_JSON c = [] \<and> g_Panic c = None \<and> g_Method c \<noteq> ''OPTIONS''"

definition single_answer :: "gin \<Rightarrow> bool" where
  "single_answer c \<longleftrightarrow>
     g_Written c \<and> (\<exists>r. g_Written_JSON c = [r] \<and> rs_RequestID r = requestID c)"

definition answered_or_panicked :: "gin \<Rightarrow> bool" where
  "answered_or_panicked c \<longleftrightarrow>
     (if g_Panic c = None then single_answer c else \<not> g_Written c \<and> g_Written_JSON c = [])"

interpretation single: answer_contract fresh_request "\<lambda>w c w'. answered_or_panicked c"
  by unfold_locales
     (auto simp: fresh_request_def answered_or_panicked_def single_answer_def same_request_def requestID_def
       split: if_splits)

text \<open>No panic passes the recovery, whatever runs behind it.\<close>

lemma Recovery_no_panic: "g_Panic (fst (Recovery h c w)) = None"
  by (simp add: Recovery_def split_beta split: option.split)

lemma Fail_panic [simp]: "g_Panic (Fail c e) = g_Panic c"
  by (simp add: Fail_def Let_def)

lemma global_chain_no_panic:
  assumes "g_Panic c = None"
  shows "g_Panic (fst (global_chain env ae g srv h c w)) = None"
  using assms
  by (simp add: global_chain_def RequestID_def IdempotencyKey_def Environment_def Let_def split_beta
      Recovery_no_panic Header_def)

text \<open>A header that names no bearer token which the service accepts, at any time.\<close>

definition no_bearer :: "env \<Rightarrow> auth_env \<Rightarrow> AuthService \<Rightarrow> string \<Rightarrow> bool" where
  "no_bearer env ae s header \<longleftrightarrow>
     (\<forall>scheme raw w. header = scheme @ '' '' @ raw \<and> EqualFold scheme ''Bearer'' \<and> raw \<noteq> [] \<longrightarrow>
        isl (fst (Verify_token env ae s raw w)))"

lemma no_bearerI:
  assumes "Cut header CHR '' '' = (scheme, raw, ok)" and "\<And>w. isl (fst (Verify_token env ae s raw w))"
  shows "no_bearer env ae s header"
  unfolding no_bearer_def
proof (intro allI impI)
  fix scheme' raw' w
  assume h: "header = scheme' @ '' '' @ raw' \<and> EqualFold scheme' ''Bearer'' \<and> raw' \<noteq> []"
  then have "Cut header CHR '' '' = (scheme', raw', True)"
    using bearer_no_space [of scheme'] by (simp add: Cut_append)
  with assms show "isl (fst (Verify_token env ae s raw' w))" by simp
qed

lemma JWT_refuses:
  assumes "no_bearer env ae s header"
  shows "refusal.meets path header (JWT env ae s h)"
proof (rule refusal.meetsI)
  fix c :: gin and w :: web assume pre: "api_post path header c"
  obtain scheme raw ok where cut: "Cut header CHR '' '' = (scheme, raw, ok)" by (metis prod_cases3)
  obtain r w1 where v: "Verify_token env ae s raw (web_world w) = (r, w1)" by fastforce
  from pre have h: "GetHeader c ''Authorization'' = header" by (simp add: api_post_def)
  show "refused w (fst (JWT env ae s h c w)) (snd (JWT env ae s h c w))"
  proof (cases "\<not> ok \<or> \<not> EqualFold scheme ''Bearer'' \<or> raw = []")
    case True
    with cut h pre show ?thesis by (simp add: JWT_def Let_def refusal.Fail_post)
  next
    case False
    with cut have "header = scheme @ '' '' @ raw" using Cut_split [of header "CHR '' ''"] by simp
    with False assms v have "isl r" unfolding no_bearer_def by (metis fst_conv)
    with False cut h pre v Verify_token_idle [OF v] show ?thesis
      by (cases r) (simp_all add: JWT_def Let_def refusal.Fail_post)
  qed
qed

lemma Authentication_refuses:
  assumes "no_bearer env ae s header" and "\<not> MatchesAny path (Auth_SkipHTTPPaths cfg)"
    and "PSK_Enabled (Auth_PSK cfg) \<Longrightarrow> MatchesAny path (PSK_HTTPPaths (Auth_PSK cfg)) \<Longrightarrow>
      \<not> VerifyPSK header (PSK_Key (Auth_PSK cfg))"
  shows "refusal.meets path header (Authentication env ae s cfg h)"
proof (rule refusal.meetsI)
  fix c :: gin and w :: web assume pre: "api_post path header c"
  then have c: "g_FullPath c = path" "GetHeader c ''Authorization'' = header" by (simp_all add: api_post_def)
  note jwt = refusal.meetsD [OF JWT_refuses [OF assms(1)] pre]
  show "refused w (fst (Authentication env ae s cfg h c w)) (snd (Authentication env ae s cfg h c w))"
    using assms(2,3) jwt pre by (simp add: Authentication_def c refusal.Fail_post)
qed

lemma Authorization_refuses:
  assumes "notificationHTTPRequirement path = Some req" and "\<And>n ctx. Enforce g n ctx req \<noteq> Permitted"
  shows "refusal.meets path header (Authorization g True h)"
proof (rule refusal.meetsI)
  fix c :: gin and w :: web assume pre: "api_post path header c"
  then have "g_FullPath c = path" by (simp add: api_post_def)
  with assms pre show "refused w (fst (Authorization g True h c w)) (snd (Authorization g True h c w))"
    by (cases "Enforce g (web_enforced w) (g_Context c) req")
       (auto simp: Authorization_def Let_def refusal.Fail_post)
qed

end
