(* ===== verification/GrpcTransport.thy ===== *)
theory GrpcTransport
  imports HttpServer
begin

text \<open>
  The gRPC transport (\<open>internal/transport/grpc/server.go\<close>): handlers, conversions to protobuf
  messages, the mapping of errors to status codes, health, interceptors and transport credentials.
  Messages are records of the fields that the source reads or sets; a \<open>timestamppb.Timestamp\<close>
  is its instant. The names of the RPC methods are constants of generated code, the argument
  \<open>full\<close> on the RPCs of the service. The interceptors of the platform module (authorization,
  idempotency) are arguments of the chain. Log lines and traces are left out.
\<close>

section \<open>Messages\<close>

datatype rpc =
    rpc_PutProvider | rpc_GetProvider | rpc_ListProviders | rpc_PutTemplate | rpc_GetTemplate
  | rpc_ListTemplates | rpc_Send | rpc_RecordProviderReceipt | rpc_GetDelivery | rpc_ListDeliveries

definition all_rpcs :: "rpc list" where
  "all_rpcs =
     [rpc_PutProvider, rpc_GetProvider, rpc_ListProviders, rpc_PutTemplate, rpc_GetTemplate,
      rpc_ListTemplates, rpc_Send, rpc_RecordProviderReceipt, rpc_GetDelivery, rpc_ListDeliveries]"

record ProtoProvider =
  pp_Id :: string
  pp_TenantId :: string
  pp_ApplicationId :: string
  pp_Code :: string
  pp_Channel :: string
  pp_Upstream :: string
  pp_Path :: string
  pp_Priority :: int
  pp_Status :: string
  pp_Version :: int
  pp_CreatedAt :: time
  pp_UpdatedAt :: time
  pp_CreatedBy :: string
  pp_UpdatedBy :: string

record ProtoTemplate =
  pt_Id :: string
  pt_TenantId :: string
  pt_ApplicationId :: string
  pt_Code :: string
  pt_Channel :: string
  pt_Locale :: string
  pt_Subject :: string
  pt_Content :: string
  pt_Status :: string
  pt_Version :: int
  pt_CreatedAt :: time
  pt_UpdatedAt :: time
  pt_CreatedBy :: string
  pt_UpdatedBy :: string

text \<open>
  A page request carries 32-bit numbers, which \<open>int(...)\<close> keeps; a page result has the unsigned
  widths of the source's conversions.
\<close>

record PageRequest =
  pq_Page :: int
  pq_PageSize :: int

record PageResult =
  pres_Total :: "64 word"
  pres_Page :: "32 word"
  pres_PageSize :: "32 word"

datatype rpc_request =
    PutProvider_pb "ProtoProvider option" int
  | GetProvider_pb string string string
  | ListProviders_pb string string string string string "PageRequest option"
  | PutTemplate_pb "ProtoTemplate option" int
  | GetTemplate_pb string string string string string
  | ListTemplates_pb string string string string string "PageRequest option"
  | Send_pb string string string string string string string "string \<rightharpoonup> string"
  | RecordProviderReceipt_pb string string string string string string
  | GetDelivery_pb string string string
  | ListDeliveries_pb string string string "PageRequest option"

datatype rpc_response =
    ProviderReply ProtoProvider
  | ProvidersReply "ProtoProvider list" PageResult
  | TemplateReply ProtoTemplate
  | TemplatesReply "ProtoTemplate list" PageResult
  | DeliveryReply ProtoDelivery
  | DeliveriesReply "ProtoDelivery list" PageResult

text \<open>The error of a call: a status, or a panic on its way to the recovering interceptor.\<close>

datatype rpc_status = rpc_status (status_code: code) (status_message: string) | Panicking string

section \<open>Conversions and errors\<close>

definition toProtoProvider :: "Provider \<Rightarrow> ProtoProvider" where
  "toProtoProvider value =
     \<lparr>pp_Id = p_ID value, pp_TenantId = p_TenantID value, pp_ApplicationId = p_ApplicationID value,
      pp_Code = p_Code value, pp_Channel = p_Channel value, pp_Upstream = p_Upstream value,
      pp_Path = p_Path value, pp_Priority = wrap32 (p_Priority value), pp_Status = p_Status value,
      pp_Version = p_Version value, pp_CreatedAt = p_CreatedAt value, pp_UpdatedAt = p_UpdatedAt value,
      pp_CreatedBy = p_CreatedBy value, pp_UpdatedBy = p_UpdatedBy value\<rparr>"

definition toProtoTemplate :: "Template \<Rightarrow> ProtoTemplate" where
  "toProtoTemplate v =
     \<lparr>pt_Id = t_ID v, pt_TenantId = t_TenantID v, pt_ApplicationId = t_ApplicationID v,
      pt_Code = t_Code v, pt_Channel = t_Channel v, pt_Locale = t_Locale v, pt_Subject = t_Subject v,
      pt_Content = t_Content v, pt_Status = t_Status v, pt_Version = t_Version v,
      pt_CreatedAt = t_CreatedAt v, pt_UpdatedAt = t_UpdatedAt v, pt_CreatedBy = t_CreatedBy v,
      pt_UpdatedBy = t_UpdatedBy v\<rparr>"

definition toProtoDelivery_rpc :: "env \<Rightarrow> Delivery \<Rightarrow> ProtoDelivery" where
  "toProtoDelivery_rpc env v =
     \<lparr>pd_Id = d_ID v, pd_TenantId = d_TenantID v, pd_ApplicationId = d_ApplicationID v,
      pd_TemplateCode = d_TemplateCode v, pd_Channel = d_Channel v, pd_Recipient = d_Recipient v,
      pd_Variables = snd (JsonUnmarshal env (d_Variables v)), pd_Status = d_Status v,
      pd_Provider = d_Provider v, pd_ProviderMessageId = d_ProviderMessageID v,
      pd_FailureReason = d_FailureReason v, pd_Attempts = d_Attempts v,
      pd_NextAttemptAt = d_NextAttemptAt v, pd_Version = d_Version v, pd_CreatedAt = d_CreatedAt v,
      pd_UpdatedAt = d_UpdatedAt v, pd_CreatedBy = d_CreatedBy v, pd_UpdatedBy = d_UpdatedBy v\<rparr>"

definition page_result :: "int \<Rightarrow> int \<Rightarrow> int \<Rightarrow> PageResult" where
  "page_result cnt page pageSize =
     \<lparr>pres_Total = word_of_int cnt, pres_Page = word_of_int page, pres_PageSize = word_of_int pageSize\<rparr>"

definition requested_page :: "PageRequest option \<Rightarrow> int \<times> int" where
  "requested_page page = (case page of None \<Rightarrow> (0, 0) | Some p \<Rightarrow> (pq_Page p, pq_PageSize p))"

fun grpc_code :: "err_code \<Rightarrow> code" where
  "grpc_code CodeInvalidArgument = codes_InvalidArgument"
| "grpc_code CodeUnauthorized = codes_Unauthenticated"
| "grpc_code CodeForbidden = codes_PermissionDenied"
| "grpc_code CodeNotFound = codes_NotFound"
| "grpc_code CodeConflict = codes_Aborted"
| "grpc_code CodeDependencyUnavailable = codes_Unavailable"
| "grpc_code _ = codes_Internal"

definition grpcError :: "go_error \<Rightarrow> rpc_status" where
  "grpcError err =
     (case errors_as_app err of
        None \<Rightarrow> rpc_status codes_Internal ''internal server error''
      | Some appErr \<Rightarrow> rpc_status (grpc_code (Code appErr)) (Message appErr))"

section \<open>Handlers\<close>

type_synonym rpc_result = "rpc_status + rpc_response"

definition reply :: "('a \<Rightarrow> rpc_response) \<Rightarrow> 'a result \<times> world \<Rightarrow> rpc_result \<times> world" where
  "reply f outcome =
     (case outcome of
        (Inl e, w) \<Rightarrow> (Inl (grpcError e), w)
      | (Inr v, w) \<Rightarrow> (Inr (f v), w))"

definition provider_of_proto :: "ProtoProvider \<Rightarrow> Provider" where
  "provider_of_proto v =
     \<lparr>p_ID = [], p_TenantID = pp_TenantId v, p_ApplicationID = pp_ApplicationId v, p_Code = pp_Code v,
      p_Channel = pp_Channel v, p_Upstream = pp_Upstream v, p_Path = pp_Path v, p_Priority = pp_Priority v,
      p_Status = pp_Status v, p_Version = 0, p_CreatedAt = zero_time, p_UpdatedAt = zero_time,
      p_CreatedBy = [], p_UpdatedBy = []\<rparr>"

definition template_of_proto :: "ProtoTemplate \<Rightarrow> Template" where
  "template_of_proto v =
     \<lparr>t_ID = [], t_TenantID = pt_TenantId v, t_ApplicationID = pt_ApplicationId v, t_Code = pt_Code v,
      t_Channel = pt_Channel v, t_Locale = pt_Locale v, t_Subject = pt_Subject v, t_Content = pt_Content v,
      t_Status = pt_Status v, t_Version = 0, t_CreatedAt = zero_time, t_UpdatedAt = zero_time,
      t_CreatedBy = [], t_UpdatedBy = []\<rparr>"

definition PutProvider_rpc ::
  "env \<Rightarrow> Service \<Rightarrow> Context \<Rightarrow> ProtoProvider option \<Rightarrow> int \<Rightarrow> world \<Rightarrow> rpc_result \<times> world" where
  "PutProvider_rpc env s ctx provider expected w =
     (case provider of
        None \<Rightarrow> (Inl (rpc_status codes_InvalidArgument ''provider is required''), w)
      | Some v \<Rightarrow>
          reply (\<lambda>r. ProviderReply (toProtoProvider r)) (PutProvider env s ctx (provider_of_proto v) expected w))"

definition GetProvider_rpc ::
  "env \<Rightarrow> Context \<Rightarrow> string \<Rightarrow> string \<Rightarrow> string \<Rightarrow> world \<Rightarrow> rpc_result \<times> world" where
  "GetProvider_rpc env ctx tenant application tcode w =
     reply (\<lambda>r. ProviderReply (toProtoProvider r)) (GetProvider_op env ctx tenant application tcode w)"

definition ListProviders_rpc ::
  "env \<Rightarrow> Context \<Rightarrow> string \<Rightarrow> string \<Rightarrow> string \<Rightarrow> string \<Rightarrow> string \<Rightarrow> PageRequest option \<Rightarrow> world
   \<Rightarrow> rpc_result \<times> world" where
  "ListProviders_rpc env ctx tenant application keyword channel status request w =
     (case requested_page request of (page, pageSize) \<Rightarrow>
        reply (\<lambda>r. ProvidersReply (map toProtoProvider (ppg_Providers r))
                     (page_result (ppg_Total r) (ppg_Page r) (ppg_PageSize r)))
          (ListProviders_op env ctx tenant application keyword channel status page pageSize w))"

definition PutTemplate_rpc ::
  "env \<Rightarrow> Service \<Rightarrow> Context \<Rightarrow> ProtoTemplate option \<Rightarrow> int \<Rightarrow> world \<Rightarrow> rpc_result \<times> world" where
  "PutTemplate_rpc env s ctx tpl expected w =
     (case tpl of
        None \<Rightarrow> (Inl (rpc_status codes_InvalidArgument ''template is required''), w)
      | Some v \<Rightarrow>
          reply (\<lambda>r. TemplateReply (toProtoTemplate r)) (PutTemplate env s ctx (template_of_proto v) expected w))"

definition GetTemplate_rpc ::
  "env \<Rightarrow> Context \<Rightarrow> string \<Rightarrow> string \<Rightarrow> string \<Rightarrow> string \<Rightarrow> string \<Rightarrow> world \<Rightarrow> rpc_result \<times> world" where
  "GetTemplate_rpc env ctx tenant application tcode channel locale w =
     reply (\<lambda>r. TemplateReply (toProtoTemplate r)) (GetTemplate_op env ctx tenant application tcode channel locale w)"

definition ListTemplates_rpc ::
  "env \<Rightarrow> Context \<Rightarrow> string \<Rightarrow> string \<Rightarrow> string \<Rightarrow> string \<Rightarrow> string \<Rightarrow> PageRequest option \<Rightarrow> world
   \<Rightarrow> rpc_result \<times> world" where
  "ListTemplates_rpc env ctx tenant application keyword channel status request w =
     (case requested_page request of (page, pageSize) \<Rightarrow>
        reply (\<lambda>r. TemplatesReply (map toProtoTemplate (tpg_Templates r))
                     (page_result (tpg_Total r) (tpg_Page r) (tpg_PageSize r)))
          (ListTemplates_op env ctx tenant application keyword channel status page pageSize w))"

definition Send_rpc ::
  "env \<Rightarrow> Service \<Rightarrow> Context \<Rightarrow> string \<Rightarrow> string \<Rightarrow> string \<Rightarrow> string \<Rightarrow> string \<Rightarrow> string \<Rightarrow> string
   \<Rightarrow> (string \<rightharpoonup> string) \<Rightarrow> world \<Rightarrow> rpc_result \<times> world" where
  "Send_rpc env s ctx tenant application tcode channel locale recipient key variables w =
     reply (\<lambda>v. DeliveryReply (toProtoDelivery_rpc env v))
       (Send env s ctx tenant application tcode channel locale recipient key variables w)"

definition RecordProviderReceipt_rpc ::
  "env \<Rightarrow> Service \<Rightarrow> Context \<Rightarrow> string \<Rightarrow> string \<Rightarrow> string \<Rightarrow> string \<Rightarrow> string \<Rightarrow> string \<Rightarrow> world
   \<Rightarrow> rpc_result \<times> world" where
  "RecordProviderReceipt_rpc env s ctx tenant application provider messageID status reason w =
     reply (\<lambda>v. DeliveryReply (toProtoDelivery_rpc env v))
       (RecordReceipt env s ctx tenant application provider messageID status reason w)"

definition GetDelivery_rpc ::
  "env \<Rightarrow> Context \<Rightarrow> string \<Rightarrow> string \<Rightarrow> string \<Rightarrow> world \<Rightarrow> rpc_result \<times> world" where
  "GetDelivery_rpc env ctx i tenant application w =
     reply (\<lambda>v. DeliveryReply (toProtoDelivery_rpc env v)) (GetDelivery_op env ctx i tenant application w)"

definition ListDeliveries_rpc ::
  "env \<Rightarrow> Context \<Rightarrow> string \<Rightarrow> string \<Rightarrow> string \<Rightarrow> PageRequest option \<Rightarrow> world \<Rightarrow> rpc_result \<times> world" where
  "ListDeliveries_rpc env ctx tenant application status request w =
     (case requested_page request of (page, pageSize) \<Rightarrow>
        reply (\<lambda>r. DeliveriesReply (map (toProtoDelivery_rpc env) (pg_Deliveries r))
                     (page_result (pg_Total r) (pg_Page r) (pg_PageSize r)))
          (ListDeliveries_op env ctx tenant application status page pageSize w))"

text \<open>The registered service: the handler of a request.\<close>

fun handle :: "env \<Rightarrow> Service \<Rightarrow> Context \<Rightarrow> rpc_request \<Rightarrow> world \<Rightarrow> rpc_result \<times> world" where
  "handle env s ctx (PutProvider_pb v e) w = PutProvider_rpc env s ctx v e w"
| "handle env s ctx (GetProvider_pb t a c) w = GetProvider_rpc env ctx t a c w"
| "handle env s ctx (ListProviders_pb t a k c st p) w = ListProviders_rpc env ctx t a k c st p w"
| "handle env s ctx (PutTemplate_pb v e) w = PutTemplate_rpc env s ctx v e w"
| "handle env s ctx (GetTemplate_pb t a c ch l) w = GetTemplate_rpc env ctx t a c ch l w"
| "handle env s ctx (ListTemplates_pb t a k c st p) w = ListTemplates_rpc env ctx t a k c st p w"
| "handle env s ctx (Send_pb t a c ch l r k vs) w = Send_rpc env s ctx t a c ch l r k vs w"
| "handle env s ctx (RecordProviderReceipt_pb t a p m st r) w = RecordProviderReceipt_rpc env s ctx t a p m st r w"
| "handle env s ctx (GetDelivery_pb i t a) w = GetDelivery_rpc env ctx i t a w"
| "handle env s ctx (ListDeliveries_pb t a st p) w = ListDeliveries_rpc env ctx t a st p w"

fun rpc_of :: "rpc_request \<Rightarrow> rpc" where
  "rpc_of (PutProvider_pb _ _) = rpc_PutProvider"
| "rpc_of (GetProvider_pb _ _ _) = rpc_GetProvider"
| "rpc_of (ListProviders_pb _ _ _ _ _ _) = rpc_ListProviders"
| "rpc_of (PutTemplate_pb _ _) = rpc_PutTemplate"
| "rpc_of (GetTemplate_pb _ _ _ _ _) = rpc_GetTemplate"
| "rpc_of (ListTemplates_pb _ _ _ _ _ _) = rpc_ListTemplates"
| "rpc_of (Send_pb _ _ _ _ _ _ _ _) = rpc_Send"
| "rpc_of (RecordProviderReceipt_pb _ _ _ _ _ _) = rpc_RecordProviderReceipt"
| "rpc_of (GetDelivery_pb _ _ _) = rpc_GetDelivery"
| "rpc_of (ListDeliveries_pb _ _ _ _) = rpc_ListDeliveries"

section \<open>Access requirements\<close>

definition requirement :: "string \<Rightarrow> string \<Rightarrow> Scope \<Rightarrow> Requirement" where
  "requirement resource action scope = \<lparr>rq_Resource = resource, rq_Action = action, rq_Scope = scope\<rparr>"

definition notificationGRPCRequirement :: "(rpc \<Rightarrow> string) \<Rightarrow> bool \<Rightarrow> string \<Rightarrow> Requirement option" where
  "notificationGRPCRequirement full enabled method =
     (if \<not> enabled then None
      else
        map_of
          [(full rpc_PutProvider, requirement ''notification.provider'' ''update'' ScopePrincipal),
           (full rpc_GetProvider, requirement ''notification.provider'' ''read'' ScopePrincipal),
           (full rpc_ListProviders, requirement ''notification.provider'' ''list'' ScopePrincipal),
           (full rpc_PutTemplate, requirement ''notification.template'' ''update'' ScopePrincipal),
           (full rpc_GetTemplate, requirement ''notification.template'' ''read'' ScopePrincipal),
           (full rpc_ListTemplates, requirement ''notification.template'' ''list'' ScopePrincipal),
           (full rpc_Send, requirement ''notification.delivery'' ''send'' ScopePrincipal),
           (full rpc_RecordProviderReceipt, requirement ''notification.receipt'' ''record'' ScopePlatform),
           (full rpc_GetDelivery, requirement ''notification.delivery'' ''read'' ScopePrincipal),
           (full rpc_ListDeliveries, requirement ''notification.delivery'' ''list'' ScopePrincipal)]
          method)"

section \<open>Interceptors\<close>

text \<open>
  A call: its context, the incoming metadata (lower-case keys, each with its values) and the full
  method name. An interceptor takes the handler that it wraps.
\<close>

record call =
  call_Context :: Context
  call_Metadata :: "(string \<times> string list) list"
  call_FullMethod :: string

type_synonym 'r rpc_handler = "call \<Rightarrow> web \<Rightarrow> (rpc_status + 'r) \<times> web"
type_synonym 'r interceptor = "'r rpc_handler \<Rightarrow> 'r rpc_handler"

definition ValueFromIncomingContext :: "call \<Rightarrow> string \<Rightarrow> string list" where
  "ValueFromIncomingContext c k = (case map_of (call_Metadata c) k of None \<Rightarrow> [] | Some vs \<Rightarrow> vs)"

definition incoming_request_id :: "env \<Rightarrow> auth_env \<Rightarrow> call \<Rightarrow> web \<Rightarrow> string \<times> web" where
  "incoming_request_id env ae c w =
     (let values = ValueFromIncomingContext c ''x-request-id'';
          given = (if values \<noteq> [] \<and> Valid (hd values) then hd values else [])
      in if given = []
         then (case Generate env ae (web_world w) of (i, w1) \<Rightarrow> (i, w\<lparr>web_world := w1\<rparr>))
         else (given, w))"

definition requestIDInterceptor :: "env \<Rightarrow> auth_env \<Rightarrow> 'r interceptor" where
  "requestIDInterceptor env ae handler c w =
     (case incoming_request_id env ae c w of (i, w1) \<Rightarrow>
        handler (c\<lparr>call_Context := (call_Context c)\<lparr>ctx_RequestID := Some i\<rparr>\<rparr>)
          (w1\<lparr>web_rpc_headers := web_rpc_headers w1 @ [(''x-request-id'', i)]\<rparr>))"

definition idempotencyInterceptor :: "gate \<Rightarrow> 'r interceptor" where
  "idempotencyInterceptor g handler c w =
     (let values = ValueFromIncomingContext c ''idempotency-key'' in
      if values = [] then handler c w
      else if \<not> key_Valid g (hd values)
      then (Inl (rpc_status codes_InvalidArgument ''invalid idempotency-key''), w)
      else handler (c\<lparr>call_Context := (call_Context c)\<lparr>ctx_IdempotencyKey := Some (hd values)\<rparr>\<rparr>) w)"

definition environmentInterceptor :: "string \<Rightarrow> 'r interceptor" where
  "environmentInterceptor profile handler c w =
     handler (c\<lparr>call_Context := (call_Context c)\<lparr>ctx_Environment := Some profile\<rparr>\<rparr>) w"

definition authenticateGRPC ::
  "env \<Rightarrow> auth_env \<Rightarrow> AuthService \<Rightarrow> Auth_cfg \<Rightarrow> call \<Rightarrow> world \<Rightarrow> (rpc_status + Context) \<times> world" where
  "authenticateGRPC env ae service cfg c w =
     (let values = ValueFromIncomingContext c ''authorization''; ctx = call_Context c in
      if PSK_Enabled (Auth_PSK cfg) \<and> MatchesAny (call_FullMethod c) (PSK_GRPCMethods (Auth_PSK cfg)) then
        (if values = [] \<or> \<not> VerifyPSK (hd values) (PSK_Key (Auth_PSK cfg))
         then (Inl (rpc_status codes_Unauthenticated ''missing or invalid PSK''), w)
         else (Inr (ctx\<lparr>ctx_Principal := Some psk_principal\<rparr>), w))
      else if MatchesAny (call_FullMethod c) (Auth_SkipGRPCMethods cfg) then (Inr ctx, w)
      else if values = [] then (Inl (rpc_status codes_Unauthenticated ''missing bearer token''), w)
      else
        (case Cut (hd values) CHR '' '' of (scheme, raw, ok) \<Rightarrow>
           if \<not> ok \<or> \<not> EqualFold scheme ''Bearer''
           then (Inl (rpc_status codes_Unauthenticated ''invalid bearer token''), w)
           else
             (case Verify_token env ae service raw w of
                (Inl e, w1) \<Rightarrow> (Inl (rpc_status codes_Unauthenticated ''invalid or expired token''), w1)
              | (Inr caller, w1) \<Rightarrow> (Inr (ctx\<lparr>ctx_Principal := Some caller\<rparr>), w1))))"

definition authInterceptor :: "env \<Rightarrow> auth_env \<Rightarrow> AuthService \<Rightarrow> Auth_cfg \<Rightarrow> 'r interceptor" where
  "authInterceptor env ae service cfg handler c w =
     (case authenticateGRPC env ae service cfg c (web_world w) of
        (Inl e, w1) \<Rightarrow> (Inl e, w\<lparr>web_world := w1\<rparr>)
      | (Inr ctx, w1) \<Rightarrow> handler (c\<lparr>call_Context := ctx\<rparr>) (w\<lparr>web_world := w1\<rparr>))"

text \<open>A handler that panics; what follows the call is skipped until the panic is recovered.\<close>

fun panics :: "rpc_status + 'r \<Rightarrow> bool" where
  "panics (Inl (Panicking _)) = True"
| "panics _ = False"

definition recoveryInterceptor :: "'r interceptor" where
  "recoveryInterceptor handler c w =
     (case handler c w of
        (Inl (Panicking recovered), w1) \<Rightarrow> (Inl (rpc_status codes_Internal ''internal server error''), w1)
      | (r, w1) \<Rightarrow> (r, w1))"

definition metricsInterceptor :: "bool \<Rightarrow> 'r interceptor" where
  "metricsInterceptor enabled handler c w =
     (case handler c w of (r, w1) \<Rightarrow>
        (let result_code = (case r of Inl e \<Rightarrow> status_code e | Inr _ \<Rightarrow> codes_OK) in
         if enabled \<and> \<not> panics r
         then (r, w1\<lparr>web_rpc_requests := web_rpc_requests w1 @ [(call_FullMethod c, result_code)],
                     web_rpc_durations := web_rpc_durations w1 @ [call_FullMethod c]\<rparr>)
         else (r, w1)))"

text \<open>
  The interceptors of streams. A stream is handled with the context of the wrapped stream, which
  \<open>contextServerStream\<close> replaces.
\<close>

definition environmentStreamInterceptor :: "string \<Rightarrow> 'r interceptor" where
  "environmentStreamInterceptor profile handler c w =
     handler (c\<lparr>call_Context := (call_Context c)\<lparr>ctx_Environment := Some profile\<rparr>\<rparr>) w"

definition idempotencyStreamInterceptor :: "gate \<Rightarrow> 'r interceptor" where
  "idempotencyStreamInterceptor g handler c w =
     (let values = ValueFromIncomingContext c ''idempotency-key'' in
      if values = [] then handler c w
      else if \<not> key_Valid g (hd values)
      then (Inl (rpc_status codes_InvalidArgument ''invalid idempotency-key''), w)
      else handler (c\<lparr>call_Context := (call_Context c)\<lparr>ctx_IdempotencyKey := Some (hd values)\<rparr>\<rparr>) w)"

definition authStreamInterceptor :: "env \<Rightarrow> auth_env \<Rightarrow> AuthService \<Rightarrow> Auth_cfg \<Rightarrow> 'r interceptor" where
  "authStreamInterceptor env ae service cfg handler c w =
     (case authenticateGRPC env ae service cfg c (web_world w) of
        (Inl e, w1) \<Rightarrow> (Inl e, w\<lparr>web_world := w1\<rparr>)
      | (Inr ctx, w1) \<Rightarrow> handler (c\<lparr>call_Context := ctx\<rparr>) (w\<lparr>web_world := w1\<rparr>))"

definition recoveryStreamInterceptor :: "'r interceptor" where
  "recoveryStreamInterceptor handler c w =
     (case handler c w of
        (Inl (Panicking recovered), w1) \<Rightarrow> (Inl (rpc_status codes_Internal ''internal server error''), w1)
      | (r, w1) \<Rightarrow> (r, w1))"

definition metricsStreamInterceptor :: "bool \<Rightarrow> 'r interceptor" where
  "metricsStreamInterceptor enabled handler c w =
     (case handler c w of (r, w1) \<Rightarrow>
        (let result_code = (case r of Inl e \<Rightarrow> status_code e | Inr _ \<Rightarrow> codes_OK) in
         if enabled \<and> \<not> panics r
         then (r, w1\<lparr>web_rpc_requests := web_rpc_requests w1 @ [(call_FullMethod c, result_code)],
                     web_rpc_durations := web_rpc_durations w1 @ [call_FullMethod c]\<rparr>)
         else (r, w1)))"

definition requestIDStreamInterceptor :: "env \<Rightarrow> auth_env \<Rightarrow> gate \<Rightarrow> 'r interceptor" where
  "requestIDStreamInterceptor env ae g handler c w =
     (case incoming_request_id env ae c w of (i, w1) \<Rightarrow>
        (case SetHeader_error g (length (web_rpc_headers w1)) of
           Some m \<Rightarrow> (Inl (rpc_status codes_Internal ''set request metadata''), w1)
         | None \<Rightarrow>
             handler (c\<lparr>call_Context := (call_Context c)\<lparr>ctx_RequestID := Some i\<rparr>\<rparr>)
               (w1\<lparr>web_rpc_headers := web_rpc_headers w1 @ [(''x-request-id'', i)]\<rparr>)))"

text \<open>
  The chains of \<open>NewServer\<close>. \<open>authz\<close> and \<open>idem\<close> stand for
  \<open>platformauthz.UnaryServerInterceptor\<close> and \<open>platformidempotency.UnaryServerInterceptor\<close>.
\<close>

definition unary_chain ::
  "env \<Rightarrow> auth_env \<Rightarrow> gate \<Rightarrow> ((string \<Rightarrow> Requirement option) \<Rightarrow> 'r interceptor)
   \<Rightarrow> (string list \<Rightarrow> 'r interceptor) \<Rightarrow> (rpc \<Rightarrow> string) \<Rightarrow> Server \<Rightarrow> 'r interceptor" where
  "unary_chain env ae g authz idem full srv handler =
     environmentInterceptor (Runtime_ActiveProfile (c_Runtime (srv_cfg srv)))
       (requestIDInterceptor env ae
         (idempotencyInterceptor g
           (recoveryInterceptor
             (authInterceptor env ae (srv_auth srv) (c_Auth (srv_cfg srv))
               (authz (notificationGRPCRequirement full (Authorization_Enabled (c_Authorization (srv_cfg srv))))
                 (idem (Idempotency_GRPCMethods (c_Idempotency (srv_cfg srv)))
                   (metricsInterceptor (metrics_enabled srv) handler)))))))"

definition stream_chain :: "env \<Rightarrow> auth_env \<Rightarrow> gate \<Rightarrow> Server \<Rightarrow> 'r interceptor" where
  "stream_chain env ae g srv handler =
     environmentStreamInterceptor (Runtime_ActiveProfile (c_Runtime (srv_cfg srv)))
       (requestIDStreamInterceptor env ae g
         (idempotencyStreamInterceptor g
           (recoveryStreamInterceptor
             (authStreamInterceptor env ae (srv_auth srv) (c_Auth (srv_cfg srv))
               (metricsStreamInterceptor (metrics_enabled srv) handler)))))"

text \<open>A unary call of the notification service.\<close>

definition ServeRPC ::
  "env \<Rightarrow> auth_env \<Rightarrow> gate \<Rightarrow> ((string \<Rightarrow> Requirement option) \<Rightarrow> rpc_response interceptor)
   \<Rightarrow> (string list \<Rightarrow> rpc_response interceptor) \<Rightarrow> (rpc \<Rightarrow> string) \<Rightarrow> Server \<Rightarrow> rpc_request
   \<Rightarrow> rpc_response rpc_handler" where
  "ServeRPC env ae g authz idem full srv request =
     unary_chain env ae g authz idem full srv
       (\<lambda>c w. case handle env (h_notifications (srv_handler srv)) (call_Context c) request (web_world w) of
                (r, w1) \<Rightarrow> (r, w\<lparr>web_world := w1\<rparr>))"

section \<open>Health and credentials\<close>

datatype serving = SERVING | NOT_SERVING

definition health_Check :: "env \<Rightarrow> gate \<Rightarrow> HealthService \<Rightarrow> web \<Rightarrow> serving \<times> web" where
  "health_Check env g s w =
     (case Ready env g s w of ((_, ready), w1) \<Rightarrow> (if ready then SERVING else NOT_SERVING, w1))"

definition health_List :: "(string \<times> serving) list" where
  "health_List = [([], SERVING)]"

record TLSConfig =
  tls_MinVersion :: string
  tls_Certificate :: string
  tls_ClientCAs :: "string option"
  tls_RequireClientCert :: bool

text \<open>Loading the key pair, reading a file and parsing certificates are arguments.\<close>

definition serverCredentials ::
  "(string \<Rightarrow> string \<Rightarrow> string + string) \<Rightarrow> (string \<Rightarrow> string + string) \<Rightarrow> (string \<Rightarrow> bool) \<Rightarrow> GRPCTLS_cfg
   \<Rightarrow> TLSConfig result" where
  "serverCredentials load_pair read_file parse_pem cfg =
     (case load_pair (GRPCTLS_CertFile cfg) (GRPCTLS_KeyFile cfg) of
        Inl m \<Rightarrow> Inl (Errorf (''load grpc certificate: '' @ m))
      | Inr certificate \<Rightarrow>
          (let base = \<lparr>tls_MinVersion = ''TLS12'', tls_Certificate = certificate, tls_ClientCAs = None,
                       tls_RequireClientCert = False\<rparr>
           in if GRPCTLS_ClientCAFile cfg = [] then Inr base
              else
                (case read_file (GRPCTLS_ClientCAFile cfg) of
                   Inl m \<Rightarrow> Inl (Errorf (''read grpc client CA: '' @ m))
                 | Inr pem \<Rightarrow>
                     (if \<not> parse_pem pem then Inl (Errorf ''parse grpc client CA'')
                      else Inr (base\<lparr>tls_ClientCAs := Some pem, tls_RequireClientCert := True\<rparr>)))))"

end
