(* ===== verification/ConfigLoad.thy ===== *)
theory ConfigLoad
  imports Config PathMatch Apperror
begin

text \<open>
  Loading and validating the configuration (\<open>internal/config/config.go\<close>). The store of viper is
  an abstract type \<open>'v\<close> with the operations that the source uses in the record \<open>viper\<close>;
  \<open>setDefaults\<close> is the sequence of \<open>SetDefault\<close> calls. \<open>Validate\<close> is the list of
  checks in the order of the source; the first one that fails gives the error. Go iterates over
  maps in no particular order; here it is the order of the association list.
\<close>

section \<open>Validation\<close>

definition lower_or_digit :: "char \<Rightarrow> bool" where
  "lower_or_digit c \<longleftrightarrow> c \<in> set lower_letters \<or> c \<in> set digits"

text \<open>\<open>^[a-z0-9][a-z0-9_-]*$\<close> and \<open>^[a-z][a-z0-9_]{0,62}$\<close>.\<close>

definition validProfile :: "string \<Rightarrow> bool" where
  "validProfile s =
     (case s of [] \<Rightarrow> False
      | c # cs \<Rightarrow> lower_or_digit c \<and> list_all (\<lambda>x. lower_or_digit x \<or> x = CHR ''_'' \<or> x = CHR ''-'') cs)"

definition validMigrationTable :: "string \<Rightarrow> bool" where
  "validMigrationTable s =
     (case s of [] \<Rightarrow> False
      | c # cs \<Rightarrow> c \<in> set lower_letters \<and> length cs \<le> 62 \<and>
                   list_all (\<lambda>x. lower_or_digit x \<or> x = CHR ''_'') cs)"

definition isDBType :: "string \<Rightarrow> bool" where
  "isDBType v \<longleftrightarrow> v = ''mysql'' \<or> v = ''postgres'' \<or> v = ''kingbase''"

text \<open>A check is a condition under which \<open>Validate\<close> returns the error.\<close>

type_synonym check = "go_error option"

definition fails_if :: "bool \<Rightarrow> string \<Rightarrow> check" where
  "fails_if condition message = (if condition then Some (Errorf message) else None)"

fun first_error :: "check list \<Rightarrow> check" where
  "first_error [] = None"
| "first_error (None # cs) = first_error cs"
| "first_error (Some e # cs) = Some e"

text \<open>The loops over route patterns: HTTP paths under \<open>/api/\<close>, gRPC methods with two slashes.\<close>

fun check_paths :: "string \<Rightarrow> string list \<Rightarrow> check" where
  "check_paths name [] = None"
| "check_paths name (pattern # rest) =
     (if \<not> HasPrefix pattern ''/api/''
      then Some (Errorf (name @ '' contains path outside /api '' @ quoted pattern))
      else if Match pattern ''/validation/target'' = None
      then Some (Errorf (name @ '' contains invalid pattern '' @ quoted pattern @ '': syntax error in pattern''))
      else check_paths name rest)"

fun check_methods :: "string \<Rightarrow> string list \<Rightarrow> check" where
  "check_methods name [] = None"
| "check_methods name (pattern # rest) =
     (if \<not> HasPrefix pattern ''/'' \<or> Count pattern CHR ''/'' \<noteq> 2
      then Some (Errorf (name @ '' contains invalid method pattern '' @ quoted pattern))
      else if Match pattern ''/validation/target'' = None
      then Some (Errorf (name @ '' contains invalid pattern '' @ quoted pattern @ '': syntax error in pattern''))
      else check_methods name rest)"

definition positive_rule :: "RateLimitRule_cfg \<Rightarrow> bool" where
  "positive_rule rule \<longleftrightarrow>
     \<not> (RateLimitRule_Rate rule \<le> 0 \<or> RateLimitRule_Burst rule \<le> 0 \<or> RateLimitRule_Period rule \<le> 0)"

fun check_rules :: "(string \<times> RateLimitRule_cfg) list \<Rightarrow> check" where
  "check_rules [] = None"
| "check_rules ((name, rule) # rest) =
     (if \<not> positive_rule rule then Some (Errorf (name @ '' values must be positive'')) else check_rules rest)"

fun check_retry_methods :: "string \<Rightarrow> string list \<Rightarrow> check" where
  "check_retry_methods name [] = None"
| "check_retry_methods name (pattern # rest) =
     (if \<not> HasPrefix pattern ''/'' \<or> Count pattern CHR ''/'' \<noteq> 2
      then Some (Errorf (''outbound '' @ name @ '' retry method pattern is invalid''))
      else if Match pattern ''/validation/target'' = None
      then Some (Errorf (''outbound '' @ name @ '' retry method pattern is invalid: syntax error in pattern''))
      else check_retry_methods name rest)"

definition validateClientPolicy ::
  "string \<Rightarrow> ClientAuth_cfg \<Rightarrow> Retry_cfg \<Rightarrow> Breaker_cfg \<Rightarrow> ClientTLS_cfg \<Rightarrow> check" where
  "validateClientPolicy name auth retry breaker tls =
     first_error
       [fails_if (ClientAuth_Type auth \<noteq> [] \<and> ClientAuth_Type auth \<noteq> ''bearer'' \<and> ClientAuth_Type auth \<noteq> ''psk'')
          (''outbound '' @ name @ '' auth.type must be bearer or psk''),
        fails_if (ClientAuth_Type auth \<noteq> [] \<and> ClientAuth_Token auth = [])
          (''outbound '' @ name @ '' auth.token is required''),
        fails_if (ClientAuth_Type auth \<noteq> [] \<and> \<not> ClientTLS_Enabled tls)
          (''outbound '' @ name @ '' credentials require TLS''),
        fails_if (Retry_MaxAttempts retry < 1 \<or> Retry_MaxAttempts retry > 5 \<or> Retry_InitialBackoff retry \<le> 0 \<or>
                  Retry_MaxBackoff retry < Retry_InitialBackoff retry)
          (''outbound '' @ name @ '' retry policy is invalid''),
        check_retry_methods name (Retry_Methods retry),
        fails_if (Breaker_Enabled breaker \<and> (Breaker_FailureThreshold breaker = 0 \<or> Breaker_OpenTimeout breaker \<le> 0))
          (''outbound '' @ name @ '' breaker policy is invalid''),
        fails_if (ClientTLS_Enabled tls \<and> (ClientTLS_CertFile tls = []) \<noteq> (ClientTLS_KeyFile tls = []))
          (''outbound '' @ name @ '' TLS certificate and key must be configured together'')]"

fun check_http_upstreams :: "(string \<times> HTTPUpstream_cfg) list \<Rightarrow> check" where
  "check_http_upstreams [] = None"
| "check_http_upstreams ((name, upstream) # rest) =
     (if HTTPUpstream_BaseURL upstream = [] \<or> HTTPUpstream_Timeout upstream \<le> 0
      then Some (Errorf (''outbound.http.'' @ name @ '' requires base_url and positive timeout''))
      else
        (case validateClientPolicy name (HTTPUpstream_Auth upstream) (HTTPUpstream_Retry upstream)
                (HTTPUpstream_Breaker upstream) (HTTPUpstream_TLS upstream) of
           Some e \<Rightarrow> Some e
         | None \<Rightarrow> check_http_upstreams rest))"

fun check_grpc_upstreams :: "(string \<times> GRPCUpstream_cfg) list \<Rightarrow> check" where
  "check_grpc_upstreams [] = None"
| "check_grpc_upstreams ((name, upstream) # rest) =
     (if GRPCUpstream_Target upstream = [] \<or> GRPCUpstream_Timeout upstream \<le> 0
      then Some (Errorf (''outbound.grpc.'' @ name @ '' requires target and positive timeout''))
      else
        (case validateClientPolicy name (GRPCUpstream_Auth upstream) (GRPCUpstream_Retry upstream)
                (GRPCUpstream_Breaker upstream) (GRPCUpstream_TLS upstream) of
           Some e \<Rightarrow> Some e
         | None \<Rightarrow> check_grpc_upstreams rest))"

text \<open>Comparisons of a \<open>float64\<close>: every comparison with NaN is false.\<close>

fun float_less_0 :: "float64 \<Rightarrow> bool" where
  "float_less_0 (Float q) = (q < 0)"
| "float_less_0 NegInf = True"
| "float_less_0 _ = False"

fun float_greater_1 :: "float64 \<Rightarrow> bool" where
  "float_greater_1 (Float q) = (1 < q)"
| "float_greater_1 PosInf = True"
| "float_greater_1 _ = False"

definition production :: "Config \<Rightarrow> bool" where
  "production c \<longleftrightarrow> App_Env (c_App c) = ''production''"

text \<open>The checks of \<open>Validate\<close> on the server, the database and the limits.\<close>

definition server_checks :: "Config \<Rightarrow> check list" where
  "server_checks c =
     [fails_if (\<not> validMigrationTable (Database_Name (c_Database c)))
        ''database.name must contain lowercase letters, digits, or underscores and be at most 63 characters'',
      fails_if (Database_Schema (c_Database c) \<noteq> [] \<and> \<not> validMigrationTable (Database_Schema (c_Database c)))
        ''database.schema must contain lowercase letters, digits, or underscores and be at most 63 characters'',
      fails_if (HTTP_Address (c_HTTP c) = []) ''http.address is required'',
      fails_if (GRPC_Enabled (c_GRPC c) \<and> (GRPC_Address (c_GRPC c) = [] \<or> GRPC_MaxReceiveBytes (c_GRPC c) \<le> 0))
        ''enabled grpc requires address and positive max_receive_bytes'',
      fails_if (GRPCTLS_Enabled (GRPC_TLS (c_GRPC c)) \<and>
                (GRPCTLS_CertFile (GRPC_TLS (c_GRPC c)) = [] \<or> GRPCTLS_KeyFile (GRPC_TLS (c_GRPC c)) = []))
        ''grpc tls requires cert_file and key_file'',
      fails_if (production c \<and> GRPC_Enabled (c_GRPC c) \<and> \<not> GRPCTLS_Enabled (GRPC_TLS (c_GRPC c)))
        ''grpc tls must be enabled in production'',
      fails_if (production c \<and> GRPC_ReflectionEnabled (c_GRPC c))
        ''grpc reflection must be disabled in production'',
      fails_if (Database_Enabled (c_Database c) \<and>
                (Database_DSN (c_Database c) = [] \<or> \<not> isDBType (Database_Type (c_Database c))))
        ''enabled database requires dsn and type mysql, postgres, or kingbase'',
      fails_if (Database_Enabled (c_Database c) \<and> map_of (Outbound_GRPC (c_Outbound c)) ''application'' = None)
        ''enabled database requires outbound.grpc.application'',
      fails_if (Migration_AutoUp (c_Migration c) \<and>
                (\<not> Database_Enabled (c_Database c) \<or> Migration_Path (c_Migration c) = [] \<or>
                 Migration_DatabaseURL (c_Migration c) = [] \<or> \<not> validMigrationTable (Migration_Table (c_Migration c))))
        ''migration.auto_up requires enabled database, path, database_url, and a valid service-specific table'',
      fails_if (Redis_Enabled (c_Redis c) \<and> Redis_Address (c_Redis c) = [])
        ''enabled redis requires address'',
      fails_if (HTTP_RequestTimeout (c_HTTP c) \<le> 0 \<or> Health_DatabaseTimeout (c_Health c) \<le> 0 \<or>
                Health_RedisTimeout (c_Health c) \<le> 0)
        ''http and health timeouts must be positive'',
      fails_if (RateLimit_Enabled (c_RateLimit c) \<and> \<not> Redis_Enabled (c_Redis c))
        ''rate_limit requires redis.enabled'',
      (if RateLimit_Enabled (c_RateLimit c)
       then check_rules [(''rate_limit.ip'', RateLimit_IP (c_RateLimit c)), (''rate_limit.api'', RateLimit_API (c_RateLimit c)),
              (''rate_limit.user'', RateLimit_User (c_RateLimit c)), (''rate_limit.login'', RateLimit_Login (c_RateLimit c))]
       else None),
      (if RateLimit_Enabled (c_RateLimit c)
       then check_rules [(''notification.tenant_limit'', Notification_TenantLimit (c_Notification c)),
              (''notification.template_limit'', Notification_TemplateLimit (c_Notification c)),
              (''notification.recipient_limit'', Notification_RecipientLimit (c_Notification c))]
       else None),
      fails_if (CORS_Enabled (HTTP_CORS (c_HTTP c)) \<and> CORS_AllowedOrigins (HTTP_CORS (c_HTTP c)) = [])
        ''cors.allowed_origins is required when cors is enabled'']"

text \<open>The checks on observability and access.\<close>

definition access_checks :: "Config \<Rightarrow> check list" where
  "access_checks c =
     [fails_if (float_less_0 (Observability_TracingSampleRatio (c_Observability c)) \<or>
                float_greater_1 (Observability_TracingSampleRatio (c_Observability c)))
        ''observability.tracing_sample_ratio must be between 0 and 1'',
      fails_if (Observability_TracingEnabled (c_Observability c) \<and> Observability_TracingEndpoint (c_Observability c) = [])
        ''observability.tracing_endpoint is required'',
      fails_if (Observability_PprofEnabled (c_Observability c) \<and> length (Observability_PprofToken (c_Observability c)) < 32)
        ''observability.pprof_token must contain at least 32 bytes'',
      fails_if (production c \<and> Swagger_Enabled (c_Swagger c) \<and> \<not> Swagger_RequireAuth (c_Swagger c))
        ''swagger.require_auth must be enabled in production'',
      fails_if (production c \<and>
                (Auth_JWKSURL (c_Auth c) = [] \<or> Auth_Issuer (c_Auth c) = [] \<or> Auth_Audience (c_Auth c) = []))
        ''production auth requires jwks_url, issuer, and audience'',
      fails_if (production c \<and> \<not> Authorization_Enabled (c_Authorization c))
        ''authorization must be enabled in production'',
      fails_if (Authorization_Enabled (c_Authorization c) \<and> map_of (Outbound_GRPC (c_Outbound c)) ''authorization'' = None)
        ''enabled authorization requires outbound.grpc.authorization'',
      fails_if ((Auth_ClientID (c_Auth c) \<noteq> [] \<or> Auth_ClientSecret (c_Auth c) \<noteq> []) \<and> length (JWT_Secret (c_JWT c)) < 32)
        ''jwt.secret must contain at least 32 bytes when auth is enabled'',
      check_paths ''auth.skip_http_paths'' (Auth_SkipHTTPPaths (c_Auth c)),
      check_methods ''auth.skip_grpc_methods'' (Auth_SkipGRPCMethods (c_Auth c)),
      fails_if (PSK_Enabled (Auth_PSK (c_Auth c)) \<and>
                (length (PSK_Key (Auth_PSK (c_Auth c))) < 32 \<or>
                 length (PSK_HTTPPaths (Auth_PSK (c_Auth c))) + length (PSK_GRPCMethods (Auth_PSK (c_Auth c))) = 0))
        ''enabled auth.psk requires a key of at least 32 bytes and at least one route pattern'',
      check_paths ''auth.psk.http_paths'' (PSK_HTTPPaths (Auth_PSK (c_Auth c))),
      check_methods ''auth.psk.grpc_methods'' (PSK_GRPCMethods (Auth_PSK (c_Auth c)))]"

text \<open>The checks on caches, idempotency, the event bus, the workers and the upstreams.\<close>

definition event_bus_invalid :: "EventBus_cfg \<Rightarrow> bool" where
  "event_bus_invalid e \<longleftrightarrow>
     EventBus_URLs e = [] \<or> EventBus_StreamName e = [] \<or> EventBus_Subjects e = [] \<or>
     (EventBus_Storage e \<noteq> ''file'' \<and> EventBus_Storage e \<noteq> ''memory'') \<or> EventBus_MaxAge e \<le> 0 \<or>
     EventBus_DuplicateWindow e \<le> 0 \<or> EventBus_ConnectTimeout e \<le> 0 \<or> EventBus_ReconnectWait e \<le> 0 \<or>
     EventBus_PublishTimeout e \<le> 0 \<or> EventBus_ConsumerAckWait e \<le> 0 \<or> EventBus_ConsumerMaxDeliver e \<le> 0 \<or>
     EventBus_DispatchInterval e \<le> 0 \<or> EventBus_DispatchBatchSize e \<le> 0 \<or> EventBus_DispatchLease e \<le> 0 \<or>
     EventBus_DispatchRetryDelay e \<le> 0 \<or> EventBus_PublishedRetention e < EventBus_MaxAge e \<or>
     EventBus_CleanupInterval e \<le> 0 \<or> EventBus_CleanupBatchSize e \<le> 0"

definition worker_checks :: "Config \<Rightarrow> check list" where
  "worker_checks c =
     [fails_if (User_CacheTTL (c_User c) \<le> 0 \<or> User_LockTTL (c_User c) \<le> 0 \<or> User_LockRetryDelay (c_User c) \<le> 0)
        ''user cache and lock durations must be positive'',
      fails_if (Idempotency_Enabled (c_Idempotency c) \<and>
                (\<not> Redis_Enabled (c_Redis c) \<or>
                 length (Idempotency_HTTPPaths (c_Idempotency c)) + length (Idempotency_GRPCMethods (c_Idempotency c)) = 0 \<or>
                 Idempotency_ProcessingTTL (c_Idempotency c) \<le> 0 \<or> Idempotency_ResultTTL (c_Idempotency c) \<le> 0 \<or>
                 Idempotency_FailureTTL (c_Idempotency c) \<le> 0))
        ''enabled idempotency requires redis, at least one route pattern, and positive TTL values'',
      check_paths ''idempotency.http_paths'' (Idempotency_HTTPPaths (c_Idempotency c)),
      check_methods ''idempotency.grpc_methods'' (Idempotency_GRPCMethods (c_Idempotency c)),
      fails_if (EventBus_Enabled (c_EventBus c) \<and> event_bus_invalid (c_EventBus c))
        ''enabled event_bus requires stream settings, positive delivery/dispatch/cleanup settings, and published retention at least max_age'',
      fails_if (Notification_DispatchInterval (c_Notification c) \<le> 0 \<or> Notification_BatchSize (c_Notification c) \<le> 0 \<or>
                Notification_MaxAttempts (c_Notification c) \<le> 0 \<or> Notification_RetryBase (c_Notification c) \<le> 0)
        ''notification worker values must be positive'',
      fails_if (Notification_Retention (c_Notification c) \<le> 0 \<or> Notification_CleanupInterval (c_Notification c) \<le> 0 \<or>
                Notification_CleanupBatchSize (c_Notification c) \<le> 0)
        ''notification retention values must be positive'',
      check_http_upstreams (Outbound_HTTP (c_Outbound c)),
      check_grpc_upstreams (Outbound_GRPC (c_Outbound c))]"

definition Validate :: "Config \<Rightarrow> go_error option" where
  "Validate c = first_error (server_checks c @ access_checks c @ worker_checks c)"

section \<open>Loading\<close>

text \<open>The values of the \<open>SetDefault\<close> calls.\<close>

datatype setting =
    SString string | SInt int | SBool bool | SFloat float64 | SStrings "string list" | SEmptyMap

definition rate_limit_defaults :: "string \<Rightarrow> int \<Rightarrow> int \<Rightarrow> (string \<times> setting) list" where
  "rate_limit_defaults key rate burst =
     [(key @ ''.rate'', SInt rate), (key @ ''.burst'', SInt burst), (key @ ''.period'', SString ''1m'')]"

text \<open>
  The calls of \<open>setDefaults\<close> in order. The constant 0.1 is the \<open>float64\<close> nearest to
  one tenth; it is only compared with 0 and 1.
\<close>

definition default_settings :: "(string \<times> setting) list" where
  "default_settings =
     [(''app.name'', SString ''notification-service''), (''app.env'', SString ''development''),
      (''app.shutdown_timeout'', SString ''10s''), (''http.address'', SString ''127.0.0.1:8080''),
      (''http.read_timeout'', SString ''10s''), (''http.write_timeout'', SString ''15s''),
      (''http.idle_timeout'', SString ''60s''), (''http.request_timeout'', SString ''10s''),
      (''http.max_body_bytes'', SInt (1 * 2 ^ 20)), (''http.trusted_proxies'', SStrings []),
      (''http.cors.enabled'', SBool False), (''http.cors.allowed_origins'', SStrings []),
      (''http.cors.allowed_headers'', SStrings [''Authorization'', ''Content-Type'', ''X-Request-ID'']),
      (''http.cors.exposed_headers'', SStrings [''X-Request-ID'', ''X-RateLimit-Limit'', ''X-RateLimit-Remaining'', ''Retry-After'']),
      (''http.cors.max_age'', SString ''12h''), (''grpc.enabled'', SBool True),
      (''grpc.address'', SString ''127.0.0.1:9090''), (''grpc.reflection_enabled'', SBool True),
      (''grpc.max_receive_bytes'', SInt (16 * 2 ^ 20)), (''grpc.tls.enabled'', SBool False),
      (''grpc.tls.cert_file'', SString []), (''grpc.tls.key_file'', SString []),
      (''grpc.tls.client_ca_file'', SString []), (''log.level'', SString ''info''),
      (''log.format'', SString ''json''), (''log.file'', SString ''logs/app.log''),
      (''log.max_size_mb'', SInt 100), (''log.max_backups'', SInt 10),
      (''log.max_age_days'', SInt 30), (''log.compress'', SBool True),
      (''database.ping_timeout'', SString ''5s''), (''database.max_open_conns'', SInt 25),
      (''database.max_idle_conns'', SInt 10), (''database.conn_max_lifetime'', SString ''5m''),
      (''database.conn_max_idle_time'', SString ''1m''), (''database.enabled'', SBool False),
      (''database.name'', SString ''platform''), (''database.schema'', SString ''notification''),
      (''database.type'', SString ''postgres''), (''database.dsn'', SString []),
      (''redis.address'', SString ''127.0.0.1:6379''), (''redis.dial_timeout'', SString ''5s''),
      (''redis.read_timeout'', SString ''3s''), (''redis.write_timeout'', SString ''3s''),
      (''redis.enabled'', SBool False), (''redis.username'', SString []),
      (''redis.password'', SString []), (''redis.db'', SInt 0),
      (''health.database_timeout'', SString ''2s''), (''health.redis_timeout'', SString ''2s''),
      (''rate_limit.enabled'', SBool False), (''rate_limit.fail_open'', SBool False)] @
     rate_limit_defaults ''rate_limit.ip'' 120 30 @
     rate_limit_defaults ''rate_limit.api'' 10000 1000 @
     rate_limit_defaults ''rate_limit.user'' 600 100 @
     rate_limit_defaults ''rate_limit.login'' 10 3 @
     [(''observability.metrics_enabled'', SBool True),
      (''observability.tracing_enabled'', SBool False),
      (''observability.tracing_endpoint'', SString ''http://127.0.0.1:4318''),
      (''observability.tracing_sample_ratio'', SFloat (Float (1 / 10))),
      (''observability.pprof_enabled'', SBool False), (''observability.pprof_token'', SString []),
      (''swagger.enabled'', SBool True), (''swagger.require_auth'', SBool False),
      (''jwt.issuer'', SString ''notification-service''), (''jwt.secret'', SString []),
      (''jwt.ttl'', SString ''2h''), (''auth.client_id'', SString []),
      (''auth.jwks_url'', SString []), (''auth.issuer'', SString ''identity-service''),
      (''auth.audience'', SString ''notification-service''), (''auth.client_secret'', SString []),
      (''auth.skip_http_paths'', SStrings [''/api/v1/version'']),
      (''auth.skip_grpc_methods'', SStrings [''/grpc.health.v1.Health/*'']),
      (''auth.psk.enabled'', SBool False), (''auth.psk.key'', SString []),
      (''auth.psk.http_paths'', SStrings []), (''auth.psk.grpc_methods'', SStrings []),
      (''authorization.enabled'', SBool False), (''cron.enabled'', SBool True),
      (''cron.timezone'', SString ''Asia/Shanghai''),
      (''cron.sample_spec'', SString ''0 */5 * * * *''),
      (''migration.path'', SString ''migrations/postgres''),
      (''migration.database_url'', SString []), (''migration.auto_up'', SBool False),
      (''migration.create_schema'', SBool False),
      (''migration.table'', SString ''notification_schema_migrations''),
      (''user.cache_ttl'', SString ''5m''), (''user.lock_ttl'', SString ''10s''),
      (''user.lock_retry_delay'', SString ''100ms''), (''idempotency.enabled'', SBool False),
      (''idempotency.processing_ttl'', SString ''30s''),
      (''idempotency.result_ttl'', SString ''24h''), (''idempotency.failure_ttl'', SString ''5m''),
      (''event_bus.enabled'', SBool False),
      (''event_bus.urls'', SStrings [''nats://127.0.0.1:4222'']),
      (''event_bus.stream_name'', SString ''PLATFORM_EVENTS''),
      (''event_bus.subjects'', SStrings [''platform.>'']),
      (''event_bus.storage'', SString ''file''), (''event_bus.max_age'', SString ''168h''),
      (''event_bus.duplicate_window'', SString ''10m''),
      (''event_bus.connect_timeout'', SString ''5s''),
      (''event_bus.reconnect_wait'', SString ''1s''),
      (''event_bus.publish_timeout'', SString ''5s''),
      (''event_bus.consumer_ack_wait'', SString ''30s''),
      (''event_bus.consumer_max_deliver'', SInt 10),
      (''event_bus.dispatch_interval'', SString ''1s''),
      (''event_bus.dispatch_batch_size'', SInt 100),
      (''event_bus.dispatch_lease'', SString ''30s''),
      (''event_bus.dispatch_retry_delay'', SString ''5s''),
      (''event_bus.published_retention'', SString ''168h''),
      (''event_bus.cleanup_interval'', SString ''1h''),
      (''event_bus.cleanup_batch_size'', SInt 1000),
      (''notification.dispatch_interval'', SString ''1s''),
      (''notification.batch_size'', SInt 100), (''notification.max_attempts'', SInt 8),
      (''notification.retry_base'', SString ''5s''),
      (''notification.retention'', SString ''720h''),
      (''notification.cleanup_interval'', SString ''1h''),
      (''notification.cleanup_batch_size'', SInt 500)] @
     rate_limit_defaults ''notification.tenant_limit'' 1000 100 @
     rate_limit_defaults ''notification.template_limit'' 300 50 @
     rate_limit_defaults ''notification.recipient_limit'' 10 3 @
     [(''outbound.http'', SEmptyMap), (''outbound.grpc'', SEmptyMap)]"

definition setDefaults :: "(string \<Rightarrow> setting \<Rightarrow> 'v \<Rightarrow> 'v) \<Rightarrow> 'v \<Rightarrow> 'v" where
  "setDefaults set_default v = fold (\<lambda>(k, x). set_default k x) default_settings v"

text \<open>The decode hook for lists of strings.\<close>

definition string_slice :: "string \<Rightarrow> string list" where
  "string_slice data =
     (let raw0 = TrimSpace data;
          raw = (if HasPrefix raw0 ''['' \<and> HasSuffix raw0 '']''
                 then TrimSpace (butlast (tl raw0)) else raw0)
      in if raw = [] then []
         else map (\<lambda>part. Trim (TrimSpace part) [CHR 0x22, CHR 0x27]) (Split raw CHR '',''))"

text \<open>\<open>filepath.Ext\<close>: from the last dot of the last path element.\<close>

definition Ext :: "string \<Rightarrow> string" where
  "Ext path =
     (let base = rev (takeWhile (\<lambda>c. c \<noteq> CHR ''/'') (rev path)) in
      if CHR ''.'' \<notin> set base then []
      else CHR ''.'' # rev (takeWhile (\<lambda>c. c \<noteq> CHR ''.'') (rev base)))"

definition profileConfigPath :: "string \<Rightarrow> string \<Rightarrow> string" where
  "profileConfigPath path profile =
     (let extension = Ext path in TrimSuffix path extension @ ''-'' @ profile @ extension)"

text \<open>
  Viper. \<open>vp_ReadInConfig\<close> and \<open>vp_MergeInConfig\<close> read a file into the store and report an
  error, the former with the flag that the error is \<open>ConfigFileNotFoundError\<close>. \<open>vp_Unmarshal\<close>
  decodes the store with the hook for lists of strings.
\<close>

datatype stat = Exists | NotExist | StatError string

record 'v viper =
  vp_New :: 'v
  vp_BindEnv :: "'v \<Rightarrow> string + 'v"
  vp_SetDefault :: "string \<Rightarrow> setting \<Rightarrow> 'v \<Rightarrow> 'v"
  vp_ReadInConfig :: "string \<Rightarrow> 'v \<Rightarrow> (string \<times> bool) + 'v"
  vp_GetString :: "'v \<Rightarrow> string \<Rightarrow> string"
  vp_Stat :: "string \<Rightarrow> stat"
  vp_MergeInConfig :: "string \<Rightarrow> 'v \<Rightarrow> string + 'v"
  vp_Set :: "string \<Rightarrow> string \<Rightarrow> 'v \<Rightarrow> 'v"
  vp_Unmarshal :: "(string \<Rightarrow> string list) \<Rightarrow> 'v \<Rightarrow> string + Config"
  vp_UnicodeLower :: "string \<Rightarrow> string"

definition read_config :: "'v viper \<Rightarrow> string \<Rightarrow> 'v result" where
  "read_config vp path =
     (case vp_BindEnv vp (vp_New vp) of
        Inl m \<Rightarrow> Inl (Errorf (''bind environment profile: '' @ m))
      | Inr v0 \<Rightarrow>
          (let v = setDefaults (vp_SetDefault vp) v0 in
           (case vp_ReadInConfig vp path v of
              Inl (m, not_found) \<Rightarrow>
                (if path \<noteq> [] \<or> \<not> not_found then Inl (Errorf (''read config: '' @ m)) else Inr v)
            | Inr v' \<Rightarrow> Inr v')))"

definition active_profile :: "'v viper \<Rightarrow> string \<Rightarrow> 'v \<Rightarrow> string" where
  "active_profile vp explicitProfile v =
     (let profile = ToLower (vp_UnicodeLower vp) (TrimSpace explicitProfile) in
      if profile = [] then ToLower (vp_UnicodeLower vp) (TrimSpace (vp_GetString vp v ''app.env'')) else profile)"

definition merge_profile :: "'v viper \<Rightarrow> string \<Rightarrow> string \<Rightarrow> 'v \<Rightarrow> ('v \<times> string list) result" where
  "merge_profile vp path profile v =
     (let profilePath = profileConfigPath path profile in
      if profilePath = path then Inr (v, [path])
      else
        (case vp_Stat vp profilePath of
           Exists \<Rightarrow>
             (case vp_MergeInConfig vp profilePath v of
                Inl m \<Rightarrow> Inl (Errorf (''merge profile config '' @ quoted profilePath @ '': '' @ m))
              | Inr v' \<Rightarrow> Inr (v', [path, profilePath]))
         | NotExist \<Rightarrow> Inr (v, [path])
         | StatError m \<Rightarrow> Inl (Errorf (''inspect profile config '' @ quoted profilePath @ '': '' @ m))))"

definition LoadWithProfile :: "'v viper \<Rightarrow> string \<Rightarrow> string \<Rightarrow> Config result" where
  "LoadWithProfile vp path explicitProfile =
     (case read_config vp path of
        Inl e \<Rightarrow> Inl e
      | Inr v \<Rightarrow>
          (let profile = active_profile vp explicitProfile v in
           if \<not> validProfile profile then Inl (Errorf (''invalid environment profile '' @ quoted profile))
           else
             (case merge_profile vp path profile v of
                Inl e \<Rightarrow> Inl e
              | Inr (v1, loadedFiles) \<Rightarrow>
                  (case vp_Unmarshal vp string_slice (vp_Set vp ''app.env'' profile v1) of
                     Inl m \<Rightarrow> Inl (Errorf (''decode config: '' @ m))
                   | Inr cfg0 \<Rightarrow>
                       (let cfg = cfg0\<lparr>c_Migration := (c_Migration cfg0)
                              \<lparr>Migration_Schema := Database_Schema (c_Database cfg0),
                               Migration_DatabaseName := Database_Name (c_Database cfg0)\<rparr>\<rparr>
                        in (case Validate cfg of
                              Some e \<Rightarrow> Inl e
                            | None \<Rightarrow>
                                Inr (cfg\<lparr>c_Runtime := \<lparr>Runtime_ActiveProfile = profile,
                                            Runtime_ConfigFiles = loadedFiles\<rparr>\<rparr>)))))))"

definition Load :: "'v viper \<Rightarrow> string \<Rightarrow> Config result" where
  "Load vp path = LoadWithProfile vp path []"

end
