(* ===== verification/TransportSamples.thy ===== *)
theory TransportSamples
  imports GrpcTransport ConfigLoad AuthSamples
begin

text \<open>
  A production configuration, a server and libraries that decode every body into the sample
  requests; a request to the send route.
\<close>

section \<open>Definitions\<close>

definition sample_grpc_upstream :: GRPCUpstream_cfg where
  "sample_grpc_upstream =
     \<lparr>GRPCUpstream_Target = ''dns:///authz:9090'', GRPCUpstream_Timeout = 2 * second,
      GRPCUpstream_Auth = \<lparr>ClientAuth_Type = ''psk'', ClientAuth_Token = ''secret''\<rparr>,
      GRPCUpstream_Retry = \<lparr>Retry_MaxAttempts = 2, Retry_InitialBackoff = second, Retry_MaxBackoff = second,
        Retry_Methods = [''/platform.authorization.v1.AuthorizationService/*'']\<rparr>,
      GRPCUpstream_Breaker = \<lparr>Breaker_Enabled = True, Breaker_FailureThreshold = 5, Breaker_OpenTimeout = second\<rparr>,
      GRPCUpstream_TLS = \<lparr>ClientTLS_Enabled = True, ClientTLS_ServerName = [], ClientTLS_CAFile = [],
        ClientTLS_CertFile = [], ClientTLS_KeyFile = []\<rparr>\<rparr>"

definition sample_config :: Config where
  "sample_config =
     \<lparr>c_Runtime = \<lparr>Runtime_ActiveProfile = ''production'', Runtime_ConfigFiles = [''config.yaml'']\<rparr>,
      c_App = \<lparr>App_Name = ''notification-service'', App_Schema = [], App_Env = ''production'',
        App_ShutdownTimeout = 10 * second\<rparr>,
      c_HTTP = \<lparr>HTTP_Address = '':8080'', HTTP_ReadTimeout = 10 * second, HTTP_WriteTimeout = 15 * second,
        HTTP_IdleTimeout = 60 * second, HTTP_RequestTimeout = 10 * second, HTTP_MaxBodyBytes = 1048576,
        HTTP_TrustedProxies = [],
        HTTP_CORS = \<lparr>CORS_Enabled = False, CORS_AllowedOrigins = [], CORS_AllowedHeaders = [],
          CORS_ExposedHeaders = [], CORS_MaxAge = 12 * hour\<rparr>\<rparr>,
      c_GRPC = \<lparr>GRPC_Enabled = True, GRPC_Address = '':9090'', GRPC_ReflectionEnabled = False,
        GRPC_MaxReceiveBytes = 16777216,
        GRPC_TLS = \<lparr>GRPCTLS_Enabled = True, GRPCTLS_CertFile = ''tls.crt'', GRPCTLS_KeyFile = ''tls.key'',
          GRPCTLS_ClientCAFile = []\<rparr>\<rparr>,
      c_Log = \<lparr>Log_Level = ''info'', Log_Format = ''json'', Log_File = ''logs/app.log'', Log_MaxSizeMB = 100,
        Log_MaxBackups = 10, Log_MaxAgeDays = 30, Log_Compress = True\<rparr>,
      c_Database = \<lparr>Database_Enabled = True, Database_Name = ''platform'', Database_Schema = ''notification'',
        Database_Type = ''postgres'', Database_DSN = ''postgres://db'', Database_MaxOpenConns = 25,
        Database_MaxIdleConns = 10, Database_ConnMaxLifetime = 5 * minute, Database_ConnMaxIdleTime = minute,
        Database_PingTimeout = 5 * second\<rparr>,
      c_Redis = \<lparr>Redis_Enabled = True, Redis_Address = ''redis:6379'', Redis_Username = [], Redis_Password = [],
        Redis_DB = 0, Redis_DialTimeout = 5 * second, Redis_ReadTimeout = 3 * second,
        Redis_WriteTimeout = 3 * second\<rparr>,
      c_Health = \<lparr>Health_DatabaseTimeout = 2 * second, Health_RedisTimeout = 2 * second\<rparr>,
      c_RateLimit = \<lparr>RateLimit_Enabled = True, RateLimit_FailOpen = False, RateLimit_IP = sample_rule,
        RateLimit_API = sample_rule, RateLimit_User = sample_rule, RateLimit_Login = sample_rule\<rparr>,
      c_Observability = \<lparr>Observability_MetricsEnabled = True, Observability_TracingEnabled = False,
        Observability_TracingEndpoint = [], Observability_TracingSampleRatio = Float (1 / 10),
        Observability_PprofEnabled = False, Observability_PprofToken = []\<rparr>,
      c_Swagger = \<lparr>Swagger_Enabled = False, Swagger_RequireAuth = True\<rparr>,
      c_JWT = \<lparr>JWT_Issuer = ''notification-service'', JWT_Secret = sample_secret, JWT_TTL = hour\<rparr>,
      c_Auth = \<lparr>Auth_JWKSURL = ''https://id/jwks'', Auth_Issuer = ''identity-service'',
        Auth_Audience = ''notification-service'', Auth_ClientID = ''client'', Auth_ClientSecret = ''hush'',
        Auth_SkipHTTPPaths = [''/api/v1/version''], Auth_SkipGRPCMethods = [''/grpc.health.v1.Health/*''],
        Auth_PSK = \<lparr>PSK_Enabled = True, PSK_Key = sample_secret,
          PSK_HTTPPaths = [''/api/v1/notifications/providers/receipt''],
          PSK_GRPCMethods = [''/platform.notification.v1.NotificationService/RecordProviderReceipt'']\<rparr>\<rparr>,
      c_Authorization = \<lparr>Authorization_Enabled = True\<rparr>,
      c_Cron = \<lparr>Cron_Enabled = True, Cron_Timezone = ''Asia/Shanghai'', Cron_SampleSpec = []\<rparr>,
      c_Migration = \<lparr>Migration_AutoUp = False, Migration_CreateSchema = False, Migration_Path = ''migrations/postgres'',
        Migration_DatabaseURL = [], Migration_Table = ''notification_schema_migrations'',
        Migration_Schema = ''notification'', Migration_DatabaseName = ''platform''\<rparr>,
      c_User = \<lparr>User_CacheTTL = 5 * minute, User_LockTTL = 10 * second, User_LockRetryDelay = second\<rparr>,
      c_Idempotency = \<lparr>Idempotency_Enabled = True, Idempotency_HTTPPaths = [''/api/v1/notifications/send''],
        Idempotency_GRPCMethods = [], Idempotency_ProcessingTTL = 30 * second, Idempotency_ResultTTL = 24 * hour,
        Idempotency_FailureTTL = 5 * minute\<rparr>,
      c_Outbound = \<lparr>Outbound_HTTP = [(''mailer'', sample_upstream)],
        Outbound_GRPC = [(''application'', sample_grpc_upstream), (''authorization'', sample_grpc_upstream)]\<rparr>,
      c_EventBus = \<lparr>EventBus_Enabled = False, EventBus_URLs = [], EventBus_StreamName = [], EventBus_Subjects = [],
        EventBus_Storage = [], EventBus_MaxAge = 0, EventBus_DuplicateWindow = 0, EventBus_ConnectTimeout = 0,
        EventBus_ReconnectWait = 0, EventBus_PublishTimeout = 0, EventBus_ConsumerAckWait = 0,
        EventBus_ConsumerMaxDeliver = 0, EventBus_DispatchInterval = 0, EventBus_DispatchBatchSize = 0,
        EventBus_DispatchLease = 0, EventBus_DispatchRetryDelay = 0, EventBus_PublishedRetention = 0,
        EventBus_CleanupInterval = 0, EventBus_CleanupBatchSize = 0\<rparr>,
      c_Notification = sample_notification\<rparr>"

definition sample_SendNotificationRequest :: SendNotificationRequest where
  "sample_SendNotificationRequest =
     \<lparr>snr_TenantID = ''t1'', snr_ApplicationID = ''app'', snr_TemplateCode = ''welcome'', snr_Channel = ''in_app'',
      snr_Locale = ''en'', snr_Recipient = ''bob'', snr_Variables = Map.empty, snr_IdempotencyKey = ''k2''\<rparr>"

definition sample_decision :: Decision where
  "sample_decision =
     \<lparr>dc_State = StateAcquired, dc_Owner = ''o1'', dc_Response = [],
      dc_Failure = \<lparr>fl_Code = CodeOK, fl_Message = [], fl_HTTPStatus = 0\<rparr>\<rparr>"

definition sample_gate :: gate where
  "sample_gate =
     \<lparr>key_Valid = (\<lambda>k. length k < 64), idem_Begin = (\<lambda>_ _ _. Inr sample_decision), sha256_hex = id,
      ParseMediaType = Inr, Enforce = (\<lambda>_ _ _. Permitted), TimedOut = (\<lambda>_ _. False),
      json_Response = (\<lambda>_. Inl ''unexpected end of JSON input''), json_through_any = id, json_any = Some,
      validator_error = (\<lambda>fs. concat fs),
      json_PutTemplateRequest = (\<lambda>_. Inl ''EOF''), json_PutProviderRequest = (\<lambda>_. Inl ''EOF''),
      json_GetProviderRequest = (\<lambda>_. Inl ''EOF''), json_ListProvidersRequest = (\<lambda>_. Inl ''EOF''),
      json_SendNotificationRequest = (\<lambda>_. Inr sample_SendNotificationRequest),
      json_ListTemplatesRequest = (\<lambda>_. Inl ''EOF''), json_GetTemplateRequest = (\<lambda>_. Inl ''EOF''),
      json_GetDeliveryRequest = (\<lambda>_. Inl ''EOF''), json_ListDeliveriesRequest = (\<lambda>_. Inl ''EOF''),
      json_ProviderReceiptRequest = (\<lambda>_. Inl ''EOF''),
      ping_database = (\<lambda>_. None), ping_redis = (\<lambda>_. Some ''connection refused''), database_first = (\<lambda>_. True),
      Duration_String = (\<lambda>d. int_text d @ ''ns''), build_Version = ''dev'', build_Commit = ''unknown'',
      build_BuildTime = ''unknown'', build_startedAt = 0, SetHeader_error = (\<lambda>_. None)\<rparr>"

definition sample_server :: Server where
  "sample_server =
     \<lparr>srv_cfg = sample_config,
      srv_handler = \<lparr>h_health = NewHealth True True sample_config, h_notifications = sample_service\<rparr>,
      srv_auth = sample_auth,
      srv_limiter = \<lparr>lim_enabled = True, lim_failOpen = False, lim_backend = True\<rparr>,
      srv_idempotency = True\<rparr>"

definition sample_web :: "db \<Rightarrow> web" where
  "sample_web d =
     \<lparr>web_world = sample_world d, web_begins = 0, web_persisted = [], web_enforced = 0, web_pings = 0,
      web_requests = [], web_durations = [], web_rpc_requests = [], web_rpc_durations = [], web_rpc_headers = []\<rparr>"

definition sample_gin :: "string \<Rightarrow> string \<Rightarrow> gin" where
  "sample_gin path header =
     \<lparr>g_Method = ''POST'', g_FullPath = path,
      g_Headers = [(''Authorization'', header), (''Content-Type'', ''application/json''),
        (''Idempotency-Key'', ''k2''), (''X-Request-ID'', ''r1'')],
      g_ContentLength = 2, g_Body = (''{}'', None), g_TLS = True, g_ClientIP = ''10.0.0.1'',
      g_Context = background, g_request_id = None, g_environment = None, g_subject = None,
      g_OutHeaders = [], g_Status = 200, g_Written = False, g_Written_JSON = [], g_Panic = None\<rparr>"

abbreviation send_path :: string where "send_path \<equiv> ''/api/v1/notifications/send''"

abbreviation sample_lib :: "string \<Rightarrow> handler" where "sample_lib \<equiv> \<lambda>_ c w. (write_status 200 c, w)"

end
