(* ===== verification/HttpCorrect.thy ===== *)
theory HttpCorrect
  imports HttpContract TransportSamples
begin

text \<open>
  Correctness of the HTTP transport: requests that are not authenticated or not permitted never
  reach a handler, every API request gets exactly one answer, and idempotent execution runs a
  handler at most once and replays its answer.
\<close>

section \<open>Routes\<close>

lemma api_route:
  assumes "map_of (api_routes env g (srv_handler srv)) path = Some h"
  shows "route env ae g lib srv ''POST'' path = Some (api_chain env ae g srv h)"
proof -
  from assms have "path \<in> set (map fst (api_routes env g (srv_handler srv)))"
    by (metis map_of_eq_None_iff option.distinct(1) set_map)
  then have "path \<noteq> ''/live'' \<and> path \<noteq> ''/ready'' \<and>
      (''POST'', path) \<notin> set (map (\<lambda>(m, p). (m, ''/debug/pprof'' @ p)) pprof_routes)"
    by (auto simp: api_routes_def pprof_routes_def)
  then show ?thesis using assms by (simp add: route_def)
qed

lemma ServeHTTP_api:
  assumes "map_of (api_routes env g (srv_handler srv)) (g_FullPath c) = Some h" and "g_Method c = ''POST''"
  shows "ServeHTTP env ae g lib srv c w = global_chain env ae g srv (api_chain env ae g srv h) c w"
  using api_route [OF assms(1)] assms(2) by (simp add: ServeHTTP_def)

section \<open>Access\<close>

text \<open>
  C10. A request to any API route whose path is not exempt from authentication and whose
  \<open>Authorization\<close> header holds no acceptable credential - no bearer token that verifies at any
  time, and for routes with a pre-shared key not that key - is answered with an error status; no
  handler runs: no SQL statement is issued, no row changes, nothing is sent to an upstream. This
  holds for every configuration, every state of the rate limiter and every other header.
\<close>

theorem unauthenticated_refused:
  assumes "map_of (api_routes env g (srv_handler srv)) (g_FullPath c) = Some h"
    and "g_Method c = ''POST''" and "\<not> g_Written c" and "g_Panic c = None"
    and "no_bearer env ae (srv_auth srv) (GetHeader c ''Authorization'')"
    and "\<not> MatchesAny (g_FullPath c) (Auth_SkipHTTPPaths (c_Auth (srv_cfg srv)))"
    and "PSK_Enabled (Auth_PSK (c_Auth (srv_cfg srv))) \<Longrightarrow>
      MatchesAny (g_FullPath c) (PSK_HTTPPaths (Auth_PSK (c_Auth (srv_cfg srv)))) \<Longrightarrow>
      \<not> VerifyPSK (GetHeader c ''Authorization'') (PSK_Key (Auth_PSK (c_Auth (srv_cfg srv))))"
  shows "refused w (fst (ServeHTTP env ae g lib srv c w)) (snd (ServeHTTP env ae g lib srv c w))"
proof -
  let ?path = "g_FullPath c" and ?header = "GetHeader c ''Authorization''"
  have "refusal.meets ?path ?header (global_chain env ae g srv (api_chain env ae g srv h))"
    unfolding api_chain_def
    by (intro refusal.global_chain_meets refusal.RateLimit_meets Authentication_refuses assms(5-7))
  moreover have "api_post ?path ?header c" using assms by (simp add: api_post_def)
  ultimately show ?thesis
    unfolding ServeHTTP_api [OF assms(1,2)] by (rule refusal.meetsD)
qed

lemma sample_no_bearer: "no_bearer sample_env sample_auth_env sample_auth ''Bearer bad''"
proof (rule no_bearerI)
  show "Cut ''Bearer bad'' CHR '' '' = (''Bearer'', ''bad'', True)" by code_simp
  show "isl (fst (Verify_token sample_env sample_auth_env sample_auth ''bad'' w))" for w
    by (simp add: Verify_token_def Parse_def sample_auth_def sample_auth_env_def read_clock_def)
qed

theorem unauthenticated_refused_witness:
  "refused (sample_web sample_db)
     (fst (ServeHTTP sample_env sample_auth_env sample_gate sample_lib sample_server
        (sample_gin send_path ''Bearer bad'') (sample_web sample_db)))
     (snd (ServeHTTP sample_env sample_auth_env sample_gate sample_lib sample_server
        (sample_gin send_path ''Bearer bad'') (sample_web sample_db)))"
proof (rule unauthenticated_refused)
  show "map_of (api_routes sample_env sample_gate (srv_handler sample_server))
      (g_FullPath (sample_gin send_path ''Bearer bad'')) =
    Some (SendNotification sample_env sample_gate (srv_handler sample_server))"
    by (simp add: api_routes_def sample_gin_def)
  show "no_bearer sample_env sample_auth_env (srv_auth sample_server)
      (GetHeader (sample_gin send_path ''Bearer bad'') ''Authorization'')"
    using sample_no_bearer by (simp add: sample_server_def sample_gin_def GetHeader_def header_get_def)
  show "\<not> MatchesAny (g_FullPath (sample_gin send_path ''Bearer bad''))
      (Auth_SkipHTTPPaths (c_Auth (srv_cfg sample_server)))" by code_simp
  have "\<not> MatchesAny (g_FullPath (sample_gin send_path ''Bearer bad''))
      (PSK_HTTPPaths (Auth_PSK (c_Auth (srv_cfg sample_server))))" by code_simp
  then show "\<not> VerifyPSK (GetHeader (sample_gin send_path ''Bearer bad'') ''Authorization'')
      (PSK_Key (Auth_PSK (c_Auth (srv_cfg sample_server))))"
    if "MatchesAny (g_FullPath (sample_gin send_path ''Bearer bad''))
      (PSK_HTTPPaths (Auth_PSK (c_Auth (srv_cfg sample_server))))" using that by blast
qed (simp_all add: sample_gin_def)

text \<open>
  C11. With authorization enabled, a request to a notification route that the authorization service
  does not permit - it denies or cannot decide - is refused whatever credential it carries: the
  handler is never entered.
\<close>

theorem unauthorized_refused:
  assumes "map_of (api_routes env g (srv_handler srv)) (g_FullPath c) = Some h"
    and "g_Method c = ''POST''" and "\<not> g_Written c" and "g_Panic c = None"
    and "Authorization_Enabled (c_Authorization (srv_cfg srv))"
    and "notificationHTTPRequirement (g_FullPath c) = Some req"
    and "\<And>n ctx. Enforce g n ctx req \<noteq> Permitted"
  shows "refused w (fst (ServeHTTP env ae g lib srv c w)) (snd (ServeHTTP env ae g lib srv c w))"
proof -
  let ?path = "g_FullPath c" and ?header = "GetHeader c ''Authorization''"
  have "refusal.meets ?path ?header (global_chain env ae g srv (api_chain env ae g srv h))"
    unfolding api_chain_def using assms(5)
    by (auto intro!: refusal.global_chain_meets refusal.RateLimit_meets refusal.Authentication_meets
        Authorization_refuses [OF assms(6,7)])
  moreover have "api_post ?path ?header c" using assms by (simp add: api_post_def)
  ultimately show ?thesis
    unfolding ServeHTTP_api [OF assms(1,2)] by (rule refusal.meetsD)
qed

definition denying_gate :: gate where
  "denying_gate = sample_gate\<lparr>Enforce := (\<lambda>_ _ _. Denied ''no role'')\<rparr>"

theorem unauthorized_refused_witness:
  "refused (sample_web sample_db)
     (fst (ServeHTTP sample_env sample_auth_env denying_gate sample_lib sample_server
        (sample_gin send_path ''Bearer good'') (sample_web sample_db)))
     (snd (ServeHTTP sample_env sample_auth_env denying_gate sample_lib sample_server
        (sample_gin send_path ''Bearer good'') (sample_web sample_db)))"
proof (rule unauthorized_refused)
  show "map_of (api_routes sample_env denying_gate (srv_handler sample_server))
      (g_FullPath (sample_gin send_path ''Bearer good'')) =
    Some (SendNotification sample_env denying_gate (srv_handler sample_server))"
    by (simp add: api_routes_def sample_gin_def)
  show "Authorization_Enabled (c_Authorization (srv_cfg sample_server))" by code_simp
  show "notificationHTTPRequirement (g_FullPath (sample_gin send_path ''Bearer good'')) =
    Some \<lparr>rq_Resource = ''notification.delivery'', rq_Action = ''send'', rq_Scope = ScopePrincipal\<rparr>"
    by (simp add: notificationHTTPRequirement_def sample_gin_def)
qed (simp_all add: sample_gin_def denying_gate_def)

section \<open>Answers\<close>

text \<open>
  C24. Every request to an API route is answered with exactly one JSON document, and the document
  carries the id of the request: no path through the middleware, the idempotent execution or the
  handlers leaves a request without an answer or answers it twice, whatever the surroundings do.
\<close>

theorem api_single_answer:
  assumes "map_of (api_routes env g (srv_handler srv)) (g_FullPath c) = Some h"
    and "g_Method c = ''POST''" and "\<not> g_Written c" and "g_Written_JSON c = []" and "g_Panic c = None"
  shows "\<exists>r. g_Written_JSON (fst (ServeHTTP env ae g lib srv c w)) = [r] \<and>
    g_Written (fst (ServeHTTP env ae g lib srv c w)) \<and>
    rs_RequestID r = requestID (fst (ServeHTTP env ae g lib srv c w))"
proof -
  have "single.meets (global_chain env ae g srv (api_chain env ae g srv h))"
    by (intro single.global_chain_meets single.api_chain_meets single.api_routes_meet [OF assms(1)])
  moreover have "fresh_request c" using assms by (simp add: fresh_request_def)
  ultimately have "answered_or_panicked (fst (ServeHTTP env ae g lib srv c w))"
    unfolding ServeHTTP_api [OF assms(1,2)] by (rule single.meetsD)
  moreover have "g_Panic (fst (ServeHTTP env ae g lib srv c w)) = None"
    unfolding ServeHTTP_api [OF assms(1,2)] by (rule global_chain_no_panic [OF assms(5)])
  ultimately show ?thesis by (auto simp: answered_or_panicked_def single_answer_def)
qed

theorem api_single_answer_witness:
  "\<exists>r. g_Written_JSON (fst (ServeHTTP sample_env sample_auth_env sample_gate sample_lib sample_server
        (sample_gin send_path ''Bearer good'') (sample_web sample_db))) = [r]"
proof -
  have "map_of (api_routes sample_env sample_gate (srv_handler sample_server))
      (g_FullPath (sample_gin send_path ''Bearer good'')) =
    Some (SendNotification sample_env sample_gate (srv_handler sample_server))"
    by (simp add: api_routes_def sample_gin_def)
  from api_single_answer [OF this, of sample_auth_env sample_lib "sample_web sample_db"]
  show ?thesis by (auto simp: sample_gin_def)
qed

section \<open>Idempotent execution\<close>

text \<open>The request is subject to idempotent execution: its key, route and readable body.\<close>

definition keyed :: "gate \<Rightarrow> string list \<Rightarrow> string \<Rightarrow> string \<Rightarrow> gin \<Rightarrow> bool" where
  "keyed g paths key fingerprint c \<longleftrightarrow>
     ctx_IdempotencyKey (g_Context c) = Some key \<and> g_Method c = ''POST'' \<and> MatchesAny (g_FullPath c) paths \<and>
     idempotencyFingerprint g c = (Inr fingerprint, c)"

lemma IdempotencyExecution_acquired:
  assumes "keyed g paths key fp c" and "idem_Begin g (web_begins w) key fp = Inr d"
    and "dc_State d = StateAcquired"
    and "h c (w\<lparr>web_begins := Suc (web_begins w)\<rparr>) = (c', w')" and "g_Panic c' = None"
  shows "IdempotencyExecution g True paths h c w = (c', persist g key (dc_Owner d) c c' w')"
  using assms by (simp add: keyed_def IdempotencyExecution_def Let_def)

lemma IdempotencyExecution_completed:
  assumes "keyed g paths key fp c" and "idem_Begin g (web_begins w) key fp = Inr d"
    and "dc_State d = StateCompleted" and "json_Response g (dc_Response d) = Inr r"
  shows "IdempotencyExecution g True paths h c w =
    (write_json 200 (r\<lparr>rs_RequestID := requestID c\<rparr>) c, w\<lparr>web_begins := Suc (web_begins w)\<rparr>)"
  using assms by (simp add: keyed_def IdempotencyExecution_def Let_def)

text \<open>
  C12. Idempotent execution runs the handler only for the request that acquired the key: in every
  other state of the key - completed, failed, being processed, taken by a different request,
  unknown - and when the manager cannot answer, the outcome does not depend on the handler at all
  and the tables stay as they are.
\<close>

theorem idempotency_at_most_once:
  assumes "keyed g paths key fp c" and "\<not> g_Written c"
    and "\<And>d. idem_Begin g (web_begins w) key fp = Inr d \<Longrightarrow> dc_State d \<noteq> StateAcquired"
  shows "IdempotencyExecution g True paths h c w = IdempotencyExecution g True paths h' c w \<and>
    g_Written (fst (IdempotencyExecution g True paths h c w)) \<and>
    idle w (snd (IdempotencyExecution g True paths h c w))"
  using assms
  by (auto simp: keyed_def IdempotencyExecution_def Let_def Fail_def split: sum.split State.split)

text \<open>
  C13. The answer of a successful request is replayed: when the request that acquired the key was
  answered with one document of a success status, exactly that document - its body as JSON gives it
  back, without the request id - is stored under the key and the owner; and a later request with
  the key for which the manager returns that document is answered with status 200, the same code,
  message and body and its own request id, without running a handler.
\<close>

theorem idempotency_replay:
  assumes first: "keyed g paths key fp c" "idem_Begin g (web_begins w) key fp = Inr d" "dc_State d = StateAcquired"
      "h c (w\<lparr>web_begins := Suc (web_begins w)\<rparr>) = (c', w')"
      "g_Panic c' = None" "g_Written_JSON c' = g_Written_JSON c @ [r]" "g_Status c' < 400"
    and second: "keyed g paths key fp2 c2" "idem_Begin g (web_begins w2) key fp2 = Inr d2"
      "dc_State d2 = StateCompleted" "\<not> g_Written c2"
    and stored: "\<And>s. web_persisted (snd (IdempotencyExecution g True paths h c w)) =
        web_persisted w' @ [CompletedWith key (dc_Owner d) s] \<Longrightarrow> json_Response g (dc_Response d2) = Inr s"
  shows "g_Written_JSON (fst (IdempotencyExecution g True paths h2 c2 w2)) =
      g_Written_JSON c2 @ [r\<lparr>rs_Body := json_through_any g (rs_Body r), rs_RequestID := requestID c2\<rparr>] \<and>
    g_Status (fst (IdempotencyExecution g True paths h2 c2 w2)) = 200 \<and>
    idle w2 (snd (IdempotencyExecution g True paths h2 c2 w2))"
proof -
  let ?s = "r\<lparr>rs_Body := json_through_any g (rs_Body r), rs_RequestID := []\<rparr>"
  have "captured g c c' = Some (r\<lparr>rs_Body := json_through_any g (rs_Body r)\<rparr>)"
    using first(6) by (simp add: captured_def)
  then have "snd (IdempotencyExecution g True paths h c w) =
      w'\<lparr>web_persisted := web_persisted w' @ [CompletedWith key (dc_Owner d) ?s]\<rparr>"
    using first(7) IdempotencyExecution_acquired [of g paths key fp c w d h, OF first(1-5)]
    by (simp add: persist_def Let_def)
  then have "json_Response g (dc_Response d2) = Inr ?s" by (intro stored) simp
  from IdempotencyExecution_completed [OF second(1-3) this, of h2] second(4) show ?thesis by simp
qed

text \<open>Two requests of the witnesses: one that acquires the key, one that finds it completed.\<close>

definition sample_keyed :: gin where
  "sample_keyed = (sample_gin send_path [])\<lparr>g_Context := background\<lparr>ctx_IdempotencyKey := Some ''k2''\<rparr>\<rparr>"

definition sample_ok :: "string \<Rightarrow> Response" where
  "sample_ok i = \<lparr>rs_Code = CodeOK, rs_Message = ''success'', rs_Body = SubjectBody None, rs_RequestID = i\<rparr>"

definition replaying_gate :: gate where
  "replaying_gate =
     sample_gate\<lparr>idem_Begin := (\<lambda>n _ _. Inr (if n = 0 then sample_decision
                   else sample_decision\<lparr>dc_State := StateCompleted, dc_Response := ''stored''\<rparr>)),
       json_Response := (\<lambda>_. Inr (sample_ok []))\<rparr>"

abbreviation sample_paths :: "string list" where "sample_paths \<equiv> [''/api/v1/notifications/*'']"

lemma sample_keyed: "keyed replaying_gate sample_paths ''k2''
  (sha256_hex replaying_gate (''<nil>'' @ [CHR 0x00] @ ''POST'' @ [CHR 0x00] @ send_path @ [CHR 0x00] @ ''{}''))
  sample_keyed"
proof -
  have "MatchesAny send_path sample_paths" by code_simp
  then show ?thesis
    by (simp add: keyed_def sample_keyed_def sample_gin_def idempotencyFingerprint_def background_def)
qed

theorem idempotency_at_most_once_witness:
  "IdempotencyExecution replaying_gate True sample_paths Me sample_keyed ((sample_web sample_db)\<lparr>web_begins := 1\<rparr>) =
   IdempotencyExecution replaying_gate True sample_paths (\<lambda>c w. (c, w)) sample_keyed
     ((sample_web sample_db)\<lparr>web_begins := 1\<rparr>)"
  using idempotency_at_most_once [OF sample_keyed, of "(sample_web sample_db)\<lparr>web_begins := 1\<rparr>" Me "\<lambda>c w. (c, w)"]
  by (auto simp: replaying_gate_def sample_keyed_def sample_gin_def)

theorem idempotency_replay_witness:
  "g_Written_JSON (fst (IdempotencyExecution replaying_gate True sample_paths (\<lambda>c w. (c, w))
     (sample_keyed\<lparr>g_request_id := Some ''r2''\<rparr>) ((sample_web sample_db)\<lparr>web_begins := 1\<rparr>))) = [sample_ok ''r2'']"
proof -
  let ?w = "sample_web sample_db" and ?c2 = "sample_keyed\<lparr>g_request_id := Some ''r2''\<rparr>"
  have k2: "keyed replaying_gate sample_paths ''k2''
    (sha256_hex replaying_gate (''<nil>'' @ [CHR 0x00] @ ''POST'' @ [CHR 0x00] @ send_path @ [CHR 0x00] @ ''{}'')) ?c2"
    using sample_keyed by (auto simp: keyed_def idempotencyFingerprint_def Let_def split: prod.splits option.splits)
  have b: "idem_Begin replaying_gate (web_begins ?w) ''k2'' x = Inr sample_decision" for x
    by (simp add: replaying_gate_def sample_web_def)
  have a: "dc_State sample_decision = StateAcquired" by (simp add: sample_decision_def)
  have me: "Me sample_keyed (?w\<lparr>web_begins := Suc (web_begins ?w)\<rparr>) =
      (OK sample_keyed (SubjectBody None), ?w\<lparr>web_begins := Suc (web_begins ?w)\<rparr>)"
    by (simp add: Me_def sample_keyed_def sample_gin_def)
  have np: "g_Panic (OK sample_keyed (SubjectBody None)) = None"
    by (simp add: OK_def sample_keyed_def sample_gin_def)
  note replay = idempotency_replay [where h = Me and w = ?w, OF sample_keyed b a me np, where r = "sample_ok []" and ?c2.0 = ?c2 and
      ?w2.0 = "?w\<lparr>web_begins := 1\<rparr>" and ?h2.0 = "\<lambda>c w. (c, w)" and
      ?d2.0 = "sample_decision\<lparr>dc_State := StateCompleted, dc_Response := ''stored''\<rparr>", OF _ _ k2]
  have stored: "web_persisted (snd (IdempotencyExecution replaying_gate True sample_paths Me sample_keyed ?w)) =
      [CompletedWith ''k2'' ''o1'' (sample_ok [])]"
    using IdempotencyExecution_acquired [where h = Me and w = ?w, OF sample_keyed b a me np]
    by (simp add: persist_def captured_def Let_def OK_def sample_keyed_def sample_gin_def sample_ok_def
        sample_web_def replaying_gate_def sample_gate_def sample_decision_def requestID_def)
  show ?thesis
    using replay stored
    by (simp add: replaying_gate_def sample_keyed_def sample_gin_def OK_def sample_ok_def requestID_def
        sample_gate_def sample_web_def)
qed

end
