(* ===== verification/GrpcCorrect.thy ===== *)
theory GrpcCorrect
  imports HttpCorrect
begin

text \<open>
  The two transports against each other and against the API that they offer: one abstract call per
  operation of the service, of which the HTTP handlers and the gRPC handlers are refinements; equal
  access requirements; the errors that reach a client; authentication of RPCs; readiness.
\<close>

section \<open>The abstract API\<close>

datatype api_request =
    PutProvider_req PutProviderRequest
  | GetProvider_req GetProviderRequest
  | ListProviders_req ListProvidersRequest
  | PutTemplate_req PutTemplateRequest
  | GetTemplate_req GetTemplateRequest
  | ListTemplates_req ListTemplatesRequest
  | Send_req SendNotificationRequest
  | Receipt_req ProviderReceiptRequest
  | GetDelivery_req GetDeliveryRequest
  | ListDeliveries_req ListDeliveriesRequest

datatype api_value =
    Provider_val Provider
  | Providers_val ProviderPage
  | Template_val Template
  | Templates_val TemplatePage
  | Delivery_val Delivery
  | Deliveries_val Page

definition lift :: "('a \<Rightarrow> api_value) \<Rightarrow> 'a result \<times> world \<Rightarrow> api_value result \<times> world" where
  "lift f outcome = (map_sum id f (fst outcome), snd outcome)"

fun api_call :: "env \<Rightarrow> Service \<Rightarrow> Context \<Rightarrow> api_request \<Rightarrow> world \<Rightarrow> api_value result \<times> world" where
  "api_call env s ctx (PutProvider_req r) w =
     lift Provider_val (PutProvider env s ctx (provider_of_request r) (ppr_ExpectedVersion r) w)"
| "api_call env s ctx (GetProvider_req r) w =
     lift Provider_val (GetProvider_op env ctx (gpr_TenantID r) (gpr_ApplicationID r) (gpr_Code r) w)"
| "api_call env s ctx (ListProviders_req r) w =
     lift Providers_val (ListProviders_op env ctx (lpr_TenantID r) (lpr_ApplicationID r) (lpr_Keyword r)
       (lpr_Channel r) (lpr_Status r) (lpr_Page r) (lpr_PageSize r) w)"
| "api_call env s ctx (PutTemplate_req r) w =
     lift Template_val (PutTemplate env s ctx (template_of_request r) (ptr_ExpectedVersion r) w)"
| "api_call env s ctx (GetTemplate_req r) w =
     lift Template_val (GetTemplate_op env ctx (gtr_TenantID r) (gtr_ApplicationID r) (gtr_Code r)
       (gtr_Channel r) (gtr_Locale r) w)"
| "api_call env s ctx (ListTemplates_req r) w =
     lift Templates_val (ListTemplates_op env ctx (ltr_TenantID r) (ltr_ApplicationID r) (ltr_Keyword r)
       (ltr_Channel r) (ltr_Status r) (ltr_Page r) (ltr_PageSize r) w)"
| "api_call env s ctx (Send_req r) w =
     lift Delivery_val (Send env s ctx (snr_TenantID r) (snr_ApplicationID r) (snr_TemplateCode r)
       (snr_Channel r) (snr_Locale r) (snr_Recipient r) (snr_IdempotencyKey r) (snr_Variables r) w)"
| "api_call env s ctx (Receipt_req r) w =
     lift Delivery_val (RecordReceipt env s ctx (prr_TenantID r) (prr_ApplicationID r) (prr_Provider r)
       (prr_ProviderMessageID r) (prr_Status r) (prr_FailureReason r) w)"
| "api_call env s ctx (GetDelivery_req r) w =
     lift Delivery_val (GetDelivery_op env ctx (gdr_ID r) (gdr_TenantID r) (gdr_ApplicationID r) w)"
| "api_call env s ctx (ListDeliveries_req r) w =
     lift Deliveries_val (ListDeliveries_op env ctx (ldr_TenantID r) (ldr_ApplicationID r) (ldr_Status r)
       (ldr_Page r) (ldr_PageSize r) w)"

text \<open>How a request reaches the API over HTTP: the route and the bound body.\<close>

fun http_route :: "rpc \<Rightarrow> string" where
  "http_route rpc_PutProvider = ''/api/v1/notifications/providers/put''"
| "http_route rpc_GetProvider = ''/api/v1/notifications/providers/get''"
| "http_route rpc_ListProviders = ''/api/v1/notifications/providers/list''"
| "http_route rpc_PutTemplate = ''/api/v1/notifications/templates/put''"
| "http_route rpc_GetTemplate = ''/api/v1/notifications/templates/get''"
| "http_route rpc_ListTemplates = ''/api/v1/notifications/templates/list''"
| "http_route rpc_Send = ''/api/v1/notifications/send''"
| "http_route rpc_RecordProviderReceipt = ''/api/v1/notifications/providers/receipt''"
| "http_route rpc_GetDelivery = ''/api/v1/notifications/deliveries/get''"
| "http_route rpc_ListDeliveries = ''/api/v1/notifications/deliveries/list''"

fun http_bind :: "gate \<Rightarrow> rpc \<Rightarrow> gin \<Rightarrow> api_request result" where
  "http_bind g rpc_PutProvider c =
     map_sum id PutProvider_req (ShouldBindJSON g (json_PutProviderRequest g) required_PutProviderRequest c)"
| "http_bind g rpc_GetProvider c =
     map_sum id GetProvider_req (ShouldBindJSON g (json_GetProviderRequest g) required_GetProviderRequest c)"
| "http_bind g rpc_ListProviders c =
     map_sum id ListProviders_req (ShouldBindJSON g (json_ListProvidersRequest g) required_ListProvidersRequest c)"
| "http_bind g rpc_PutTemplate c =
     map_sum id PutTemplate_req (ShouldBindJSON g (json_PutTemplateRequest g) required_PutTemplateRequest c)"
| "http_bind g rpc_GetTemplate c =
     map_sum id GetTemplate_req (ShouldBindJSON g (json_GetTemplateRequest g) required_GetTemplateRequest c)"
| "http_bind g rpc_ListTemplates c =
     map_sum id ListTemplates_req (ShouldBindJSON g (json_ListTemplatesRequest g) required_ListTemplatesRequest c)"
| "http_bind g rpc_Send c =
     map_sum id Send_req (ShouldBindJSON g (json_SendNotificationRequest g) required_SendNotificationRequest c)"
| "http_bind g rpc_RecordProviderReceipt c =
     map_sum id Receipt_req (ShouldBindJSON g (json_ProviderReceiptRequest g) required_ProviderReceiptRequest c)"
| "http_bind g rpc_GetDelivery c =
     map_sum id GetDelivery_req (ShouldBindJSON g (json_GetDeliveryRequest g) required_GetDeliveryRequest c)"
| "http_bind g rpc_ListDeliveries c =
     map_sum id ListDeliveries_req (ShouldBindJSON g (json_ListDeliveriesRequest g) required_ListDeliveriesRequest c)"

text \<open>How the same request reaches it over gRPC.\<close>

definition page_req :: "int \<Rightarrow> int \<Rightarrow> PageRequest option" where
  "page_req page pageSize = Some \<lparr>pq_Page = page, pq_PageSize = pageSize\<rparr>"

fun pb_of :: "api_request \<Rightarrow> rpc_request" where
  "pb_of (PutProvider_req r) = PutProvider_pb (Some (toProtoProvider (provider_of_request r))) (ppr_ExpectedVersion r)"
| "pb_of (GetProvider_req r) = GetProvider_pb (gpr_TenantID r) (gpr_ApplicationID r) (gpr_Code r)"
| "pb_of (ListProviders_req r) = ListProviders_pb (lpr_TenantID r) (lpr_ApplicationID r) (lpr_Keyword r)
     (lpr_Channel r) (lpr_Status r) (page_req (lpr_Page r) (lpr_PageSize r))"
| "pb_of (PutTemplate_req r) = PutTemplate_pb (Some (toProtoTemplate (template_of_request r))) (ptr_ExpectedVersion r)"
| "pb_of (GetTemplate_req r) = GetTemplate_pb (gtr_TenantID r) (gtr_ApplicationID r) (gtr_Code r)
     (gtr_Channel r) (gtr_Locale r)"
| "pb_of (ListTemplates_req r) = ListTemplates_pb (ltr_TenantID r) (ltr_ApplicationID r) (ltr_Keyword r)
     (ltr_Channel r) (ltr_Status r) (page_req (ltr_Page r) (ltr_PageSize r))"
| "pb_of (Send_req r) = Send_pb (snr_TenantID r) (snr_ApplicationID r) (snr_TemplateCode r) (snr_Channel r)
     (snr_Locale r) (snr_Recipient r) (snr_IdempotencyKey r) (snr_Variables r)"
| "pb_of (Receipt_req r) = RecordProviderReceipt_pb (prr_TenantID r) (prr_ApplicationID r) (prr_Provider r)
     (prr_ProviderMessageID r) (prr_Status r) (prr_FailureReason r)"
| "pb_of (GetDelivery_req r) = GetDelivery_pb (gdr_ID r) (gdr_TenantID r) (gdr_ApplicationID r)"
| "pb_of (ListDeliveries_req r) = ListDeliveries_pb (ldr_TenantID r) (ldr_ApplicationID r) (ldr_Status r)
     (page_req (ldr_Page r) (ldr_PageSize r))"

text \<open>How a value of the API is shown by each transport.\<close>

fun http_body :: "gate \<Rightarrow> api_value \<Rightarrow> body" where
  "http_body g (Provider_val v) = ProviderBody (providerResponse v)"
| "http_body g (Providers_val p) = ProviderPageBody
     \<lparr>ppb_Providers = map providerResponse (ppg_Providers p), ppb_Total = ppg_Total p, ppb_Page = ppg_Page p,
      ppb_PageSize = ppg_PageSize p\<rparr>"
| "http_body g (Template_val v) = TemplateBody (templateResponse v)"
| "http_body g (Templates_val p) = TemplatePageBody
     \<lparr>tpb_Templates = map templateResponse (tpg_Templates p), tpb_Total = tpg_Total p, tpb_Page = tpg_Page p,
      tpb_PageSize = tpg_PageSize p\<rparr>"
| "http_body g (Delivery_val v) = DeliveryBody (deliveryResponse g v)"
| "http_body g (Deliveries_val p) = DeliveryPageBody
     \<lparr>dpb_Deliveries = map (deliveryResponse g) (pg_Deliveries p), dpb_Total = pg_Total p, dpb_Page = pg_Page p,
      dpb_PageSize = pg_PageSize p\<rparr>"

fun rpc_body :: "env \<Rightarrow> api_value \<Rightarrow> rpc_response" where
  "rpc_body env (Provider_val v) = ProviderReply (toProtoProvider v)"
| "rpc_body env (Providers_val p) =
     ProvidersReply (map toProtoProvider (ppg_Providers p)) (page_result (ppg_Total p) (ppg_Page p) (ppg_PageSize p))"
| "rpc_body env (Template_val v) = TemplateReply (toProtoTemplate v)"
| "rpc_body env (Templates_val p) =
     TemplatesReply (map toProtoTemplate (tpg_Templates p)) (page_result (tpg_Total p) (tpg_Page p) (tpg_PageSize p))"
| "rpc_body env (Delivery_val v) = DeliveryReply (toProtoDelivery_rpc env v)"
| "rpc_body env (Deliveries_val p) =
     DeliveriesReply (map (toProtoDelivery_rpc env) (pg_Deliveries p)) (page_result (pg_Total p) (pg_Page p) (pg_PageSize p))"

section \<open>Refinement\<close>

lemma answer_lift:
  "answer c f outcome w =
     (case lift k outcome of
        (Inl e, w1) \<Rightarrow> (Fail c e, w\<lparr>web_world := w1\<rparr>)
      | (Inr v, w1) \<Rightarrow> (OK c (g v), w\<lparr>web_world := w1\<rparr>))" if "\<And>x. g (k x) = f x"
  using that by (cases outcome; cases "fst outcome") (auto simp: answer_def lift_def)

lemma reply_lift:
  "reply f outcome =
     (case lift k outcome of
        (Inl e, w1) \<Rightarrow> (Inl (grpcError e), w1)
      | (Inr v, w1) \<Rightarrow> (Inr (g v), w1))" if "\<And>x. g (k x) = f x"
  using that by (cases outcome; cases "fst outcome") (auto simp: reply_def lift_def)

lemmas http_handler_defs =
  PutNotificationProvider_def GetNotificationProvider_def ListNotificationProviders_def
  PutNotificationTemplate_def GetNotificationTemplate_def ListNotificationTemplates_def
  SendNotification_def RecordProviderReceipt_def GetNotificationDelivery_def ListNotificationDeliveries_def

lemmas rpc_handler_defs =
  PutProvider_rpc_def GetProvider_rpc_def ListProviders_rpc_def PutTemplate_rpc_def GetTemplate_rpc_def
  ListTemplates_rpc_def Send_rpc_def RecordProviderReceipt_rpc_def GetDelivery_rpc_def ListDeliveries_rpc_def

text \<open>An HTTP handler is the binding of its route followed by the API call.\<close>

lemma http_refines:
  assumes "map_of (api_routes env g h) (http_route r) = Some hh" and "http_bind g r c = Inr req"
  shows "hh c w =
    (case api_call env (h_notifications h) (g_Context c) req (web_world w) of
       (Inl e, w1) \<Rightarrow> (Fail c e, w\<lparr>web_world := w1\<rparr>)
     | (Inr v, w1) \<Rightarrow> (OK c (http_body g v), w\<lparr>web_world := w1\<rparr>))"
  using assms
  by (cases r)
     (auto simp: api_routes_def http_handler_defs map_sum_def split: sum.splits
       intro!: answer_lift)

text \<open>A gRPC handler is the API call on the request that the message stands for.\<close>

lemma proto_request [simp]:
  "is_int32 (ppr_Priority r) \<Longrightarrow> provider_of_proto (toProtoProvider (provider_of_request r)) = provider_of_request r"
  "template_of_proto (toProtoTemplate (template_of_request t)) = template_of_request t"
  by (simp_all add: provider_of_proto_def toProtoProvider_def provider_of_request_def template_of_proto_def
      toProtoTemplate_def template_of_request_def int_simps)

fun representable :: "api_request \<Rightarrow> bool" where
  "representable (PutProvider_req r) = is_int32 (ppr_Priority r)"
| "representable _ = True"

lemma rpc_refines:
  assumes "representable req"
  shows "handle env s ctx (pb_of req) w =
    (case api_call env s ctx req w of
       (Inl e, w1) \<Rightarrow> (Inl (grpcError e), w1)
     | (Inr v, w1) \<Rightarrow> (Inr (rpc_body env v), w1))"
  using assms
  by (cases req)
     (auto simp: rpc_handler_defs page_req_def requested_page_def intro!: reply_lift)

text \<open>
  C9. Both transports are refinements of the same API: for a request that binds on the route of an
  operation, the HTTP handler and the gRPC handler of the corresponding message leave the same
  state behind, and they show the same outcome - the error of the service through \<open>Fail\<close> and
  \<open>grpcError\<close>, or its value through the two encodings. (A priority must fit the 32 bits of the
  message.)
\<close>

theorem transports_agree:
  assumes "map_of (api_routes env g h) (http_route r) = Some hh" and "http_bind g r c = Inr req"
    and "representable req" and "hh c w = (c', w')"
    and "handle env (h_notifications h) (g_Context c) (pb_of req) (web_world w) = (res, w2)"
  shows "w' = w\<lparr>web_world := w2\<rparr> \<and>
    (case res of
       Inl st \<Rightarrow> \<exists>e. api_call env (h_notifications h) (g_Context c) req (web_world w) = (Inl e, w2) \<and>
         st = grpcError e \<and> c' = Fail c e
     | Inr message \<Rightarrow> \<exists>v. api_call env (h_notifications h) (g_Context c) req (web_world w) = (Inr v, w2) \<and>
         message = rpc_body env v \<and> c' = OK c (http_body g v))"
proof -
  obtain out w3 where call: "api_call env (h_notifications h) (g_Context c) req (web_world w) = (out, w3)"
    by fastforce
  then show ?thesis
    using http_refines [OF assms(1,2), of w] rpc_refines [OF assms(3), of env "h_notifications h" "g_Context c" "web_world w"]
      assms(4,5)
    by (cases out) auto
qed

theorem transports_agree_witness:
  "snd (SendNotification sample_env sample_gate (srv_handler sample_server)
      (sample_gin send_path []) (sample_web sample_db)) =
   (sample_web sample_db)\<lparr>web_world := snd (handle sample_env sample_service background
      (pb_of (Send_req sample_SendNotificationRequest)) (sample_world sample_db))\<rparr>"
proof -
  let ?c = "sample_gin send_path []" and ?h = "srv_handler sample_server"
  obtain c' w' where h: "SendNotification sample_env sample_gate ?h ?c (sample_web sample_db) = (c', w')" by fastforce
  obtain res w2 where p: "handle sample_env (h_notifications ?h) (g_Context ?c)
      (pb_of (Send_req sample_SendNotificationRequest)) (web_world (sample_web sample_db)) = (res, w2)" by fastforce
  have r: "map_of (api_routes sample_env sample_gate ?h) (http_route rpc_Send) =
      Some (SendNotification sample_env sample_gate ?h)" by (simp add: api_routes_def)
  have "ShouldBindJSON sample_gate (json_SendNotificationRequest sample_gate) required_SendNotificationRequest ?c =
      Inr sample_SendNotificationRequest"
    by (simp add: ShouldBindJSON_def sample_gate_def required_SendNotificationRequest_def
        sample_SendNotificationRequest_def missing_def)
  then have b: "http_bind sample_gate rpc_Send ?c = Inr (Send_req sample_SendNotificationRequest)" by simp
  from transports_agree [OF r b _ h p] h p show ?thesis
    by (simp add: sample_server_def sample_gin_def sample_web_def)
qed

section \<open>Access requirements\<close>

text \<open>
  C26. The two access tables are the same table: when authorization is enabled, every RPC needs the
  permission that the HTTP route of the same operation needs, every notification route has one,
  only recording a receipt needs platform scope, and a method that is not an RPC of the service has
  no requirement. (The method names of the generated code are distinct.)
\<close>

theorem requirements_agree:
  assumes "inj full"
  shows "notificationGRPCRequirement full True (full r) = notificationHTTPRequirement (http_route r) \<and>
    (\<exists>req. notificationHTTPRequirement (http_route r) = Some req \<and>
       (rq_Scope req = ScopePlatform \<longleftrightarrow> r = rpc_RecordProviderReceipt)) \<and>
    (method \<notin> range full \<longrightarrow> notificationGRPCRequirement full True method = None) \<and>
    fst ` set (api_routes env g h) = {''/api/v1/version'', ''/api/v1/me''} \<union> range http_route"
proof -
  have rpcs: "range http_route = http_route ` {rpc_PutProvider, rpc_GetProvider, rpc_ListProviders, rpc_PutTemplate,
      rpc_GetTemplate, rpc_ListTemplates, rpc_Send, rpc_RecordProviderReceipt, rpc_GetDelivery, rpc_ListDeliveries}"
    by (rule arg_cong [where f = "image http_route"]) (auto intro: rpc.exhaust)
  have "notificationGRPCRequirement full True (full r) = notificationHTTPRequirement (http_route r)"
    using assms by (cases r) (simp_all add: notificationGRPCRequirement_def notificationHTTPRequirement_def
        requirement_def inj_eq)
  moreover have "\<exists>req. notificationHTTPRequirement (http_route r) = Some req \<and>
       (rq_Scope req = ScopePlatform \<longleftrightarrow> r = rpc_RecordProviderReceipt)"
    by (cases r) (simp_all add: notificationHTTPRequirement_def)
  moreover have "method \<notin> range full \<longrightarrow> notificationGRPCRequirement full True method = None"
    by (auto simp: notificationGRPCRequirement_def)
  moreover have "fst ` set (api_routes env g h) = {''/api/v1/version'', ''/api/v1/me''} \<union> range http_route"
    unfolding rpcs by (simp add: api_routes_def insert_commute)
  ultimately show ?thesis by blast
qed

definition sample_full :: "rpc \<Rightarrow> string" where
  "sample_full r = ''/platform.notification.v1.NotificationService'' @ http_route r"

theorem requirements_agree_witness:
  "notificationGRPCRequirement sample_full True (sample_full rpc_Send) = notificationHTTPRequirement send_path"
proof -
  have "inj http_route"
  proof (rule injI)
    fix x y assume "http_route x = http_route y"
    then show "x = y" by (cases x; cases y) simp_all
  qed
  then have "inj sample_full" by (auto simp: inj_def sample_full_def)
  from requirements_agree [OF this, of rpc_Send] show ?thesis by simp
qed

section \<open>Errors\<close>

text \<open>
  An error that a client may see: an application error with an error status and code, whose
  message hides the cause when it is internal.
\<close>

fun client_error :: "go_error \<Rightarrow> bool" where
  "client_error (AppError code m st cause) =
     (400 \<le> st \<and> st < 600 \<and> code \<noteq> CodeOK \<and> (code = CodeInternal \<longrightarrow> m = ''internal server error'' \<and> st = 500))"
| "client_error _ = False"

definition client_result :: "'a result \<Rightarrow> bool" where
  "client_result r \<longleftrightarrow> (case r of Inl e \<Rightarrow> client_error e | Inr _ \<Rightarrow> True)"

lemma client_error_simps [simp]:
  "client_error (Invalid m e)" "client_error (NotFound m)" "client_error (Conflict m e)"
  "client_error (StaleVersion e)" "client_error (Unauthorized m)" "client_error (Forbidden m)"
  "client_error TooManyRequests" "client_error (Unavailable m e)" "client_error (Internal e)"
  by (simp_all add: apperror_defs)

lemma client_error_translate [simp]: "client_error (translate e)"
  by (simp add: translate_def)

lemma client_result_simps [simp]:
  "client_result (Inl e) = client_error e" "client_result (Inr x)"
  "client_result (translate_result r)"
  by (simp_all add: client_result_def translate_result_def split: sum.split)

lemma authorize_error: "authorize env ctx t a = Inl e \<Longrightarrow> client_error e"
  by (auto simp: authorize_def enforceTenant_def verifyApplication_def Let_def
      split: option.splits if_splits verdict.splits)

lemma frequency_loop_error: "frequency_loop env l checks w = (Some e, w') \<Longrightarrow> client_error e"
  by (induction env l checks w rule: frequency_loop.induct) (auto split: prod.splits sum.splits if_splits)

lemma checkFrequency_error: "checkFrequency env s t a c ch r w = (Some e, w') \<Longrightarrow> client_error e"
  by (auto simp: checkFrequency_def frequency_loop_error split: option.splits if_splits)

lemma operations_client:
  "client_result (fst (PutProvider env s ctx v x w))" "client_result (fst (GetProvider_op env ctx t a c w))"
  "client_result (fst (ListProviders_op env ctx t a k ch st pg sz w))" "client_result (fst (PutTemplate env s ctx tv x w))"
  "client_result (fst (GetTemplate_op env ctx t a c ch l w))" "client_result (fst (ListTemplates_op env ctx t a k ch st pg sz w))"
  "client_result (fst (Send env s ctx t a c ch l rc k vs w))" "client_result (fst (RecordReceipt env s ctx t a p m st rs w))"
  "client_result (fst (GetDelivery_op env ctx i t a w))" "client_result (fst (ListDeliveries_op env ctx t a st pg sz w))"
  by (simp_all add: PutProvider_def GetProvider_op_def ListProviders_op_def PutTemplate_def GetTemplate_op_def
      ListTemplates_op_def Send_def RecordReceipt_def GetDelivery_op_def ListDeliveries_op_def Let_def
      authorize_error checkFrequency_error split: sum.split option.split prod.split)

lemma client_result_lift: "client_result (fst (lift f r)) = client_result (fst r)"
  by (cases "fst r") (simp_all add: lift_def)

lemma api_call_client: "client_result (fst (api_call env s ctx req w))"
  by (cases req) (simp_all add: client_result_lift operations_client)

text \<open>
  C25. Whatever fails underneath - a statement, a lost connection, a broken encoding, an access
  service that does not answer - an operation of the API returns an application error: over HTTP
  it becomes a status between 400 and 599 with the error's code and message, over gRPC a status
  that is never OK with the same message; an internal error always reads
  \<open>internal server error\<close> on both, so no cause reaches a client.
\<close>

theorem api_errors_presentable:
  assumes "api_call env s ctx req w = (Inl e, w')" and "\<not> g_Written c"
  shows "400 \<le> g_Status (Fail c e) \<and> g_Status (Fail c e) < 600 \<and>
    g_Written_JSON (Fail c e) = g_Written_JSON c @
      [\<lparr>rs_Code = Code e, rs_Message = Message e, rs_Body = NilBody, rs_RequestID = requestID c\<rparr>] \<and>
    Code e \<noteq> CodeOK \<and> status_code (grpcError e) \<noteq> codes_OK \<and> status_message (grpcError e) = Message e \<and>
    (Code e = CodeInternal \<longrightarrow> Message e = ''internal server error'')"
proof -
  from assms(1) have "client_error e" using api_call_client [of env s ctx req w] by simp
  then obtain code m st cause where e: "e = AppError code m st cause" and st: "400 \<le> st" "st < 600" "code \<noteq> CodeOK"
    "code = CodeInternal \<Longrightarrow> m = ''internal server error''"
    by (cases e) auto
  then have "status_code (grpcError e) \<noteq> codes_OK" by (cases code) (simp_all add: grpcError_def)
  with e st assms(2) show ?thesis by (auto simp: Fail_def app_error_def grpcError_def)
qed

theorem api_errors_presentable_witness:
  "status_code (grpcError (Unauthorized ''authenticated actor is required'')) \<noteq> codes_OK"
proof -
  have "api_call sample_env sample_service background
      (GetDelivery_req \<lparr>gdr_ID = ''d1'', gdr_TenantID = ''t1'', gdr_ApplicationID = ''app''\<rparr>) (sample_world sample_db) =
    (Inl (Unauthorized ''authenticated actor is required''), sample_world sample_db)"
    by (simp add: lift_def GetDelivery_op_def authorize_def background_def)
  from api_errors_presentable [OF this, of "sample_gin send_path []"] show ?thesis
    by (simp add: sample_gin_def)
qed

text \<open>
  The gRPC mapping has no case for a stale version: a conflict of two writers that the
  database detects is status 409 over HTTP, but over gRPC it is the code of an internal error,
  while the same conflict detected by the service itself is \<open>Aborted\<close>.
\<close>

lemma grpc_stale_is_internal:
  "HTTPStatus (translate ErrStaleVersion) = 409 \<and>
   grpcError (translate ErrStaleVersion) = rpc_status codes_Internal ''resource version is stale'' \<and>
   grpcError (Conflict m (Some ErrStaleVersion)) = rpc_status codes_Aborted m"
  by (simp add: translate_def grpcError_def apperror_defs)

section \<open>Authentication of RPCs\<close>

text \<open>
  The metadata of a call hold no credential that the server accepts: no authorization at all, or
  one that is neither a bearer token that verifies at some time nor, for methods with a pre-shared
  key, that key.
\<close>

definition no_rpc_credential :: "env \<Rightarrow> auth_env \<Rightarrow> AuthService \<Rightarrow> Auth_cfg \<Rightarrow> call \<Rightarrow> bool" where
  "no_rpc_credential env ae s cfg c \<longleftrightarrow>
     (case ValueFromIncomingContext c ''authorization'' of
        [] \<Rightarrow> True
      | header # _ \<Rightarrow>
          (\<forall>scheme raw w. header = scheme @ '' '' @ raw \<and> EqualFold scheme ''Bearer'' \<longrightarrow>
             isl (fst (Verify_token env ae s raw w))) \<and>
          (PSK_Enabled (Auth_PSK cfg) \<and> MatchesAny (call_FullMethod c) (PSK_GRPCMethods (Auth_PSK cfg)) \<longrightarrow>
             \<not> VerifyPSK header (PSK_Key (Auth_PSK cfg))))"

lemma no_rpc_credential_context [simp]:
  "no_rpc_credential env ae s cfg (c\<lparr>call_Context := ctx\<rparr>) = no_rpc_credential env ae s cfg c"
  by (simp add: no_rpc_credential_def ValueFromIncomingContext_def split: list.split)

lemma authenticateGRPC_refuses:
  assumes "no_rpc_credential env ae s cfg c"
    and "\<not> MatchesAny (call_FullMethod c) (Auth_SkipGRPCMethods cfg)"
    and a: "authenticateGRPC env ae s cfg c (web_world w) = (r, w')"
  shows "(\<exists>m. r = Inl (rpc_status codes_Unauthenticated m)) \<and> idle w (w\<lparr>web_world := w'\<rparr>)"
proof (cases "ValueFromIncomingContext c ''authorization''")
  case Nil
  with assms(2) a show ?thesis by (auto simp: authenticateGRPC_def Let_def split: if_splits)
next
  case (Cons header rest)
  obtain scheme raw ok where cut: "Cut header CHR '' '' = (scheme, raw, ok)" by (metis prod_cases3)
  obtain v w1 where tok: "Verify_token env ae s raw (web_world w) = (v, w1)" by fastforce
  have "isl v" if "ok" "EqualFold scheme ''Bearer''"
  proof -
    have "header = scheme @ '' '' @ raw" using Cut_split [OF cut] that(1) by simp
    with assms(1) Cons that(2) have "isl (fst (Verify_token env ae s raw (web_world w)))"
      by (simp add: no_rpc_credential_def del: EqualFold.simps)
    with tok show ?thesis by simp
  qed
  moreover have "PSK_Enabled (Auth_PSK cfg) \<and> MatchesAny (call_FullMethod c) (PSK_GRPCMethods (Auth_PSK cfg)) \<longrightarrow>
      \<not> VerifyPSK header (PSK_Key (Auth_PSK cfg))"
    using assms(1) Cons by (simp add: no_rpc_credential_def)
  ultimately show ?thesis
    using assms(2) a Cons cut tok Verify_token_idle [OF tok]
    by (cases v) (auto simp: authenticateGRPC_def Let_def simp del: EqualFold.simps split: if_splits)
qed

lemma authInterceptor_refuses:
  assumes "no_rpc_credential env ae s cfg c"
    and "\<not> MatchesAny (call_FullMethod c) (Auth_SkipGRPCMethods cfg)"
  shows "\<exists>m w'. authInterceptor env ae s cfg h c w = (Inl (rpc_status codes_Unauthenticated m), w') \<and> idle w w'"
proof -
  obtain r w' where a: "authenticateGRPC env ae s cfg c (web_world w) = (r, w')" by fastforce
  from authenticateGRPC_refuses [OF assms a] a show ?thesis by (auto simp: authInterceptor_def)
qed

lemma recoveryInterceptor_status:
  "h c w = (Inl (rpc_status k m), w') \<Longrightarrow> recoveryInterceptor h c w = (Inl (rpc_status k m), w')"
  by (simp add: recoveryInterceptor_def)

lemma incoming_request_id_idle:
  "incoming_request_id env ae c w = (i, w1) \<Longrightarrow> idle w (w1\<lparr>web_rpc_headers := hs\<rparr>)"
  using Generate_idle [of env ae w]
  by (auto simp: incoming_request_id_def Let_def idle_def split: if_splits prod.splits)

text \<open>
  C27. An RPC whose method is not exempt and whose metadata hold no acceptable credential fails
  before the handler and the interceptors of authorization and idempotency: nothing happens to the
  tables, and the code is \<open>Unauthenticated\<close> (or \<open>InvalidArgument\<close> for a malformed
  idempotency key).
\<close>

theorem rpc_unauthenticated_refused:
  assumes "no_rpc_credential env ae (srv_auth srv) (c_Auth (srv_cfg srv)) c"
    and "\<not> MatchesAny (call_FullMethod c) (Auth_SkipGRPCMethods (c_Auth (srv_cfg srv)))"
  shows "\<exists>k m w'. ServeRPC env ae g authz idem full srv req c w = (Inl (rpc_status k m), w') \<and> idle w w' \<and>
    (k = codes_Unauthenticated \<or> k = codes_InvalidArgument)"
proof -
  let ?s = "srv_auth srv" and ?cfg = "c_Auth (srv_cfg srv)"
  let ?c = "\<lambda>ctx. c\<lparr>call_Context := ctx\<rparr>"
  have cred: "no_rpc_credential env ae ?s ?cfg (?c ctx)"
    "\<not> MatchesAny (call_FullMethod (?c ctx)) (Auth_SkipGRPCMethods ?cfg)" for ctx
    using assms by simp_all
  define ctx1 where "ctx1 = (call_Context c)\<lparr>ctx_Environment := Some (Runtime_ActiveProfile (c_Runtime (srv_cfg srv)))\<rparr>"
  obtain i w1 where id: "incoming_request_id env ae (?c ctx1) w = (i, w1)" by fastforce
  define w2 where "w2 = w1\<lparr>web_rpc_headers := web_rpc_headers w1 @ [(''x-request-id'', i)]\<rparr>"
  have idle: "idle w w2" unfolding w2_def by (rule incoming_request_id_idle [OF id])
  define h where "h = authz (notificationGRPCRequirement full (Authorization_Enabled (c_Authorization (srv_cfg srv))))
          (idem (Idempotency_GRPCMethods (c_Idempotency (srv_cfg srv)))
            (metricsInterceptor (metrics_enabled srv)
              (\<lambda>c w. case handle env (h_notifications (srv_handler srv)) (call_Context c) req (web_world w) of
                (r, w1) \<Rightarrow> (r, w\<lparr>web_world := w1\<rparr>))))"
  have serve: "ServeRPC env ae g authz idem full srv req c w =
      idempotencyInterceptor g (recoveryInterceptor (authInterceptor env ae ?s ?cfg h))
        (?c (ctx1\<lparr>ctx_RequestID := Some i\<rparr>)) w2"
    unfolding ServeRPC_def unary_chain_def environmentInterceptor_def requestIDInterceptor_def h_def [symmetric]
      ctx1_def [symmetric]
    by (simp add: id w2_def)
  have "\<exists>m w'. recoveryInterceptor (authInterceptor env ae ?s ?cfg h) (?c ctx) w2 =
      (Inl (rpc_status codes_Unauthenticated m), w') \<and> idle w2 w'" for ctx
    using authInterceptor_refuses [OF cred, where h = h and w = w2]
    by (metis recoveryInterceptor_status)
  then have "\<exists>k m w'. idempotencyInterceptor g (recoveryInterceptor (authInterceptor env ae ?s ?cfg h)) (?c ctx) w2 =
      (Inl (rpc_status k m), w') \<and> idle w2 w' \<and> (k = codes_Unauthenticated \<or> k = codes_InvalidArgument)" for ctx
    by (fastforce simp: idempotencyInterceptor_def Let_def)
  with idle show ?thesis unfolding serve by (meson idle_trans)
qed

definition sample_call :: "string list \<Rightarrow> call" where
  "sample_call values =
     \<lparr>call_Context = background, call_Metadata = [(''authorization'', values)],
      call_FullMethod = ''/platform.notification.v1.NotificationService/Send''\<rparr>"

theorem rpc_unauthenticated_refused_witness:
  "\<exists>st w'. ServeRPC sample_env sample_auth_env sample_gate (\<lambda>_ h. h) (\<lambda>_ h. h) sample_full sample_server
     (pb_of (Send_req sample_SendNotificationRequest)) (sample_call []) (sample_web sample_db) = (Inl st, w') \<and>
     Deliveries (w_db (web_world w')) = [sample_delivery]"
proof -
  have "no_rpc_credential sample_env sample_auth_env (srv_auth sample_server) (c_Auth (srv_cfg sample_server)) (sample_call [])"
    by (simp add: no_rpc_credential_def sample_call_def ValueFromIncomingContext_def)
  moreover have "\<not> MatchesAny (call_FullMethod (sample_call [])) (Auth_SkipGRPCMethods (c_Auth (srv_cfg sample_server)))"
    by code_simp
  ultimately obtain st w' where "ServeRPC sample_env sample_auth_env sample_gate (\<lambda>_ h. h) (\<lambda>_ h. h) sample_full
      sample_server (pb_of (Send_req sample_SendNotificationRequest)) (sample_call []) (sample_web sample_db) = (Inl st, w')"
    "idle (sample_web sample_db) w'"
    using rpc_unauthenticated_refused by blast
  then show ?thesis by (auto simp: idle_def sample_web_def)
qed

section \<open>Readiness\<close>

definition check_spec :: "string \<Rightarrow> bool \<Rightarrow> string option \<Rightarrow> web \<Rightarrow> HealthResult \<Rightarrow> web \<Rightarrow> bool" where
  "check_spec name configured ping w r w' \<longleftrightarrow>
     hr_name r = name \<and> (hr_ready r \<longleftrightarrow> (configured \<longrightarrow> ping = None)) \<and>
     dep_Status (hr_dependency r) = (if \<not> configured then ''disabled'' else if ping = None then ''up'' else ''down'') \<and>
     web_pings w' = web_pings w \<and> w_db (web_world w') = w_db (web_world w)"

lemma checks:
  "checkDatabase env g s w = (r, w') \<Longrightarrow> check_spec ''database'' (hsv_db s) (ping_database g (web_pings w)) w r w'"
  "checkRedis env g s w = (r, w') \<Longrightarrow> check_spec ''redis'' (hsv_redis s) (ping_redis g (web_pings w)) w r w'"
  by (auto simp: check_spec_def checkDatabase_def checkRedis_def disabled_result_def timed_ping_def
      checkResult_def read_clock_def split: if_splits)

lemma collect_two:
  "hr_name a \<noteq> hr_name b \<Longrightarrow> collect [a, b] st True = collect [b, a] st True"
  by (auto simp: fun_upd_twist)

text \<open>
  Readiness does not depend on which of the two concurrent checks finishes first: the service
  is ready exactly when every configured dependency answers its ping, the overall status says so,
  and each dependency is reported as disabled, up or down by its own ping. The gRPC health check
  gives the same answer.
\<close>

lemma Ready_correct:
  assumes "Ready env g s w = ((status, ready), w')"
  shows "(ready \<longleftrightarrow> (hsv_db s \<longrightarrow> ping_database g (web_pings w) = None) \<and>
      (hsv_redis s \<longrightarrow> ping_redis g (web_pings w) = None)) \<and>
    hs_Status status = (if ready then ''ready'' else ''not_ready'') \<and>
    map_option dep_Status \<circ> hs_Dependencies status =
      [''database'' \<mapsto> (if \<not> hsv_db s then ''disabled'' else if ping_database g (web_pings w) = None then ''up'' else ''down''),
       ''redis'' \<mapsto> (if \<not> hsv_redis s then ''disabled'' else if ping_redis g (web_pings w) = None then ''up'' else ''down'')] \<and>
    fst (health_Check env g s w) = (if ready then SERVING else NOT_SERVING) \<and> w_db (web_world w') = w_db (web_world w)"
proof -
  let ?start = "\<lparr>hs_Status = ''ready'', hs_Dependencies = Map.empty\<rparr>"
  obtain d r w2 where d: "check_spec ''database'' (hsv_db s) (ping_database g (web_pings w)) w d w2"
    and r: "check_spec ''redis'' (hsv_redis s) (ping_redis g (web_pings w)) w r w2"
    and ready: "Ready env g s w =
      ((\<lambda>(st, ok). (if ok then st else st\<lparr>hs_Status := ''not_ready''\<rparr>, ok)) (collect [d, r] ?start True),
       w2\<lparr>web_pings := Suc (web_pings w2)\<rparr>)"
  proof (cases "database_first g (web_pings w)")
    case True
    obtain d w1 where d: "checkDatabase env g s w = (d, w1)" by fastforce
    obtain r w2 where r: "checkRedis env g s w1 = (r, w2)" by fastforce
    from checks(1) [OF d] checks(2) [OF r] True d r show ?thesis
      by (intro that [of d w2 r]) (auto simp: check_spec_def Ready_def split_beta Let_def)
  next
    case False
    obtain r w1 where r: "checkRedis env g s w = (r, w1)" by fastforce
    obtain d w2 where d: "checkDatabase env g s w1 = (d, w2)" by fastforce
    from checks(2) [OF r] checks(1) [OF d] have ne: "hr_name d \<noteq> hr_name r" by (simp add: check_spec_def)
    from checks(2) [OF r] checks(1) [OF d] False d r show ?thesis
      by (intro that [of d w2 r]) (auto simp: check_spec_def Ready_def split_beta Let_def collect_two [OF ne])
  qed
  have deps: "map_option dep_Status \<circ> hs_Dependencies (fst (collect [d, r] ?start True)) =
      [''database'' \<mapsto> dep_Status (hr_dependency d), ''redis'' \<mapsto> dep_Status (hr_dependency r)]"
    using d r by (simp add: check_spec_def map_option_o_map_upd)
  have ok: "ready \<longleftrightarrow> hr_ready d \<and> hr_ready r" "hs_Status status = (if ready then ''ready'' else ''not_ready'')"
    "hs_Dependencies status = hs_Dependencies (fst (collect [d, r] ?start True))" "w_db (web_world w') = w_db (web_world w2)"
    using ready assms by (auto split: if_splits)
  have "fst (health_Check env g s w) = (if ready then SERVING else NOT_SERVING)"
    using assms by (simp add: health_Check_def)
  with ok deps d r show ?thesis by (simp only: check_spec_def)
qed

lemma Ready_correct_witness:
  "snd (fst (Ready sample_env sample_gate (NewHealth True True sample_config) (sample_web sample_db))) = False"
proof -
  obtain status ready w' where r: "Ready sample_env sample_gate (NewHealth True True sample_config) (sample_web sample_db) =
      ((status, ready), w')" by (metis prod.collapse)
  from Ready_correct [OF r] r show ?thesis by (simp add: NewHealth_def sample_gate_def)
qed

end
