(* ===== verification/System.thy ===== *)
theory System
  imports SendCorrect ProviderCorrect DispatcherCorrect CleanupCorrect GrpcCorrect
begin

text \<open>
  The service as a whole. \<open>table_step\<close> is its abstract specification: the atomic changes of the
  four tables that any instance may make. Every operation - an API request, a round of the
  dispatcher, a run of the retention cleaner - refines it under arbitrary faults, when the other
  sessions of the database follow it as well; so several instances can serve the same tables. The
  invariant of the tables holds of the abstract steps and therefore of every run.
\<close>

section \<open>Definitions\<close>

definition replaced :: "'r \<Rightarrow> 'r \<Rightarrow> 'r list \<Rightarrow> 'r list" where
  "replaced q q' rows = map (\<lambda>r. if r = q then q' else r) rows"

text \<open>
  The steps. Providers and templates are added or changed one row at a time, a provider only to a
  routable one; a delivery is requested together with its event; due deliveries are claimed; a
  delivery moves by a step of its life, together with its event; sent and dead-lettered deliveries
  are removed; the relay of the outbox marks or removes events but never invents one.
\<close>

inductive table_step :: "Notification_cfg \<Rightarrow> Service \<Rightarrow> db \<Rightarrow> db \<Rightarrow> bool" for cfg s where
  add_provider: "routable s v \<Longrightarrow> p_Version v = 1 \<Longrightarrow> provider_key v \<notin> provider_key ` set (Providers d) \<Longrightarrow>
    table_step cfg s d (d\<lparr>Providers := Providers d @ [v]\<rparr>)"
| change_provider: "q \<in> set (Providers d) \<Longrightarrow> routable s (set_provider v q) \<Longrightarrow>
    table_step cfg s d (d\<lparr>Providers := replaced q (set_provider v q) (Providers d)\<rparr>)"
| add_template: "validChannel (t_Channel v) \<Longrightarrow> t_Version v = 1 \<Longrightarrow> template_key v \<notin> template_key ` set (Templates d) \<Longrightarrow>
    table_step cfg s d (d\<lparr>Templates := Templates d @ [v]\<rparr>)"
| change_template: "q \<in> set (Templates d) \<Longrightarrow>
    table_step cfg s d (d\<lparr>Templates := replaced q (set_template v q) (Templates d)\<rparr>)"
| request: "d_Status v = ''pending'' \<Longrightarrow> d_Attempts v = 0 \<Longrightarrow> d_Version v = 1 \<Longrightarrow> d_ProviderMessageID v = [] \<Longrightarrow>
    delivery_key v \<notin> delivery_key ` set (Deliveries d) \<Longrightarrow>
    table_step cfg s d (d\<lparr>Deliveries := Deliveries d @ [v],
      Outbox := Outbox d @ [outbox_row (delivery_event env (NewUUID env i) v requested_type requested_subject)]\<rparr>)"
| claim: "(\<And>v. v \<in> set vs \<Longrightarrow> v \<in> set (Deliveries d) \<and> claimable now v) \<Longrightarrow>
    table_step cfg s d (d\<lparr>Deliveries := claimed_rows now vs (Deliveries d)\<rparr>)"
| move: "q \<in> set (Deliveries d) \<Longrightarrow> lifecycle_step cfg q q' \<Longrightarrow> table_step cfg s d (moved env i q q' d)"
| expire: "table_step cfg s d (d\<lparr>Deliveries := delete_where (\<lambda>r. P r \<and> expired before r) (Deliveries d)\<rparr>)"
| relay: "ob_event ` set rows \<subseteq> ob_event ` set (Outbox d) \<Longrightarrow> table_step cfg s d (d\<lparr>Outbox := rows\<rparr>)"

text \<open>The invariant of the tables.\<close>

definition system_inv :: "Notification_cfg \<Rightarrow> Service \<Rightarrow> db \<Rightarrow> bool" where
  "system_inv cfg s d \<longleftrightarrow> schema_ok d \<and> (\<forall>r \<in> set (Deliveries d). row_inv cfg r) \<and> all_routable s d"

definition delivery_ids :: "db \<Rightarrow> string set" where
  "delivery_ids d = d_ID ` set (Deliveries d)"

text \<open>
  Other sessions are instances of the service: what they commit between two statements are steps,
  in order of the versions, and a delivery they add has an id that was never seen before.
\<close>

definition peers :: "Notification_cfg \<Rightarrow> Service \<Rightarrow> env \<Rightarrow> db \<Rightarrow> bool" where
  "peers cfg s env d0 \<longleftrightarrow>
     orderly env \<and> (\<forall>n d. schema_ok d \<longrightarrow> (table_step cfg s)\<^sup>*\<^sup>* d (Others env n d)) \<and>
     (\<exists>Fresh. (\<forall>m n. m \<noteq> n \<longrightarrow> Fresh m \<inter> Fresh n = {}) \<and> (\<forall>n. Fresh n \<inter> delivery_ids d0 = {}) \<and>
        (\<forall>n d. delivery_ids (Others env n d) \<subseteq> delivery_ids d \<union> Fresh n))"

text \<open>The operations of an instance; \<open>None\<close> when the cleaner needs more batches than allowed.\<close>

datatype operation = Request Context api_request | Round Context | Clean nat

fun perform :: "env \<Rightarrow> Service \<Rightarrow> Dispatcher \<Rightarrow> RetentionCleaner \<Rightarrow> operation \<Rightarrow> world \<Rightarrow> world option" where
  "perform env s dp rc (Request ctx req) w = Some (snd (api_call env s ctx req w))"
| "perform env s dp rc (Round ctx) w = Some (snd (RunOnce env dp ctx w))"
| "perform env s dp rc (Clean batches) w = map_option snd (clean batches env rc w)"

text \<open>A run: operations of instances with the same configuration, from the tables of a migration.\<close>

inductive run :: "Service \<Rightarrow> Dispatcher \<Rightarrow> RetentionCleaner \<Rightarrow> world \<Rightarrow> bool" for s dp rc where
  migrated: "w_db w = \<lparr>Templates = [], Providers = [], Deliveries = [], Outbox = []\<rparr> \<Longrightarrow> run s dp rc w"
| performed: "run s dp rc w \<Longrightarrow> peers (dp_cfg dp) s env (w_db w) \<Longrightarrow> perform env s dp rc op w = Some w' \<Longrightarrow>
    run s dp rc w'"

definition sample_PutTemplateRequest :: PutTemplateRequest where
  "sample_PutTemplateRequest =
     \<lparr>ptr_TenantID = ''t1'', ptr_ApplicationID = ''app'', ptr_Code = ''welcome'', ptr_Channel = ''in_app'',
      ptr_Locale = ''en'', ptr_Subject = ''Hi'', ptr_Content = ''Hello'', ptr_Status = [], ptr_ExpectedVersion = 0\<rparr>"

section \<open>Lemmas\<close>

subsection \<open>The invariant of the steps\<close>

lemma set_replaced: "r \<in> set (replaced q q' rows) \<Longrightarrow> r = q' \<or> r \<in> set rows"
  by (auto simp: replaced_def split: if_splits)

lemma step_rows_inv:
  assumes "table_step cfg s d d'" and "\<forall>r \<in> set (Deliveries d). row_inv cfg r"
    and "0 < Notification_MaxAttempts cfg"
  shows "\<forall>r \<in> set (Deliveries d'). row_inv cfg r"
  using assms(1)
proof (cases rule: table_step.cases)
  case (request v env i)
  with assms(2,3) show ?thesis by (auto simp: row_inv_def status_defs)
next
  case (claim vs now)
  with assms(2,3) show ?thesis by (auto simp: claimed_rows_def claimable_def intro!: claim_row_inv)
next
  case (move q q' env i)
  with assms(2,3) step_row_inv [OF move(3)] show ?thesis by (auto split: if_splits)
next
  case (expire P before)
  with assms(2) show ?thesis by (auto simp: set_delete_where)
qed (use assms(2) in simp_all)

lemma step_routable:
  assumes "table_step cfg s d d'" and "all_routable s d"
  shows "all_routable s d'"
  using assms(1)
  by (cases rule: table_step.cases)
     (use assms(2) in \<open>auto simp: all_routable_def moved_def dest!: set_replaced\<close>)

lemma steps_inv:
  assumes "(table_step cfg s)\<^sup>*\<^sup>* d d'" and "\<forall>r \<in> set (Deliveries d). row_inv cfg r" and "all_routable s d"
    and "0 < Notification_MaxAttempts cfg"
  shows "(\<forall>r \<in> set (Deliveries d'). row_inv cfg r) \<and> all_routable s d'"
  using assms(1)
  by induction (use assms(2-4) step_rows_inv step_routable in blast)+

subsection \<open>Transactions as steps\<close>

lemma peersD:
  "peers cfg s env d0 \<Longrightarrow> orderly env"
  "peers cfg s env d0 \<Longrightarrow> schema_ok d \<Longrightarrow> (table_step cfg s)\<^sup>*\<^sup>* d (Others env n d)"
  "peers cfg s env d0 \<Longrightarrow> schema_ok d \<Longrightarrow> schema_ok (Others env n d)"
  by (auto simp: peers_def dest: orderlyD)

lemma Within_steps:
  assumes "Within env en fn w = (r, w')" and "peers cfg s env d0" and "schema_ok (w_db w)"
    and "\<And>x w2. fn (begun env w) = (Inr x, w2) \<Longrightarrow> (table_step cfg s)\<^sup>*\<^sup>* (w_db (begun env w)) (w_db w2)"
  shows "(table_step cfg s)\<^sup>*\<^sup>* (w_db w) (w_db w')"
proof -
  have "(table_step cfg s)\<^sup>*\<^sup>* (w_db w) (w_db (begun env w))"
    using peersD(2) [OF assms(2,3)] by (simp add: begun_def)
  with Within_db [OF assms(1)] assms(4) show ?thesis by (metis rtranclp.rtrancl_refl rtranclp_trans)
qed

lemma update_where_replaced:
  assumes "q \<in> set rows" and "ident q = i" and "vers q = x" and "unique_by ident rows"
  shows "update_where (at_version ident vers i x) f rows = replaced q (f q) rows"
  unfolding update_where_def replaced_def
  by (rule map_cong) (use assms in \<open>auto simp: at_version_def dest: unique_byD\<close>)

lemma Send_steps:
  assumes "Send env s' ctx t a c ch lo rc k vars w = (r, w')" and "peers cfg s env d0" and "schema_ok (w_db w)"
  shows "(table_step cfg s)\<^sup>*\<^sup>* (w_db w) (w_db w')"
  using assms(1)
proof (cases rule: Send_cases)
  case (attempted v caller encoded i j w5 r')
  have "(table_step cfg s)\<^sup>*\<^sup>* (w_db (begun env w5)) (w_db w2)" if "send_tx env v (begun env w5) = (Inr x, w2)" for x w2
    using that
    by (rule send_tx_Inr) (auto intro!: r_into_rtranclp table_step.request simp: attempted(5) new_delivery_def)
  with Within_steps [OF attempted(6) assms(2)] assms(3) attempted(1) show ?thesis by simp
qed simp_all

lemma PutProvider_steps:
  assumes "PutProvider env s ctx u x w = (r, w')" and "peers cfg s env d0" and "schema_ok (w_db w)"
  shows "(table_step cfg s)\<^sup>*\<^sup>* (w_db w) (w_db w')"
  using assms(1)
proof (cases rule: PutProvider_cases)
  case (created nv v caller i j w3 r')
  have "routable s v" "p_Version v = 1"
    using created by (simp_all add: routable_def new_provider_def valid_provider_def)
  then have "(table_step cfg s)\<^sup>*\<^sup>* (w_db (begun env w3)) (w_db w2)" if "InsertProvider env v (begun env w3) = (Inr y, w2)" for y w2
    using InsertProvider_Inr [OF that] by (auto simp: insert_Inr intro!: r_into_rtranclp table_step.add_provider)
  with Within_steps [OF created(10) assms(2)] assms(3) created(6) show ?thesis by simp
next
  case (updated nv v old caller j w2 r')
  have ok: "routable s (set_provider v q)" for q
    using updated by (simp add: routable_def set_provider_def merge_provider_def valid_provider_def)
  have "unique_by p_ID (Providers (w_db (begun env w2)))"
    using peersD(3) [OF assms(2,3)] updated(6) by (simp add: begun_def schema_ok_def)
  then have "(table_step cfg s)\<^sup>*\<^sup>* (w_db (begun env w2)) (w_db w3)" if "UpdateProvider env v x (begun env w2) = (Inr y, w3)" for y w3
    using that ok
    by (elim UpdateProvider_rows)
       (auto simp: update_where_replaced intro!: r_into_rtranclp table_step.change_provider)
  with Within_steps [OF updated(12) assms(2)] assms(3) updated(6) show ?thesis by simp
qed simp_all

lemma PutTemplate_steps:
  assumes "PutTemplate env s' ctx u x w = (r, w')" and "peers cfg s env d0" and "schema_ok (w_db w)"
  shows "(table_step cfg s)\<^sup>*\<^sup>* (w_db w) (w_db w')"
  using assms(1)
proof (cases rule: PutTemplate_cases)
  case (created nv v caller i j w3 r')
  have "validChannel (t_Channel v)" "t_Version v = 1" using created by (simp_all add: new_template_def)
  then have "(table_step cfg s)\<^sup>*\<^sup>* (w_db (begun env w3)) (w_db w2)" if "InsertTemplate env v (begun env w3) = (Inr y, w2)" for y w2
    using InsertTemplate_Inr [OF that] by (auto simp: insert_Inr intro!: r_into_rtranclp table_step.add_template)
  with Within_steps [OF created(9) assms(2)] assms(3) created(6) show ?thesis by simp
next
  case (updated nv v old caller j w2 r')
  have "unique_by t_ID (Templates (w_db (begun env w2)))"
    using peersD(3) [OF assms(2,3)] updated(6) by (simp add: begun_def schema_ok_def)
  then have "(table_step cfg s)\<^sup>*\<^sup>* (w_db (begun env w2)) (w_db w3)" if "UpdateTemplate env v x (begun env w2) = (Inr y, w3)" for y w3
    using that
    by (elim UpdateTemplate_rows)
       (auto simp: update_where_replaced intro!: r_into_rtranclp table_step.change_template)
  with Within_steps [OF updated(10) assms(2)] assms(3) updated(6) show ?thesis by simp
qed simp_all

lemma RecordReceipt_steps:
  assumes "RecordReceipt env s' ctx t a p m st rs w = (r, w')" and "peers cfg s env d0" and "schema_ok (w_db w)"
  shows "(table_step cfg s)\<^sup>*\<^sup>* (w_db w) (w_db w')"
  using assms(1)
proof (cases rule: RecordReceipt_cases)
  case (recorded q v caller j w2 r')
  have "schema_ok (w_db (begun env w2))" "past q (w_db (begun env w2))"
    using peersD(1,3) [OF assms(2)] assms(3) recorded(1,3)
    by (auto simp: begun_def intro: past_forward dest: orderlyD)
  then have "(table_step cfg s)\<^sup>*\<^sup>* (w_db (begun env w2)) (w_db w3)" if "finish_tx env v (begun env w2) = (Inr y, w3)" for y w3
    using that
  proof (elim finish_tx_moved [where q = q])
    fix i assume "q \<in> set (Deliveries (w_db (begun env w2)))"
      and eq: "w_db w3 = moved env i q (set_finished v q) (w_db (begun env w2))"
    moreover have "lifecycle_step cfg q (set_finished v q)"
      unfolding recorded(11) by (rule lifecycle_step.receipt) (use recorded in auto)
    ultimately show ?thesis by (auto intro: table_step.move)
  next
    show "set_finished v q = v\<lparr>d_Version := d_Version q + 1\<rparr>" by (simp add: recorded(11) receipt_value)
  qed (auto simp: recorded(11) receipt_delivery_def past_def schema_ok_def)
  with Within_steps [OF recorded(12) assms(2)] assms(3) recorded(1) show ?thesis by simp
qed simp_all

subsection \<open>The cleaner\<close>

lemma batch_steps:
  assumes "DeleteTerminalDeliveriesBefore env before limit w = (r, w')" and "peers cfg s env d0" and "schema_ok (w_db w)"
  shows "(table_step cfg s)\<^sup>*\<^sup>* (w_db w) (w_db w')"
proof -
  obtain q w1 where q: "query env (expired_ids before limit) w = (q, w1)" by fastforce
  let ?w2 = "w1\<lparr>w_db := Others env (w_stmts w1) (w_db w1)\<rparr>"
  have first: "(table_step cfg s)\<^sup>*\<^sup>* (w_db w) (w_db ?w2)"
    using peersD(2) [OF assms(2,3)] query_db [OF q] by simp
  have "(table_step cfg s)\<^sup>*\<^sup>* (w_db ?w2) (w_db w3)" if "exec env (delete_expired ids before) ?w2 = (x, w3)" for ids x w3
    using exec_db [OF that] table_step.expire [of cfg s "w_db ?w2" "\<lambda>r. d_ID r \<in> set ids" before]
    by (auto simp: delete_expired_def)
  with first have "(table_step cfg s)\<^sup>*\<^sup>* (w_db w) (w_db w3)" if "exec env (delete_expired ids before) ?w2 = (x, w3)" for ids x w3
    using that by (blast intro: rtranclp_trans)
  with assms(1) q query_db [OF q] show ?thesis
    by (auto simp: DeleteTerminalDeliveriesBefore_def split: sum.splits prod.splits if_splits)
qed

lemma clean_steps:
  assumes "clean fuel env c w = Some (r, w')" and "peers cfg s env d0" and "schema_ok (w_db w)"
  shows "(table_step cfg s)\<^sup>*\<^sup>* (w_db w) (w_db w') \<and> schema_ok (w_db w')"
  using assms(1,3)
proof (induction fuel arbitrary: w)
  case (Suc fuel)
  let ?w1 = "w\<lparr>w_ticks := Suc (w_ticks w)\<rparr>"
  obtain b w2 where batch: "DeleteTerminalDeliveriesBefore env (Clock env (w_ticks w) - rc_retention c) (rc_batchSize c) ?w1 = (b, w2)"
    by fastforce
  have one: "(table_step cfg s)\<^sup>*\<^sup>* (w_db w) (w_db w2)" "schema_ok (w_db w2)"
    using batch_steps [OF batch assms(2)] schema.DeleteTerminalDeliveriesBefore_inv [OF batch] Suc.prems(2)
      peersD(3) [OF assms(2)] by auto
  with Suc.IH [of w2] Suc.prems(1) batch show ?case
    by (auto simp: read_clock_def split: sum.splits if_splits intro: rtranclp_trans)
qed simp

subsection \<open>A round of the dispatcher\<close>

lemma counts:
  "query env f w = (q, w') \<Longrightarrow> w_stmts w \<le> w_stmts w'" "exec env g w = (x, w') \<Longrightarrow> w_stmts w \<le> w_stmts w'"
  by (auto simp: query_def exec_def split: fault.splits sum.splits)

lemma claim_loop_counts: "claim_loop env now vs w = (r, w') \<Longrightarrow> w_stmts w \<le> w_stmts w'"
proof (induction vs arbitrary: w r)
  case (Cons v vs)
  obtain x w1 where x: "exec env (update_claimed now v) w = (x, w1)" by fastforce
  with counts(2) [OF x] Cons.IH [of w1] Cons.prems show ?case
    by (fastforce split: sum.splits prod.splits if_splits)
qed simp

lemma claim_tx_counts: "claim_tx env dp w = (r, w') \<Longrightarrow> w_stmts w \<le> w_stmts w'"
  by (auto simp: claim_tx_def ClaimDue_def read_clock_def split: prod.splits sum.splits if_splits
      dest!: counts(1) claim_loop_counts)

lemma finish_tx_counts: "finish_tx env v w = (r, w') \<Longrightarrow> w_stmts w \<le> w_stmts w'"
  by (auto simp: finish_tx_def Finish_def addDeliveryEvent_def AddOutbox_def new_uuid_def
      split: prod.splits sum.splits option.splits dest!: counts(2))

lemma Within_counts:
  assumes "Within env en fn w = (r, w')" and "\<And>w1 x w2. fn w1 = (x, w2) \<Longrightarrow> w_stmts w1 \<le> w_stmts w2"
  shows "w_stmts w \<le> w_stmts w' \<and> (\<forall>x. r = Inr x \<longrightarrow> w_stmts w < w_stmts w')"
proof -
  obtain x w2 where x: "fn (begun env w) = (x, w2)" by fastforce
  with assms(2) have "Suc (w_stmts w) \<le> w_stmts w2" by (fastforce simp: begun_def)
  with assms(1) x show ?thesis
    by (auto simp: Within_def begun_def Let_def split: if_splits fault.splits sum.splits)
qed

lemma deliver_counts: "w_stmts w \<le> w_stmts (deliver env dp ctx h w)"
proof -
  obtain outcome w1 where att: "attempt env dp ctx h w = (outcome, w1)" by fastforce
  obtain r w' where tx: "Within env (dp_db_enabled dp) (finish_tx env (settled (dp_cfg dp) (Clock env (w_ticks w1)) outcome h))
      (w1\<lparr>w_ticks := Suc (w_ticks w1)\<rparr>) = (r, w')" by fastforce
  have "w_stmts w1 \<le> w_stmts w'" using Within_counts [OF tx finish_tx_counts] by simp
  with attempt_still [OF att] att tx show ?thesis by (simp add: deliver_def read_clock_def still_def)
qed

lemma past_Others:
  assumes "past h d" and "orderly env" and "schema_ok d" and "d_ID h \<notin> F"
    and "delivery_ids (Others env n d) \<subseteq> delivery_ids d \<union> F"
  shows "past h (Others env n d)"
  unfolding past_def
proof (intro ballI impI)
  fix r assume r: "r \<in> set (Deliveries (Others env n d))" "d_ID r = d_ID h"
  with assms(4,5) obtain q where q: "q \<in> set (Deliveries d)" "d_ID q = d_ID h"
    unfolding delivery_ids_def by (metis (no_types, lifting) Un_iff image_iff subsetD)
  moreover from q assms(1) have "q = h \<or> d_Version h < d_Version q" by (auto simp: past_def)
  moreover from orderlyD(2) [OF assms(2,3), of n] q r have "r = q \<or> d_Version q < d_Version r"
    unfolding db_forward_def rows_forward_def by metis
  ultimately show "r = h \<or> d_Version h < d_Version r" by auto
qed

lemma past_moved:
  "past h d \<Longrightarrow> q \<in> set (Deliveries d) \<Longrightarrow> lifecycle_step cfg q q' \<Longrightarrow> past h (moved env i q q' d)"
  using step_identity [of cfg q q'] by (fastforce simp: past_def split: if_splits)

lemma deliver_steps:
  assumes "peers (dp_cfg dp) s env d0" and ids: "\<And>n d. delivery_ids (Others env n d) \<subseteq> delivery_ids d \<union> Fresh n"
    and "schema_ok (w_db w)" and "d_Status h = ''processing''"
    and known: "\<And>q. q \<in> insert h Q \<Longrightarrow> past q (w_db w) \<and> (\<forall>n \<ge> w_stmts w. d_ID q \<notin> Fresh n)"
  shows "(table_step (dp_cfg dp) s)\<^sup>*\<^sup>* (w_db w) (w_db (deliver env dp ctx h w)) \<and>
    (\<forall>q \<in> Q. past q (w_db (deliver env dp ctx h w)))"
proof -
  have past: "past q (Others env n (w_db w))" if "q \<in> insert h Q" "w_stmts w \<le> n" for q n
    using known [OF that(1)] that(2) by (intro past_Others [OF _ peersD(1) [OF assms(1)] assms(3) _ ids]) auto
  have unique: "unique_by d_ID (Deliveries (Others env n (w_db w)))" for n
    using peersD(3) [OF assms(1,3)] by (simp add: schema_ok_def)
  obtain outcome w1 where att: "attempt env dp ctx h w = (outcome, w1)" by fastforce
  consider "w_db (deliver env dp ctx h w) = w_db w"
    | n where "w_stmts w \<le> n" "w_db (deliver env dp ctx h w) = Others env n (w_db w)"
    | n i h' where "w_stmts w \<le> n" "w_db (deliver env dp ctx h w) = moved env i h h' (Others env n (w_db w))"
        "h \<in> set (Deliveries (Others env n (w_db w)))" "lifecycle_step (dp_cfg dp) h h'"
    using deliver_changes [OF unique past assms(4) att] unfolding Let_def by blast
  then show ?thesis
  proof cases
    case 1
    with known show ?thesis by simp
  next
    case (2 n)
    with past peersD(2) [OF assms(1,3)] show ?thesis by simp
  next
    case (3 n i h')
    then have "table_step (dp_cfg dp) s (Others env n (w_db w)) (w_db (deliver env dp ctx h w))"
      by (simp add: table_step.move)
    with 3 past past_moved peersD(2) [OF assms(1,3), of n] show ?thesis by auto
  qed
qed

lemma deliver_all_steps:
  assumes "peers (dp_cfg dp) s env d0" and ids: "\<And>n d. delivery_ids (Others env n d) \<subseteq> delivery_ids d \<union> Fresh n"
    and "schema_ok (w_db w)" and "\<And>h. h \<in> set hs \<Longrightarrow> d_Status h = ''processing''"
    and "\<And>h. h \<in> set hs \<Longrightarrow> past h (w_db w) \<and> (\<forall>n \<ge> w_stmts w. d_ID h \<notin> Fresh n)"
  shows "(table_step (dp_cfg dp) s)\<^sup>*\<^sup>* (w_db w) (w_db (deliver_all env dp ctx hs w))"
  using assms(3-5)
proof (induction hs arbitrary: w)
  case (Cons h hs)
  let ?w1 = "deliver env dp ctx h w"
  have one: "(table_step (dp_cfg dp) s)\<^sup>*\<^sup>* (w_db w) (w_db ?w1) \<and> (\<forall>q \<in> set hs. past q (w_db ?w1))"
    by (rule deliver_steps [OF assms(1) ids Cons.prems(1)]) (use Cons.prems in auto)
  moreover have "schema_ok (w_db ?w1)"
    by (rule schema.deliver_inv) (use Cons.prems(1) peersD(3) [OF assms(1)] in auto)
  moreover have "w_stmts w \<le> w_stmts ?w1" by (rule deliver_counts)
  ultimately have "(table_step (dp_cfg dp) s)\<^sup>*\<^sup>* (w_db ?w1) (w_db (deliver_all env dp ctx hs ?w1))"
    using Cons.prems(2,3) by (intro Cons.IH) auto
  with one show ?case by auto
qed simp

lemma claim_step:
  assumes "claim_tx env dp w = (Inr due, w')" and "schema_ok (w_db w)"
  shows "table_step cfg s (w_db w) (w_db w') \<and>
    (\<forall>h \<in> set due. d_Status h = ''processing'' \<and> h \<in> set (Deliveries (w_db w')) \<and> d_ID h \<in> delivery_ids (w_db w))"
proof -
  let ?now = "Clock env (w_ticks w)" and ?w1 = "w\<lparr>w_ticks := Suc (w_ticks w)\<rparr>"
  let ?vs = "due_rows env (w_stmts w) ?now (Notification_BatchSize (dp_cfg dp)) (w_db w)"
  from assms have claimed: "0 \<le> Notification_BatchSize (dp_cfg dp)" "due = map (set_claimed ?now) ?vs"
    "w_db w' = (w_db w)\<lparr>Deliveries := claimed_rows ?now ?vs (Deliveries (w_db w))\<rparr>"
    using ClaimDue_Inr [of ?w1 env ?now "Notification_BatchSize (dp_cfg dp)" due w']
    by (simp_all add: claim_tx_def read_clock_def)
  have "set ?vs \<subseteq> {r \<in> set (Deliveries (w_db w)). claimable ?now r \<and> \<not> Locked env (w_stmts w) (d_ID r)}"
    using assms(2) claimed(1) by (intro due_rows_props(1)) (auto simp: schema_ok_def)
  with claimed(2,3) show ?thesis
    by (auto simp: claimed_rows_def column_simps delivery_ids_def intro!: table_step.claim [unfolded claimed_rows_def])
qed

lemma RunOnce_steps:
  assumes "peers (dp_cfg dp) s env (w_db w)" and "schema_ok (w_db w)"
  shows "(table_step (dp_cfg dp) s)\<^sup>*\<^sup>* (w_db w) (w_db (snd (RunOnce env dp ctx w)))"
proof -
  obtain r w1 where tx: "Within env (dp_db_enabled dp) (claim_tx env dp) w = (r, w1)" by fastforce
  have start: "schema_ok (w_db (begun env w))" using peersD(3) [OF assms] by (simp add: begun_def)
  have claimed: "(table_step (dp_cfg dp) s)\<^sup>*\<^sup>* (w_db w) (w_db w1)"
    by (rule Within_steps [OF tx assms]) (use start claim_step in blast)
  show ?thesis
  proof (cases r)
    case (Inl e)
    with tx claimed show ?thesis by (simp add: RunOnce_def)
  next
    case (Inr due)
    from assms(1) obtain Fresh where fresh: "\<And>m n. m \<noteq> n \<Longrightarrow> Fresh m \<inter> Fresh n = {}"
      "\<And>n. Fresh n \<inter> delivery_ids (w_db w) = {}" "\<And>n d. delivery_ids (Others env n d) \<subseteq> delivery_ids d \<union> Fresh n"
      unfolding peers_def by blast
    from Within_Inr [OF tx [unfolded Inr]] obtain w2 where w2: "claim_tx env dp (begun env w) = (Inr due, w2)" "w_db w1 = w_db w2"
      by blast
    have later: "w_stmts w < w_stmts w1" using Within_counts [OF tx claim_tx_counts] Inr by simp
    have schema: "schema_ok (w_db w1)"
      using schema.RunOnce_inv [OF assms(2) peersD(3) [OF assms(1)]] claim_step [OF w2(1) start] w2
        schema.Within_inv [OF tx assms(2) peersD(3) [OF assms(1)]] schema.ClaimDue_inv
      by (auto simp: claim_tx_def read_clock_def)
    have known: "past h (w_db w1) \<and> (\<forall>n \<ge> w_stmts w1. d_ID h \<notin> Fresh n)" if "h \<in> set due" for h
    proof -
      have h: "h \<in> set (Deliveries (w_db w1))" "d_ID h \<in> delivery_ids (Others env (w_stmts w) (w_db w))"
        using claim_step [OF w2(1) start] that w2(2) by (auto simp: begun_def)
      then have "d_ID h \<in> delivery_ids (w_db w) \<union> Fresh (w_stmts w)" using fresh(3) by blast
      then have "d_ID h \<notin> Fresh n" if "w_stmts w1 \<le> n" for n
        using fresh(1) [of "w_stmts w" n] fresh(2) [of n] that later by auto
      moreover have "past h (w_db w1)" using h(1) schema by (auto simp: past_def schema_ok_def dest: unique_byD)
      ultimately show ?thesis by blast
    qed
    have "(table_step (dp_cfg dp) s)\<^sup>*\<^sup>* (w_db w1) (w_db (deliver_all env dp ctx due w1))"
      by (rule deliver_all_steps [OF assms(1) fresh(3) schema]) (use claim_step [OF w2(1) start] known in auto)
    with claimed tx Inr show ?thesis by (simp add: RunOnce_def)
  qed
qed

subsection \<open>Every operation\<close>

lemma read_operations_db:
  "w_db (snd (GetProvider_op env ctx t a c w)) = w_db w"
  "w_db (snd (ListProviders_op env ctx t a kw ch st pg sz w)) = w_db w"
  "w_db (snd (GetTemplate_op env ctx t a c ch lo w)) = w_db w"
  "w_db (snd (ListTemplates_op env ctx t a kw ch st pg sz w)) = w_db w"
  "w_db (snd (GetDelivery_op env ctx i t a w)) = w_db w"
  "w_db (snd (ListDeliveries_op env ctx t a st pg sz w)) = w_db w"
  by (auto simp: GetProvider_op_def ListProviders_op_def GetTemplate_op_def ListTemplates_op_def
      GetDelivery_op_def ListDeliveries_op_def Let_def split: sum.splits prod.splits
      dest!: getter_db lister_db)

lemma api_call_steps:
  assumes "peers cfg s env d0" and "schema_ok (w_db w)"
  shows "(table_step cfg s)\<^sup>*\<^sup>* (w_db w) (w_db (snd (api_call env s ctx req w)))"
  by (cases req)
     (simp_all add: lift_def read_operations_db PutProvider_steps [OF surjective_pairing assms]
        PutTemplate_steps [OF surjective_pairing assms] Send_steps [OF surjective_pairing assms]
        RecordReceipt_steps [OF surjective_pairing assms])

lemma api_call_schema:
  assumes "peers cfg s env d0" and "schema_ok (w_db w)"
  shows "schema_ok (w_db (snd (api_call env s ctx req w)))"
  using assms(2) peersD(3) [OF assms(1)]
  by (cases req)
     (auto simp: lift_def read_operations_db intro: schema.PutProvider_inv [OF surjective_pairing]
        schema.PutTemplate_inv [OF surjective_pairing] schema.Send_inv [OF surjective_pairing]
        schema.RecordReceipt_inv [OF surjective_pairing])

lemma perform_steps:
  assumes "peers (dp_cfg dp) s env (w_db w)" and "schema_ok (w_db w)" and "perform env s dp rc op w = Some w'"
  shows "(table_step (dp_cfg dp) s)\<^sup>*\<^sup>* (w_db w) (w_db w') \<and> schema_ok (w_db w')"
proof (cases op)
  case (Request ctx req)
  with assms api_call_steps [OF assms(1,2)] api_call_schema [OF assms(1,2)] show ?thesis by auto
next
  case (Round ctx)
  with assms RunOnce_steps [OF assms(1,2)] schema.RunOnce_inv [OF assms(2) peersD(3) [OF assms(1)]]
  show ?thesis by auto
next
  case (Clean fuel)
  with assms(3) clean_steps [OF _ assms(1,2)] show ?thesis by auto
qed

lemma perform_inv:
  assumes "peers (dp_cfg dp) s env (w_db w)" and "perform env s dp rc op w = Some w'"
    and "system_inv (dp_cfg dp) s (w_db w)" and "0 < Notification_MaxAttempts (dp_cfg dp)"
  shows "system_inv (dp_cfg dp) s (w_db w')"
proof -
  from assms(3) have inv: "schema_ok (w_db w)" "\<forall>r \<in> set (Deliveries (w_db w)). row_inv (dp_cfg dp) r"
    "all_routable s (w_db w)" by (simp_all add: system_inv_def)
  from perform_steps [OF assms(1) inv(1) assms(2)]
  have steps: "(table_step (dp_cfg dp) s)\<^sup>*\<^sup>* (w_db w) (w_db w')" and "schema_ok (w_db w')" by simp_all
  with steps_inv [OF steps inv(2,3) assms(4)] show ?thesis by (simp add: system_inv_def)
qed

section \<open>Properties\<close>

text \<open>
  C3. The service refines its abstract specification: whatever fails, an operation of an instance -
  any API request, a round of the dispatcher with all its deliveries, a run of the cleaner - takes
  the tables only through steps of the specification and keeps the constraints of the schema, as
  long as the other sessions are instances that do the same. Every requested delivery thus appears
  with its event, every later status with its event, and nothing else ever changes a delivery.
\<close>

theorem operations_refine:
  assumes "peers (dp_cfg dp) s env (w_db w)" and "schema_ok (w_db w)" and "perform env s dp rc op w = Some w'"
  shows "(table_step (dp_cfg dp) s)\<^sup>*\<^sup>* (w_db w) (w_db w') \<and> schema_ok (w_db w')"
  using assms by (rule perform_steps)

text \<open>
  C4. In every run of the service from freshly migrated tables - any requests, rounds and cleanings
  in any order, with faults and with other instances working on the same tables - the invariant
  holds: keys are unique and columns in range, the columns of each delivery agree with its status,
  no delivery is attempted more often than configured, and every stored provider can be routed.
\<close>

theorem run_invariant:
  assumes "run s dp rc w" and "0 < Notification_MaxAttempts (dp_cfg dp)"
  shows "system_inv (dp_cfg dp) s (w_db w)"
  using assms(1)
proof induction
  case (migrated w)
  then show ?case by (simp add: system_inv_def schema_ok_def all_routable_def unique_by_def)
next
  case (performed w env op w')
  then show ?case using assms(2) by (blast intro: perform_inv)
qed

section \<open>Witnesses\<close>

lemma sample_peers: "peers cfg s sample_env d0"
  by (auto simp: peers_def sample_orderly intro: exI [of _ "\<lambda>_. {}"])

theorem operations_refine_witness:
  "\<exists>w'. perform sample_env sample_service sample_dispatcher sample_cleaner (Clean 2) (sample_world sample_sent_db) = Some w' \<and>
     (table_step sample_notification sample_service)\<^sup>*\<^sup>* sample_sent_db (w_db w') \<and> Deliveries (w_db w') = []"
proof -
  let ?run = "perform sample_env sample_service sample_dispatcher sample_cleaner (Clean 2) (sample_world sample_sent_db)"
  have "map_option (\<lambda>w. length (Deliveries (w_db w))) ?run = Some 0" by code_simp
  then obtain w' where run: "?run = Some w'" and "Deliveries (w_db w') = []" by (cases ?run) auto
  with operations_refine [OF sample_peers _ run] show ?thesis by auto
qed

theorem run_invariant_witness:
  "\<exists>w. run sample_service sample_dispatcher sample_cleaner w \<and> length (Deliveries (w_db w)) = 1 \<and>
     system_inv sample_notification sample_service (w_db w)"
proof -
  let ?run = "run sample_service sample_dispatcher sample_cleaner"
  let ?call = "\<lambda>req w. snd (api_call sample_env sample_service sample_ctx req w)"
  let ?w0 = "sample_world \<lparr>Templates = [], Providers = [], Deliveries = [], Outbox = []\<rparr>"
  let ?w2 = "?call (Send_req sample_SendNotificationRequest) (?call (PutTemplate_req sample_PutTemplateRequest) ?w0)"
  have call: "?run (?call req w)" if "?run w" for req w
    using that by (rule run.performed [where env = sample_env and op = "Request sample_ctx req"]) (simp_all add: sample_peers)
  have run: "?run ?w2" by (intro call run.migrated) simp
  have "length (Deliveries (w_db ?w2)) = 1" by code_simp
  with run run_invariant [OF run] show ?thesis by auto
qed

end
