(* ===== verification/GrpcClient.thy ===== *)
theory GrpcClient
  imports OutboundHTTP GrpcTransport
begin

text \<open>
  The gRPC client (\<open>internal/grpcclient/client.go\<close>), the gRPC half of the client registry
  (\<open>internal/outbound/registry.go\<close>) and its two users in the wiring of the application. A
  unary interceptor is a function from the rest of the chain to an invoker. What comes from outside
  is an argument, \<open>dial_env\<close>: the n-th instant, the outcome of the n-th invocation on the wire,
  the n-th cancelled wait, the n-th decision of the circuit breaker, the files of the TLS material.
  \<open>wire\<close> records what the client did: the invocations, the waits, the counted metrics, what was
  reported to the breaker, the connections that were closed.
\<close>

section \<open>Definitions\<close>

subsection \<open>Data\<close>

record ClientTLSConfig =
  gt_Enabled :: bool
  gt_ServerName :: string
  gt_CAFile :: string
  gt_CertFile :: string
  gt_KeyFile :: string
  gt_AllowInsecureToken :: bool

text \<open>\<open>gc_Metrics\<close> is \<open>None\<close> for a nil pointer, otherwise whether metrics are enabled.\<close>

record ClientConfig =
  gc_Target :: string
  gc_Timeout :: duration
  gc_Token :: string
  gc_PSK :: string
  gc_TLS :: ClientTLSConfig
  gc_Name :: string
  gc_Retry :: Retry_cfg
  gc_Breaker :: Breaker_cfg
  gc_Metrics :: "bool option"

text \<open>The error of a call: a status, or an error of the context or the breaker without a status.\<close>

datatype call_error = Status rpc_status | Plain string

abbreviation codes_Unknown :: code where "codes_Unknown \<equiv> codes_Other 2"
abbreviation codes_DeadlineExceeded :: code where "codes_DeadlineExceeded \<equiv> codes_Other 4"
abbreviation codes_ResourceExhausted :: code where "codes_ResourceExhausted \<equiv> codes_Other 8"

fun status_Code :: "call_error option \<Rightarrow> code" where
  "status_Code None = codes_OK"
| "status_Code (Some (Status st)) = status_code st"
| "status_Code (Some (Plain m)) = codes_Unknown"

record outgoing =
  out_Context :: Context
  out_Deadline :: "time option"
  out_Metadata :: "(string \<times> string) list"
  out_Method :: string

datatype breaker_report = Succeeded | Failed | Excluded

record wire =
  wr_sent :: "outgoing list"
  wr_waits :: "duration list"
  wr_metrics :: "(string \<times> code) list"
  wr_reports :: "breaker_report list"
  wr_rejects :: nat
  wr_ticks :: nat
  wr_closed :: "string list"

record dial_env =
  ReadFile :: "string \<Rightarrow> string + string"
  AppendCertsFromPEM :: "string \<Rightarrow> bool"
  LoadX509KeyPair :: "string \<Rightarrow> string \<Rightarrow> string + string"
  NewClientError :: "string \<Rightarrow> string option"
  Now :: "nat \<Rightarrow> time"
  Invoke :: "nat \<Rightarrow> outgoing \<Rightarrow> call_error option"
  WaitDone :: "nat \<Rightarrow> string option"
  Rejected :: "nat \<Rightarrow> string option"
  CloseError :: "string \<Rightarrow> string option"

type_synonym invoker = "outgoing \<Rightarrow> wire \<Rightarrow> call_error option \<times> wire"

subsection \<open>Interceptors\<close>

definition timeoutInterceptor :: "dial_env \<Rightarrow> duration \<Rightarrow> invoker \<Rightarrow> invoker" where
  "timeoutInterceptor de timeout invoker o1 w =
     (if out_Deadline o1 \<noteq> None then invoker o1 w
      else invoker (o1\<lparr>out_Deadline := Some (Now de (wr_ticks w) + timeout)\<rparr>) (w\<lparr>wr_ticks := Suc (wr_ticks w)\<rparr>))"

definition outgoing_pairs :: "string \<Rightarrow> string \<Rightarrow> Context \<Rightarrow> (string \<times> string) list" where
  "outgoing_pairs token psk ctx =
     (if token \<noteq> [] then [(''authorization'', ''Bearer '' @ token)]
      else if psk \<noteq> [] then [(''authorization'', ''PSK '' @ psk)] else []) @
     (case ctx_RequestID ctx of None \<Rightarrow> [] | Some i \<Rightarrow> [(''x-request-id'', i)]) @
     (case ctx_IdempotencyKey ctx of None \<Rightarrow> [] | Some key \<Rightarrow> [(''idempotency-key'', key)])"

definition metadataInterceptor :: "string \<Rightarrow> string \<Rightarrow> invoker \<Rightarrow> invoker" where
  "metadataInterceptor token psk invoker o1 w =
     (let pairs = outgoing_pairs token psk (out_Context o1) in
      invoker (if pairs \<noteq> [] then o1\<lparr>out_Metadata := out_Metadata o1 @ pairs\<rparr> else o1) w)"

definition client_metricsInterceptor :: "string \<Rightarrow> bool \<Rightarrow> invoker \<Rightarrow> invoker" where
  "client_metricsInterceptor name enabled invoker o1 w =
     (case invoker o1 w of (err, w1) \<Rightarrow>
        (err, if enabled then w1\<lparr>wr_metrics := wr_metrics w1 @ [(name, status_Code err)]\<rparr> else w1))"

text \<open>The breaker's \<open>IsExcluded\<close>, and what a call counts for.\<close>

definition breaker_excluded :: "call_error option \<Rightarrow> bool" where
  "breaker_excluded err \<longleftrightarrow>
     (let c = status_Code err in
      c \<noteq> codes_Unavailable \<and> c \<noteq> codes_ResourceExhausted \<and> c \<noteq> codes_DeadlineExceeded)"

definition breaker_report :: "call_error option \<Rightarrow> breaker_report" where
  "breaker_report err = (if breaker_excluded err then Excluded else if err = None then Succeeded else Failed)"

definition breakerInterceptor :: "dial_env \<Rightarrow> invoker \<Rightarrow> invoker" where
  "breakerInterceptor de invoker o1 w =
     (let w1 = w\<lparr>wr_rejects := Suc (wr_rejects w)\<rparr> in
      (case Rejected de (wr_rejects w) of
         Some m \<Rightarrow> (Some (Plain m), w1)
       | None \<Rightarrow> (case invoker o1 w1 of (err, w2) \<Rightarrow> (err, w2\<lparr>wr_reports := wr_reports w2 @ [breaker_report err]\<rparr>))))"

definition retryGRPCMethod :: "Context \<Rightarrow> string \<Rightarrow> string list \<Rightarrow> bool" where
  "retryGRPCMethod ctx method patterns \<longleftrightarrow>
     ctx_IdempotencyKey ctx \<noteq> None \<or> (\<exists>pattern \<in> set patterns. Match pattern method = Some True)"

definition retry_delay :: "Retry_cfg \<Rightarrow> nat \<Rightarrow> duration" where
  "retry_delay cfg attempt =
     (let delay = wrap64 (push_bit (attempt - 1) (Retry_InitialBackoff cfg)) in
      if delay > Retry_MaxBackoff cfg then Retry_MaxBackoff cfg else delay)"

definition waitRetry :: "dial_env \<Rightarrow> Retry_cfg \<Rightarrow> nat \<Rightarrow> wire \<Rightarrow> string option \<times> wire" where
  "waitRetry de cfg attempt w =
     (WaitDone de (length (wr_waits w)), w\<lparr>wr_waits := wr_waits w @ [retry_delay cfg attempt]\<rparr>)"

definition transient :: "call_error option \<Rightarrow> bool" where
  "transient err \<longleftrightarrow> status_Code err = codes_Unavailable \<or> status_Code err = codes_ResourceExhausted"

text \<open>The loop of \<open>retryInterceptor\<close>; \<open>left\<close> counts the attempts after the current one.\<close>

fun retry_attempts :: "dial_env \<Rightarrow> Retry_cfg \<Rightarrow> nat \<Rightarrow> nat \<Rightarrow> invoker \<Rightarrow> invoker" where
  "retry_attempts de cfg attempt left invoker o1 w =
     (case invoker o1 w of (err, w1) \<Rightarrow>
        if \<not> transient err then (err, w1)
        else
          (case left of
             0 \<Rightarrow> (err, w1)
           | Suc left' \<Rightarrow>
               (case waitRetry de cfg attempt w1 of
                  (Some m, w2) \<Rightarrow> (Some (Plain m), w2)
                | (None, w2) \<Rightarrow> retry_attempts de cfg (Suc attempt) left' invoker o1 w2)))"

definition retryInterceptor :: "dial_env \<Rightarrow> Retry_cfg \<Rightarrow> invoker \<Rightarrow> invoker" where
  "retryInterceptor de cfg invoker o1 w =
     (if \<not> retryGRPCMethod (out_Context o1) (out_Method o1) (Retry_Methods cfg) then invoker o1 w
      else if Retry_MaxAttempts cfg < 1 then (None, w)
      else retry_attempts de cfg 1 (nat (Retry_MaxAttempts cfg) - 1) invoker o1 w)"

subsection \<open>Dialling\<close>

datatype transport = Insecure | Secure (tr_ServerName: string) (tr_RootCAs: "string option") (tr_Certificate: "string option")

definition transportCredentials :: "dial_env \<Rightarrow> ClientTLSConfig \<Rightarrow> transport result" where
  "transportCredentials de cfg =
     (if \<not> gt_Enabled cfg then Inr Insecure
      else
        (case (if gt_CAFile cfg = [] then Inr None
               else
                 (case ReadFile de (gt_CAFile cfg) of
                    Inl m \<Rightarrow> Inl (Errorf (''read grpc CA: '' @ m))
                  | Inr pem \<Rightarrow> if AppendCertsFromPEM de pem then Inr (Some pem) else Inl (Errorf ''parse grpc CA''))) of
           Inl e \<Rightarrow> Inl e
         | Inr roots \<Rightarrow>
             (if gt_CertFile cfg = [] \<and> gt_KeyFile cfg = [] then Inr (Secure (gt_ServerName cfg) roots None)
              else if gt_CertFile cfg = [] \<or> gt_KeyFile cfg = []
              then Inl (Errorf ''grpc client certificate and key must be configured together'')
              else
                (case LoadX509KeyPair de (gt_CertFile cfg) (gt_KeyFile cfg) of
                   Inl m \<Rightarrow> Inl (Errorf (''load grpc client certificate: '' @ m))
                 | Inr certificate \<Rightarrow> Inr (Secure (gt_ServerName cfg) roots (Some certificate))))))"

record ClientConn =
  cn_cfg :: ClientConfig
  cn_transport :: transport

definition Dial :: "dial_env \<Rightarrow> ClientConfig \<Rightarrow> ClientConn result" where
  "Dial de cfg =
     (if gc_Target cfg = [] then Inl (Errorf ''grpc client target is required'')
      else if gc_Timeout cfg \<le> 0 then Inl (Errorf ''grpc client timeout must be positive'')
      else
        (case transportCredentials de (gc_TLS cfg) of
           Inl e \<Rightarrow> Inl e
         | Inr transport \<Rightarrow>
             (if gc_Token cfg \<noteq> [] \<and> \<not> gt_Enabled (gc_TLS cfg) \<and> \<not> gt_AllowInsecureToken (gc_TLS cfg)
              then Inl (Errorf ''refusing to send grpc bearer token without TLS'')
              else if gc_PSK cfg \<noteq> [] \<and> gc_Token cfg \<noteq> []
              then Inl (Errorf ''grpc client bearer token and PSK are mutually exclusive'')
              else if gc_PSK cfg \<noteq> [] \<and> \<not> gt_Enabled (gc_TLS cfg) \<and> \<not> gt_AllowInsecureToken (gc_TLS cfg)
              then Inl (Errorf ''refusing to send grpc PSK without TLS'')
              else
                (case NewClientError de (gc_Target cfg) of
                   Some m \<Rightarrow> Inl (Errorf m)
                 | None \<Rightarrow> Inr \<lparr>cn_cfg = cfg, cn_transport = transport\<rparr>))))"

text \<open>The chain of a connection, outermost first, and a call on it.\<close>

definition client_chain :: "dial_env \<Rightarrow> ClientConfig \<Rightarrow> invoker \<Rightarrow> invoker" where
  "client_chain de cfg invoker =
     timeoutInterceptor de (gc_Timeout cfg)
       (metadataInterceptor (gc_Token cfg) (gc_PSK cfg)
         ((case gc_Metrics cfg of None \<Rightarrow> id | Some enabled \<Rightarrow> client_metricsInterceptor (gc_Name cfg) enabled)
           ((if Breaker_Enabled (gc_Breaker cfg) then breakerInterceptor de else id)
             ((if Retry_MaxAttempts (gc_Retry cfg) > 1 then retryInterceptor de (gc_Retry cfg) else id) invoker))))"

definition invoke_wire :: "dial_env \<Rightarrow> invoker" where
  "invoke_wire de o1 w = (Invoke de (length (wr_sent w)) o1, w\<lparr>wr_sent := wr_sent w @ [o1]\<rparr>)"

definition call_rpc :: "dial_env \<Rightarrow> ClientConn \<Rightarrow> invoker" where
  "call_rpc de conn = client_chain de (cn_cfg conn) (invoke_wire de)"

subsection \<open>The registry and its users\<close>

definition client_config :: "bool \<Rightarrow> string \<Rightarrow> GRPCUpstream_cfg \<Rightarrow> ClientConfig" where
  "client_config metrics name upstream =
     (let tls = GRPCUpstream_TLS upstream; auth = GRPCUpstream_Auth upstream in
      \<lparr>gc_Target = GRPCUpstream_Target upstream, gc_Timeout = GRPCUpstream_Timeout upstream,
       gc_Token = (if ClientAuth_Type auth = ''bearer'' then ClientAuth_Token auth else []),
       gc_PSK = (if ClientAuth_Type auth = ''psk'' then ClientAuth_Token auth else []),
       gc_TLS = \<lparr>gt_Enabled = ClientTLS_Enabled tls, gt_ServerName = ClientTLS_ServerName tls,
         gt_CAFile = ClientTLS_CAFile tls, gt_CertFile = ClientTLS_CertFile tls,
         gt_KeyFile = ClientTLS_KeyFile tls, gt_AllowInsecureToken = False\<rparr>,
       gc_Name = name, gc_Retry = GRPCUpstream_Retry upstream, gc_Breaker = GRPCUpstream_Breaker upstream,
       gc_Metrics = Some metrics\<rparr>)"

record Registry =
  reg_http :: HTTPRegistry
  reg_grpc :: "(string \<times> ClientConn) list"

text \<open>
  Maps are lists of pairs in the order in which Go happens to range over them. \<open>close\<close> closes
  every connection and returns the first error.
\<close>

fun first_close_error :: "dial_env \<Rightarrow> (string \<times> ClientConn) list \<Rightarrow> go_error option" where
  "first_close_error de [] = None"
| "first_close_error de ((name, _) # rest) =
     (case CloseError de name of
        Some m \<Rightarrow> Some (Errorf (''close outbound gRPC client '' @ quoted name @ '': '' @ m))
      | None \<Rightarrow> first_close_error de rest)"

definition registry_close :: "dial_env \<Rightarrow> Registry \<Rightarrow> wire \<Rightarrow> go_error option \<times> wire" where
  "registry_close de registry w =
     (first_close_error de (reg_grpc registry), w\<lparr>wr_closed := wr_closed w @ map fst (reg_grpc registry)\<rparr>)"

fun add_grpc_clients ::
  "dial_env \<Rightarrow> bool \<Rightarrow> (string \<times> GRPCUpstream_cfg) list \<Rightarrow> Registry \<Rightarrow> wire \<Rightarrow> Registry result \<times> wire" where
  "add_grpc_clients de metrics [] registry w = (Inr registry, w)"
| "add_grpc_clients de metrics ((name, upstream) # rest) registry w =
     (case Dial de (client_config metrics name upstream) of
        Inl e \<Rightarrow>
          (Inl (Errorf (''create outbound gRPC client '' @ quoted name @ '': '' @ error_text e)),
           snd (registry_close de registry w))
      | Inr connection \<Rightarrow>
          add_grpc_clients de metrics rest (registry\<lparr>reg_grpc := reg_grpc registry @ [(name, connection)]\<rparr>) w)"

text \<open>
  The TLS material of an HTTP client (\<open>httpTransport\<close> of \<open>internal/outbound/http.go\<close>); the
  files are read whether or not TLS is enabled.
\<close>

definition httpTransport :: "dial_env \<Rightarrow> ClientTLS_cfg \<Rightarrow> transport result" where
  "httpTransport de cfg =
     (case (if ClientTLS_CAFile cfg = [] then Inr None
            else
              (case ReadFile de (ClientTLS_CAFile cfg) of
                 Inl m \<Rightarrow> Inl (Errorf (''read outbound HTTP CA: '' @ m))
               | Inr pem \<Rightarrow> if AppendCertsFromPEM de pem then Inr (Some pem) else Inl (Errorf ''parse outbound HTTP CA''))) of
        Inl e \<Rightarrow> Inl e
      | Inr roots \<Rightarrow>
          (if ClientTLS_CertFile cfg = [] then Inr (Secure (ClientTLS_ServerName cfg) roots None)
           else
             (case LoadX509KeyPair de (ClientTLS_CertFile cfg) (ClientTLS_KeyFile cfg) of
                Inl m \<Rightarrow> Inl (Errorf (''load outbound HTTP client certificate: '' @ m))
              | Inr certificate \<Rightarrow> Inr (Secure (ClientTLS_ServerName cfg) roots (Some certificate)))))"

definition transport_error :: "dial_env \<Rightarrow> ClientTLS_cfg \<Rightarrow> string option" where
  "transport_error de cfg = (case httpTransport de cfg of Inl e \<Rightarrow> Some (error_text e) | Inr _ \<Rightarrow> None)"

definition NewRegistry :: "dial_env \<Rightarrow> Config \<Rightarrow> wire \<Rightarrow> Registry result \<times> wire" where
  "NewRegistry de cfg w =
     (case new_http_clients (transport_error de) (Outbound_HTTP (c_Outbound cfg)) of
        Inl e \<Rightarrow> (Inl e, w)
      | Inr clients \<Rightarrow>
          add_grpc_clients de (Observability_MetricsEnabled (c_Observability cfg)) (Outbound_GRPC (c_Outbound cfg))
            \<lparr>reg_http = clients, reg_grpc = []\<rparr> w)"

definition Registry_GRPC :: "Registry \<Rightarrow> string \<Rightarrow> ClientConn option" where
  "Registry_GRPC registry name = map_of (reg_grpc registry) name"

text \<open>Who answers access questions: nobody is asked, or a service over a connection within a time.\<close>

datatype access_client = AccessDisabled | AccessService "ClientConn option" duration

definition newApplicationVerifier :: "Config \<Rightarrow> Registry option \<Rightarrow> access_client result" where
  "newApplicationVerifier cfg registry =
     (if \<not> Database_Enabled (c_Database cfg) then Inr AccessDisabled
      else
        (case registry of
           None \<Rightarrow> Inl (Errorf ''notification service requires outbound registry'')
         | Some r \<Rightarrow>
             (case Registry_GRPC r ''application'' of
                None \<Rightarrow> Inl (Errorf ''notification service requires outbound.grpc.application'')
              | Some connection \<Rightarrow> Inr (AccessService (Some connection) (2 * second)))))"

definition authorization_New :: "Registry \<Rightarrow> access_client" where
  "authorization_New registry = AccessService (Registry_GRPC registry ''authorization'') (2 * second)"

end
