(* ===== verification/ConfigCorrect.thy ===== *)
theory ConfigCorrect
  imports TransportSamples
begin

text \<open>
  Correctness of the configuration: what a configuration that passes \<open>Validate\<close> guarantees to
  the components that use it, that only such configurations are loaded, and the decoding of lists.
\<close>

section \<open>Validation\<close>

lemma first_error_None: "first_error cs = None \<longleftrightarrow> (\<forall>c \<in> set cs. c = None)"
  by (induction cs rule: first_error.induct) auto

lemma fails_if_None [simp]: "fails_if b m = None \<longleftrightarrow> \<not> b"
  by (simp add: fails_if_def)

lemma check_paths_None:
  "check_paths name ps = None \<longleftrightarrow> (\<forall>p \<in> set ps. HasPrefix p ''/api/'' \<and> Match p ''/validation/target'' \<noteq> None)"
  by (induction ps) auto

lemma check_http_upstreams_None:
  "check_http_upstreams us = None \<longleftrightarrow>
     (\<forall>(n, u) \<in> set us. HTTPUpstream_BaseURL u \<noteq> [] \<and> 0 < HTTPUpstream_Timeout u \<and>
        validateClientPolicy n (HTTPUpstream_Auth u) (HTTPUpstream_Retry u) (HTTPUpstream_Breaker u) (HTTPUpstream_TLS u) = None)"
  by (induction us) (auto split: if_splits option.splits)

lemma validateClientPolicy_None:
  "validateClientPolicy n a r b t = None \<Longrightarrow>
     (ClientAuth_Type a \<noteq> [] \<longrightarrow> ClientAuth_Token a \<noteq> [] \<and> ClientTLS_Enabled t) \<and>
     1 \<le> Retry_MaxAttempts r \<and> Retry_MaxAttempts r \<le> 5"
  by (auto simp: validateClientPolicy_def first_error_None)

lemma Validate_parts:
  assumes "Validate c = None"
  shows "list_all (\<lambda>x. x = None) (server_checks c)" "list_all (\<lambda>x. x = None) (access_checks c)"
    "list_all (\<lambda>x. x = None) (worker_checks c)"
  using assms by (simp_all add: Validate_def first_error_None list_all_iff)

text \<open>The three lists of checks, as the conditions that they exclude.\<close>

lemmas server_conditions = Validate_parts(1) [unfolded server_checks_def list.pred_inject fails_if_None]
lemmas access_conditions = Validate_parts(2) [unfolded access_checks_def list.pred_inject fails_if_None]
lemmas worker_conditions = Validate_parts(3) [unfolded worker_checks_def list.pred_inject fails_if_None]

lemma Validate_production:
  assumes "Validate c = None" and "App_Env (c_App c) = ''production''"
  shows "(GRPC_Enabled (c_GRPC c) \<longrightarrow> GRPCTLS_Enabled (GRPC_TLS (c_GRPC c))) \<and>
    \<not> GRPC_ReflectionEnabled (c_GRPC c) \<and> (Swagger_Enabled (c_Swagger c) \<longrightarrow> Swagger_RequireAuth (c_Swagger c)) \<and>
    Auth_JWKSURL (c_Auth c) \<noteq> [] \<and> Authorization_Enabled (c_Authorization c)"
proof -
  have "\<not> (production c \<and> GRPC_Enabled (c_GRPC c) \<and> \<not> GRPCTLS_Enabled (GRPC_TLS (c_GRPC c)))"
    "\<not> (production c \<and> GRPC_ReflectionEnabled (c_GRPC c))"
    using server_conditions [OF assms(1)] by - (elim conjE, assumption)+
  moreover have "\<not> (production c \<and> Swagger_Enabled (c_Swagger c) \<and> \<not> Swagger_RequireAuth (c_Swagger c))"
    "\<not> (production c \<and> (Auth_JWKSURL (c_Auth c) = [] \<or> Auth_Issuer (c_Auth c) = [] \<or> Auth_Audience (c_Auth c) = []))"
    "\<not> (production c \<and> \<not> Authorization_Enabled (c_Authorization c))"
    using access_conditions [OF assms(1)] by - (elim conjE, assumption)+
  moreover have "production c" using assms(2) by (simp add: production_def)
  ultimately show ?thesis by blast
qed

lemma Validate_access:
  assumes "Validate c = None"
  shows "(\<forall>p \<in> set (Auth_SkipHTTPPaths (c_Auth c)). HasPrefix p ''/api/'') \<and>
    (PSK_Enabled (Auth_PSK (c_Auth c)) \<longrightarrow> 32 \<le> length (PSK_Key (Auth_PSK (c_Auth c)))) \<and>
    (Observability_PprofEnabled (c_Observability c) \<longrightarrow> 32 \<le> length (Observability_PprofToken (c_Observability c)))"
proof -
  have "check_paths ''auth.skip_http_paths'' (Auth_SkipHTTPPaths (c_Auth c)) = None"
    "\<not> (PSK_Enabled (Auth_PSK (c_Auth c)) \<and> (length (PSK_Key (Auth_PSK (c_Auth c))) < 32 \<or>
       length (PSK_HTTPPaths (Auth_PSK (c_Auth c))) + length (PSK_GRPCMethods (Auth_PSK (c_Auth c))) = 0))"
    "\<not> (Observability_PprofEnabled (c_Observability c) \<and> length (Observability_PprofToken (c_Observability c)) < 32)"
    using access_conditions [OF assms] by - (elim conjE, assumption)+
  then show ?thesis by (auto simp: check_paths_None)
qed

lemma Validate_workers:
  assumes "Validate c = None"
  shows "0 < Notification_BatchSize (c_Notification c) \<and> 0 < Notification_MaxAttempts (c_Notification c) \<and>
    0 < Notification_RetryBase (c_Notification c)"
proof -
  have "\<not> (Notification_DispatchInterval (c_Notification c) \<le> 0 \<or> Notification_BatchSize (c_Notification c) \<le> 0 \<or>
      Notification_MaxAttempts (c_Notification c) \<le> 0 \<or> Notification_RetryBase (c_Notification c) \<le> 0)"
    using worker_conditions [OF assms] by - (elim conjE, assumption)+
  then show ?thesis by auto
qed

lemma Validate_upstreams:
  assumes "Validate c = None" and "(n, u) \<in> set (Outbound_HTTP (c_Outbound c))"
  shows "(ClientAuth_Type (HTTPUpstream_Auth u) \<noteq> [] \<longrightarrow> ClientTLS_Enabled (HTTPUpstream_TLS u)) \<and>
    1 \<le> Retry_MaxAttempts (HTTPUpstream_Retry u) \<and> Retry_MaxAttempts (HTTPUpstream_Retry u) \<le> 5"
proof -
  have "check_http_upstreams (Outbound_HTTP (c_Outbound c)) = None"
    using worker_conditions [OF assms(1)] by - (elim conjE, assumption)+
  with assms(2) have "validateClientPolicy n (HTTPUpstream_Auth u) (HTTPUpstream_Retry u) (HTTPUpstream_Breaker u)
      (HTTPUpstream_TLS u) = None"
    by (auto simp: check_http_upstreams_None)
  then show ?thesis by (drule_tac validateClientPolicy_None) blast
qed


lemma sample_config_valid: "Validate sample_config = None"
  by code_simp


text \<open>
  The sample ratio of tracing that passes validation is a number between 0 and 1 or it is NaN:
  both comparisons of the check are false on NaN.
\<close>

lemma tracing_ratio_validated:
  assumes "Validate c = None"
  shows "Observability_TracingSampleRatio (c_Observability c) = NaN \<or>
    (\<exists>q. Observability_TracingSampleRatio (c_Observability c) = Float q \<and> 0 \<le> q \<and> q \<le> 1)"
proof -
  have "\<not> (float_less_0 (Observability_TracingSampleRatio (c_Observability c)) \<or>
      float_greater_1 (Observability_TracingSampleRatio (c_Observability c)))"
    using access_conditions [OF assms] by - (elim conjE, assumption)+
  then show ?thesis by (cases "Observability_TracingSampleRatio (c_Observability c)") auto
qed

definition nan_config :: Config where
  "nan_config = sample_config\<lparr>c_Observability := (c_Observability sample_config)\<lparr>Observability_TracingSampleRatio := NaN\<rparr>\<rparr>"

lemma tracing_ratio_nan:
  "Validate nan_config = None \<and> Observability_TracingSampleRatio (c_Observability nan_config) = NaN"
proof -
  have v: "Validate nan_config = None" by code_simp
  from tracing_ratio_validated [OF v] v show ?thesis by (simp add: nan_config_def)
qed

section \<open>Loading\<close>

lemma Validate_Runtime [simp]: "Validate (c\<lparr>c_Runtime := r\<rparr>) = Validate c"
  by (simp add: Validate_def server_checks_def access_checks_def worker_checks_def production_def)

text \<open>
  Whatever viper reads, a configuration that loads has passed validation, its profile is a
  valid profile name, migrations use the database and schema of the service, and the files that
  were read are the given one and at most the one of the profile. When viper's \<open>Set\<close> of
  \<open>app.env\<close> takes effect in the decoded configuration, the environment that the production
  guards look at is the active profile.
\<close>

lemma LoadWithProfile_valid:
  assumes "LoadWithProfile vp path explicit = Inr cfg"
    and "\<And>v p c. vp_Unmarshal vp string_slice (vp_Set vp ''app.env'' p v) = Inr c \<Longrightarrow> App_Env (c_App c) = p"
  shows "Validate cfg = None \<and> validProfile (Runtime_ActiveProfile (c_Runtime cfg)) \<and>
    App_Env (c_App cfg) = Runtime_ActiveProfile (c_Runtime cfg) \<and>
    Migration_Schema (c_Migration cfg) = Database_Schema (c_Database cfg) \<and>
    Migration_DatabaseName (c_Migration cfg) = Database_Name (c_Database cfg) \<and>
    set (Runtime_ConfigFiles (c_Runtime cfg)) \<subseteq>
      {path, profileConfigPath path (Runtime_ActiveProfile (c_Runtime cfg))}"
proof -
  from assms(1) obtain v where v: "read_config vp path = Inr v"
    by (auto simp: LoadWithProfile_def split: sum.splits)
  define profile where "profile = active_profile vp explicit v"
  from assms(1) v obtain v1 files where prof: "validProfile profile" and m: "merge_profile vp path profile v = Inr (v1, files)"
    by (auto simp: LoadWithProfile_def Let_def profile_def split: if_splits sum.splits)
  from assms(1) v prof m obtain cfg0 where u: "vp_Unmarshal vp string_slice (vp_Set vp ''app.env'' profile v1) = Inr cfg0"
    by (auto simp: LoadWithProfile_def Let_def profile_def [symmetric] split: sum.splits)
  let ?cfg1 = "cfg0\<lparr>c_Migration := (c_Migration cfg0)\<lparr>Migration_Schema := Database_Schema (c_Database cfg0),
      Migration_DatabaseName := Database_Name (c_Database cfg0)\<rparr>\<rparr>"
  from assms(1) v prof m u have "Validate ?cfg1 = None" and
    cfg: "cfg = ?cfg1\<lparr>c_Runtime := \<lparr>Runtime_ActiveProfile = profile, Runtime_ConfigFiles = files\<rparr>\<rparr>"
    by (auto simp: LoadWithProfile_def Let_def profile_def [symmetric] split: option.splits)
  moreover have "set files \<subseteq> {path, profileConfigPath path profile}"
    using m by (auto simp: merge_profile_def Let_def split: if_splits stat.splits sum.splits)
  ultimately show ?thesis using prof assms(2) [OF u] by simp
qed

text \<open>A store that is the sample configuration; \<open>Set\<close> changes its environment.\<close>

definition sample_viper :: "Config viper" where
  "sample_viper =
     \<lparr>vp_New = sample_config, vp_BindEnv = Inr, vp_SetDefault = (\<lambda>_ _ v. v), vp_ReadInConfig = (\<lambda>_ v. Inr v),
      vp_GetString = (\<lambda>v _. App_Env (c_App v)), vp_Stat = (\<lambda>_. NotExist), vp_MergeInConfig = (\<lambda>_ v. Inr v),
      vp_Set = (\<lambda>_ p v. v\<lparr>c_App := (c_App v)\<lparr>App_Env := p\<rparr>\<rparr>), vp_Unmarshal = (\<lambda>_ v. Inr v), vp_UnicodeLower = id\<rparr>"

lemma LoadWithProfile_valid_witness:
  "\<exists>cfg. LoadWithProfile sample_viper ''config.yaml'' '' Production'' = Inr cfg \<and> Validate cfg = None"
proof -
  have "\<not> isl (LoadWithProfile sample_viper ''config.yaml'' '' Production'')" by code_simp
  then obtain cfg where cfg: "LoadWithProfile sample_viper ''config.yaml'' '' Production'' = Inr cfg"
    by (cases "LoadWithProfile sample_viper ''config.yaml'' '' Production''") auto
  from LoadWithProfile_valid [OF cfg] have "Validate cfg = None" by (force simp: sample_viper_def)
  with cfg show ?thesis by blast
qed

section \<open>Lists of strings\<close>

text \<open>The characters that list decoding leaves alone.\<close>

definition plain :: "char \<Rightarrow> bool" where
  "plain c \<longleftrightarrow> 32 < (of_char c :: nat) \<and> (of_char c :: nat) < 127 \<and> c \<noteq> CHR '','' \<and> c \<noteq> CHR 0x22 \<and> c \<noteq> CHR 0x27"

lemma spaces_not_plain: "e \<in> set space_encodings \<Longrightarrow> e \<noteq> [] \<and> list_all (\<lambda>c. \<not> plain c \<and> c \<noteq> CHR '','') e"
proof -
  have "list_all (\<lambda>e. e \<noteq> [] \<and> list_all (\<lambda>c. \<not> plain c \<and> c \<noteq> CHR '','') e) space_encodings" by code_simp
  then show "e \<in> set space_encodings \<Longrightarrow> e \<noteq> [] \<and> list_all (\<lambda>c. \<not> plain c \<and> c \<noteq> CHR '','') e"
    by (simp add: list_all_iff)
qed

lemma trim_left_first:
  assumes "\<And>e. e \<in> set es \<Longrightarrow> c \<notin> set e"
  shows "trim_left es (c # cs) = c # cs"
proof (rule trim_left_id)
  show "strip_one es (c # cs) = None"
    unfolding strip_one_None
  proof (intro ballI impI notI)
    fix e assume e: "e \<in> set es" "e \<noteq> []" "take (length e) (c # cs) = e"
    from e(2) obtain x ys where x: "e = x # ys" by (cases e) auto
    with e(3) have "c \<in> set e" by simp
    with assms e(1) show False by blast
  qed
qed

text \<open>A string whose first and last characters are plain is not changed by trimming.\<close>

lemma TrimSpace_plain:
  assumes "s = [] \<or> ((plain (hd s) \<or> hd s = CHR '','') \<and> (plain (last s) \<or> last s = CHR '',''))"
  shows "TrimSpace s = s"
proof (cases "s = []")
  case False
  have no: "c \<notin> set e" if "plain c \<or> c = CHR '',''" "e \<in> set space_encodings" for c e
    using spaces_not_plain [OF that(2)] that(1) by (auto simp: list_all_iff)
  from False assms have ends: "plain (hd s) \<or> hd s = CHR '',''" "plain (last s) \<or> last s = CHR '',''" by blast+
  have "trim_left space_encodings (hd s # tl s) = hd s # tl s"
    by (rule trim_left_first) (use ends(1) no in blast)
  then have left: "trim_left space_encodings s = s" using False by simp
  have "last s \<notin> set e" if e: "e \<in> set (map rev space_encodings)" for e
  proof -
    from e obtain e' where "e' \<in> set space_encodings" "e = rev e'" by (metis imageE set_map)
    with no [OF ends(2)] show ?thesis by simp
  qed
  then have "trim_left (map rev space_encodings) (last s # tl (rev s)) = last s # tl (rev s)"
    by (rule trim_left_first)
  then have "trim_left (map rev space_encodings) (rev s) = rev s"
    using False by (metis hd_Cons_tl hd_rev rev_is_Nil_conv)
  with left show ?thesis by (simp add: TrimSpace_def trim_right_def)
qed simp

lemma Trim_plain:
  assumes "list_all plain x"
  shows "Trim x [CHR 0x22, CHR 0x27] = x"
proof -
  have "dropWhile (\<lambda>c. c \<in> set [CHR 0x22, CHR 0x27]) y = y" if "list_all plain y" for y
    using that by (cases y) (auto simp: plain_def)
  moreover from assms have "list_all plain (rev x)" by (simp add: list_all_iff)
  ultimately show ?thesis using assms by (simp only: Trim_def rev_rev_ident)
qed

lemma Join_ends:
  assumes "\<forall>x \<in> set xs. list_all plain x"
  shows "Join xs '','' = [] \<or> ((plain (hd (Join xs '','')) \<or> hd (Join xs '','') = CHR '','') \<and>
    (plain (last (Join xs '','')) \<or> last (Join xs '','') = CHR '',''))"
proof -
  have "list_all (\<lambda>c. plain c \<or> c = CHR '','') (Join xs '','')"
    using assms by (induction xs "'',''" rule: Join.induct) (auto simp: list_all_iff)
  then have all: "\<forall>c \<in> set (Join xs '',''). plain c \<or> c = CHR '',''" by (simp only: list_all_iff)
  show ?thesis
  proof (cases "Join xs '','' = []")
    case False
    from all hd_in_set [OF False] last_in_set [OF False] show ?thesis by blast
  qed blast
qed

lemma Join_Nil_iff: "Join xs '','' = [] \<longleftrightarrow> xs = [] \<or> xs = [[]]"
  by (induction xs "'',''" rule: Join.induct) auto

text \<open>
  The decode hook reads back a list that is written in brackets with commas: for any list of
  strings of plain characters except the list of one empty string - which reads as the empty
  list, as the empty list itself does - the decoded value is the list.
\<close>

lemma string_slice_roundtrip:
  assumes "\<forall>x \<in> set xs. list_all plain x"
  shows "string_slice (''['' @ Join xs '','' @ '']'') = (if xs = [[]] then [] else xs)"
proof -
  let ?j = "Join xs '',''"
  have "plain CHR ''[''" "plain CHR '']''" by code_simp+
  then have outer: "TrimSpace (''['' @ ?j @ '']'') = ''['' @ ?j @ '']''" by (intro TrimSpace_plain) simp
  have inner: "TrimSpace ?j = ?j" by (rule TrimSpace_plain [OF Join_ends [OF assms]])
  have br: "HasPrefix (''['' @ ?j @ '']'') ''[''" "HasSuffix (''['' @ ?j @ '']'') '']''"
    by (simp_all add: HasPrefix_def HasSuffix_def)
  have parts: "map (\<lambda>part. Trim (TrimSpace part) [CHR 0x22, CHR 0x27]) xs = xs"
  proof (rule map_idI)
    fix x assume "x \<in> set xs"
    with assms have x: "list_all plain x" by blast
    then have "x = [] \<or> (plain (hd x) \<and> plain (last x))" by (auto simp: list_all_iff)
    then have "TrimSpace x = x" by (intro TrimSpace_plain) blast
    with x show "Trim (TrimSpace x) [CHR 0x22, CHR 0x27] = x" by (simp add: Trim_plain)
  qed
  have "CHR '','' \<notin> set x" if "x \<in> set xs" for x
    using assms that by (auto simp: list_all_iff plain_def)
  then have "xs \<noteq> [] \<Longrightarrow> Split ?j CHR '','' = xs" by (intro Split_Join) auto
  with outer inner br parts show ?thesis
    by (auto simp: string_slice_def Let_def butlast_append Join_Nil_iff)
qed

lemma string_slice_roundtrip_witness:
  "string_slice ''[/api/v1/me,/api/v1/version]'' = [''/api/v1/me'', ''/api/v1/version'']"
proof -
  have "\<forall>x \<in> set [''/api/v1/me'', ''/api/v1/version'']. list_all plain x" by code_simp
  from string_slice_roundtrip [OF this] show ?thesis by simp
qed

section \<open>Outbound calls\<close>



end
