(* ===== verification/GrpcClientCorrect.thy ===== *)
theory GrpcClientCorrect
  imports GrpcClient ConfigCorrect
begin

text \<open>
  Correctness of the gRPC client: what reaches the wire when the service calls another one. The
  layers of the client chain that leave the request alone share a contract
  (\<open>transparent_layer\<close>): what the rest of the chain promises about the invocations, the layer
  promises as well.
\<close>

section \<open>Definitions\<close>

text \<open>
  A part of the chain repeats one invocation: at most \<open>n\<close> times, again only after a transient
  failure, and the result is that of the last invocation or an error of its own.
\<close>

definition repeats :: "dial_env \<Rightarrow> nat \<Rightarrow> outgoing \<Rightarrow> invoker \<Rightarrow> bool" where
  "repeats de n o1 next1 \<longleftrightarrow>
     (\<forall>w err w'. next1 o1 w = (err, w') \<longrightarrow>
        (\<exists>k \<le> n. wr_sent w' = wr_sent w @ replicate k o1 \<and>
           (\<forall>i. Suc i < k \<longrightarrow> transient (Invoke de (length (wr_sent w) + i) o1)) \<and>
           ((\<exists>m. err = Some (Plain m)) \<or> (0 < k \<and> err = Invoke de (length (wr_sent w) + k - 1) o1))))"

text \<open>The request as it leaves the two outer layers.\<close>

definition prepared :: "dial_env \<Rightarrow> ClientConfig \<Rightarrow> outgoing \<Rightarrow> wire \<Rightarrow> outgoing" where
  "prepared de cfg o1 w =
     o1\<lparr>out_Deadline := (case out_Deadline o1 of None \<Rightarrow> Some (Now de (wr_ticks w) + gc_Timeout cfg) | Some t \<Rightarrow> Some t),
        out_Metadata := out_Metadata o1 @ outgoing_pairs (gc_Token cfg) (gc_PSK cfg) (out_Context o1)\<rparr>"

text \<open>A sample: the first invocation fails with Unavailable, the second succeeds.\<close>

definition sample_dial :: dial_env where
  "sample_dial =
     \<lparr>ReadFile = (\<lambda>_. Inl ''no such file''), AppendCertsFromPEM = (\<lambda>_. False), LoadX509KeyPair = (\<lambda>_ _. Inl ''no such file''),
      NewClientError = (\<lambda>_. None), Now = (\<lambda>n. 100 + int n),
      Invoke = (\<lambda>n _. if n = 0 then Some (Status (rpc_status codes_Unavailable ''down'')) else None),
      WaitDone = (\<lambda>_. None), Rejected = (\<lambda>_. None), CloseError = (\<lambda>_. None)\<rparr>"

definition sample_outgoing :: outgoing where
  "sample_outgoing =
     \<lparr>out_Context = background\<lparr>ctx_IdempotencyKey := Some ''k''\<rparr>, out_Deadline = None, out_Metadata = [],
      out_Method = ''/platform.application.v1.ApplicationService/Get''\<rparr>"

definition sample_wire :: wire where
  "sample_wire =
     \<lparr>wr_sent = [], wr_waits = [], wr_metrics = [], wr_reports = [], wr_rejects = 0, wr_ticks = 0, wr_closed = []\<rparr>"

section \<open>The layers\<close>

locale transparent_layer =
  fixes layer :: "invoker \<Rightarrow> invoker" and de :: dial_env
  assumes layer_repeats: "repeats de n o1 next1 \<Longrightarrow> repeats de n o1 (layer next1)"
begin

lemma optional: "repeats de n o1 next1 \<Longrightarrow> repeats de n o1 ((if b then layer else id) next1)"
  by (simp add: layer_repeats)

end

interpretation metrics_layer: transparent_layer "client_metricsInterceptor name enabled" de for name enabled de
  by unfold_locales (fastforce simp: repeats_def client_metricsInterceptor_def split: prod.splits)

lemma repeats_rejects:
  "repeats de n o1 next1 \<Longrightarrow> next1 o1 (w\<lparr>wr_rejects := r\<rparr>) = (err, w') \<Longrightarrow>
   \<exists>k \<le> n. wr_sent w' = wr_sent w @ replicate k o1 \<and>
     (\<forall>i. Suc i < k \<longrightarrow> transient (Invoke de (length (wr_sent w) + i) o1)) \<and>
     ((\<exists>m. err = Some (Plain m)) \<or> (0 < k \<and> err = Invoke de (length (wr_sent w) + k - 1) o1))"
  unfolding repeats_def by fastforce

interpretation breaker_layer: transparent_layer "breakerInterceptor de" de for de
proof
  fix n o1 next1 assume next1: "repeats de n o1 next1"
  show "repeats de n o1 (breakerInterceptor de next1)"
    unfolding repeats_def
  proof (intro allI impI)
    fix w err w' assume run: "breakerInterceptor de next1 o1 w = (err, w')"
    obtain err1 w1 where step: "next1 o1 (w\<lparr>wr_rejects := Suc (wr_rejects w)\<rparr>) = (err1, w1)" by fastforce
    show "\<exists>k \<le> n. wr_sent w' = wr_sent w @ replicate k o1 \<and>
      (\<forall>i. Suc i < k \<longrightarrow> transient (Invoke de (length (wr_sent w) + i) o1)) \<and>
      ((\<exists>m. err = Some (Plain m)) \<or> (0 < k \<and> err = Invoke de (length (wr_sent w) + k - 1) o1))"
    proof (cases "Rejected de (wr_rejects w)")
      case None
      with run step repeats_rejects [OF next1 step] show ?thesis by (auto simp: breakerInterceptor_def)
    next
      case (Some m)
      with run show ?thesis by (intro exI [of _ 0]) (auto simp: breakerInterceptor_def)
    qed
  qed
qed

lemma invoke_wire_repeats: "repeats de 1 o1 (invoke_wire de)"
  unfolding repeats_def by (auto simp: invoke_wire_def intro!: exI [of _ 1])

declare retry_attempts.simps [simp del]

lemma retry_attempts_wire:
  assumes "retry_attempts de cfg a left (invoke_wire de) o1 w = (err, w')"
  shows "\<exists>k \<le> Suc left. wr_sent w' = wr_sent w @ replicate k o1 \<and>
    (\<forall>i. Suc i < k \<longrightarrow> transient (Invoke de (length (wr_sent w) + i) o1)) \<and>
    ((\<exists>m. err = Some (Plain m)) \<or> (0 < k \<and> err = Invoke de (length (wr_sent w) + k - 1) o1))"
  using assms
proof (induction left arbitrary: a w)
  case 0
  then show ?case
    by (intro exI [of _ 1]) (auto simp: retry_attempts.simps [of de cfg a 0] invoke_wire_def split: if_splits)
next
  case (Suc left)
  let ?w1 = "w\<lparr>wr_sent := wr_sent w @ [o1]\<rparr>" and ?err = "Invoke de (length (wr_sent w)) o1"
  let ?w2 = "snd (waitRetry de cfg a ?w1)"
  show ?case
  proof (cases "transient ?err \<and> fst (waitRetry de cfg a ?w1) = None")
    case True
    with Suc.prems have "retry_attempts de cfg (Suc a) left (invoke_wire de) o1 ?w2 = (err, w')"
      by (auto simp: retry_attempts.simps [of de cfg a "Suc left"] invoke_wire_def [of de o1 w]
          split: prod.splits option.splits)
    from Suc.IH [OF this] obtain k where k: "k \<le> Suc left" "wr_sent w' = wr_sent ?w2 @ replicate k o1"
      "\<forall>i. Suc i < k \<longrightarrow> transient (Invoke de (length (wr_sent ?w2) + i) o1)"
      "(\<exists>m. err = Some (Plain m)) \<or> (0 < k \<and> err = Invoke de (length (wr_sent ?w2) + k - 1) o1)" by blast
    have sent: "wr_sent ?w2 = wr_sent w @ [o1]" by (simp add: waitRetry_def)
    have "transient (Invoke de (length (wr_sent w) + i) o1)" if "Suc i < Suc k" for i
      using that k(3) True by (cases i) (auto simp: sent)
    then show ?thesis using k(1,2,4) by (intro exI [of _ "Suc k"]) (auto simp: sent)
  next
    case False
    with Suc.prems show ?thesis
      by (intro exI [of _ 1])
         (auto simp: retry_attempts.simps [of de cfg a "Suc left"] invoke_wire_def [of de o1 w] waitRetry_def
           split: if_splits option.splits)
  qed
qed

lemma retryInterceptor_repeats:
  assumes "1 \<le> Retry_MaxAttempts cfg"
  shows "repeats de (if retryGRPCMethod (out_Context o1) (out_Method o1) (Retry_Methods cfg)
      then nat (Retry_MaxAttempts cfg) else 1) o1 (retryInterceptor de cfg (invoke_wire de))"
proof (cases "retryGRPCMethod (out_Context o1) (out_Method o1) (Retry_Methods cfg)")
  case True
  have "Suc (nat (Retry_MaxAttempts cfg) - 1) = nat (Retry_MaxAttempts cfg)" using assms by simp
  with True assms show ?thesis
    unfolding repeats_def using retry_attempts_wire [of de cfg 1 "nat (Retry_MaxAttempts cfg) - 1" o1]
    by (simp add: retryInterceptor_def)
next
  case False
  then show ?thesis
    using invoke_wire_repeats by (simp add: repeats_def retryInterceptor_def)
qed

section \<open>Dialling\<close>

lemma transportCredentials_secure:
  "transportCredentials de cfg = Inr t \<Longrightarrow> t \<noteq> Insecure \<longleftrightarrow> gt_Enabled cfg"
  by (auto simp: transportCredentials_def split: if_splits sum.splits)

lemma Dial_Inr:
  assumes "Dial de cfg = Inr conn"
  shows "cn_cfg conn = cfg \<and> 0 < gc_Timeout cfg \<and> (gc_Token cfg = [] \<or> gc_PSK cfg = []) \<and>
    (gc_Token cfg \<noteq> [] \<or> gc_PSK cfg \<noteq> [] \<longrightarrow> cn_transport conn \<noteq> Insecure \<or> gt_AllowInsecureToken (gc_TLS cfg))"
  using assms
  by (auto simp: Dial_def split: if_splits sum.splits option.splits dest!: transportCredentials_secure)

lemma check_grpc_upstreams_None:
  "check_grpc_upstreams us = None \<longleftrightarrow>
     (\<forall>(n, u) \<in> set us. GRPCUpstream_Target u \<noteq> [] \<and> 0 < GRPCUpstream_Timeout u \<and>
        validateClientPolicy n (GRPCUpstream_Auth u) (GRPCUpstream_Retry u) (GRPCUpstream_Breaker u) (GRPCUpstream_TLS u) = None)"
  by (induction us) (auto split: if_splits option.splits)

lemma Validate_grpc_upstreams:
  assumes "Validate c = None" and "(n, u) \<in> set (Outbound_GRPC (c_Outbound c))"
  shows "1 \<le> Retry_MaxAttempts (GRPCUpstream_Retry u) \<and> Retry_MaxAttempts (GRPCUpstream_Retry u) \<le> 5"
proof -
  have "check_grpc_upstreams (Outbound_GRPC (c_Outbound c)) = None"
    using worker_conditions [OF assms(1)] by - (elim conjE, assumption)+
  with assms(2) have "validateClientPolicy n (GRPCUpstream_Auth u) (GRPCUpstream_Retry u) (GRPCUpstream_Breaker u)
      (GRPCUpstream_TLS u) = None"
    by (auto simp: check_grpc_upstreams_None)
  then show ?thesis by (drule_tac validateClientPolicy_None) blast
qed

lemma outer_layers:
  "timeoutInterceptor de (gc_Timeout cfg) (metadataInterceptor (gc_Token cfg) (gc_PSK cfg) rest) o1 w =
     rest (prepared de cfg o1 w) (if out_Deadline o1 = None then w\<lparr>wr_ticks := Suc (wr_ticks w)\<rparr> else w)"
proof -
  have same: "o1\<lparr>out_Deadline := Some t\<rparr> = o1" if "out_Deadline o1 = Some t" for t using that by simp
  show ?thesis
    by (auto simp: timeoutInterceptor_def metadataInterceptor_def prepared_def Let_def same split: option.splits)
qed

lemma inner_layers:
  assumes "1 \<le> Retry_MaxAttempts (gc_Retry cfg)"
  shows "repeats de (if retryGRPCMethod (out_Context o1) (out_Method o1) (Retry_Methods (gc_Retry cfg))
      then nat (Retry_MaxAttempts (gc_Retry cfg)) else 1) o1
    ((case gc_Metrics cfg of None \<Rightarrow> id | Some enabled \<Rightarrow> client_metricsInterceptor (gc_Name cfg) enabled)
      ((if Breaker_Enabled (gc_Breaker cfg) then breakerInterceptor de else id)
        ((if Retry_MaxAttempts (gc_Retry cfg) > 1 then retryInterceptor de (gc_Retry cfg) else id) (invoke_wire de))))"
    (is "repeats de ?n o1 _")
proof -
  have "repeats de ?n o1
      ((if Retry_MaxAttempts (gc_Retry cfg) > 1 then retryInterceptor de (gc_Retry cfg) else id) (invoke_wire de))"
    using assms retryInterceptor_repeats [OF assms] invoke_wire_repeats by (cases "Retry_MaxAttempts (gc_Retry cfg) = 1") auto
  from breaker_layer.optional [OF this] metrics_layer.layer_repeats show ?thesis
    by (cases "gc_Metrics cfg") auto
qed

section \<open>Properties\<close>

text \<open>
  C29. What reaches another service over gRPC: with a validated configuration a call sends copies of
  one request - the method that was called, always with a deadline, the metadata of the caller
  followed by exactly one credential of the upstream, the request id and the idempotency key - at
  most five of them, and more than one only when the call has an idempotency key or its method is
  configured for retries and every earlier copy failed with Unavailable or ResourceExhausted. The
  result is that of the last copy, or an error of the breaker or of a cancelled wait. A connection
  with credentials always uses TLS.
\<close>

theorem grpc_calls:
  assumes "Validate cfg = None" and "(name, upstream) \<in> set (Outbound_GRPC (c_Outbound cfg))"
    and "Dial de (client_config metrics name upstream) = Inr conn" and "call_rpc de conn o1 w = (err, w')"
  shows "\<exists>k o2. wr_sent w' = wr_sent w @ replicate k o2 \<and>
    k \<le> (if retryGRPCMethod (out_Context o1) (out_Method o1) (Retry_Methods (GRPCUpstream_Retry upstream)) then 5 else 1) \<and>
    out_Method o2 = out_Method o1 \<and> out_Deadline o2 \<noteq> None \<and>
    out_Metadata o2 = out_Metadata o1 @
      outgoing_pairs (gc_Token (cn_cfg conn)) (gc_PSK (cn_cfg conn)) (out_Context o1) \<and>
    (\<forall>i. Suc i < k \<longrightarrow> transient (Invoke de (length (wr_sent w) + i) o2)) \<and>
    ((\<exists>m. err = Some (Plain m)) \<or> (0 < k \<and> err = Invoke de (length (wr_sent w) + k - 1) o2)) \<and>
    (gc_Token (cn_cfg conn) \<noteq> [] \<or> gc_PSK (cn_cfg conn) \<noteq> [] \<longrightarrow> cn_transport conn \<noteq> Insecure)"
proof -
  let ?c = "client_config metrics name upstream"
  from Dial_Inr [OF assms(3)] have conn: "cn_cfg conn = ?c"
    "gc_Token ?c \<noteq> [] \<or> gc_PSK ?c \<noteq> [] \<longrightarrow> cn_transport conn \<noteq> Insecure"
    by (auto simp: client_config_def Let_def)
  have retry: "gc_Retry ?c = GRPCUpstream_Retry upstream" by (simp add: client_config_def Let_def)
  from Validate_grpc_upstreams [OF assms(1,2)] have n: "1 \<le> Retry_MaxAttempts (gc_Retry ?c)"
    "nat (Retry_MaxAttempts (gc_Retry ?c)) \<le> 5" by (auto simp: retry)
  let ?o2 = "prepared de ?c o1 w"
  let ?w1 = "if out_Deadline o1 = None then w\<lparr>wr_ticks := Suc (wr_ticks w)\<rparr> else w"
  have sent: "wr_sent ?w1 = wr_sent w" by simp
  have same: "out_Context ?o2 = out_Context o1" "out_Method ?o2 = out_Method o1" by (simp_all add: prepared_def)
  from inner_layers [OF n(1), of de ?o2] assms(4)
  obtain k where k: "k \<le> (if retryGRPCMethod (out_Context o1) (out_Method o1) (Retry_Methods (GRPCUpstream_Retry upstream))
        then nat (Retry_MaxAttempts (gc_Retry ?c)) else 1)"
      "wr_sent w' = wr_sent w @ replicate k ?o2"
      "\<forall>i. Suc i < k \<longrightarrow> transient (Invoke de (length (wr_sent w) + i) ?o2)"
      "(\<exists>m. err = Some (Plain m)) \<or> (0 < k \<and> err = Invoke de (length (wr_sent w) + k - 1) ?o2)"
    unfolding call_rpc_def client_chain_def conn(1) outer_layers repeats_def same retry sent [symmetric] by blast
  moreover have "k \<le> (if retryGRPCMethod (out_Context o1) (out_Method o1) (Retry_Methods (GRPCUpstream_Retry upstream)) then 5 else 1)"
    using k(1) n(2) by (auto split: if_splits)
  moreover have "out_Deadline ?o2 \<noteq> None" "out_Metadata ?o2 = out_Metadata o1 @ outgoing_pairs (gc_Token ?c) (gc_PSK ?c) (out_Context o1)"
    by (auto simp: prepared_def split: option.splits)
  ultimately show ?thesis unfolding conn(1) using conn(2) same(2) by blast
qed

theorem grpc_calls_witness:
  "\<exists>conn w'. Dial sample_dial (client_config True ''application'' sample_grpc_upstream) = Inr conn \<and>
     call_rpc sample_dial conn sample_outgoing sample_wire = (None, w') \<and> length (wr_sent w') = 2 \<and>
     transient (Invoke sample_dial 0 (hd (wr_sent w'))) \<and> cn_transport conn \<noteq> Insecure"
proof -
  let ?dial = "Dial sample_dial (client_config True ''application'' sample_grpc_upstream)"
  have "\<not> isl ?dial" by code_simp
  then obtain conn where conn: "?dial = Inr conn" by (cases ?dial) auto
  then have proj: "conn = projr ?dial" by simp
  have run: "fst (call_rpc sample_dial (projr ?dial) sample_outgoing sample_wire) = None"
    "length (wr_sent (snd (call_rpc sample_dial (projr ?dial) sample_outgoing sample_wire))) = 2"
    "gc_PSK (cn_cfg (projr ?dial)) \<noteq> []" by code_simp+
  obtain w' where w': "call_rpc sample_dial conn sample_outgoing sample_wire = (None, w')" "length (wr_sent w') = 2"
    using run(1,2) unfolding proj [symmetric] by (metis prod.collapse)
  have up: "(''application'', sample_grpc_upstream) \<in> set (Outbound_GRPC (c_Outbound sample_config))"
    by (simp add: sample_config_def)
  from grpc_calls [OF sample_config_valid up conn w'(1)] obtain k o2 where
    o2: "wr_sent w' = replicate k o2" "\<forall>i. Suc i < k \<longrightarrow> transient (Invoke sample_dial i o2)"
      "gc_PSK (cn_cfg conn) \<noteq> [] \<longrightarrow> cn_transport conn \<noteq> Insecure"
    by (auto simp: sample_wire_def)
  with w'(2) have "k = 2" by simp
  with o2 conn w' run(3) show ?thesis by (auto simp: numeral_2_eq_2 proj [symmetric])
qed

end
