(* ===== verification/Migration.thy ===== *)
theory Migration
  imports ConfigLoad Url
begin

text \<open>
  Database migrations: \<open>internal/migration/migration.go\<close>, its use at start-up
  (\<open>runStartupMigration\<close> of \<open>internal/app/app.go\<close>) and the command \<open>cmd/migrate\<close>. The
  migrator of golang-migrate and the SQL driver are arguments, \<open>migrate_env\<close>; the history records in
  which order they were used. The text of a URL parse error is not modelled.
\<close>

section \<open>Definitions\<close>

datatype action = Steps int | Down | Up

datatype action_outcome = Migrated | NoChange | ActionFailed string

datatype event =
    SqlOpen string
  | SqlBegin
  | SqlExec string "string list"
  | SqlCommit
  | SqlRollback
  | SqlClose
  | NewMigrator string string
  | Act action
  | CloseMigrator

record migrate_env =
  filepath_Abs :: "string \<Rightarrow> string + string"
  event_error :: "event \<Rightarrow> string option"
  act :: "action \<Rightarrow> action_outcome"
  close_source :: "string option"
  close_database :: "string option"

type_synonym history = "event list"

text \<open>One call of the driver: it is recorded, then it succeeds or fails.\<close>

definition attempted :: "migrate_env \<Rightarrow> event \<Rightarrow> history \<Rightarrow> string option \<times> history" where
  "attempted me e hist = (event_error me e, hist @ [e])"

definition table_option :: string where
  "table_option = ''x-migrations-table''"

definition mysql_database :: "string \<Rightarrow> string \<Rightarrow> string result" where
  "mysql_database databaseURL databaseName =
     (if databaseName = [] then Inr databaseURL
      else
        (let path = takeWhile (\<lambda>c. c \<noteq> CHR ''?'') databaseURL; query = dropWhile (\<lambda>c. c \<noteq> CHR ''?'') databaseURL in
         (case last_index path (CHR ''/'') of
            None \<Rightarrow> Inl (Errorf ''mysql migration URL is missing database path'')
          | Some slash \<Rightarrow> Inr (take (slash + 1) path @ databaseName @ query))))"

definition mysql_table :: "string \<Rightarrow> string \<Rightarrow> string" where
  "mysql_table databaseURL table =
     (if table = [] then databaseURL
      else databaseURL @ (if Contains databaseURL (CHR ''?'') then ''&'' else ''?'') @ table_option @ ''='' @
        escape QueryPart table)"

definition url_options :: "string \<Rightarrow> string \<Rightarrow> string \<Rightarrow> URL \<Rightarrow> URL" where
  "url_options databaseName table schema parsed =
     (let query0 = ParseQuery (url_RawQuery parsed);
          query1 = (if table \<noteq> [] then Values_Set table_option table query0 else query0);
          query2 = (if schema \<noteq> [] then Values_Set ''search_path'' schema query1 else query1)
      in parsed\<lparr>url_Path := (if databaseName \<noteq> [] then ''/'' @ databaseName else url_Path parsed),
                url_RawQuery := Values_Encode query2\<rparr>)"

definition withMigrationOptions :: "string \<Rightarrow> string \<Rightarrow> string \<Rightarrow> string \<Rightarrow> string result" where
  "withMigrationOptions databaseURL databaseName table schema =
     (if databaseName = [] \<and> table = [] \<and> schema = [] then Inr databaseURL
      else if HasPrefix databaseURL ''mysql://'' then
        (case mysql_database databaseURL databaseName of
           Inl e \<Rightarrow> Inl e
         | Inr url \<Rightarrow> Inr (mysql_table url table))
      else
        (case url_Parse databaseURL of
           None \<Rightarrow> Inl (Errorf ''parse migration database URL'')
         | Some parsed \<Rightarrow> Inr (url_String (url_options databaseName table schema parsed))))"

text \<open>The pattern \<open>^[a-z][a-z0-9_]{0,62}$\<close>.\<close>

definition valid_schema :: "string \<Rightarrow> bool" where
  "valid_schema s \<longleftrightarrow>
     s \<noteq> [] \<and> length s \<le> 63 \<and> hd s \<in> set lower_letters \<and>
     list_all (\<lambda>c. c \<in> set lower_letters \<or> c \<in> set digits \<or> c = CHR ''_'') (tl s)"

definition lock_statement :: string where
  "lock_statement = ''SELECT pg_advisory_xact_lock(hashtext($1))''"

definition create_statement :: "string \<Rightarrow> string" where
  "create_statement schema = ''CREATE SCHEMA IF NOT EXISTS '' @ [CHR 0x22] @ schema @ [CHR 0x22]"

text \<open>After an error the deferred function rolls back.\<close>

definition createSchema :: "migrate_env \<Rightarrow> string \<Rightarrow> history \<Rightarrow> go_error option \<times> history" where
  "createSchema me schema hist =
     (case attempted me SqlBegin hist of
        (Some m, log1) \<Rightarrow> (Some (Errorf (''begin schema creation: '' @ m)), log1)
      | (None, log1) \<Rightarrow>
          (case attempted me (SqlExec lock_statement [''notification-service:schema:'' @ schema]) log1 of
             (Some m, log2) \<Rightarrow> (Some (Errorf (''lock schema creation: '' @ m)), log2 @ [SqlRollback])
           | (None, log2) \<Rightarrow>
               (case attempted me (SqlExec (create_statement schema) []) log2 of
                  (Some m, log3) \<Rightarrow> (Some (Errorf (''execute schema creation: '' @ m)), log3 @ [SqlRollback])
                | (None, log3) \<Rightarrow>
                    (case attempted me SqlCommit log3 of
                       (Some m, log4) \<Rightarrow> (Some (Errorf (''commit schema creation: '' @ m)), log4 @ [SqlRollback])
                     | (None, log4) \<Rightarrow> (None, log4)))))"

definition ensureSchema :: "migrate_env \<Rightarrow> Migration_cfg \<Rightarrow> string \<Rightarrow> history \<Rightarrow> go_error option \<times> history" where
  "ensureSchema me cfg databaseURL hist =
     (if \<not> Migration_CreateSchema cfg \<or> Migration_Schema cfg = [] \<or> HasPrefix (Migration_DatabaseURL cfg) ''mysql://''
      then (None, hist)
      else if \<not> valid_schema (Migration_Schema cfg) then (Some (Errorf ''invalid migration schema''), hist)
      else
        (case url_Parse databaseURL of
           None \<Rightarrow> (Some (Errorf ''parse database URL for schema creation''), hist)
         | Some parsed \<Rightarrow>
             (let target =
                    url_String (parsed\<lparr>url_RawQuery := Values_Encode (Values_Del table_option (ParseQuery (url_RawQuery parsed)))\<rparr>)
              in (case attempted me (SqlOpen target) hist of
                    (Some m, log1) \<Rightarrow> (Some (Errorf (''open database to create schema: '' @ m)), log1)
                  | (None, log1) \<Rightarrow>
                      (case createSchema me (Migration_Schema cfg) log1 of
                         (Some e, log2) \<Rightarrow>
                           (Some (Errorf (''create migration schema '' @ quoted (Migration_Schema cfg) @ '': '' @ error_text e)),
                            log2 @ [SqlClose])
                       | (None, log2) \<Rightarrow> (None, log2 @ [SqlClose]))))))"

text \<open>\<open>errors.Join\<close> with one more error.\<close>

definition join_error :: "go_error option \<Rightarrow> string \<Rightarrow> go_error option" where
  "join_error err m = Some (Errorf (case err of None \<Rightarrow> m | Some e \<Rightarrow> error_text e @ [CHR 0x0A] @ m))"

definition close_migrator :: "migrate_env \<Rightarrow> go_error option \<Rightarrow> go_error option" where
  "close_migrator me err =
     (let err1 = (case close_source me of None \<Rightarrow> err | Some m \<Rightarrow> join_error err (''close migration source: '' @ m))
      in (case close_database me of None \<Rightarrow> err1 | Some m \<Rightarrow> join_error err1 (''close migration database: '' @ m)))"

definition chosen :: "string \<Rightarrow> int \<Rightarrow> action" where
  "chosen direction steps = (if steps \<noteq> 0 then Steps steps else if direction = ''down'' then Down else Up)"

definition Run :: "migrate_env \<Rightarrow> Migration_cfg \<Rightarrow> string \<Rightarrow> int \<Rightarrow> history \<Rightarrow> go_error option \<times> history" where
  "Run me cfg direction steps hist =
     (if Migration_DatabaseURL cfg = [] then (Some (Errorf ''migration.database_url is required''), hist)
      else
        (case filepath_Abs me (Migration_Path cfg) of
           Inl m \<Rightarrow> (Some (Errorf (''resolve migration path: '' @ m)), hist)
         | Inr absPath \<Rightarrow>
             (case withMigrationOptions (Migration_DatabaseURL cfg) (Migration_DatabaseName cfg) (Migration_Table cfg)
                     (Migration_Schema cfg) of
                Inl e \<Rightarrow> (Some e, hist)
              | Inr databaseURL \<Rightarrow>
                  (case ensureSchema me cfg databaseURL hist of
                     (Some e, log1) \<Rightarrow> (Some e, log1)
                   | (None, log1) \<Rightarrow>
                       (case attempted me
                               (NewMigrator (url_String (empty_url\<lparr>url_Scheme := ''file'', url_Path := absPath\<rparr>)) databaseURL) log1 of
                          (Some m, log2) \<Rightarrow> (Some (Errorf (''create migrator: '' @ m)), log2)
                        | (None, log2) \<Rightarrow>
                            (close_migrator me
                               (case act me (chosen direction steps) of
                                  ActionFailed m \<Rightarrow> Some (Errorf (''run migration: '' @ m))
                                | _ \<Rightarrow> None),
                             log2 @ [Act (chosen direction steps), CloseMigrator]))))))"

definition runStartupMigration :: "migrate_env \<Rightarrow> Config \<Rightarrow> history \<Rightarrow> go_error option \<times> history" where
  "runStartupMigration me cfg hist =
     (if \<not> Migration_AutoUp (c_Migration cfg) then (None, hist)
      else
        (case Run me (c_Migration cfg) ''up'' 0 hist of
           (Some e, log1) \<Rightarrow> (Some (Errorf (''startup database migration: '' @ error_text e)), log1)
         | (None, log1) \<Rightarrow> (None, log1)))"

text \<open>The exit status of \<open>cmd/migrate\<close>.\<close>

definition migrate_main :: "'v viper \<Rightarrow> migrate_env \<Rightarrow> string \<Rightarrow> string \<Rightarrow> string \<Rightarrow> int \<Rightarrow> history \<Rightarrow> nat \<times> history" where
  "migrate_main vp me configPath profile direction steps hist =
     (if direction \<noteq> ''up'' \<and> direction \<noteq> ''down'' then (2, hist)
      else
        (case LoadWithProfile vp configPath profile of
           Inl e \<Rightarrow> (1, hist)
         | Inr cfg \<Rightarrow>
             (case Run me (c_Migration cfg) direction steps hist of
                (Some e, log1) \<Rightarrow> (1, log1)
              | (None, log1) \<Rightarrow> (0, log1))))"

end
