(* ===== verification/Workers.thy ===== *)
theory Workers
  imports System ConfigCorrect
begin

text \<open>
  The goroutines of the process: the dispatch loop (\<open>Worker\<close> in
  \<open>internal/notification/dispatcher.go\<close>), the loop of the retention cleaner
  (\<open>internal/notification/cleanup.go\<close>) and the two loops of the event runtime
  (\<open>internal/app/eventbus.go\<close>). They share one shape: create a ticker, work, then select
  between the cancelled context and the next tick. A component keeps a cancel function and a wait
  group; \<open>stop\<close> cancels and waits. The machine below interleaves the steps of the goroutines,
  the call of \<open>stop\<close> and the rest of the process.

  A round is one step. The length of an interval only matters for its sign
  (\<open>time.NewTicker\<close> panics otherwise), so a tick may come at any time, and \<open>select\<close> may
  take it even when the context is cancelled. A context that is cancelled during a round shows as
  faults of the statements of that round.
\<close>

section \<open>Definitions\<close>

datatype phase = Spawned | Working | Selecting | Exited | Panicked

record loop =
  lp_interval :: duration
  lp_phase :: phase

datatype stop_phase = NotStopped | Waiting | Stopped

datatype bus_state = NoBus | BusOpen | BusClosed

text \<open>\<open>rt_cancel\<close> is \<open>None\<close> for a nil cancel function, else whether it was called.\<close>

record runtime =
  rt_cancel :: "bool option"
  rt_loops :: "loop list"
  rt_bus :: bus_state
  rt_stop :: stop_phase

definition new_runtime :: runtime where
  "new_runtime = \<lparr>rt_cancel = None, rt_loops = [], rt_bus = NoBus, rt_stop = NotStopped\<rparr>"

definition spawned :: "duration \<Rightarrow> runtime \<Rightarrow> runtime" where
  "spawned interval rt = rt\<lparr>rt_loops := rt_loops rt @ [\<lparr>lp_interval = interval, lp_phase = Spawned\<rparr>]\<rparr>"

subsection \<open>The dispatch loop\<close>

record Worker =
  wk_dispatcher :: Dispatcher
  wk_cfg :: Config

definition NewWorker :: "Dispatcher \<Rightarrow> Config \<Rightarrow> Worker" where
  "NewWorker dispatcher cfg =
     \<lparr>wk_dispatcher = dispatcher,
      wk_cfg =
        (if Notification_DispatchInterval (c_Notification cfg) \<le> 0
         then cfg\<lparr>c_Notification := (c_Notification cfg)\<lparr>Notification_DispatchInterval :=
                Notification_DispatchInterval (dp_cfg dispatcher)\<rparr>\<rparr>
         else cfg)\<rparr>"

definition Worker_start :: "Worker \<Rightarrow> runtime \<Rightarrow> runtime" where
  "Worker_start wk rt =
     (if \<not> Database_Enabled (c_Database (wk_cfg wk)) then rt
      else spawned (Notification_DispatchInterval (c_Notification (wk_cfg wk))) (rt\<lparr>rt_cancel := Some False\<rparr>))"

subsection \<open>The loop of the retention cleaner\<close>

definition RetentionCleaner_start :: "RetentionCleaner \<Rightarrow> runtime \<Rightarrow> runtime" where
  "RetentionCleaner_start c rt =
     (if \<not> rc_enabled c then rt else spawned (rc_interval c) (rt\<lparr>rt_cancel := Some False\<rparr>))"

subsection \<open>The event runtime\<close>

text \<open>The configurations handed to the event bus, the outbox dispatcher and the outbox cleaner.\<close>

record bus_config =
  bc_URLs :: "string list"
  bc_ClientName :: string
  bc_StreamName :: string
  bc_Subjects :: "string list"
  bc_Storage :: string
  bc_MaxAge :: duration
  bc_DuplicateWindow :: duration
  bc_ConnectTimeout :: duration
  bc_PublishTimeout :: duration

record outbox_config =
  oc_BatchSize :: int
  oc_Lease :: duration
  oc_RetryDelay :: duration

record retention_config =
  rcfg_Retention :: duration
  rcfg_BatchSize :: int

record event_libraries =
  eventbus_New :: "bus_config \<Rightarrow> string option"
  outbox_New :: "outbox_config \<Rightarrow> string option"
  outbox_NewRetentionCleaner :: "retention_config \<Rightarrow> string option"

definition bus_config_of :: "Config \<Rightarrow> bus_config" where
  "bus_config_of cfg =
     (let e = c_EventBus cfg in
      \<lparr>bc_URLs = EventBus_URLs e, bc_ClientName = App_Name (c_App cfg), bc_StreamName = EventBus_StreamName e,
       bc_Subjects = [''platform.>''], bc_Storage = EventBus_Storage e, bc_MaxAge = EventBus_MaxAge e,
       bc_DuplicateWindow = EventBus_DuplicateWindow e, bc_ConnectTimeout = EventBus_ConnectTimeout e,
       bc_PublishTimeout = EventBus_PublishTimeout e\<rparr>)"

definition event_start :: "event_libraries \<Rightarrow> Config \<Rightarrow> bool \<Rightarrow> runtime \<Rightarrow> go_error option \<times> runtime" where
  "event_start lib cfg store rt =
     (let e = c_EventBus cfg in
      if \<not> EventBus_Enabled e then (None, rt)
      else if \<not> store then (Some (Errorf ''enabled event bus requires database outbox''), rt)
      else
        (case eventbus_New lib (bus_config_of cfg) of
           Some m \<Rightarrow> (Some (Errorf m), rt)
         | None \<Rightarrow>
             (case outbox_New lib \<lparr>oc_BatchSize = EventBus_DispatchBatchSize e, oc_Lease = EventBus_DispatchLease e,
                     oc_RetryDelay = EventBus_DispatchRetryDelay e\<rparr> of
                Some m \<Rightarrow> (Some (Errorf m), rt)
              | None \<Rightarrow>
                  (case outbox_NewRetentionCleaner lib \<lparr>rcfg_Retention = EventBus_PublishedRetention e,
                          rcfg_BatchSize = EventBus_CleanupBatchSize e\<rparr> of
                     Some m \<Rightarrow> (Some (Errorf m), rt\<lparr>rt_cancel := Some True, rt_bus := BusClosed\<rparr>)
                   | None \<Rightarrow>
                       (None, spawned (EventBus_CleanupInterval e) (spawned (EventBus_DispatchInterval e)
                          (rt\<lparr>rt_cancel := Some False, rt_bus := BusOpen\<rparr>)))))))"

subsection \<open>The machine\<close>

definition set_phase :: "nat \<Rightarrow> phase \<Rightarrow> runtime \<Rightarrow> runtime" where
  "set_phase i p rt = rt\<lparr>rt_loops := (rt_loops rt)[i := (rt_loops rt ! i)\<lparr>lp_phase := p\<rparr>]\<rparr>"

definition at_phase :: "runtime \<Rightarrow> nat \<Rightarrow> phase \<Rightarrow> bool" where
  "at_phase rt i p \<longleftrightarrow> i < length (rt_loops rt) \<and> lp_phase (rt_loops rt ! i) = p"

definition stop_called :: "runtime \<Rightarrow> runtime" where
  "stop_called rt = rt\<lparr>rt_cancel := map_option (\<lambda>_. True) (rt_cancel rt), rt_stop := Waiting\<rparr>"

definition stop_returned :: "runtime \<Rightarrow> runtime" where
  "stop_returned rt = rt\<lparr>rt_bus := (if rt_bus rt = NoBus then NoBus else BusClosed), rt_stop := Stopped\<rparr>"

text \<open>
  \<open>work i c w w'\<close> says that a round of the i-th goroutine, begun with a context that is
  cancelled or not (\<open>c\<close>), may take the world from \<open>w\<close> to \<open>w'\<close>; \<open>rest\<close> is what the
  rest of the process does.
\<close>

inductive rt_step ::
  "(nat \<Rightarrow> bool \<Rightarrow> 'w \<Rightarrow> 'w \<Rightarrow> bool) \<Rightarrow> ('w \<Rightarrow> 'w \<Rightarrow> bool) \<Rightarrow> runtime \<times> 'w \<Rightarrow> runtime \<times> 'w \<Rightarrow> bool"
  for work rest where
  ticker: "at_phase rt i Spawned \<Longrightarrow>
    rt_step work rest (rt, w) (set_phase i (if lp_interval (rt_loops rt ! i) \<le> 0 then Panicked else Working) rt, w)"
| round: "at_phase rt i Working \<Longrightarrow> work i (rt_cancel rt = Some True) w w' \<Longrightarrow>
    rt_step work rest (rt, w) (set_phase i Selecting rt, w')"
| tick: "at_phase rt i Selecting \<Longrightarrow> rt_step work rest (rt, w) (set_phase i Working rt, w)"
| leave: "at_phase rt i Selecting \<Longrightarrow> rt_cancel rt = Some True \<Longrightarrow>
    rt_step work rest (rt, w) (set_phase i Exited rt, w)"
| stop: "rt_stop rt = NotStopped \<Longrightarrow> rt_step work rest (rt, w) (stop_called rt, w)"
| stopped: "rt_stop rt = Waiting \<Longrightarrow> rt_cancel rt = None \<or> (\<forall>l \<in> set (rt_loops rt). lp_phase l = Exited) \<Longrightarrow>
    rt_step work rest (rt, w) (stop_returned rt, w)"
| rest: "rest w w' \<Longrightarrow> rt_step work rest (rt, w) (rt, w')"

text \<open>
  What the loops do: a round of the dispatcher, a run of the cleaner, in any surroundings. A
  statement on a cancelled context fails before it reaches the database.
\<close>

definition cancelled_env :: "env \<Rightarrow> bool" where
  "cancelled_env env \<longleftrightarrow> (\<forall>n. \<exists>m. Fault env n = Fails m)"

definition dispatch_work :: "Service \<Rightarrow> Dispatcher \<Rightarrow> nat \<Rightarrow> bool \<Rightarrow> world \<Rightarrow> world \<Rightarrow> bool" where
  "dispatch_work s dp i c w w' \<longleftrightarrow>
     (\<exists>env. peers (dp_cfg dp) s env (w_db w) \<and> (c \<longrightarrow> cancelled_env env) \<and> w' = snd (RunOnce env dp background w))"

definition clean_work :: "Service \<Rightarrow> Notification_cfg \<Rightarrow> RetentionCleaner \<Rightarrow> nat \<Rightarrow> bool \<Rightarrow> world \<Rightarrow> world \<Rightarrow> bool" where
  "clean_work s cfg rc i c w w' \<longleftrightarrow>
     (\<exists>env fuel r. peers cfg s env (w_db w) \<and> (c \<longrightarrow> cancelled_env env) \<and> clean fuel env rc w = Some (r, w'))"

text \<open>The rest of the process and the other instances.\<close>

definition instance_step :: "Service \<Rightarrow> Dispatcher \<Rightarrow> RetentionCleaner \<Rightarrow> world \<Rightarrow> world \<Rightarrow> bool" where
  "instance_step s dp rc w w' \<longleftrightarrow>
     (\<exists>env op. peers (dp_cfg dp) s env (w_db w) \<and> perform env s dp rc op w = Some w')"

text \<open>What holds of a runtime from its start on.\<close>

definition runtime_inv :: "runtime \<Rightarrow> bool" where
  "runtime_inv rt \<longleftrightarrow>
     (\<forall>l \<in> set (rt_loops rt). 0 < lp_interval l \<and> lp_phase l \<noteq> Panicked) \<and>
     (rt_loops rt \<noteq> [] \<longrightarrow> rt_cancel rt \<noteq> None) \<and>
     (rt_stop rt \<noteq> NotStopped \<longrightarrow> rt_cancel rt = None \<or> rt_cancel rt = Some True) \<and>
     (rt_stop rt = Stopped \<longrightarrow> (\<forall>l \<in> set (rt_loops rt). lp_phase l = Exited) \<and> rt_bus rt \<noteq> BusOpen)"

section \<open>Lemmas\<close>

subsection \<open>The machine\<close>

inductive_simps rt_step_stopped: "rt_step work rest (rt, w) (rt', w')"

lemma set_phase_simps [simp]:
  "rt_cancel (set_phase i p rt) = rt_cancel rt" "rt_stop (set_phase i p rt) = rt_stop rt"
  "rt_bus (set_phase i p rt) = rt_bus rt" "length (rt_loops (set_phase i p rt)) = length (rt_loops rt)"
  "rt_loops (set_phase i p rt) = [] \<longleftrightarrow> rt_loops rt = []"
  by (simp_all add: set_phase_def)

lemma set_phase_loops:
  assumes "l \<in> set (rt_loops (set_phase i p rt))" and "i < length (rt_loops rt)"
  shows "l \<in> set (rt_loops rt) \<or> (l = (rt_loops rt ! i)\<lparr>lp_phase := p\<rparr> \<and> rt_loops rt ! i \<in> set (rt_loops rt))"
  using assms by (auto simp: set_phase_def dest!: subsetD [OF set_update_subset_insert])

lemma at_phase_set [simp]:
  "at_phase (set_phase i p rt) j q \<longleftrightarrow> (if i = j then i < length (rt_loops rt) \<and> p = q else at_phase rt j q)"
  by (auto simp: at_phase_def set_phase_def)

text \<open>A goroutine that moves on was not done, so \<open>stop\<close> has not returned.\<close>

lemma move_inv:
  assumes "runtime_inv rt" and "at_phase rt i p" and "p \<noteq> Exited" and "q \<noteq> Panicked"
  shows "runtime_inv (set_phase i q rt)"
proof -
  have mem: "rt_loops rt ! i \<in> set (rt_loops rt)" and i: "i < length (rt_loops rt)"
    using assms(2) by (auto simp: at_phase_def)
  have "rt_stop rt \<noteq> Stopped" using assms(1-3) mem unfolding runtime_inv_def at_phase_def by metis
  then show ?thesis
    using assms(1,4) mem set_phase_loops [OF _ i, of _ q] unfolding runtime_inv_def by fastforce
qed

lemma step_inv:
  assumes "rt_step work rest (rt, w) (rt', w')" and "runtime_inv rt"
  shows "runtime_inv rt'"
  using assms(1)
proof (cases rule: rt_step.cases)
  case (ticker i)
  then have "0 < lp_interval (rt_loops rt ! i)"
    using assms(2) by (auto simp: runtime_inv_def at_phase_def)
  with ticker assms(2) show ?thesis by (auto intro: move_inv)
next
  case stop
  with assms(2) show ?thesis by (auto simp: runtime_inv_def stop_called_def)
next
  case stopped
  with assms(2) show ?thesis by (auto simp: runtime_inv_def stop_returned_def)
qed (use assms(2) in \<open>auto intro: move_inv\<close>)

lemma steps_inv_runtime:
  assumes "(rt_step work rest)\<^sup>*\<^sup>* (rt, w) (rt', w')" and "runtime_inv rt"
  shows "runtime_inv rt'"
  using assms by (induction rule: rtranclp_induct2) (auto intro: step_inv)

lemma stopped_quiet:
  assumes "runtime_inv rt" and "rt_stop rt = Stopped" and "rt_step work rest (rt, w) (rt', w')"
  shows "rt' = rt \<and> rest w w'"
proof -
  have "\<not> at_phase rt i p" if "p \<noteq> Exited" for i p
    using assms(1,2) that unfolding runtime_inv_def at_phase_def by (metis nth_mem)
  with assms(2,3) show ?thesis by (auto simp: rt_step_stopped)
qed

lemma set_phase_twice [simp]: "set_phase i q (set_phase i p rt) = set_phase i q rt"
  by (cases "i < length (rt_loops rt)") (simp_all add: set_phase_def list_update_beyond)

lemma set_phase_same:
  assumes "at_phase rt i p"
  shows "set_phase i p rt = rt"
proof -
  have "(rt_loops rt ! i)\<lparr>lp_phase := p\<rparr> = rt_loops rt ! i" using assms by (auto simp: at_phase_def)
  then show ?thesis by (simp add: set_phase_def)
qed

subsection \<open>What the work of a loop promises\<close>

text \<open>
  The contract of a background component: a round ends, it keeps what is good, and it changes no
  table when its context is cancelled.
\<close>

locale background_work =
  fixes work :: "nat \<Rightarrow> bool \<Rightarrow> 'w \<Rightarrow> 'w \<Rightarrow> bool" and rest :: "'w \<Rightarrow> 'w \<Rightarrow> bool"
    and good :: "'w \<Rightarrow> bool" and tables :: "'w \<Rightarrow> 't"
  assumes ends: "good w \<Longrightarrow> \<exists>w'. work i c w w'"
    and keeps: "work i c w w' \<Longrightarrow> good w \<Longrightarrow> good w'"
    and rest_keeps: "rest w w' \<Longrightarrow> good w \<Longrightarrow> good w'"
    and cancelled: "work i True w w' \<Longrightarrow> tables w' = tables w"
begin

lemma steps_good:
  assumes "(rt_step work rest)\<^sup>*\<^sup>* (rt, w) (rt', w')" and "good w"
  shows "good w'"
  using assms by (induction rule: rtranclp_induct2) (auto elim!: rt_step.cases intro: keeps rest_keeps)

lemma cancelled_step:
  assumes "rt_step work rest (rt, w) (rt', w')" and "rt_cancel rt = Some True"
  shows "tables w' = tables w \<or> rest w w'"
  using assms by (auto elim!: rt_step.cases dest: cancelled)

lemma exits:
  assumes "rt_cancel rt = Some True" and "runtime_inv rt" and "good w" and "i < length (rt_loops rt)"
  shows "\<exists>w'. (rt_step work rest)\<^sup>*\<^sup>* (rt, w) (set_phase i Exited rt, w') \<and> good w' \<and> tables w' = tables w"
proof -
  have leave: "(rt_step work rest)\<^sup>*\<^sup>* (r, v) (set_phase i Exited r, v)" if "at_phase r i Selecting" "rt_cancel r = Some True" for r v
    using that by (blast intro: rt_step.leave)
  have work: "\<exists>v'. (rt_step work rest)\<^sup>*\<^sup>* (r, v) (set_phase i Exited r, v') \<and> good v' \<and> tables v' = tables v"
    if "at_phase r i Working" "rt_cancel r = Some True" "good v" for r v
  proof -
    from ends [OF that(3)] obtain v' where v': "work i True v v'" by blast
    with that have "rt_step work rest (r, v) (set_phase i Selecting r, v')" by (auto intro: rt_step.round)
    moreover have "i < length (rt_loops r)" using that(1) by (simp add: at_phase_def)
    then have "(rt_step work rest)\<^sup>*\<^sup>* (set_phase i Selecting r, v') (set_phase i Exited r, v')"
      using leave [of "set_phase i Selecting r" v'] that(2) by simp
    ultimately show ?thesis using v' that(3) keeps cancelled by (meson converse_rtranclp_into_rtranclp)
  qed
  obtain p where p: "at_phase rt i p" using assms(4) by (auto simp: at_phase_def)
  have pos: "0 < lp_interval (rt_loops rt ! i)" "p \<noteq> Panicked"
    using assms(2,4) p by (auto simp: runtime_inv_def at_phase_def)
  show ?thesis
  proof (cases p)
    case Spawned
    then have "rt_step work rest (rt, w) (set_phase i Working rt, w)" using p pos rt_step.ticker [of rt i work rest w] by simp
    moreover obtain w' where "(rt_step work rest)\<^sup>*\<^sup>* (set_phase i Working rt, w) (set_phase i Exited rt, w')" "good w'" "tables w' = tables w"
      using work [of "set_phase i Working rt" w] assms by auto
    ultimately show ?thesis by (meson converse_rtranclp_into_rtranclp)
  next
    case Working
    with work p assms show ?thesis by blast
  next
    case Selecting
    with leave p assms show ?thesis by blast
  next
    case Exited
    with set_phase_same [of rt i Exited] p assms(3) show ?thesis by auto
  qed (use pos in simp)
qed

lemma drains:
  assumes "rt_cancel rt = Some True" and "runtime_inv rt" and "good w" and "n \<le> length (rt_loops rt)"
  shows "\<exists>rt' w'. (rt_step work rest)\<^sup>*\<^sup>* (rt, w) (rt', w') \<and> good w' \<and> tables w' = tables w \<and> rt_stop rt' = rt_stop rt \<and>
    rt_cancel rt' = Some True \<and> length (rt_loops rt') = length (rt_loops rt) \<and> (\<forall>i < n. at_phase rt' i Exited)"
  using assms(4)
proof (induction n)
  case (Suc n)
  then obtain rt1 w1 where one: "(rt_step work rest)\<^sup>*\<^sup>* (rt, w) (rt1, w1)" "good w1" "tables w1 = tables w" "rt_stop rt1 = rt_stop rt"
    "rt_cancel rt1 = Some True" "length (rt_loops rt1) = length (rt_loops rt)" "\<forall>i < n. at_phase rt1 i Exited" by auto
  from exits [OF one(5) steps_inv_runtime [OF one(1) assms(2)] one(2), of n] one(6) Suc.prems
  obtain w' where "(rt_step work rest)\<^sup>*\<^sup>* (rt1, w1) (set_phase n Exited rt1, w')" "good w'" "tables w' = tables w1" by auto
  with one Suc.prems show ?case
    by (intro exI [of _ "set_phase n Exited rt1"] exI [of _ w']) (auto simp: less_Suc_eq)
qed (use assms in auto)

lemma stops:
  assumes "rt_stop rt = Waiting" and "runtime_inv rt" and "good w"
  shows "\<exists>rt' w'. (rt_step work rest)\<^sup>*\<^sup>* (rt, w) (rt', w') \<and> rt_stop rt' = Stopped \<and> tables w' = tables w"
proof (cases "rt_cancel rt")
  case None
  then have "rt_step work rest (rt, w) (stop_returned rt, w)" using assms(1) by (intro rt_step.stopped) simp_all
  then show ?thesis by (intro exI [of _ "stop_returned rt"] exI [of _ w]) (auto simp: stop_returned_def)
next
  case (Some c)
  with assms(1,2) have "rt_cancel rt = Some True" by (simp add: runtime_inv_def)
  from drains [OF this assms(2,3) order_refl] obtain rt1 w1 where one: "(rt_step work rest)\<^sup>*\<^sup>* (rt, w) (rt1, w1)"
    "tables w1 = tables w" "rt_stop rt1 = Waiting" "\<forall>i < length (rt_loops rt1). at_phase rt1 i Exited"
    using assms(1) by auto
  then have "rt_step work rest (rt1, w1) (stop_returned rt1, w1)"
    by (intro rt_step.stopped) (auto simp: at_phase_def in_set_conv_nth)
  with one show ?thesis
    by (intro exI [of _ "stop_returned rt1"] exI [of _ w1]) (auto simp: stop_returned_def)
qed

end

subsection \<open>The loops of this process\<close>

lemma peers_fault [simp]: "peers cfg s (env\<lparr>Fault := f\<rparr>) d \<longleftrightarrow> peers cfg s env d"
  by (simp add: peers_def orderly_def)

lemma cancelled_Within:
  assumes "cancelled_env env"
  shows "\<exists>e w'. Within env en fn w = (Inl e, w') \<and> w_db w' = w_db w"
proof -
  from assms obtain m where "Fault env (w_stmts w) = Fails m" by (auto simp: cancelled_env_def)
  then show ?thesis by (simp add: Within_def)
qed

lemma cancelled_RunOnce:
  assumes "cancelled_env env"
  shows "w_db (snd (RunOnce env dp ctx w)) = w_db w"
  using cancelled_Within [OF assms, of "dp_db_enabled dp" "claim_tx env dp" w] by (auto simp: RunOnce_def)

lemma cancelled_clean:
  assumes "cancelled_env env" and "clean fuel env rc w = Some (r, w')"
  shows "w_db w' = w_db w"
proof (cases fuel)
  case (Suc n)
  from assms(1) obtain m where "Fault env (w_stmts w) = Fails m" by (auto simp: cancelled_env_def)
  with Suc assms(2) show ?thesis
    by (auto simp: read_clock_def DeleteTerminalDeliveriesBefore_def query_def split: if_splits)
qed (use assms(2) in simp)

lemma NewDispatcher_attempts: "0 < Notification_MaxAttempts (dp_cfg (NewDispatcher en senders registry cfg))"
  by (simp add: NewDispatcher_def Let_def)

interpretation dispatching:
  background_work "dispatch_work s (NewDispatcher en senders registry cfg)" "instance_step s (NewDispatcher en senders registry cfg) rc"
    "\<lambda>w. system_inv (dp_cfg (NewDispatcher en senders registry cfg)) s (w_db w)" w_db
  for s en senders registry cfg rc
proof unfold_locales
  let ?dp = "NewDispatcher en senders registry cfg"
  fix i c and w w' :: world
  have "peers (dp_cfg ?dp) s (sample_env\<lparr>Fault := \<lambda>_. Fails []\<rparr>) (w_db w)" "cancelled_env (sample_env\<lparr>Fault := \<lambda>_. Fails []\<rparr>)"
    by (simp_all add: sample_peers cancelled_env_def)
  then show "\<exists>w'. dispatch_work s ?dp i c w w'" unfolding dispatch_work_def by blast
  show "system_inv (dp_cfg ?dp) s (w_db w')" if "dispatch_work s ?dp i c w w'" "system_inv (dp_cfg ?dp) s (w_db w)"
  proof -
    from that(1) obtain env where env: "peers (dp_cfg ?dp) s env (w_db w)" "perform env s ?dp rc (Round background) w = Some w'"
      unfolding dispatch_work_def by auto
    then show ?thesis using that(2) NewDispatcher_attempts by (rule perform_inv)
  qed
  show "system_inv (dp_cfg ?dp) s (w_db w')" if "instance_step s ?dp rc w w'" "system_inv (dp_cfg ?dp) s (w_db w)"
    using that NewDispatcher_attempts unfolding instance_step_def by (blast intro: perform_inv)
  show "w_db w' = w_db w" if "dispatch_work s ?dp i True w w'"
    using that cancelled_RunOnce by (auto simp: dispatch_work_def)
qed

interpretation cleaning:
  background_work "clean_work s (dp_cfg (NewDispatcher en senders registry cfg)) (NewRetentionCleaner cfg)"
    "instance_step s (NewDispatcher en senders registry cfg) (NewRetentionCleaner cfg)"
    "\<lambda>w. system_inv (dp_cfg (NewDispatcher en senders registry cfg)) s (w_db w)" w_db
  for s en senders registry cfg
proof unfold_locales
  let ?dp = "NewDispatcher en senders registry cfg" and ?rc = "NewRetentionCleaner cfg"
  fix i c and w w' :: world
  let ?env = "sample_env\<lparr>Fault := \<lambda>_. Fails []\<rparr>"
  have "peers (dp_cfg ?dp) s ?env (w_db w)" "cancelled_env ?env"
    by (simp_all add: sample_peers cancelled_env_def)
  moreover have "\<exists>r w'. clean (Suc (length (Deliveries (w_db w)))) ?env ?rc w = Some (r, w')"
    by (rule clean_returns) (simp_all add: NewRetentionCleaner_def Let_def)
  ultimately show "\<exists>w'. clean_work s (dp_cfg ?dp) ?rc i c w w'" unfolding clean_work_def by blast
  show "system_inv (dp_cfg ?dp) s (w_db w')"
    if "clean_work s (dp_cfg ?dp) ?rc i c w w'" "system_inv (dp_cfg ?dp) s (w_db w)"
  proof -
    from that(1) obtain env fuel where env: "peers (dp_cfg ?dp) s env (w_db w)" "perform env s ?dp ?rc (Clean fuel) w = Some w'"
      unfolding clean_work_def by auto
    then show ?thesis using that(2) NewDispatcher_attempts by (rule perform_inv)
  qed
  show "system_inv (dp_cfg ?dp) s (w_db w')" if "instance_step s ?dp ?rc w w'" "system_inv (dp_cfg ?dp) s (w_db w)"
    using that NewDispatcher_attempts unfolding instance_step_def by (blast intro: perform_inv)
  show "w_db w' = w_db w" if "clean_work s (dp_cfg ?dp) ?rc i True w w'"
    using that cancelled_clean by (auto simp: clean_work_def)
qed

text \<open>How the components start: every ticker has a positive interval.\<close>

lemma spawned_inv:
  assumes "runtime_inv rt" and "rt_stop rt = NotStopped" and "rt_cancel rt \<noteq> None" and "0 < interval"
  shows "runtime_inv (spawned interval rt)"
  using assms by (auto simp: runtime_inv_def spawned_def)

lemma new_runtime_inv [simp]: "runtime_inv new_runtime" "rt_stop new_runtime = NotStopped"
  by (simp_all add: runtime_inv_def new_runtime_def)

lemma cancel_inv: "runtime_inv rt \<Longrightarrow> rt_stop rt = NotStopped \<Longrightarrow> runtime_inv (rt\<lparr>rt_cancel := Some c, rt_bus := b\<rparr>)"
  "runtime_inv rt \<Longrightarrow> rt_stop rt = NotStopped \<Longrightarrow> runtime_inv (rt\<lparr>rt_cancel := Some c\<rparr>)"
  by (simp_all add: runtime_inv_def)

lemma Worker_start_inv:
  "runtime_inv (Worker_start (NewWorker (NewDispatcher en senders registry cfg) cfg) new_runtime)"
  by (auto simp: Worker_start_def NewWorker_def NewDispatcher_def Let_def intro!: spawned_inv cancel_inv)

lemma RetentionCleaner_start_inv: "runtime_inv (RetentionCleaner_start (NewRetentionCleaner cfg) new_runtime)"
  by (auto simp: RetentionCleaner_start_def NewRetentionCleaner_def Let_def intro!: spawned_inv cancel_inv)

lemma event_start_inv:
  assumes "event_start lib cfg store new_runtime = (e, rt)" and "Validate cfg = None"
  shows "runtime_inv rt \<and> rt_stop rt = NotStopped \<and> (e \<noteq> None \<longrightarrow> rt_loops rt = [] \<and> rt_bus rt \<noteq> BusOpen)"
proof -
  have "EventBus_Enabled (c_EventBus cfg) \<Longrightarrow> 0 < EventBus_DispatchInterval (c_EventBus cfg) \<and> 0 < EventBus_CleanupInterval (c_EventBus cfg)"
    using worker_conditions [OF assms(2)] by (auto simp: event_bus_invalid_def)
  with assms(1) show ?thesis
    by (auto simp: event_start_def Let_def spawned_def new_runtime_def runtime_inv_def split: if_splits option.splits)
qed

section \<open>Properties\<close>

text \<open>
  C17. Stopping is final. In every run of the dispatch loop, of the cleaner loop or of the event
  runtime of a valid configuration, whatever a round does and however the steps interleave, no
  ticker panics; and once \<open>stop\<close> has returned every goroutine has exited, the event bus is not
  open, and from then on only the rest of the process changes anything.
\<close>

theorem stop_is_final:
  assumes "(rt_step work rest)\<^sup>*\<^sup>* (rt0, w0) (rt, w)"
    and "rt0 = Worker_start (NewWorker (NewDispatcher en senders registry cfg) cfg) new_runtime \<or>
      rt0 = RetentionCleaner_start (NewRetentionCleaner cfg) new_runtime \<or>
      Validate cfg = None \<and> event_start lib cfg store new_runtime = (e, rt0)"
  shows "(\<forall>l \<in> set (rt_loops rt). lp_phase l \<noteq> Panicked) \<and>
    (rt_stop rt = Stopped \<longrightarrow> (\<forall>l \<in> set (rt_loops rt). lp_phase l = Exited) \<and> rt_bus rt \<noteq> BusOpen \<and>
      (\<forall>rt' w'. (rt_step work rest)\<^sup>*\<^sup>* (rt, w) (rt', w') \<longrightarrow> rt' = rt \<and> rest\<^sup>*\<^sup>* w w'))"
proof -
  have "runtime_inv rt0" using assms(2) Worker_start_inv RetentionCleaner_start_inv event_start_inv by metis
  from steps_inv_runtime [OF assms(1) this] have inv: "runtime_inv rt" .
  have "rt' = rt \<and> rest\<^sup>*\<^sup>* w w'" if "(rt_step work rest)\<^sup>*\<^sup>* (rt, w) (rt', w')" "rt_stop rt = Stopped" for rt' w'
    using that
    by (induction rule: rtranclp_induct2)
       (auto dest!: stopped_quiet [OF inv] intro: rtranclp.rtrancl_into_rtrancl)
  with inv show ?thesis by (simp add: runtime_inv_def)
qed


section \<open>Witnesses\<close>

definition sample_runtime :: runtime where
  "sample_runtime = Worker_start (NewWorker (NewDispatcher True base_senders [] sample_config) sample_config) new_runtime"

definition migrated_world :: world where
  "migrated_world = sample_world \<lparr>Templates = [], Providers = [], Deliveries = [], Outbox = []\<rparr>"

lemma migrated_inv: "system_inv cfg s (w_db migrated_world)"
  by (simp add: system_inv_def schema_ok_def all_routable_def unique_by_def migrated_world_def)

abbreviation sample_loop :: "runtime \<times> world \<Rightarrow> runtime \<times> world \<Rightarrow> bool" where
  "sample_loop \<equiv> rt_step (dispatch_work sample_service (NewDispatcher True base_senders [] sample_config))
     (instance_step sample_service (NewDispatcher True base_senders [] sample_config) (NewRetentionCleaner sample_config))"

lemma sample_stopping:
  "length (rt_loops sample_runtime) = 1 \<and> sample_loop\<^sup>*\<^sup>* (sample_runtime, migrated_world) (stop_called sample_runtime, migrated_world) \<and>
   rt_stop (stop_called sample_runtime) = Waiting \<and> rt_cancel (stop_called sample_runtime) = Some True"
proof -
  have one: "length (rt_loops sample_runtime) = 1" "rt_cancel sample_runtime = Some False" by code_simp+
  moreover have "rt_stop sample_runtime = NotStopped" by code_simp
  then have "sample_loop (sample_runtime, migrated_world) (stop_called sample_runtime, migrated_world)" by (rule rt_step.stop)
  ultimately show ?thesis by (auto simp: stop_called_def)
qed


theorem stop_is_final_witness:
  "\<exists>rt w. sample_loop\<^sup>*\<^sup>* (sample_runtime, migrated_world) (rt, w) \<and> rt_stop rt = Stopped \<and>
     (\<forall>l \<in> set (rt_loops rt). lp_phase l = Exited) \<and> (\<forall>rt' w'. sample_loop\<^sup>*\<^sup>* (rt, w) (rt', w') \<longrightarrow> rt' = rt)"
proof -
  have "runtime_inv (stop_called sample_runtime)"
    using steps_inv_runtime [of _ _ sample_runtime migrated_world] sample_stopping Worker_start_inv unfolding sample_runtime_def by blast
  with dispatching.stops [of "stop_called sample_runtime" _ _ _ _ _ migrated_world] sample_stopping migrated_inv
  obtain rt w where "sample_loop\<^sup>*\<^sup>* (stop_called sample_runtime, migrated_world) (rt, w)" and stopped: "rt_stop rt = Stopped" by blast
  with sample_stopping have run: "sample_loop\<^sup>*\<^sup>* (sample_runtime, migrated_world) (rt, w)" by (meson rtranclp_trans)
  from stop_is_final [OF run, where en = True and senders = base_senders and registry = "[]" and cfg = sample_config] stopped
  show ?thesis unfolding sample_runtime_def using run unfolding sample_runtime_def by blast
qed

end
