(* ===== verification/Storage.thy ===== *)
theory Storage
  imports ConfigCorrect
begin

text \<open>
  Connections and locks: opening the database (\<open>internal/database/database.go\<close>), opening Redis
  and the distributed lock on it (\<open>internal/cache/redis.go\<close>), their constructors in
  \<open>internal/app/app.go\<close> and the scheduled job that uses the lock
  (\<open>runSample\<close> in \<open>internal/scheduler/scheduler.go\<close>). The drivers, the Redis client and
  redsync are arguments; a history records which connections were opened and closed and what was
  done under a lock.
\<close>

section \<open>Definitions\<close>

subsection \<open>The database\<close>

text \<open>The parts of the drivers' configurations that the code sets.\<close>

record pgx_config =
  pgx_Target :: string
  pgx_Database :: string
  pgx_RuntimeParams :: "string \<rightharpoonup> string"

record mysql_config =
  my_Target :: string
  my_DBName :: string
  my_ParseTime :: bool
  my_Loc :: string

datatype connection =
    Pgx pgx_config
  | Dsn string string
  | Redis string string string int duration duration duration

datatype conn_event = Opened connection | Closed connection

record drivers =
  pgx_ParseConfig :: "string \<Rightarrow> string + pgx_config"
  mysql_ParseDSN :: "string \<Rightarrow> string + mysql_config"
  mysql_FormatDSN :: "mysql_config \<Rightarrow> string"
  LoadLocation :: "string \<Rightarrow> string option"
  sqlx_Open :: "string \<Rightarrow> string \<Rightarrow> string option"
  Ping :: "connection \<Rightarrow> string option"
  InstrumentTracing :: "string option"

record DB =
  db_conn :: connection
  db_MaxOpenConns :: int
  db_MaxIdleConns :: int
  db_ConnMaxLifetime :: duration
  db_ConnMaxIdleTime :: duration

definition shanghai :: string where
  "shanghai = ''Asia/Shanghai''"

definition driverName :: "string \<Rightarrow> string result" where
  "driverName dbType =
     (if dbType = ''mysql'' then Inr ''mysql''
      else if dbType = ''postgres'' \<or> dbType = ''kingbase'' then Inr ''pgx''
      else Inl (Errorf (''unsupported database type '' @ quoted dbType)))"

definition pgx_settings :: "Database_cfg \<Rightarrow> pgx_config \<Rightarrow> pgx_config" where
  "pgx_settings cfg c0 =
     (let c1 = (if Database_Name cfg \<noteq> [] then c0\<lparr>pgx_Database := Database_Name cfg\<rparr> else c0);
          c2 = (if Database_Schema cfg \<noteq> []
                then c1\<lparr>pgx_RuntimeParams := (pgx_RuntimeParams c1)(''search_path'' \<mapsto> Database_Schema cfg)\<rparr> else c1)
      in c2\<lparr>pgx_RuntimeParams := (pgx_RuntimeParams c2)(''timezone'' \<mapsto> shanghai)\<rparr>)"

definition mysql_settings :: "Database_cfg \<Rightarrow> mysql_config \<Rightarrow> mysql_config" where
  "mysql_settings cfg c0 =
     (let c1 = (if Database_Name cfg \<noteq> [] then c0\<lparr>my_DBName := Database_Name cfg\<rparr> else c0)
      in c1\<lparr>my_ParseTime := True, my_Loc := shanghai\<rparr>)"

definition database_connect :: "drivers \<Rightarrow> Database_cfg \<Rightarrow> string \<Rightarrow> connection result" where
  "database_connect ds cfg driver =
     (if driver = ''pgx'' then
        (case pgx_ParseConfig ds (Database_DSN cfg) of
           Inl m \<Rightarrow> Inl (Errorf (''parse database dsn: '' @ m))
         | Inr c \<Rightarrow> Inr (Pgx (pgx_settings cfg c)))
      else if driver = ''mysql'' then
        (case mysql_ParseDSN ds (Database_DSN cfg) of
           Inl m \<Rightarrow> Inl (Errorf (''parse database dsn: '' @ m))
         | Inr c \<Rightarrow>
             (case LoadLocation ds shanghai of
                Some m \<Rightarrow> Inl (Errorf (''load database timezone: '' @ m))
              | None \<Rightarrow>
                  (let dsn = mysql_FormatDSN ds (mysql_settings cfg c) in
                   (case sqlx_Open ds driver dsn of
                      Some m \<Rightarrow> Inl (Errorf (''open database: '' @ m))
                    | None \<Rightarrow> Inr (Dsn driver dsn)))))
      else
        (case sqlx_Open ds driver (Database_DSN cfg) of
           Some m \<Rightarrow> Inl (Errorf (''open database: '' @ m))
         | None \<Rightarrow> Inr (Dsn driver (Database_DSN cfg))))"

definition database_Open :: "drivers \<Rightarrow> Database_cfg \<Rightarrow> conn_event list \<Rightarrow> DB result \<times> conn_event list" where
  "database_Open ds cfg hist =
     (case driverName (Database_Type cfg) of
        Inl e \<Rightarrow> (Inl e, hist)
      | Inr driver \<Rightarrow>
          (case database_connect ds cfg driver of
             Inl e \<Rightarrow> (Inl e, hist)
           | Inr conn \<Rightarrow>
               (case Ping ds conn of
                  Some m \<Rightarrow> (Inl (Errorf (''ping database: '' @ m)), hist @ [Opened conn, Closed conn])
                | None \<Rightarrow>
                    (Inr \<lparr>db_conn = conn, db_MaxOpenConns = Database_MaxOpenConns cfg,
                          db_MaxIdleConns = Database_MaxIdleConns cfg, db_ConnMaxLifetime = Database_ConnMaxLifetime cfg,
                          db_ConnMaxIdleTime = Database_ConnMaxIdleTime cfg\<rparr>,
                     hist @ [Opened conn]))))"

definition newDatabase :: "drivers \<Rightarrow> Config \<Rightarrow> conn_event list \<Rightarrow> DB option result \<times> conn_event list" where
  "newDatabase ds cfg hist =
     (if \<not> Database_Enabled (c_Database cfg) then (Inr None, hist)
      else
        (case database_Open ds (c_Database cfg) hist of
           (Inl e, hist1) \<Rightarrow> (Inl e, hist1)
         | (Inr db, hist1) \<Rightarrow> (Inr (Some db), hist1)))"

subsection \<open>Redis\<close>

definition redis_client :: "Redis_cfg \<Rightarrow> connection" where
  "redis_client cfg =
     Redis (Redis_Address cfg) (Redis_Username cfg) (Redis_Password cfg) (Redis_DB cfg)
       (Redis_DialTimeout cfg) (Redis_ReadTimeout cfg) (Redis_WriteTimeout cfg)"

definition cache_Open :: "drivers \<Rightarrow> Redis_cfg \<Rightarrow> conn_event list \<Rightarrow> connection result \<times> conn_event list" where
  "cache_Open ds cfg hist =
     (let client = redis_client cfg in
      (case Ping ds client of
         Some m \<Rightarrow> (Inl (Errorf (''ping redis: '' @ m)), hist @ [Opened client, Closed client])
       | None \<Rightarrow> (Inr client, hist @ [Opened client])))"

definition newRedis :: "drivers \<Rightarrow> bool \<Rightarrow> Config \<Rightarrow> conn_event list \<Rightarrow> connection option result \<times> conn_event list" where
  "newRedis ds tracing cfg hist =
     (if \<not> Redis_Enabled (c_Redis cfg) then (Inr None, hist)
      else
        (case cache_Open ds (c_Redis cfg) hist of
           (Inl e, hist1) \<Rightarrow> (Inl e, hist1)
         | (Inr client, hist1) \<Rightarrow>
             (if tracing
              then
                (case InstrumentTracing ds of
                   Some m \<Rightarrow> (Inl (Errorf (''instrument redis tracing: '' @ m)), hist1 @ [Closed client])
                 | None \<Rightarrow> (Inr (Some client), hist1))
              else (Inr (Some client), hist1))))"

subsection \<open>The distributed lock\<close>

text \<open>The errors of redsync that the code distinguishes, and a mutex with its options.\<close>

datatype lock_error = ErrFailed | ErrTaken | LockError string

record mutex =
  mu_Name :: string
  mu_Expiry :: duration
  mu_Tries :: "nat option"
  mu_RetryDelay :: "duration option"

record redsync =
  TryLockContext :: "mutex \<Rightarrow> lock_error option"
  LockContext :: "mutex \<Rightarrow> lock_error option"
  ExtendContext :: "mutex \<Rightarrow> string + bool"
  UnlockContext :: "mutex \<Rightarrow> string + bool"
  lock_error_text :: "lock_error \<Rightarrow> string"
  CtxErr :: "string option"

datatype lock_event = Asked mutex | Released mutex | JobExecuted

type_synonym lock_history = "lock_event list"

definition lockKeyPrefix :: string where
  "lockKeyPrefix = ''lock:''"

definition isContention :: "lock_error \<Rightarrow> bool" where
  "isContention err \<longleftrightarrow> err = ErrFailed \<or> err = ErrTaken"

definition newMutex :: "string \<Rightarrow> duration \<Rightarrow> nat option \<Rightarrow> duration option \<Rightarrow> mutex result" where
  "newMutex key ttl tries delay =
     (if key = [] then Inl (Errorf ''lock key must not be empty'')
      else if ttl \<le> 0 then Inl (Errorf ''lock ttl must be positive'')
      else Inr \<lparr>mu_Name = lockKeyPrefix @ key, mu_Expiry = ttl, mu_Tries = tries, mu_RetryDelay = delay\<rparr>)"

text \<open>\<open>TryLock\<close>: \<open>Inr None\<close> when another process holds the lock.\<close>

definition TryLock :: "redsync \<Rightarrow> string \<Rightarrow> duration \<Rightarrow> lock_history \<Rightarrow> mutex option result \<times> lock_history" where
  "TryLock rs key ttl hist =
     (case newMutex key ttl (Some 1) None of
        Inl e \<Rightarrow> (Inl e, hist)
      | Inr mutex \<Rightarrow>
          (case TryLockContext rs mutex of
             Some err \<Rightarrow>
               (if isContention err then (Inr None, hist @ [Asked mutex])
                else (Inl (Errorf (''try redis lock '' @ quoted key @ '': '' @ lock_error_text rs err)), hist @ [Asked mutex]))
           | None \<Rightarrow> (Inr (Some mutex), hist @ [Asked mutex])))"

definition Lock :: "redsync \<Rightarrow> string \<Rightarrow> duration \<Rightarrow> duration \<Rightarrow> lock_history \<Rightarrow> mutex result \<times> lock_history" where
  "Lock rs key ttl retryDelay hist =
     (if retryDelay \<le> 0 then (Inl (Errorf ''lock retry delay must be positive''), hist)
      else
        (case newMutex key ttl None (Some retryDelay) of
           Inl e \<Rightarrow> (Inl e, hist)
         | Inr mutex \<Rightarrow>
             (case LockContext rs mutex of
                Some err \<Rightarrow>
                  (case CtxErr rs of
                     Some m \<Rightarrow> (Inl (Errorf (''wait for redis lock '' @ quoted key @ '': '' @ m)), hist @ [Asked mutex])
                   | None \<Rightarrow>
                       (Inl (Errorf (''acquire redis lock '' @ quoted key @ '': '' @ lock_error_text rs err)), hist @ [Asked mutex]))
              | None \<Rightarrow> (Inr mutex, hist @ [Asked mutex]))))"

definition owned :: "string \<Rightarrow> mutex \<Rightarrow> string + bool \<Rightarrow> go_error option" where
  "owned what mutex verdict =
     (case verdict of
        Inl m \<Rightarrow> Some (Errorf (what @ '' redis lock '' @ quoted (mu_Name mutex) @ '': '' @ m))
      | Inr ok \<Rightarrow>
          (if ok then None
           else Some (Errorf (what @ '' redis lock '' @ quoted (mu_Name mutex) @ '': lock is no longer owned''))))"

definition Extend :: "redsync \<Rightarrow> mutex \<Rightarrow> go_error option" where
  "Extend rs mutex = owned ''extend'' mutex (ExtendContext rs mutex)"

definition Unlock :: "redsync \<Rightarrow> mutex \<Rightarrow> lock_history \<Rightarrow> go_error option \<times> lock_history" where
  "Unlock rs mutex hist = (owned ''release'' mutex (UnlockContext rs mutex), hist @ [Released mutex])"

text \<open>The locker exists when there is a Redis client.\<close>

definition newLocker :: "redsync \<Rightarrow> connection option \<Rightarrow> redsync option" where
  "newLocker rs client = (case client of None \<Rightarrow> None | Some c \<Rightarrow> Some rs)"

text \<open>The scheduled job; without Redis there is no locker. The error of \<open>Unlock\<close> is only logged.\<close>

definition runSample :: "redsync option \<Rightarrow> lock_history \<Rightarrow> go_error option \<times> lock_history" where
  "runSample locker hist =
     (case locker of
        None \<Rightarrow> (None, hist @ [JobExecuted])
      | Some rs \<Rightarrow>
          (case TryLock rs ''cron:sample'' minute hist of
             (Inl e, hist1) \<Rightarrow> (Some e, hist1)
           | (Inr None, hist1) \<Rightarrow> (None, hist1)
           | (Inr (Some lock), hist1) \<Rightarrow> (None, snd (Unlock rs lock (hist1 @ [JobExecuted])))))"

section \<open>Lemmas\<close>

lemma driverName_supported: "isDBType t \<longleftrightarrow> (\<exists>driver. driverName t = Inr driver)"
  by (auto simp: driverName_def isDBType_def)

lemma driverName_values: "driverName t = Inr driver \<Longrightarrow> driver = ''mysql'' \<or> driver = ''pgx''"
  by (auto simp: driverName_def split: if_splits)

lemma pgx_settings_simps [simp]:
  "pgx_Target (pgx_settings cfg c) = pgx_Target c"
  "pgx_Database (pgx_settings cfg c) = (if Database_Name cfg \<noteq> [] then Database_Name cfg else pgx_Database c)"
  "pgx_RuntimeParams (pgx_settings cfg c) k =
     (if k = ''timezone'' then Some shanghai
      else if k = ''search_path'' \<and> Database_Schema cfg \<noteq> [] then Some (Database_Schema cfg)
      else pgx_RuntimeParams c k)"
  by (simp_all add: pgx_settings_def Let_def)

lemma mysql_settings_simps [simp]:
  "my_Target (mysql_settings cfg c) = my_Target c"
  "my_DBName (mysql_settings cfg c) = (if Database_Name cfg \<noteq> [] then Database_Name cfg else my_DBName c)"
  "my_ParseTime (mysql_settings cfg c)" "my_Loc (mysql_settings cfg c) = shanghai"
  by (simp_all add: mysql_settings_def Let_def)

text \<open>The sessions a configuration asks for.\<close>

definition configured_session :: "drivers \<Rightarrow> Database_cfg \<Rightarrow> connection \<Rightarrow> bool" where
  "configured_session ds cfg conn \<longleftrightarrow>
     (case conn of
        Pgx c \<Rightarrow>
          (\<exists>c0. pgx_ParseConfig ds (Database_DSN cfg) = Inr c0 \<and> pgx_Target c = pgx_Target c0 \<and>
            pgx_Database c = (if Database_Name cfg \<noteq> [] then Database_Name cfg else pgx_Database c0) \<and>
            (\<forall>k. pgx_RuntimeParams c k =
               (if k = ''timezone'' then Some ''Asia/Shanghai''
                else if k = ''search_path'' \<and> Database_Schema cfg \<noteq> [] then Some (Database_Schema cfg)
                else pgx_RuntimeParams c0 k)))
      | Dsn driver dsn \<Rightarrow>
          (\<exists>c0 c. driver = ''mysql'' \<and> mysql_ParseDSN ds (Database_DSN cfg) = Inr c0 \<and> dsn = mysql_FormatDSN ds c \<and>
            my_Target c = my_Target c0 \<and> my_DBName c = (if Database_Name cfg \<noteq> [] then Database_Name cfg else my_DBName c0) \<and>
            my_ParseTime c \<and> my_Loc c = ''Asia/Shanghai'')
      | Redis _ _ _ _ _ _ _ \<Rightarrow> False)"

lemma database_connect_session:
  assumes "database_connect ds cfg driver = Inr conn" and "driver = ''mysql'' \<or> driver = ''pgx''"
  shows "configured_session ds cfg conn"
  using assms(2)
proof
  assume "driver = ''pgx''"
  with assms(1) show ?thesis
    by (auto simp: database_connect_def configured_session_def shanghai_def split: sum.splits)
next
  assume d: "driver = ''mysql''"
  with assms(1) obtain c0 where c0: "mysql_ParseDSN ds (Database_DSN cfg) = Inr c0"
    "conn = Dsn driver (mysql_FormatDSN ds (mysql_settings cfg c0))"
    by (auto simp: database_connect_def Let_def split: sum.splits option.splits)
  show ?thesis unfolding configured_session_def c0(2) connection.case
    by (rule exI [of _ c0], rule exI [of _ "mysql_settings cfg c0"]) (simp add: d c0(1) shanghai_def)
qed

lemma database_Open_cases:
  assumes "database_Open ds cfg hist = (r, hist')"
  shows "(\<exists>e. r = Inl e \<and> (hist' = hist \<or> (\<exists>c. hist' = hist @ [Opened c, Closed c]))) \<or>
    (\<exists>db. r = Inr db \<and> hist' = hist @ [Opened (db_conn db)] \<and> Ping ds (db_conn db) = None \<and>
       configured_session ds cfg (db_conn db))"
proof (cases "\<exists>driver conn. driverName (Database_Type cfg) = Inr driver \<and> database_connect ds cfg driver = Inr conn")
  case True
  then obtain driver conn where dn: "driverName (Database_Type cfg) = Inr driver" and conn: "database_connect ds cfg driver = Inr conn"
    by blast
  with database_connect_session [OF conn driverName_values] assms show ?thesis
    by (cases "Ping ds conn") (auto simp: database_Open_def)
next
  case False
  with assms show ?thesis by (auto simp: database_Open_def split: sum.splits)
qed

section \<open>Properties\<close>

text \<open>
  Connections are accounted for. Building the database or the Redis client either fails, and then
  every connection that was opened is closed again, or it returns a client whose one connection
  answered a ping, or nothing when it is disabled. The database session is the configured one: the
  DSN's parameters with the configured database, schema and time zone and nothing else changed. A
  validated configuration never names an unsupported type of database.
\<close>

lemma connections_accounted:
  assumes "newDatabase ds cfg hist = (r, hist1)" and "newRedis ds tracing cfg hist1 = (r', hist2)"
  shows "(case r of
       Inl e \<Rightarrow> hist1 = hist \<or> (\<exists>c. hist1 = hist @ [Opened c, Closed c])
     | Inr None \<Rightarrow> \<not> Database_Enabled (c_Database cfg) \<and> hist1 = hist
     | Inr (Some db) \<Rightarrow> hist1 = hist @ [Opened (db_conn db)] \<and> Ping ds (db_conn db) = None \<and>
         configured_session ds (c_Database cfg) (db_conn db)) \<and>
    (case r' of
       Inl e \<Rightarrow> hist2 = hist1 @ [Opened (redis_client (c_Redis cfg)), Closed (redis_client (c_Redis cfg))]
     | Inr None \<Rightarrow> \<not> Redis_Enabled (c_Redis cfg) \<and> hist2 = hist1
     | Inr (Some c) \<Rightarrow> c = redis_client (c_Redis cfg) \<and> hist2 = hist1 @ [Opened c] \<and> Ping ds c = None) \<and>
    (Validate cfg = None \<and> Database_Enabled (c_Database cfg) \<longrightarrow> (\<exists>driver. driverName (Database_Type (c_Database cfg)) = Inr driver))"
proof (intro conjI impI)
  show "case r of
       Inl e \<Rightarrow> hist1 = hist \<or> (\<exists>c. hist1 = hist @ [Opened c, Closed c])
     | Inr None \<Rightarrow> \<not> Database_Enabled (c_Database cfg) \<and> hist1 = hist
     | Inr (Some db) \<Rightarrow> hist1 = hist @ [Opened (db_conn db)] \<and> Ping ds (db_conn db) = None \<and>
         configured_session ds (c_Database cfg) (db_conn db)"
  proof (cases "Database_Enabled (c_Database cfg)")
    case True
    obtain q h where "database_Open ds (c_Database cfg) hist = (q, h)" by (cases "database_Open ds (c_Database cfg) hist")
    with database_Open_cases [OF this] True assms(1) show ?thesis by (auto simp: newDatabase_def)
  next
    case False
    with assms(1) show ?thesis by (auto simp: newDatabase_def)
  qed
  show "case r' of
       Inl e \<Rightarrow> hist2 = hist1 @ [Opened (redis_client (c_Redis cfg)), Closed (redis_client (c_Redis cfg))]
     | Inr None \<Rightarrow> \<not> Redis_Enabled (c_Redis cfg) \<and> hist2 = hist1
     | Inr (Some c) \<Rightarrow> c = redis_client (c_Redis cfg) \<and> hist2 = hist1 @ [Opened c] \<and> Ping ds c = None"
    using assms(2) by (auto simp: newRedis_def cache_Open_def Let_def split: if_splits option.splits)
next
  assume "Validate cfg = None \<and> Database_Enabled (c_Database cfg)"
  then show "\<exists>driver. driverName (Database_Type (c_Database cfg)) = Inr driver"
    using server_conditions [of cfg] by (auto simp: driverName_supported [symmetric])
qed

text \<open>
  The scheduled job runs at most once and only under its lock. With Redis it asks once, without
  waiting, for the lock \<open>lock:cron:sample\<close> for a minute: when it gets it, the job is executed
  and the lock given back, whatever the answer to that is; when another process holds it, nothing is
  executed and no error reported; any other failure is reported and nothing executed.
\<close>

lemma sample_job_locked:
  assumes "runSample (Some rs) hist = (r, hist')"
  shows "\<exists>m. mu_Name m = ''lock:cron:sample'' \<and> mu_Expiry m = minute \<and> mu_Tries m = Some 1 \<and>
    (case TryLockContext rs m of
       None \<Rightarrow> r = None \<and> hist' = hist @ [Asked m, JobExecuted, Released m]
     | Some err \<Rightarrow> hist' = hist @ [Asked m] \<and> (r = None \<longleftrightarrow> err = ErrFailed \<or> err = ErrTaken))"
proof -
  let ?m = "\<lparr>mu_Name = ''lock:cron:sample'', mu_Expiry = minute, mu_Tries = Some 1, mu_RetryDelay = None\<rparr>"
  have "newMutex ''cron:sample'' minute (Some 1) None = Inr ?m" by (simp add: newMutex_def lockKeyPrefix_def)
  then show ?thesis
    using assms
    by (intro exI [of _ ?m]) (auto simp: runSample_def TryLock_def Unlock_def isContention_def split: option.splits if_splits)
qed

section \<open>Witnesses\<close>

definition sample_drivers :: drivers where
  "sample_drivers =
     \<lparr>pgx_ParseConfig = (\<lambda>dsn. Inr \<lparr>pgx_Target = dsn, pgx_Database = ''postgres'', pgx_RuntimeParams = Map.empty\<rparr>),
      mysql_ParseDSN = (\<lambda>dsn. Inl ''not mysql''), mysql_FormatDSN = my_Target, LoadLocation = (\<lambda>_. None),
      sqlx_Open = (\<lambda>_ _. None), Ping = (\<lambda>_. None), InstrumentTracing = None\<rparr>"

lemma connections_accounted_witness:
  "\<exists>db. newDatabase sample_drivers sample_config [] = (Inr (Some db), [Opened (db_conn db)]) \<and>
     configured_session sample_drivers (c_Database sample_config) (db_conn db)"
proof -
  obtain r hist1 where db: "newDatabase sample_drivers sample_config [] = (r, hist1)" by (cases "newDatabase sample_drivers sample_config []")
  obtain r' hist2 where redis: "newRedis sample_drivers False sample_config hist1 = (r', hist2)"
    by (cases "newRedis sample_drivers False sample_config hist1")
  have "(case fst (newDatabase sample_drivers sample_config []) of Inr (Some _) \<Rightarrow> True | _ \<Rightarrow> False)" by code_simp
  then obtain d where "r = Inr (Some d)" using db by (auto split: sum.splits option.splits)
  with db connections_accounted [OF db redis] show ?thesis by simp
qed

definition sample_redsync :: redsync where
  "sample_redsync =
     \<lparr>TryLockContext = (\<lambda>_. None), LockContext = (\<lambda>_. None), ExtendContext = (\<lambda>_. Inr True), UnlockContext = (\<lambda>_. Inr False),
      lock_error_text = (\<lambda>_. ''failed''), CtxErr = None\<rparr>"

lemma sample_job_locked_witness:
  "\<exists>m. mu_Name m = ''lock:cron:sample'' \<and> snd (runSample (Some sample_redsync) []) = [Asked m, JobExecuted, Released m]"
  using sample_job_locked [of sample_redsync "[]", OF surjective_pairing] by (auto simp: sample_redsync_def)

end
