(* ===== verification/OutboundCorrect.thy ===== *)
theory OutboundCorrect
  imports System ConfigCorrect
begin

text \<open>
  Where outbound requests go: the reference of a stored provider never leads away from the upstream
  that the operator configured.
\<close>

section \<open>Lemmas\<close>

lemma set_path_kept:
  assumes "set_path p u = Some u'"
  shows "url_Scheme u' = url_Scheme u" "url_Host u' = url_Host u" "url_User u' = url_User u" "url_Opaque u' = url_Opaque u"
  using assms by (auto simp: set_path_def)

lemma with_path_kept [simp]:
  "url_Scheme (with_path p u) = url_Scheme u" "url_Host (with_path p u) = url_Host u" "url_User (with_path p u) = url_User u"
  using set_path_kept by (auto simp: with_path_def split: option.splits)

lemma parse_reference_opaque:
  assumes "parse_reference raw = Some u" and "url_Opaque u \<noteq> []"
  shows "url_Scheme u \<noteq> [] \<and> url_Host u = []"
proof (cases "raw = ''*''")
  case True
  with assms show ?thesis by (auto simp: parse_reference_def empty_url_def split: if_splits)
next
  case False
  from assms(1) False obtain s0 r0 where "getScheme raw = Some (s0, r0)"
    by (auto simp: parse_reference_def split: if_splits option.splits)
  with assms False show ?thesis
    unfolding parse_reference_def Let_def
    by (auto simp: empty_url_def set_path_def simp del: map_is_Nil_conv Nil_is_map_conv
        split: if_split_asm option.split_asm)
qed

lemma parse_opaque:
  assumes "url_Parse raw = Some u" and "url_Opaque u \<noteq> []"
  shows "url_Scheme u \<noteq> [] \<and> url_Host u = []"
proof -
  obtain u0 where "parse_reference (fst (Cut raw CHR ''#'')) = Some u0" "url_Scheme u = url_Scheme u0"
    "url_Opaque u = url_Opaque u0" "url_Host u = url_Host u0"
    using assms(1) by (auto simp: url_Parse_def set_fragment_def split: prod.splits option.splits if_splits)
  with parse_reference_opaque assms(2) show ?thesis by metis
qed

lemma ResolveReference_same_origin:
  assumes "url_Scheme ref = []" and "url_Host ref = []" and "url_User ref = None" and "url_Opaque ref = []" and "url_Opaque base = []"
  shows "url_Scheme (ResolveReference base ref) = url_Scheme base \<and> url_Host (ResolveReference base ref) = url_Host base \<and>
    url_User (ResolveReference base ref) = url_User base"
  using assms unfolding ResolveReference_def Let_def by simp

text \<open>The retry loop only ever exchanges the request it was given.\<close>

lemma retry_loop_cong:
  assumes "\<And>n. E n request = Exchange env n request"
  shows "retry_loop k (env\<lparr>Exchange := E\<rparr>) request w = retry_loop k env request w"
  using assms
  by (induction k arbitrary: w) (simp_all add: retry_loop.simps Let_def split: option.splits http_outcome.splits)

definition same_origin :: "HTTPClient \<Rightarrow> http_request \<Rightarrow> bool" where
  "same_origin c request \<longleftrightarrow>
     hr_client request = hc_name c \<and> url_Scheme (hr_url request) = url_Scheme (hc_baseURL c) \<and>
     url_Host (hr_url request) = url_Host (hc_baseURL c) \<and> url_User (hr_url request) = url_User (hc_baseURL c)"

lemma build_request_origin:
  assumes "NewHTTPClient tls name cfg = Inr c" and "validProviderPath path" and "url_Parse path = Some ref"
  shows "same_origin c (build_request c method ref body headers)"
proof -
  have base: "url_Parse (HTTPUpstream_BaseURL cfg) = Some (hc_baseURL c)" "url_Host (hc_baseURL c) \<noteq> []"
    using assms(1) by (auto simp: NewHTTPClient_def split: if_splits option.splits)
  then have "url_Opaque (hc_baseURL c) = []" using parse_opaque by blast
  moreover have ref: "url_Scheme ref = []" "url_Host ref = []" "url_User ref = None"
    using assms(2,3) by (auto simp: validProviderPath_def)
  moreover have "url_Opaque ref = []" using parse_opaque [OF assms(3)] ref(1) by blast
  ultimately show ?thesis
    using ResolveReference_same_origin [of ref "hc_baseURL c"] by (simp add: build_request_def same_origin_def Let_def)
qed

lemma HTTPClient_Do_confined:
  assumes "NewHTTPClient tls name cfg = Inr c" and "validProviderPath path"
    and "\<And>n request. same_origin c request \<Longrightarrow> E n request = Exchange env n request"
  shows "HTTPClient_Do (env\<lparr>Exchange := E\<rparr>) c ctx method path body headers w = HTTPClient_Do env c ctx method path body headers w"
proof -
  obtain ref where ref: "url_Parse path = Some ref" using assms(2) by (auto simp: validProviderPath_def split: option.splits)
  have "retry_loop k (env\<lparr>Exchange := E\<rparr>) (build_request c method ref body headers) w =
      retry_loop k env (build_request c method ref body headers) w" for k
    by (rule retry_loop_cong) (rule assms(3) [OF build_request_origin [OF assms(1,2) ref]])
  then show ?thesis by (simp add: HTTPClient_Do_def doWithRetry_def ref Let_def split: option.splits)
qed

section \<open>Properties\<close>


text \<open>
  The flag that allows credentials is not tied to the scheme: an upstream with TLS enabled and a
  base URL of scheme \<open>http\<close> passes validation, and its requests carry the credential in plain text.
\<close>

definition plain_upstream :: HTTPUpstream_cfg where
  "plain_upstream = sample_upstream\<lparr>HTTPUpstream_BaseURL := ''http://mail.example.com''\<rparr>"

lemma credentials_over_plain_http:
  "check_http_upstreams [(''mail'', plain_upstream)] = None \<and>
   (case (NewHTTPClient (\<lambda>_. None) ''mail'' plain_upstream, url_Parse ''/send'') of
      (Inr c, Some ref) \<Rightarrow>
        url_Scheme (hr_url (build_request c ''POST'' ref [] [])) = ''http'' \<and>
        header_get (hr_headers (build_request c ''POST'' ref [] [])) ''Authorization'' = ''Bearer secret''
    | _ \<Rightarrow> False)"
  by code_simp

section \<open>Witness\<close>

definition only_mail :: "nat \<Rightarrow> http_request \<Rightarrow> http_outcome" where
  "only_mail n request =
     (if url_Scheme (hr_url request) = ''https'' \<and> url_Host (hr_url request) = ''mail.example.com''
      then Exchange sample_env n request else TransportError ''refused'')"


end
