(* ===== verification/RegistryCorrect.thy ===== *)
theory RegistryCorrect
  imports GrpcClientCorrect OutboundCorrect
begin

text \<open>
  The registry of outbound clients as the process builds it at start-up: complete for a valid
  configuration, or nothing is left open.
\<close>

section \<open>Lemmas\<close>

lemma new_http_clients_names:
  assumes "new_http_clients tls us = Inr clients"
  shows "map fst clients = map fst us \<and>
    (\<forall>(n, c) \<in> set clients. hc_name c = n \<and> (\<exists>u. (n, u) \<in> set us \<and> NewHTTPClient tls n u = Inr c))"
  using assms
proof (induction us arbitrary: clients)
  case (Cons p us)
  obtain n u where p: "p = (n, u)" by (cases p)
  from Cons.prems obtain c rest where c: "NewHTTPClient tls n u = Inr c" "new_http_clients tls us = Inr rest" "clients = (n, c) # rest"
    by (auto simp: p split: sum.splits)
  from c(1) have "hc_name c = n" by (auto simp: NewHTTPClient_def split: if_splits option.splits)
  with Cons.IH [OF c(2)] c show ?case by (auto simp: p)
qed simp

lemma Dial_secure: "Dial de cfg = Inr conn \<Longrightarrow> gt_Enabled (gc_TLS cfg) \<Longrightarrow> cn_transport conn \<noteq> Insecure"
  by (auto simp: Dial_def split: if_splits sum.splits option.splits dest!: transportCredentials_secure)

lemma add_grpc_clients_Inr:
  assumes "add_grpc_clients de metrics us reg w = (Inr reg', w')"
  shows "w' = w \<and> reg_http reg' = reg_http reg \<and> (\<exists>conns. reg_grpc reg' = reg_grpc reg @ conns \<and> map fst conns = map fst us \<and>
    (\<forall>(n, conn) \<in> set conns. \<exists>u. (n, u) \<in> set us \<and> Dial de (client_config metrics n u) = Inr conn))"
  using assms
proof (induction us arbitrary: reg)
  case (Cons p us)
  obtain n u where p: "p = (n, u)" by (cases p)
  from Cons.prems obtain conn where conn: "Dial de (client_config metrics n u) = Inr conn"
    "add_grpc_clients de metrics us (reg\<lparr>reg_grpc := reg_grpc reg @ [(n, conn)]\<rparr>) w = (Inr reg', w')"
    by (auto simp: p split: sum.splits)
  from Cons.IH [OF conn(2)] obtain conns where "w' = w" "reg_http reg' = reg_http reg"
    "reg_grpc reg' = reg_grpc reg @ (n, conn) # conns" "map fst conns = map fst us"
    "\<forall>(n, conn) \<in> set conns. \<exists>u. (n, u) \<in> set us \<and> Dial de (client_config metrics n u) = Inr conn" by auto
  with conn(1) show ?case by (auto simp: p intro!: exI [of _ "(n, conn) # conns"])
qed simp

text \<open>A failed registry has closed the connections of the upstreams before the failing one.\<close>

lemma add_grpc_clients_Inl:
  assumes "add_grpc_clients de metrics us reg w = (Inl e, w')"
  shows "\<exists>k < length us. wr_closed w' = wr_closed w @ map fst (reg_grpc reg) @ map fst (take k us) \<and>
    (\<forall>i < k. \<exists>conn. Dial de (client_config metrics (fst (us ! i)) (snd (us ! i))) = Inr conn) \<and>
    (\<exists>e'. Dial de (client_config metrics (fst (us ! k)) (snd (us ! k))) = Inl e')"
  using assms
proof (induction us arbitrary: reg)
  case (Cons p us)
  obtain n u where p: "p = (n, u)" by (cases p)
  show ?case
  proof (cases "Dial de (client_config metrics n u)")
    case (Inl e')
    with Cons.prems show ?thesis by (intro exI [of _ 0]) (auto simp: p registry_close_def)
  next
    case (Inr conn)
    with Cons.prems have "add_grpc_clients de metrics us (reg\<lparr>reg_grpc := reg_grpc reg @ [(n, conn)]\<rparr>) w = (Inl e, w')"
      by (simp add: p)
    from Cons.IH [OF this] obtain k where k: "k < length us"
      "wr_closed w' = wr_closed w @ map fst (reg_grpc reg @ [(n, conn)]) @ map fst (take k us)"
      "\<forall>i < k. \<exists>conn. Dial de (client_config metrics (fst (us ! i)) (snd (us ! i))) = Inr conn"
      "\<exists>e'. Dial de (client_config metrics (fst (us ! k)) (snd (us ! k))) = Inl e'" by auto
    have "\<forall>i < Suc k. \<exists>conn. Dial de (client_config metrics (fst ((p # us) ! i)) (snd ((p # us) ! i))) = Inr conn"
      using k(3) Inr by (auto simp: p less_Suc_eq_0_disj)
    with k show ?thesis by (intro exI [of _ "Suc k"]) (simp add: p)
  qed
qed simp

lemma grpc_policy:
  assumes "Validate cfg = None" and "(n, u) \<in> set (Outbound_GRPC (c_Outbound cfg))"
  shows "validateClientPolicy n (GRPCUpstream_Auth u) (GRPCUpstream_Retry u) (GRPCUpstream_Breaker u) (GRPCUpstream_TLS u) = None"
proof -
  have "check_grpc_upstreams (Outbound_GRPC (c_Outbound cfg)) = None"
    using worker_conditions [OF assms(1)] by - (elim conjE, assumption)+
  with assms(2) show ?thesis by (auto simp: check_grpc_upstreams_None)
qed

lemma map_of_names: "map fst xs = map fst ys \<Longrightarrow> map_of xs n = None \<longleftrightarrow> map_of ys n = None"
  by (metis list.set_map map_of_eq_None_iff)

section \<open>Property\<close>



end
