(* ===== verification/PanicCorrect.thy ===== *)
theory PanicCorrect
  imports HttpCorrect GrpcCorrect
begin

text \<open>
  Panics: a handler that panics is turned into one answer by the recovering middleware of the HTTP
  router and by the recovering interceptors of the gRPC server. What runs behind the recovery is
  skipped: the metrics do not count the request and the key of an idempotent request stays taken.
\<close>

section \<open>Lemmas\<close>

text \<open>A handler that cannot succeed: it panics before it writes, or answers with an error.\<close>

interpretation failing: http_contract fresh_request
  "\<lambda>w c w'. if g_Panic c = None then g_Written c \<and> 400 \<le> g_Status c else \<not> g_Written c"
  by unfold_locales (auto simp: fresh_request_def same_request_def split: if_splits)

lemma recoveryInterceptor_no_panic: "\<not> panics (fst (recoveryInterceptor h c w))"
  by (simp add: recoveryInterceptor_def split_beta split: prod.split sum.split rpc_status.split)

lemma recoveryStreamInterceptor_no_panic: "\<not> panics (fst (recoveryStreamInterceptor h c w))"
  by (simp add: recoveryStreamInterceptor_def split: prod.split sum.split rpc_status.split)

lemma unary_chain_no_panic: "\<not> panics (fst (unary_chain env ae g authz idem full srv h c w))"
  by (simp add: unary_chain_def environmentInterceptor_def requestIDInterceptor_def idempotencyInterceptor_def
      Let_def split_beta recoveryInterceptor_no_panic)

lemma stream_chain_no_panic: "\<not> panics (fst (stream_chain env ae g srv h c w))"
  by (simp add: stream_chain_def environmentStreamInterceptor_def requestIDStreamInterceptor_def
      idempotencyStreamInterceptor_def Let_def split_beta recoveryStreamInterceptor_no_panic
      split: option.split)

text \<open>The key of a request whose handler panicked keeps the state that acquiring it gave it.\<close>

lemma panic_leaves_key:
  assumes "keyed g paths key fp c" and "idem_Begin g (web_begins w) key fp = Inr d"
    and "dc_State d = StateAcquired"
    and "h c (w\<lparr>web_begins := Suc (web_begins w)\<rparr>) = (c', w')" and "g_Panic c' \<noteq> None"
  shows "IdempotencyExecution g True paths h c w = (c', w')"
  using assms by (simp add: keyed_def IdempotencyExecution_def Let_def)

text \<open>The metrics stand behind the recovery, so that the answer to a panic is not counted.\<close>

lemma panic_not_counted:
  assumes "h c w = (c', w')" and "g_Panic c' \<noteq> None"
  shows "web_requests (snd (Recovery (HTTPMetrics True h) c w)) = web_requests w' \<and>
    g_Written (fst (Recovery (HTTPMetrics True h) c w))"
  using assms by (auto simp: Recovery_def HTTPMetrics_def)

section \<open>Containment\<close>


text \<open>A handler that panics at once, with a call of it and one that panics on the gRPC side.\<close>

definition panicking :: handler where
  "panicking c w = (c\<lparr>g_Panic := Some ''boom''\<rparr>, w)"

definition panicking_rpc :: "rpc_response rpc_handler" where
  "panicking_rpc c w = (Inl (Panicking ''boom''), w)"


end
