(* ===== verification/Observability.thy ===== *)
theory Observability
  imports Storage GrpcClient TransportSamples
begin

text \<open>
  Metrics and traces (\<open>internal/observability\<close>), the log (\<open>internal/logging\<close>) and the
  scheduled job with the metrics that it leaves (\<open>internal/scheduler\<close>). The metric vectors are
  values with their labels. Two calls of the Prometheus library panic, registering a collector
  whose metric is registered already and asking a vector for the wrong number of label values; the
  value \<open>None\<close> is that panic. (Label values that are not UTF-8 would panic as well; those
  recorded are methods and routes that a server matched, numbers and names of the configuration.) What the collectors of the library describe, the exporter of traces,
  the cron library and the file system are arguments.
\<close>

section \<open>Definitions\<close>

subsection \<open>Metrics\<close>

record metric_vec =
  mv_Name :: string
  mv_Help :: string
  mv_Labels :: "string list"

datatype collector =
    GoCollector
  | ProcessCollector
  | VecCollector metric_vec
  | DBStatsCollector string
  | GaugeFunc string string

record Metrics =
  m_enabled :: bool
  m_registry :: "collector list"
  HTTPRequests :: metric_vec
  HTTPDuration :: metric_vec
  CronRuns :: metric_vec
  CronDuration :: metric_vec
  GRPCRequests :: metric_vec
  GRPCDuration :: metric_vec
  OutboundRequests :: metric_vec
  OutboundDuration :: metric_vec

text \<open>The names that a collector describes; \<open>library\<close> gives those of the library's collectors.\<close>

fun describe :: "(collector \<Rightarrow> string list) \<Rightarrow> collector \<Rightarrow> string list" where
  "describe library (VecCollector v) = [mv_Name v]"
| "describe library (GaugeFunc name help) = [name]"
| "describe library c = library c"

fun MustRegister :: "(collector \<Rightarrow> string list) \<Rightarrow> collector list \<Rightarrow> collector list \<Rightarrow> collector list option" where
  "MustRegister library registry [] = Some registry"
| "MustRegister library registry (c # cs) =
     (if \<exists>name \<in> set (describe library c). name \<in> set (concat (map (describe library) registry)) then None
      else MustRegister library (registry @ [c]) cs)"

definition registerRedisMetrics :: "(collector \<Rightarrow> string list) \<Rightarrow> collector list \<Rightarrow> collector list option" where
  "registerRedisMetrics library registry =
     MustRegister library registry
       [GaugeFunc ''redis_pool_hits_total'' ''Redis pool hits.'',
        GaugeFunc ''redis_pool_misses_total'' ''Redis pool misses.'',
        GaugeFunc ''redis_pool_timeouts_total'' ''Redis pool timeouts.'',
        GaugeFunc ''redis_pool_connections'' ''Current Redis connections.'',
        GaugeFunc ''redis_pool_idle_connections'' ''Current idle Redis connections.'']"

definition new_vectors :: "Config \<Rightarrow> Metrics" where
  "new_vectors cfg =
     \<lparr>m_enabled = Observability_MetricsEnabled (c_Observability cfg), m_registry = [],
      HTTPRequests = \<lparr>mv_Name = ''http_requests_total'', mv_Help = ''Total HTTP requests.'',
        mv_Labels = [''method'', ''route'', ''status'']\<rparr>,
      HTTPDuration = \<lparr>mv_Name = ''http_request_duration_seconds'', mv_Help = ''HTTP request latency.'',
        mv_Labels = [''method'', ''route'']\<rparr>,
      CronRuns = \<lparr>mv_Name = ''cron_runs_total'', mv_Help = ''Total cron executions.'',
        mv_Labels = [''job'', ''status'']\<rparr>,
      CronDuration = \<lparr>mv_Name = ''cron_run_duration_seconds'', mv_Help = ''Cron execution latency.'',
        mv_Labels = [''job'']\<rparr>,
      GRPCRequests = \<lparr>mv_Name = ''grpc_server_requests_total'', mv_Help = ''Total gRPC requests.'',
        mv_Labels = [''method'', ''code'']\<rparr>,
      GRPCDuration = \<lparr>mv_Name = ''grpc_server_duration_seconds'', mv_Help = ''gRPC request latency.'',
        mv_Labels = [''method'']\<rparr>,
      OutboundRequests = \<lparr>mv_Name = ''outbound_requests_total'', mv_Help = ''Total outbound requests.'',
        mv_Labels = [''protocol'', ''client'', ''status'']\<rparr>,
      OutboundDuration = \<lparr>mv_Name = ''outbound_request_duration_seconds'', mv_Help = ''Outbound request latency.'',
        mv_Labels = [''protocol'', ''client'']\<rparr>\<rparr>"

definition vectors :: "Metrics \<Rightarrow> metric_vec list" where
  "vectors m = [HTTPRequests m, HTTPDuration m, CronRuns m, CronDuration m, GRPCRequests m, GRPCDuration m,
     OutboundRequests m, OutboundDuration m]"

text \<open>\<open>db\<close> and \<open>client\<close> say whether there is a database and a Redis client.\<close>

definition NewMetrics :: "(collector \<Rightarrow> string list) \<Rightarrow> Config \<Rightarrow> bool \<Rightarrow> bool \<Rightarrow> Metrics option" where
  "NewMetrics library cfg db client =
     (let metrics = new_vectors cfg in
      case MustRegister library [] (GoCollector # ProcessCollector # map VecCollector (vectors metrics)) of
        None \<Rightarrow> None
      | Some r1 \<Rightarrow>
          (case (if db then MustRegister library r1 [DBStatsCollector ''primary''] else Some r1) of
             None \<Rightarrow> None
           | Some r2 \<Rightarrow>
               map_option (\<lambda>r3. metrics\<lparr>m_registry := r3\<rparr>)
                 (if client then registerRedisMetrics library r2 else Some r2)))"

text \<open>What was counted or measured: the name of the vector and the values of its labels.\<close>

type_synonym observations = "(string \<times> string list) list"

definition WithLabelValues :: "metric_vec \<Rightarrow> string list \<Rightarrow> observations \<Rightarrow> observations option" where
  "WithLabelValues v values obs =
     (if length values = length (mv_Labels v) then Some (obs @ [(mv_Name v, values)]) else None)"

definition ObserveCron :: "Metrics \<Rightarrow> string \<Rightarrow> string \<Rightarrow> observations \<Rightarrow> observations option" where
  "ObserveCron m job status obs =
     (if \<not> m_enabled m then Some obs
      else
        Option.bind (WithLabelValues (CronRuns m) [job, status] obs)
          (WithLabelValues (CronDuration m) [job]))"

text \<open>
  The recordings of \<open>HTTPMetrics\<close>, of the metrics interceptors of the gRPC server and client and
  of \<open>HTTPClient.Do\<close>, whose status is that of the response, if there is one. A code of gRPC is
  its text.
\<close>

definition observe_request :: "Metrics \<Rightarrow> string \<Rightarrow> string \<Rightarrow> int \<Rightarrow> observations \<Rightarrow> observations option" where
  "observe_request m verb matched status obs =
     (if \<not> m_enabled m then Some obs
      else
        Option.bind (WithLabelValues (HTTPRequests m) [verb, matched, int_text status] obs)
          (WithLabelValues (HTTPDuration m) [verb, matched]))"

definition observe_call :: "Metrics \<Rightarrow> string \<Rightarrow> string \<Rightarrow> observations \<Rightarrow> observations option" where
  "observe_call m full_method code obs =
     (if \<not> m_enabled m then Some obs
      else
        Option.bind (WithLabelValues (GRPCRequests m) [full_method, code] obs)
          (WithLabelValues (GRPCDuration m) [full_method]))"

definition observe_outbound_grpc :: "Metrics \<Rightarrow> string \<Rightarrow> string \<Rightarrow> observations \<Rightarrow> observations option" where
  "observe_outbound_grpc m name code obs =
     (if \<not> m_enabled m then Some obs
      else
        Option.bind (WithLabelValues (OutboundRequests m) [''grpc'', name, code] obs)
          (WithLabelValues (OutboundDuration m) [''grpc'', name]))"

definition observe_outbound_http :: "Metrics \<Rightarrow> string \<Rightarrow> http_response result \<Rightarrow> observations \<Rightarrow> observations option" where
  "observe_outbound_http m name result obs =
     (let status = (case result of Inr response \<Rightarrow> int_text (resp_StatusCode response) | Inl e \<Rightarrow> ''error'') in
      if \<not> m_enabled m then Some obs
      else
        Option.bind (WithLabelValues (OutboundRequests m) [''http'', name, status] obs)
          (WithLabelValues (OutboundDuration m) [''http'', name]))"

subsection \<open>Traces\<close>

record tracer_provider =
  tp_Endpoint :: string
  tp_ServiceName :: string
  tp_ServiceVersion :: string
  tp_SampleRatio :: float64

record Tracing =
  tr_enabled :: bool
  tr_provider :: "tracer_provider option"

text \<open>\<open>exporter\<close> is the error of \<open>otlptracehttp.New\<close>, \<open>version\<close> is \<open>buildinfo.Version\<close>.\<close>

definition NewTracing :: "(string \<Rightarrow> string option) \<Rightarrow> string \<Rightarrow> Config \<Rightarrow> Tracing result" where
  "NewTracing exporter version cfg =
     (let o1 = c_Observability cfg in
      if \<not> Observability_TracingEnabled o1 then Inr \<lparr>tr_enabled = False, tr_provider = None\<rparr>
      else
        (case exporter (Observability_TracingEndpoint o1) of
           Some m \<Rightarrow> Inl (Errorf (''create OTLP trace exporter: '' @ m))
         | None \<Rightarrow>
             Inr \<lparr>tr_enabled = True,
               tr_provider = Some \<lparr>tp_Endpoint = Observability_TracingEndpoint o1,
                 tp_ServiceName = App_Name (c_App cfg), tp_ServiceVersion = version,
                 tp_SampleRatio = Observability_TracingSampleRatio o1\<rparr>\<rparr>))"

subsection \<open>The log\<close>

text \<open>\<open>strconv.Atoi\<close> of what follows the name of a level: a sign and decimal digits.\<close>

definition digits_value :: "string \<Rightarrow> int" where
  "digits_value s = foldl (\<lambda>n c. n * 10 + (of_char c - 48)) 0 s"

definition Atoi_signed :: "string \<Rightarrow> int option" where
  "Atoi_signed s =
     (case s of
        [] \<Rightarrow> None
      | sign # ds \<Rightarrow>
          (let n = (if sign = CHR ''-'' then - digits_value ds else digits_value ds) in
           if ds \<noteq> [] \<and> list_all is_digit ds \<and> is_int64 n then Some n else None))"

definition ascii_upper :: "char \<Rightarrow> char" where
  "ascii_upper c = (case map_of (zip lower_letters upper_letters) c of None \<Rightarrow> c | Some d \<Rightarrow> d)"

definition ToUpper :: "(string \<Rightarrow> string) \<Rightarrow> string \<Rightarrow> string" where
  "ToUpper uni s = (if is_ascii s then map ascii_upper s else uni s)"

text \<open>\<open>slog.Level.UnmarshalText\<close>: the name of a level, in any case, and an optional offset.\<close>

definition parse_level :: "(string \<Rightarrow> string) \<Rightarrow> string \<Rightarrow> int option" where
  "parse_level upper s =
     (let name = takeWhile (\<lambda>c. c \<noteq> CHR ''+'' \<and> c \<noteq> CHR ''-'') s; rest = drop (length name) s;
          base = map_of [(''DEBUG'', - 4), (''INFO'', 0), (''WARN'', 4), (''ERROR'', 8)] (ToUpper upper name)
      in (case (if rest = [] then Some 0 else Atoi_signed rest) of
            None \<Rightarrow> None
          | Some offset \<Rightarrow> map_option (\<lambda>b. wrap64 (b + offset)) base))"

datatype log_format = TextHandler | JSONHandler

record Logger =
  lg_Level :: int
  lg_Format :: log_format
  lg_File :: string
  lg_MaxSize :: int
  lg_MaxBackups :: int
  lg_MaxAge :: int
  lg_Compress :: bool
  lg_Attrs :: "(string \<times> string) list"

text \<open>
  \<open>mkdir\<close> is the error of creating the directory of the file; \<open>lower\<close> and \<open>upper\<close> are
  the case mappings of text that is not ASCII.
\<close>

definition logging_New ::
  "(string \<Rightarrow> string option) \<Rightarrow> (string \<Rightarrow> string) \<Rightarrow> (string \<Rightarrow> string) \<Rightarrow> Log_cfg \<Rightarrow> Logger result" where
  "logging_New mkdir lower upper cfg =
     (case mkdir (Log_File cfg) of
        Some m \<Rightarrow> Inl (Errorf (''create log directory: '' @ m))
      | None \<Rightarrow>
          (case parse_level upper (ToLower lower (Log_Level cfg)) of
             None \<Rightarrow> Inl (Errorf (''parse log level: slog: level string '' @ quoted (ToLower lower (Log_Level cfg))))
           | Some level \<Rightarrow>
               Inr \<lparr>lg_Level = level, lg_Format = (if Log_Format cfg = ''text'' then TextHandler else JSONHandler),
                 lg_File = Log_File cfg, lg_MaxSize = Log_MaxSizeMB cfg, lg_MaxBackups = Log_MaxBackups cfg,
                 lg_MaxAge = Log_MaxAgeDays cfg, lg_Compress = Log_Compress cfg, lg_Attrs = []\<rparr>))"

definition newLogger ::
  "(string \<Rightarrow> string option) \<Rightarrow> (string \<Rightarrow> string) \<Rightarrow> (string \<Rightarrow> string) \<Rightarrow> Config \<Rightarrow> Logger result" where
  "newLogger mkdir lower upper cfg =
     map_sum id (\<lambda>logger. logger\<lparr>lg_Attrs := lg_Attrs logger @
         [(''service'', App_Name (c_App cfg)), (''environment'', Runtime_ActiveProfile (c_Runtime cfg))]\<rparr>)
       (logging_New mkdir lower upper (c_Log cfg))"

subsection \<open>The scheduler\<close>

record cron_library =
  LoadLocation :: "string \<Rightarrow> string option"
  AddFunc :: "string \<Rightarrow> string option"

record Scheduler =
  sc_Location :: string
  sc_Jobs :: "string list"
  sc_Running :: bool

definition scheduler_New :: "cron_library \<Rightarrow> Config \<Rightarrow> Scheduler result" where
  "scheduler_New lib cfg =
     (let cron = c_Cron cfg in
      case LoadLocation lib (Cron_Timezone cron) of
        Some m \<Rightarrow> Inl (Errorf m)
      | None \<Rightarrow>
          (let runner = \<lparr>sc_Location = Cron_Timezone cron, sc_Jobs = [], sc_Running = False\<rparr> in
           if Cron_SampleSpec cron = [] then Inr runner
           else
             (case AddFunc lib (Cron_SampleSpec cron) of
                Some m \<Rightarrow> Inl (Errorf m)
              | None \<Rightarrow> Inr (runner\<lparr>sc_Jobs := sc_Jobs runner @ [Cron_SampleSpec cron]\<rparr>))))"

definition sample_job :: "redsync option \<Rightarrow> Metrics \<Rightarrow> lock_history \<times> observations \<Rightarrow> lock_history \<times> observations option" where
  "sample_job locker metrics =
     (\<lambda>(hist, obs).
        (case runSample locker hist of (err, hist1) \<Rightarrow>
           (hist1, ObserveCron metrics ''sample'' (if err = None then ''success'' else ''error'') obs)))"

definition scheduler_start :: "Config \<Rightarrow> Scheduler \<Rightarrow> Scheduler" where
  "scheduler_start cfg s = (if Cron_Enabled (c_Cron cfg) then s\<lparr>sc_Running := True\<rparr> else s)"

text \<open>
  The possible results of a \<open>select\<close> between work that is finished and a context that is done: with
  both ready either may be chosen, with none ready it does not return.
\<close>

definition select_done :: "bool \<Rightarrow> string option \<Rightarrow> go_error option list" where
  "select_done finished deadline =
     (if finished then [None] else []) @ (case deadline of None \<Rightarrow> [] | Some m \<Rightarrow> [Some (Errorf m)])"

text \<open>\<open>runner.Stop\<close> starts no further job; \<open>finished\<close> says that the running jobs have returned.\<close>

definition scheduler_stop :: "bool \<Rightarrow> string option \<Rightarrow> Scheduler \<Rightarrow> (go_error option \<times> Scheduler) list" where
  "scheduler_stop finished deadline s =
     map (\<lambda>r. (r, s\<lparr>sc_Running := False\<rparr>)) (select_done finished deadline)"

section \<open>Lemmas\<close>

lemma MustRegister_ok:
  assumes "distinct (concat (map (describe library) (registry @ cs)))"
  shows "MustRegister library registry cs = Some (registry @ cs)"
  using assms
proof (induction cs arbitrary: registry)
  case (Cons c cs)
  have "MustRegister library (registry @ [c]) cs = Some ((registry @ [c]) @ cs)"
    using Cons.prems by (intro Cons.IH) simp
  with Cons.prems show ?case by auto
qed simp

lemma MustRegister_append:
  "MustRegister library registry (cs @ ds) =
     Option.bind (MustRegister library registry cs) (\<lambda>r. MustRegister library r ds)"
  by (induction library registry cs rule: MustRegister.induct) auto

text \<open>The names that the Prometheus library documents for its own collectors.\<close>

definition library_names :: "(collector \<Rightarrow> string list) \<Rightarrow> bool" where
  "library_names library \<longleftrightarrow>
     (let names = library GoCollector @ library ProcessCollector @ library (DBStatsCollector ''primary'') in
      distinct names \<and> list_all (\<lambda>name. HasPrefix name ''go_'' \<or> HasPrefix name ''process_'') names)"

definition redis_gauges :: "collector list" where
  "redis_gauges =
     map (\<lambda>(name, help). GaugeFunc name help)
       [(''redis_pool_hits_total'', ''Redis pool hits.''), (''redis_pool_misses_total'', ''Redis pool misses.''),
        (''redis_pool_timeouts_total'', ''Redis pool timeouts.''),
        (''redis_pool_connections'', ''Current Redis connections.''),
        (''redis_pool_idle_connections'', ''Current idle Redis connections.'')]"

definition collectors :: "Config \<Rightarrow> bool \<Rightarrow> bool \<Rightarrow> collector list" where
  "collectors cfg db client =
     (GoCollector # ProcessCollector # map VecCollector (vectors (new_vectors cfg))) @
     (if db then [DBStatsCollector ''primary''] else []) @ (if client then redis_gauges else [])"

lemma NewMetrics_alt:
  "NewMetrics library cfg db client =
     map_option (\<lambda>r. (new_vectors cfg)\<lparr>m_registry := r\<rparr>) (MustRegister library [] (collectors cfg db client))"
  unfolding collectors_def MustRegister_append
  by (cases "MustRegister library [] (GoCollector # ProcessCollector # map VecCollector (vectors (new_vectors cfg)))")
     (auto simp: NewMetrics_def Let_def registerRedisMetrics_def redis_gauges_def)

abbreviation own_names :: "Config \<Rightarrow> string list" where
  "own_names cfg \<equiv> map mv_Name (vectors (new_vectors cfg)) @ concat (map (describe (\<lambda>_. [])) redis_gauges)"

lemma own_names_eq:
  "own_names cfg =
     [''http_requests_total'', ''http_request_duration_seconds'', ''cron_runs_total'', ''cron_run_duration_seconds'',
      ''grpc_server_requests_total'', ''grpc_server_duration_seconds'', ''outbound_requests_total'',
      ''outbound_request_duration_seconds'', ''redis_pool_hits_total'', ''redis_pool_misses_total'',
      ''redis_pool_timeouts_total'', ''redis_pool_connections'', ''redis_pool_idle_connections'']"
  by (simp add: vectors_def new_vectors_def redis_gauges_def)

lemma own_names:
  "distinct (own_names cfg)"
  "list_all (\<lambda>name. \<not> HasPrefix name ''go_'' \<and> \<not> HasPrefix name ''process_'') (own_names cfg)"
  unfolding own_names_eq by (simp, simp add: HasPrefix_def)

lemma distinct_parts:
  "distinct (g @ p @ d) \<Longrightarrow> distinct (vs @ rs) \<Longrightarrow> set (vs @ rs) \<inter> set (g @ p @ d) = {} \<Longrightarrow>
   distinct (g @ p @ vs @ (if db then d else []) @ (if client then rs else []))"
  by auto

lemma collectors_describe:
  "concat (map (describe library) (collectors cfg db client)) =
     library GoCollector @ library ProcessCollector @ map mv_Name (vectors (new_vectors cfg)) @
     (if db then library (DBStatsCollector ''primary'') else []) @
     (if client then concat (map (describe (\<lambda>_. [])) redis_gauges) else [])"
proof -
  have "concat (map (describe library) (map VecCollector vs)) = map mv_Name vs" for vs
    by (induction vs) simp_all
  moreover have "concat (map (describe library) redis_gauges) = concat (map (describe (\<lambda>_. [])) redis_gauges)"
    by (simp add: redis_gauges_def)
  ultimately show ?thesis unfolding collectors_def by (simp del: map_map)
qed

lemma collectors_distinct:
  assumes "library_names library"
  shows "distinct (concat (map (describe library) (collectors cfg db client)))"
  unfolding collectors_describe
proof (rule distinct_parts)
  show "distinct (library GoCollector @ library ProcessCollector @ library (DBStatsCollector ''primary''))"
    using assms by (simp add: library_names_def Let_def)
  show "set (own_names cfg) \<inter>
      set (library GoCollector @ library ProcessCollector @ library (DBStatsCollector ''primary'')) = {}"
    using assms own_names(2) [of cfg] unfolding library_names_def Let_def list_all_iff by blast
qed (rule own_names(1))

lemma parse_level_names:
  "parse_level f ''debug'' = Some (- 4)" "parse_level f ''info'' = Some 0"
  "parse_level f ''warn'' = Some 4" "parse_level f ''error'' = Some 8"
  by code_simp+

text \<open>
  A run of the scheduled job is counted once, as an error exactly when the lock could not be asked
  for; the work is done at most once, and not at all when another process holds the lock.
\<close>

lemma runSample_executes:
  "runSample locker hist = (err, hist1) \<Longrightarrow>
     length (filter ((=) JobExecuted) hist1) \<le> Suc (length (filter ((=) JobExecuted) hist)) \<and>
     (err \<noteq> None \<longrightarrow> filter ((=) JobExecuted) hist1 = filter ((=) JobExecuted) hist)"
  by (auto simp: runSample_def TryLock_def Unlock_def Let_def split: option.splits sum.splits if_splits)

lemma sample_job_counted:
  assumes "runSample locker hist = (err, hist1)" and "m_enabled (new_vectors cfg)"
  shows "sample_job locker (new_vectors cfg) (hist, obs) =
    (hist1, Some (obs @ [(''cron_runs_total'', [''sample'', if err = None then ''success'' else ''error'']),
                         (''cron_run_duration_seconds'', [''sample''])]))"
  using assms by (simp add: sample_job_def ObserveCron_def WithLabelValues_def new_vectors_def)

text \<open>The scheduler stops without an error only when its jobs have returned.\<close>

lemma scheduler_stop_results:
  "(r, s1) \<in> set (scheduler_stop finished deadline s) \<Longrightarrow>
     \<not> sc_Running s1 \<and> (r = None \<longrightarrow> finished) \<and> (r \<noteq> None \<longrightarrow> deadline \<noteq> None)"
  by (auto simp: scheduler_stop_def select_done_def split: option.splits if_splits)

section \<open>Metrics never panic\<close>

text \<open>
  Recording metrics never panics. With collectors of the library whose names are distinct and
  carry its prefixes, the metrics can be built for every configuration, with and without a
  database and Redis, and hold every vector; and every place of the program that records gives a
  vector as many values as it has labels: HTTP requests, RPCs, outbound calls and scheduled jobs.
\<close>

lemma metrics_never_panic:
  assumes "library_names library"
  shows "\<exists>m. NewMetrics library cfg db client = Some m \<and>
    m_enabled m = Observability_MetricsEnabled (c_Observability cfg) \<and>
    (\<forall>v \<in> set (vectors m). VecCollector v \<in> set (m_registry m)) \<and>
    (DBStatsCollector ''primary'' \<in> set (m_registry m)) = db \<and>
    observe_request m verb matched status obs \<noteq> None \<and> observe_call m full_method code obs \<noteq> None \<and>
    observe_outbound_grpc m name code obs \<noteq> None \<and> observe_outbound_http m name result obs \<noteq> None \<and>
    snd (sample_job locker m (hist, obs)) \<noteq> None"
proof -
  let ?m = "(new_vectors cfg)\<lparr>m_registry := collectors cfg db client\<rparr>"
  have "NewMetrics library cfg db client = Some ?m"
    using MustRegister_ok [of library "[]"] collectors_distinct [OF assms] by (simp add: NewMetrics_alt)
  moreover have "(DBStatsCollector ''primary'' \<in> set (m_registry ?m)) = db"
    by (auto simp: collectors_def redis_gauges_def vectors_def)
  moreover have "VecCollector v \<in> set (m_registry ?m)" if "v \<in> set (vectors ?m)" for v
    using that by (auto simp: collectors_def vectors_def)
  ultimately show ?thesis
    by (auto simp: new_vectors_def ObserveCron_def observe_request_def observe_call_def observe_outbound_grpc_def
        observe_outbound_http_def sample_job_def WithLabelValues_def Let_def split: prod.split)
qed

fun sample_library :: "collector \<Rightarrow> string list" where
  "sample_library GoCollector = [''go_goroutines'', ''go_info'']"
| "sample_library ProcessCollector = [''process_cpu_seconds_total'']"
| "sample_library _ = [''go_sql_open_connections'']"

lemma metrics_never_panic_witness:
  "\<exists>m. NewMetrics sample_library sample_config True True = Some m \<and>
     snd (sample_job None m ([], [])) \<noteq> None"
proof -
  have "library_names sample_library" by (simp add: library_names_def HasPrefix_def)
  from metrics_never_panic [OF this] show ?thesis by blast
qed

end
