(* ===== verification/Assembly.thy ===== *)
theory Assembly
  imports Observability MigrationCorrect Workers
begin

text \<open>
  The assembly of the process: the modules that \<open>internal/app/app.go\<close> hands to the dependency
  injection, in their order, with the parameters of every constructor; the hooks that the
  constructors append; starting and stopping the servers; \<open>cmd/api\<close>. The container is library
  code: what it documents is the predicate \<open>boot_ok\<close> on the events of a start - constructors run
  once, behind those of their parameters and only when an invocation needs them, invocations run
  in order up to the first that fails - and \<open>lifecycle_ok\<close>, hooks start in the order in which
  they were appended and stop in the opposite order. The configuration, supplied as a value, and
  the lifecycle itself are left out of the parameters.
\<close>

section \<open>Definitions\<close>

subsection \<open>Constructors\<close>

datatype part =
    LoggerPart | TracingPart | DatabasePart | TransactorPart | RedisPart | LockerPart | OutboxStorePart
  | EventRuntimePart | IdempotencyPart | RepositoryPart | VerifierPart | ServicePart | SenderRegistryPart
  | DispatcherPart | WorkerPart | CleanerPart | MetricsPart | RegistryPart | AuthorizerPart | SchedulerPart
  | AuthPart | HealthPart | LimiterPart | HandlerPart | GrpcServerPart | HttpServerPart

fun requires :: "part \<Rightarrow> part list" where
  "requires LoggerPart = []"
| "requires TracingPart = []"
| "requires DatabasePart = []"
| "requires TransactorPart = [DatabasePart]"
| "requires RedisPart = [TracingPart]"
| "requires LockerPart = [RedisPart]"
| "requires OutboxStorePart = [DatabasePart]"
| "requires EventRuntimePart = [OutboxStorePart, LoggerPart]"
| "requires IdempotencyPart = [RedisPart]"
| "requires RepositoryPart = [DatabasePart]"
| "requires VerifierPart = [RegistryPart]"
| "requires ServicePart = [RepositoryPart, TransactorPart, LimiterPart, VerifierPart]"
| "requires SenderRegistryPart = [RegistryPart]"
| "requires DispatcherPart = [RepositoryPart, TransactorPart, SenderRegistryPart, RegistryPart]"
| "requires WorkerPart = [DispatcherPart, LoggerPart]"
| "requires CleanerPart = [RepositoryPart, LoggerPart]"
| "requires MetricsPart = [DatabasePart, RedisPart]"
| "requires RegistryPart = [MetricsPart]"
| "requires AuthorizerPart = [RegistryPart]"
| "requires SchedulerPart = [LockerPart, MetricsPart, LoggerPart]"
| "requires AuthPart = []"
| "requires HealthPart = [DatabasePart, RedisPart]"
| "requires LimiterPart = [RedisPart]"
| "requires HandlerPart = [HealthPart, ServicePart, LoggerPart]"
| "requires GrpcServerPart =
     [AuthPart, AuthorizerPart, HealthPart, ServicePart, IdempotencyPart, MetricsPart, LoggerPart]"
| "requires HttpServerPart =
     [HandlerPart, AuthPart, AuthorizerPart, LimiterPart, IdempotencyPart, MetricsPart, TracingPart, LoggerPart]"

text \<open>Which constructors append a hook to the lifecycle.\<close>

fun has_hook :: "Config \<Rightarrow> part \<Rightarrow> bool" where
  "has_hook cfg LoggerPart = True"
| "has_hook cfg TracingPart = Observability_TracingEnabled (c_Observability cfg)"
| "has_hook cfg DatabasePart = Database_Enabled (c_Database cfg)"
| "has_hook cfg RedisPart = Redis_Enabled (c_Redis cfg)"
| "has_hook cfg EventRuntimePart = True"
| "has_hook cfg WorkerPart = True"
| "has_hook cfg CleanerPart = True"
| "has_hook cfg RegistryPart = True"
| "has_hook cfg SchedulerPart = True"
| "has_hook cfg AuthPart = (Auth_JWKSURL (c_Auth cfg) \<noteq> [])"
| "has_hook cfg GrpcServerPart = True"
| "has_hook cfg HttpServerPart = True"
| "has_hook cfg _ = False"

subsection \<open>Modules\<close>

datatype invocation =
    InvokeMigration | InvokeDatabase | InvokeCache | InvokeEvents | InvokeWorkers | InvokeOutbound
  | InvokeScheduler | InvokeGrpc | InvokeHttp

fun arguments :: "invocation \<Rightarrow> part list" where
  "arguments InvokeMigration = [LoggerPart]"
| "arguments InvokeDatabase = [DatabasePart, LoggerPart]"
| "arguments InvokeCache = [RedisPart, LoggerPart]"
| "arguments InvokeEvents = [EventRuntimePart]"
| "arguments InvokeWorkers = [WorkerPart, CleanerPart]"
| "arguments InvokeOutbound = [RegistryPart]"
| "arguments InvokeScheduler = [SchedulerPart]"
| "arguments InvokeGrpc = [GrpcServerPart]"
| "arguments InvokeHttp = [HttpServerPart]"

text \<open>The options of \<open>New\<close>: what each provides and what it invokes.\<close>

definition app_modules :: "(part list \<times> invocation list) list" where
  "app_modules =
     [([LoggerPart], []), ([TracingPart], []), ([], [InvokeMigration]),
      ([DatabasePart, TransactorPart], [InvokeDatabase]), ([RedisPart, LockerPart], [InvokeCache]),
      ([OutboxStorePart, EventRuntimePart], [InvokeEvents]), ([IdempotencyPart], []),
      ([RepositoryPart, VerifierPart, ServicePart], []),
      ([SenderRegistryPart, DispatcherPart, WorkerPart, CleanerPart], [InvokeWorkers]), ([MetricsPart], []),
      ([RegistryPart], [InvokeOutbound]), ([AuthorizerPart], []), ([SchedulerPart], [InvokeScheduler]),
      ([GrpcServerPart], [InvokeGrpc]),
      ([AuthPart, HealthPart, LimiterPart, HandlerPart, HttpServerPart], [InvokeHttp])]"

definition provided :: "part list" where
  "provided = concat (map fst app_modules)"

definition invocations :: "invocation list" where
  "invocations = concat (map snd app_modules)"

subsection \<open>The container\<close>

text \<open>
  The parts that are needed to build a list of parts, depth first, behind those built already. The
  fuel bounds the length of a path and of a list of parameters together; 40 is enough for the 26
  parts, as \<open>needed_closed\<close> shows.
\<close>

fun visit :: "nat \<Rightarrow> part list \<Rightarrow> part list \<Rightarrow> part list" where
  "visit 0 ps built = built"
| "visit (Suc n) [] built = built"
| "visit (Suc n) (p # ps) built =
     visit n ps (if p \<in> set built then built else visit n (requires p) built @ [p])"

definition needed :: "invocation \<Rightarrow> part list" where
  "needed i = visit 40 (arguments i) []"

datatype boot_event = Constructed part | Invoked invocation

text \<open>The logger is built first, for the container's own log.\<close>

fun boot_ok :: "(invocation \<Rightarrow> bool) \<Rightarrow> part list \<Rightarrow> invocation list \<Rightarrow> boot_event list \<Rightarrow> bool" where
  "boot_ok ok built todo [] = True"
| "boot_ok ok built [] (e # es) = False"
| "boot_ok ok built (i # todo) (Constructed p # es) =
     (p \<notin> set built \<and> list_all (\<lambda>q. q \<in> set built) (requires p) \<and> (p = LoggerPart \<or> p \<in> set (needed i)) \<and>
      boot_ok ok (built @ [p]) (i # todo) es)"
| "boot_ok ok built (i # todo) (Invoked j # es) =
     (j = i \<and> list_all (\<lambda>q. q \<in> set built) (arguments i) \<and>
      (if ok i then boot_ok ok built todo es else es = []))"

fun constructed :: "boot_event list \<Rightarrow> part list" where
  "constructed [] = []"
| "constructed (Constructed p # es) = p # constructed es"
| "constructed (Invoked i # es) = constructed es"

definition lifecycle_ok :: "part list \<Rightarrow> part list \<Rightarrow> part list \<Rightarrow> bool" where
  "lifecycle_ok hooks starts stops \<longleftrightarrow>
     (\<exists>n m. starts = take n hooks \<and> stops = take m (rev starts))"

subsection \<open>Servers\<close>

record listening =
  ls_Address :: string
  ls_Accepting :: bool
  ls_Forced :: bool

text \<open>\<open>listen\<close> is the error of \<open>net.Listen\<close>.\<close>

definition http_start :: "(string \<Rightarrow> string option) \<Rightarrow> listening \<Rightarrow> go_error option \<times> listening" where
  "http_start listen s =
     (case listen (ls_Address s) of
        Some m \<Rightarrow> (Some (Errorf (''listen http: '' @ m)), s)
      | None \<Rightarrow> (None, s\<lparr>ls_Accepting := True\<rparr>))"

text \<open>\<open>Shutdown\<close> closes the listener and waits for the requests; \<open>deadline\<close> is the context's error.\<close>

definition http_stop :: "bool \<Rightarrow> string option \<Rightarrow> listening \<Rightarrow> (go_error option \<times> listening) list" where
  "http_stop finished deadline s =
     map (\<lambda>r. (r, s\<lparr>ls_Accepting := False\<rparr>)) (select_done finished deadline)"

definition grpc_start :: "(string \<Rightarrow> string option) \<Rightarrow> bool \<Rightarrow> listening \<Rightarrow> go_error option \<times> listening" where
  "grpc_start listen enabled s =
     (if \<not> enabled then (None, s)
      else
        (case listen (ls_Address s) of
           Some m \<Rightarrow> (Some (Errorf (''listen grpc: '' @ m)), s)
         | None \<Rightarrow> (None, s\<lparr>ls_Accepting := True\<rparr>)))"

text \<open>\<open>GracefulStop\<close> runs beside; when the context is done first, \<open>Stop\<close> cancels the calls.\<close>

definition grpc_stop :: "bool \<Rightarrow> string option \<Rightarrow> listening \<Rightarrow> (go_error option \<times> listening) list" where
  "grpc_stop finished deadline s =
     map (\<lambda>r. (r, s\<lparr>ls_Accepting := False, ls_Forced := r \<noteq> None\<rparr>)) (select_done finished deadline)"

subsection \<open>The idempotency manager\<close>

text \<open>\<open>idempotency.New\<close>: the settings that the manager of the platform module is built with.\<close>

record manager_config =
  mc_Enabled :: bool
  mc_Service :: string
  mc_ProcessingTTL :: duration
  mc_ResultTTL :: duration
  mc_FailureTTL :: duration

definition idempotency_New :: "Config \<Rightarrow> manager_config" where
  "idempotency_New cfg =
     \<lparr>mc_Enabled = Idempotency_Enabled (c_Idempotency cfg), mc_Service = App_Name (c_App cfg),
      mc_ProcessingTTL = Idempotency_ProcessingTTL (c_Idempotency cfg),
      mc_ResultTTL = Idempotency_ResultTTL (c_Idempotency cfg),
      mc_FailureTTL = Idempotency_FailureTTL (c_Idempotency cfg)\<rparr>"

subsection \<open>The command\<close>

text \<open>The exit status of \<open>cmd/api\<close>; \<open>run_app\<close> is the exit status of the application's \<open>Run\<close>.\<close>

definition api_main :: "'v viper \<Rightarrow> (Config \<Rightarrow> nat) \<Rightarrow> string \<Rightarrow> string \<Rightarrow> bool \<Rightarrow> nat" where
  "api_main vp run_app configPath profile showVersion =
     (if showVersion then 0
      else (case LoadWithProfile vp configPath profile of Inl e \<Rightarrow> 1 | Inr cfg \<Rightarrow> run_app cfg))"

section \<open>Lemmas\<close>

subsection \<open>One element before another\<close>

definition before :: "'a \<Rightarrow> 'a \<Rightarrow> 'a list \<Rightarrow> bool" where
  "before x y xs \<longleftrightarrow> (\<exists>as bs cs. xs = as @ x # bs @ y # cs)"

lemma beforeI: "xs = as @ x # bs @ y # cs \<Longrightarrow> before x y xs"
  by (auto simp: before_def)

lemma before_filter:
  assumes "before x y xs" and "P x" and "P y"
  shows "before x y (filter P xs)"
proof -
  from assms(1) obtain as bs cs where "xs = as @ x # bs @ y # cs" by (auto simp: before_def)
  with assms(2,3) have "filter P xs = filter P as @ x # filter P bs @ y # filter P cs" by simp
  then show ?thesis by (rule beforeI)
qed

lemma before_rev:
  assumes "before x y xs"
  shows "before y x (rev xs)"
proof -
  from assms obtain as bs cs where "xs = as @ x # bs @ y # cs" by (auto simp: before_def)
  then have "rev xs = rev cs @ y # rev bs @ x # rev as" by simp
  then show ?thesis by (rule beforeI)
qed

lemma before_take:
  assumes "before x y xs" and "distinct xs" and "y \<in> set (take n xs)"
  shows "before x y (take n xs)"
proof -
  from assms(1) obtain as bs cs where xs: "xs = as @ x # bs @ y # cs" by (auto simp: before_def)
  define pre where "pre = as @ x # bs"
  have pre: "xs = pre @ y # cs" by (simp add: xs pre_def)
  then have y: "y \<notin> set pre" using assms(2) by simp
  have "length pre < n"
  proof (rule ccontr)
    assume "\<not> length pre < n"
    then have "set (take n xs) \<subseteq> set pre" by (simp add: pre set_take_subset)
    with y assms(3) show False by blast
  qed
  then obtain k where n: "n = length pre + Suc k" by (auto simp: less_iff_Suc_add)
  have "take n xs = pre @ y # take k cs" by (simp add: n pre)
  then have "take n xs = as @ x # bs @ y # take k cs" by (simp add: pre_def)
  then show ?thesis by (rule beforeI)
qed

subsection \<open>Dependencies\<close>

definition uses :: "(part \<times> part) set" where
  "uses = {(p, q). q \<in> set (requires p)}"

lemma usesI: "q \<in> set (requires p) \<Longrightarrow> (p, q) \<in> uses"
  by (simp add: uses_def)

definition builds_on :: "part list \<Rightarrow> bool" where
  "builds_on order \<longleftrightarrow> (\<forall>as p bs. order = as @ p # bs \<longrightarrow> set (requires p) \<subseteq> set as)"

lemma builds_on_snoc: "builds_on order \<Longrightarrow> set (requires p) \<subseteq> set order \<Longrightarrow> builds_on (order @ [p])"
  unfolding builds_on_def
proof (intro allI impI)
  fix as q bs
  assume o1: "\<forall>as p bs. order = as @ p # bs \<longrightarrow> set (requires p) \<subseteq> set as"
    and p: "set (requires p) \<subseteq> set order" and e: "order @ [p] = as @ q # bs"
  show "set (requires q) \<subseteq> set as" using o1 p e by (cases bs rule: rev_cases) auto
qed

lemma builds_on_before:
  assumes "builds_on order" and "(p, q) \<in> uses\<^sup>+" and "p \<in> set order"
  shows "before q p order"
  using assms(2)
proof (induction rule: trancl_induct)
  case (base q)
  obtain as bs where o1: "order = as @ p # bs" using assms(3) by (meson split_list)
  then have "q \<in> set as" using assms(1) base by (auto simp: builds_on_def uses_def)
  then show ?case using o1 by (metis append.assoc append_Cons before_def split_list)
next
  case (step q r)
  obtain as bs cs where o1: "order = as @ q # bs @ p # cs" using step.IH by (auto simp: before_def)
  then have "r \<in> set as" using assms(1) step.hyps(2) by (auto simp: builds_on_def uses_def)
  then obtain as1 as2 where "as = as1 @ r # as2" by (meson split_list)
  then have "order = as1 @ r # (as2 @ q # bs) @ p # cs" using o1 by simp
  then show ?case unfolding before_def by blast
qed

lemma boot_order:
  "boot_ok ok built todo es \<Longrightarrow> distinct built \<Longrightarrow> builds_on built \<Longrightarrow>
   distinct (built @ constructed es) \<and> builds_on (built @ constructed es)"
proof (induction ok built todo es rule: boot_ok.induct)
  case (3 ok built i todo p es)
  then show ?case using builds_on_snoc [of built p] by (auto simp: list_all_iff)
next
  case (4 ok built i todo j es)
  then show ?case by (cases "ok i") auto
qed auto

lemma boot_construction:
  "boot_ok ok [] invocations es \<Longrightarrow> distinct (constructed es) \<and> builds_on (constructed es)"
  using boot_order [of ok "[]" invocations es] by (simp add: builds_on_def)

subsection \<open>Stopping the servers\<close>

text \<open>
  A server that was stopped accepts nothing; the gRPC server cuts its calls off exactly when the
  result is the error of the context. Stopping returns once the calls have ended or the context is
  done, so that a bounded shutdown ends.
\<close>

lemma stopped_servers:
  "(r, s1) \<in> set (http_stop finished deadline s) \<Longrightarrow> \<not> ls_Accepting s1 \<and> (r = None \<longrightarrow> finished)"
  "(r, s1) \<in> set (grpc_stop finished deadline s) \<Longrightarrow>
     \<not> ls_Accepting s1 \<and> (ls_Forced s1 \<longleftrightarrow> r \<noteq> None) \<and> (r = None \<longrightarrow> finished) \<and> (r \<noteq> None \<longrightarrow> deadline \<noteq> None)"
  by (auto simp: http_stop_def grpc_stop_def select_done_def split: option.splits if_splits)

lemma stop_returns_by_deadline:
  "http_stop finished deadline s \<noteq> [] \<longleftrightarrow> finished \<or> deadline \<noteq> None"
  "grpc_stop finished deadline s \<noteq> [] \<longleftrightarrow> finished \<or> deadline \<noteq> None"
  by (simp_all add: http_stop_def grpc_stop_def select_done_def split: option.split)

text \<open>A server accepts only when its address could be listened on, the gRPC server only when enabled.\<close>

lemma started_servers:
  "http_start listen s = (r, s1) \<Longrightarrow> \<not> ls_Accepting s \<Longrightarrow> ls_Accepting s1 \<longleftrightarrow> r = None"
  "grpc_start listen enabled s = (r, s1) \<Longrightarrow> \<not> ls_Accepting s \<Longrightarrow> ls_Accepting s1 \<longleftrightarrow> enabled \<and> r = None"
  by (auto simp: http_start_def grpc_start_def split: option.splits if_splits)

end
