(* ===== verification/AssemblyCorrect.thy ===== *)
theory AssemblyCorrect
  imports Assembly
begin

text \<open>
  Correctness of the assembly: every parameter of every constructor is provided and the graph has
  an order; nothing is opened before the start-up migration succeeded; a part that uses another is
  stopped before it.
\<close>

section \<open>Completeness\<close>

text \<open>The events of a start in which every invocation succeeds, with parameters built in their order.\<close>

fun boot_plan :: "part list \<Rightarrow> invocation list \<Rightarrow> boot_event list" where
  "boot_plan built [] = []"
| "boot_plan built (i # is) =
     (let fresh = drop (length built) (visit 40 (arguments i) built)
      in map Constructed fresh @ Invoked i # boot_plan (built @ fresh) is)"

text \<open>The fuel is enough: what an invocation needs is closed under parameters.\<close>

lemma needed_closed:
  "list_all (\<lambda>i. list_all (\<lambda>p. p \<in> set (needed i)) (arguments i) \<and>
     list_all (\<lambda>p. list_all (\<lambda>q. q \<in> set (needed i)) (requires p)) (needed i)) invocations"
  by code_simp

lemma boot_plan_ok: "boot_ok (\<lambda>_. True) [] invocations (boot_plan [] invocations)"
  by code_simp

lemma boot_plan_complete: "list_all (\<lambda>p. p \<in> set (constructed (boot_plan [] invocations))) provided"
  by code_simp

text \<open>
  The application can be assembled: no part is provided twice, every parameter of every
  constructor and of every invocation is provided, and there is a start in which all invocations
  succeed and every part is built - in particular the parameters have no cycle.
\<close>

lemma assembly_complete:
  "distinct provided \<and> list_all (\<lambda>p. list_all (\<lambda>q. q \<in> set provided) (requires p)) provided \<and>
   list_all (\<lambda>i. list_all (\<lambda>p. p \<in> set provided) (arguments i)) invocations \<and>
   (\<exists>es. boot_ok (\<lambda>_. True) [] invocations es \<and> list_all (\<lambda>i. Invoked i \<in> set es) invocations \<and>
     list_all (\<lambda>p. p \<in> set (constructed es)) provided)"
proof -
  have "list_all (\<lambda>i. Invoked i \<in> set (boot_plan [] invocations)) invocations" by code_simp
  moreover have "distinct provided" by code_simp
  moreover have "list_all (\<lambda>p. list_all (\<lambda>q. q \<in> set provided) (requires p)) provided" by code_simp
  moreover have "list_all (\<lambda>i. list_all (\<lambda>p. p \<in> set provided) (arguments i)) invocations" by code_simp
  ultimately show ?thesis using boot_plan_ok boot_plan_complete by blast
qed

section \<open>Migration first\<close>

lemma needed_migration: "needed InvokeMigration = [LoggerPart]"
  by code_simp

lemma boot_migration:
  "boot_ok ok built (InvokeMigration # todo) (as @ Constructed p # bs) \<Longrightarrow> p \<noteq> LoggerPart \<Longrightarrow>
   Invoked InvokeMigration \<in> set as \<and> ok InvokeMigration"
proof (induction as arbitrary: built)
  case Nil
  then show ?case by (simp add: needed_migration)
next
  case (Cons e as)
  then show ?case by (cases e) (auto split: if_splits)
qed

lemma Run_acts: "fst (Run me cfg direction steps hist) = None \<Longrightarrow> Act (chosen direction steps) \<in> set (snd (Run me cfg direction steps hist))"
  by (auto simp: Run_def Let_def split: sum.splits prod.splits option.splits if_splits)

text \<open>
  C32. Nothing but the logger is built before the start-up migration was run and succeeded: when a
  part is constructed - the database, Redis, a worker, a server - the migration was invoked before
  and returned without an error, and with \<open>auto_up\<close> the migrator went up. So an instance whose
  migration fails opens no connection, starts no worker and never listens.
\<close>

theorem migration_precedes:
  assumes "boot_ok ok [] invocations es" and "es = as @ Constructed p # bs" and "p \<noteq> LoggerPart"
    and "ok InvokeMigration \<longleftrightarrow> fst (runStartupMigration me cfg hist) = None"
  shows "Invoked InvokeMigration \<in> set as \<and> fst (runStartupMigration me cfg hist) = None \<and>
    (Migration_AutoUp (c_Migration cfg) \<longrightarrow> Act Up \<in> set (snd (runStartupMigration me cfg hist)))"
proof -
  have "invocations = InvokeMigration # tl invocations" by code_simp
  with assms(1-3) have "Invoked InvokeMigration \<in> set as \<and> ok InvokeMigration" by (metis boot_migration)
  moreover have "chosen ''up'' 0 = Up" by (simp add: chosen_def)
  ultimately show ?thesis
    using assms(4) Run_acts [of me "c_Migration cfg" "''up''" 0 hist]
    by (auto simp: runStartupMigration_def split: prod.splits option.splits if_splits)
qed

section \<open>Shutdown order\<close>

lemma hooks_before:
  assumes "distinct order" and "builds_on order" and "lifecycle_ok (filter (has_hook cfg) order) starts stops"
    and "(p, q) \<in> uses\<^sup>+" and "p \<in> set starts" and "q \<in> set stops"
  shows "before p q stops"
proof -
  let ?hooks = "filter (has_hook cfg) order"
  obtain n m where nm: "starts = take n ?hooks" "stops = take m (rev starts)"
    using assms(3) by (auto simp: lifecycle_ok_def)
  have p: "p \<in> set ?hooks" and q: "q \<in> set ?hooks"
    using assms(5,6) nm by (metis in_set_takeD, metis in_set_takeD set_rev)
  have "before q p ?hooks"
    using builds_on_before [OF assms(2,4)] p q by (intro before_filter) auto
  then have "before q p starts"
    using assms(1,5) unfolding nm(1) by (intro before_take) auto
  then show ?thesis
    using assms(1,6) nm(1) unfolding nm(2) by (intro before_take before_rev) auto
qed


text \<open>The uses that matter for a shutdown.\<close>

lemma shutdown_uses:
  "(WorkerPart, DatabasePart) \<in> uses\<^sup>+" "(CleanerPart, DatabasePart) \<in> uses\<^sup>+" "(EventRuntimePart, DatabasePart) \<in> uses\<^sup>+"
  "(WorkerPart, RegistryPart) \<in> uses\<^sup>+" "(HttpServerPart, DatabasePart) \<in> uses\<^sup>+" "(HttpServerPart, RedisPart) \<in> uses\<^sup>+"
  "(HttpServerPart, RegistryPart) \<in> uses\<^sup>+" "(GrpcServerPart, DatabasePart) \<in> uses\<^sup>+" "(GrpcServerPart, RedisPart) \<in> uses\<^sup>+"
  "(GrpcServerPart, RegistryPart) \<in> uses\<^sup>+" "(SchedulerPart, RedisPart) \<in> uses\<^sup>+" "(HttpServerPart, AuthPart) \<in> uses\<^sup>+"
proof -
  have "(DispatcherPart, RepositoryPart) \<in> uses" "(RepositoryPart, DatabasePart) \<in> uses" "(WorkerPart, DispatcherPart) \<in> uses"
    "(CleanerPart, RepositoryPart) \<in> uses" "(EventRuntimePart, OutboxStorePart) \<in> uses" "(OutboxStorePart, DatabasePart) \<in> uses"
    "(DispatcherPart, RegistryPart) \<in> uses" "(HttpServerPart, MetricsPart) \<in> uses" "(MetricsPart, DatabasePart) \<in> uses"
    "(MetricsPart, RedisPart) \<in> uses" "(GrpcServerPart, MetricsPart) \<in> uses" "(HttpServerPart, AuthorizerPart) \<in> uses"
    "(GrpcServerPart, AuthorizerPart) \<in> uses" "(AuthorizerPart, RegistryPart) \<in> uses" "(SchedulerPart, MetricsPart) \<in> uses"
    "(HttpServerPart, AuthPart) \<in> uses"
    by (simp_all add: uses_def)
  then show "(WorkerPart, DatabasePart) \<in> uses\<^sup>+" "(CleanerPart, DatabasePart) \<in> uses\<^sup>+" "(EventRuntimePart, DatabasePart) \<in> uses\<^sup>+"
    "(WorkerPart, RegistryPart) \<in> uses\<^sup>+" "(HttpServerPart, DatabasePart) \<in> uses\<^sup>+" "(HttpServerPart, RedisPart) \<in> uses\<^sup>+"
    "(HttpServerPart, RegistryPart) \<in> uses\<^sup>+" "(GrpcServerPart, DatabasePart) \<in> uses\<^sup>+" "(GrpcServerPart, RedisPart) \<in> uses\<^sup>+"
    "(GrpcServerPart, RegistryPart) \<in> uses\<^sup>+" "(SchedulerPart, RedisPart) \<in> uses\<^sup>+" "(HttpServerPart, AuthPart) \<in> uses\<^sup>+"
    by (meson r_into_trancl trancl_into_trancl)+
qed

section \<open>Witnesses\<close>

abbreviation sample_boot :: "boot_event list" where "sample_boot \<equiv> boot_plan [] invocations"

definition sample_hooks :: "part list" where
  "sample_hooks = filter (has_hook sample_config) (constructed sample_boot)"

lemma sample_lifecycle: "lifecycle_ok sample_hooks sample_hooks (rev sample_hooks)"
  unfolding lifecycle_ok_def by (rule exI [of _ "length sample_hooks"], rule exI [of _ "length sample_hooks"]) simp


abbreviation migrating_config :: Config where
  "migrating_config \<equiv> sample_config\<lparr>c_Migration := sample_migration\<rparr>"

theorem migration_precedes_witness:
  "\<exists>as bs. sample_boot = as @ Constructed DatabasePart # bs \<and> Invoked InvokeMigration \<in> set as \<and>
     Act Up \<in> set (snd (runStartupMigration sample_migrator migrating_config []))"
proof -
  have "Constructed DatabasePart \<in> set sample_boot" by code_simp
  then obtain as bs where split: "sample_boot = as @ Constructed DatabasePart # bs" by (meson split_list)
  have ok: "fst (runStartupMigration sample_migrator migrating_config []) = None" by code_simp
  have "Migration_AutoUp (c_Migration migrating_config)" by (simp add: sample_migration_def)
  with migration_precedes [OF boot_plan_ok split, of sample_migrator migrating_config "[]"] ok split
  show ?thesis by auto
qed

end
