(* ===== verification/Backoff.thy ===== *)
theory Backoff
  imports GrpcClientCorrect RegistryCorrect
begin

text \<open>
  The back-off of the outbound HTTP client (\<open>waitBackoff\<close> in \<open>internal/outbound/http.go\<close>).
  The HTTP client doubles the delay in floating point, the gRPC client by a shift of the integer;
  within the limits that validation sets to a retry policy both give the same delays. A double is
  modelled where the code meets one: the nearest double of an integer, the product with a power of
  two, which is exact, and the conversion back, which outside the range of \<open>int64\<close> is left to the
  implementation, the argument \<open>out\<close>.
\<close>

section \<open>Definitions\<close>

text \<open>The number of binary digits, and the nearest double of an integer, ties to even.\<close>

fun bit_length :: "nat \<Rightarrow> nat" where
  "bit_length n = (if n = 0 then 0 else Suc (bit_length (n div 2)))"

declare bit_length.simps [simp del]

definition round_nat :: "nat \<Rightarrow> nat" where
  "round_nat n =
     (let e = bit_length n - 53; q = n div 2 ^ e; r = n mod 2 ^ e in
      if 2 * r < 2 ^ e \<or> 2 * r = 2 ^ e \<and> even q then q * 2 ^ e else (q + 1) * 2 ^ e)"

definition float64_of_int :: "int \<Rightarrow> int" where
  "float64_of_int x = (if x < 0 then - int (round_nat (nat (- x))) else int (round_nat (nat x)))"

definition int64_of_float :: "(int \<Rightarrow> int) \<Rightarrow> int \<Rightarrow> int" where
  "int64_of_float out x = (if is_int64 x then x else out x)"

definition backoff_delay :: "(int \<Rightarrow> int) \<Rightarrow> Retry_cfg \<Rightarrow> nat \<Rightarrow> duration" where
  "backoff_delay out retry tries =
     (let delay = int64_of_float out (float64_of_int (Retry_InitialBackoff retry) * 2 ^ (tries - 1)) in
      if delay > Retry_MaxBackoff retry then Retry_MaxBackoff retry else delay)"

text \<open>\<open>waitBackoff\<close>: \<open>cancelled\<close> is the error of a context that is done before the timer.\<close>

definition waitBackoff :: "(int \<Rightarrow> int) \<Rightarrow> string option \<Rightarrow> Retry_cfg \<Rightarrow> nat \<Rightarrow> go_error option \<times> duration" where
  "waitBackoff out cancelled retry tries =
     (map_option Errorf cancelled, backoff_delay out retry tries)"

section \<open>Lemmas\<close>

lemma bit_length_0 [simp]: "bit_length 0 = 0"
  by (simp add: bit_length.simps)

lemma bit_length_bound: "n < 2 ^ k \<Longrightarrow> bit_length n \<le> k"
proof (induction k arbitrary: n)
  case (Suc k)
  then show ?case
    by (cases "n = 0") (auto simp: bit_length.simps [of n] less_mult_imp_div_less mult.commute)
qed simp

lemma float64_exact: "0 \<le> x \<Longrightarrow> x < 2 ^ 53 \<Longrightarrow> float64_of_int x = x"
proof -
  assume x: "0 \<le> x" "x < 2 ^ 53"
  then have "nat x < 2 ^ 53" by (simp add: nat_less_iff)
  then have "bit_length (nat x) - 53 = 0" using bit_length_bound by simp
  then show ?thesis using x by (simp add: float64_of_int_def round_nat_def)
qed

text \<open>A retry policy that validation accepts: at most five attempts, so at most four waits.\<close>

definition valid_retry :: "Retry_cfg \<Rightarrow> bool" where
  "valid_retry retry \<longleftrightarrow>
     1 \<le> Retry_MaxAttempts retry \<and> Retry_MaxAttempts retry \<le> 5 \<and> 0 < Retry_InitialBackoff retry \<and>
     Retry_InitialBackoff retry \<le> Retry_MaxBackoff retry"

lemma validated_retry:
  "validateClientPolicy name auth retry breaker tls = None \<Longrightarrow> valid_retry retry"
  by (auto simp: validateClientPolicy_def valid_retry_def fails_if_def split: if_splits option.splits)

lemma delays_small:
  fixes x :: int
  assumes "0 < x" and "x < 2 ^ 53" and "k \<le> 4"
  shows "x \<le> x * 2 ^ k" and "is_int64 (x * 2 ^ k)" and "wrap64 (push_bit k x) = x * 2 ^ k"
proof -
  have p: "(1 :: int) \<le> 2 ^ k" "(2 :: int) ^ k \<le> 2 ^ 4"
    using assms(3) by (simp, intro power_increasing) simp_all
  then show "x \<le> x * 2 ^ k" using assms(1) by simp
  have "x * 2 ^ k \<le> x * 2 ^ 4" using p(2) assms(1) by simp
  moreover have "x * 2 ^ 4 \<le> 2 ^ 53 * 2 ^ 4" using assms(2) by simp
  moreover have "0 \<le> x * 2 ^ k" using assms(1) by simp
  ultimately show i: "is_int64 (x * 2 ^ k)" unfolding is_int64_def by simp
  then show "wrap64 (push_bit k x) = x * 2 ^ k" by (simp add: push_bit_eq_mult wrap64_id)
qed

section \<open>The two clients wait alike\<close>

text \<open>
  C39. Under a retry policy that validation accepted, with an initial back-off that a double
  represents exactly (below 104 days), the HTTP client and the gRPC client wait equally long before
  each retry: the initial back-off, doubled per attempt, capped at the maximum. No delay is below
  the initial or above the maximum back-off, delays never shrink, and neither arithmetic overflows.
\<close>

theorem backoffs_agree:
  assumes "validateClientPolicy name auth retry breaker tls = None" and "Retry_InitialBackoff retry < 2 ^ 53"
    and "1 \<le> tries" and "int tries < Retry_MaxAttempts retry"
  shows "backoff_delay out retry tries = retry_delay retry tries \<and>
    backoff_delay out retry tries = min (Retry_InitialBackoff retry * 2 ^ (tries - 1)) (Retry_MaxBackoff retry) \<and>
    Retry_InitialBackoff retry \<le> backoff_delay out retry tries \<and>
    backoff_delay out retry tries \<le> Retry_MaxBackoff retry \<and>
    backoff_delay out retry tries \<le> backoff_delay out retry (Suc tries)"
proof -
  let ?x = "Retry_InitialBackoff retry"
  have v: "valid_retry retry" by (rule validated_retry [OF assms(1)])
  then have x: "0 < ?x" "?x \<le> Retry_MaxBackoff retry" by (simp_all add: valid_retry_def)
  have a: "tries - 1 \<le> 4" "tries \<le> 4" using v assms(4) by (auto simp: valid_retry_def)
  note small = delays_small [OF x(1) assms(2)]
  have delay: "backoff_delay out retry k = min (?x * 2 ^ (k - 1)) (Retry_MaxBackoff retry)" if "k - 1 \<le> 4" for k
    using float64_exact [of ?x] x(1) assms(2) small(2) [OF that]
    by (simp add: backoff_delay_def int64_of_float_def Let_def min_def)
  have "retry_delay retry tries = min (?x * 2 ^ (tries - 1)) (Retry_MaxBackoff retry)"
    using small(3) [OF a(1)] by (simp add: retry_delay_def Let_def min_def)
  moreover have "min (?x * 2 ^ (tries - 1)) (Retry_MaxBackoff retry) \<le> min (?x * 2 ^ tries) (Retry_MaxBackoff retry)"
    using x(1) by (intro min.mono) (simp_all add: power_increasing)
  moreover have "?x \<le> min (?x * 2 ^ (tries - 1)) (Retry_MaxBackoff retry)"
    using small(1) [OF a(1)] x(2) by (rule min.boundedI)
  ultimately show ?thesis
    using delay [OF a(1)] delay [of "Suc tries"] a(2) by simp
qed

theorem backoffs_agree_witness:
  "backoff_delay (\<lambda>_. min_int64) (HTTPUpstream_Retry sample_upstream) 1 =
   retry_delay (HTTPUpstream_Retry sample_upstream) 1"
proof -
  have "validateClientPolicy ''mailer'' (HTTPUpstream_Auth sample_upstream) (HTTPUpstream_Retry sample_upstream)
      (HTTPUpstream_Breaker sample_upstream) (HTTPUpstream_TLS sample_upstream) = None" by code_simp
  moreover have "Retry_InitialBackoff (HTTPUpstream_Retry sample_upstream) < 2 ^ 53" by code_simp
  moreover have "int 1 < Retry_MaxAttempts (HTTPUpstream_Retry sample_upstream)" by code_simp
  ultimately show ?thesis using backoffs_agree by blast
qed

end
